(* ===== verification/Go_Prelude.thy ===== *)
theory Go_Prelude
  imports Main "HOL-Library.Char_ord" "HOL-Library.List_Lexorder" "HOL-Library.Sublist"
begin

text \<open>
  What the components share. Go strings and byte slices are byte sequences, so both are
  \<^typ>\<open>string\<close>: a \<^typ>\<open>char\<close> is one byte. This theory holds the functions of the Go
  packages \<open>strings\<close>, \<open>encoding/hex\<close>, \<open>strconv\<close> and \<open>time\<close> that the registry uses,
  the combinators that thread errors and store states through an operation, and the generic
  lemmas on lists the component theories rely on.

  The collections: \<open>go_string\<close> gathers the string functions' characteristic equations,
  \<open>go_flow\<close> the case rules of the error combinators.
\<close>

named_theorems go_string \<open>characteristic facts of the string functions\<close>
named_theorems go_flow \<open>case analysis of operations built from the error combinators\<close>

section \<open>Results, errors and state\<close>

text \<open>
  A fallible computation is a value of \<open>'e + 'a\<close>: \<open>Inl\<close> the error that Go returns as
  its last result, \<open>Inr\<close> the value. An operation on a store returns the result together
  with the store as the call leaves it. \<open>attempt\<close> is the
  \<^verbatim>\<open>if err != nil { return ..., err }\<close> of such an operation: on an error the
  operation returns it and the store stays as it was at that point.
\<close>

type_synonym ('e, 'a, 's) outcome = "('e + 'a) \<times> 's"

definition attempt :: "('e + 'a) \<Rightarrow> 's \<Rightarrow> ('a \<Rightarrow> ('e, 'b, 's) outcome) \<Rightarrow> ('e, 'b, 's) outcome" where
  "attempt r s k = (case r of Inl e \<Rightarrow> (Inl e, s) | Inr x \<Rightarrow> k x)"

text \<open>\<open>check\<close> is the same for a computation that touches no store.\<close>

definition check :: "('e + 'a) \<Rightarrow> ('a \<Rightarrow> ('e + 'b)) \<Rightarrow> ('e + 'b)" where
  "check r k = (case r of Inl e \<Rightarrow> Inl e | Inr x \<Rightarrow> k x)"

text \<open>\<open>guard c e\<close> is \<^verbatim>\<open>if c { return e }\<close>.\<close>

definition guard :: "bool \<Rightarrow> 'e \<Rightarrow> ('e + unit)" where
  "guard c e = (if c then Inl e else Inr ())"

text \<open>A loop that validates each element and stops at the first error.\<close>

fun check_all :: "('a \<Rightarrow> ('e + 'b)) \<Rightarrow> 'a list \<Rightarrow> ('e + 'b list)" where
  "check_all f [] = Inr []"
| "check_all f (x # xs) = check (f x) (\<lambda>y. check (check_all f xs) (\<lambda>ys. Inr (y # ys)))"

lemma attempt_simps [simp]:
  "attempt (Inl e) s k = (Inl e, s)"
  "attempt (Inr x) s k = k x"
  by (simp_all add: attempt_def)

lemma check_simps [simp]:
  "check (Inl e) k = Inl e"
  "check (Inr x) k = k x"
  by (simp_all add: check_def)

lemma guard_simps [simp]:
  "guard True e = Inl e"
  "guard False e = Inr ()"
  by (simp_all add: guard_def)

lemma guard_Inr [go_flow]: "guard c e = Inr u \<longleftrightarrow> \<not> c"
  by (simp add: guard_def)

lemma guard_Inl [go_flow]: "guard c e = Inl e' \<longleftrightarrow> c \<and> e' = e"
  by (auto simp: guard_def)

lemma attempt_Inr [go_flow]:
  "attempt r s k = (Inr y, s') \<longleftrightarrow> (\<exists>x. r = Inr x \<and> k x = (Inr y, s'))"
  by (cases r) auto

lemma attempt_Inl [go_flow]:
  "attempt r s k = (Inl e, s') \<longleftrightarrow> (r = Inl e \<and> s' = s) \<or> (\<exists>x. r = Inr x \<and> k x = (Inl e, s'))"
  by (cases r) auto

lemma check_Inr [go_flow]: "check r k = Inr y \<longleftrightarrow> (\<exists>x. r = Inr x \<and> k x = Inr y)"
  by (cases r) auto

lemma check_Inl [go_flow]: "check r k = Inl e \<longleftrightarrow> r = Inl e \<or> (\<exists>x. r = Inr x \<and> k x = Inl e)"
  by (cases r) auto

lemma attempt_split:
  "P (attempt r s k) \<longleftrightarrow> (\<forall>e. r = Inl e \<longrightarrow> P (Inl e, s)) \<and> (\<forall>x. r = Inr x \<longrightarrow> P (k x))"
  by (cases r) auto

text \<open>
  The two rules by which an operation inherits an invariant of the store: an error before the
  first write leaves the store alone, and the rest of the operation keeps the invariant.
\<close>

lemma snd_attempt_inv:
  assumes "P s" and "\<And>x. r = Inr x \<Longrightarrow> P (snd (k x))"
  shows "P (snd (attempt r s k))"
  using assms by (cases r) auto

lemma check_all_Inr: "check_all f xs = Inr ys \<longleftrightarrow> list_all2 (\<lambda>x y. f x = Inr y) xs ys"
proof (induction xs arbitrary: ys)
  case (Cons x xs)
  then show ?case by (cases ys) (auto simp: go_flow)
qed auto

lemma check_all_set:
  "check_all f xs = Inr ys \<Longrightarrow> y \<in> set ys \<Longrightarrow> \<exists>x \<in> set xs. f x = Inr y"
  by (induction xs arbitrary: ys) (auto simp: go_flow)

lemma check_all_same:
  "(\<And>x y. x \<in> set xs \<Longrightarrow> f x = Inr y \<Longrightarrow> y = x) \<Longrightarrow> check_all f xs = Inr ys \<Longrightarrow> ys = xs"
  by (induction xs arbitrary: ys) (auto simp: go_flow)

lemma check_all_id:
  "(\<And>x. x \<in> set xs \<Longrightarrow> f x = Inr x) \<Longrightarrow> check_all f xs = Inr xs"
  by (induction xs) auto

section \<open>The package \<open>strings\<close>\<close>

definition HasPrefix :: "string \<Rightarrow> string \<Rightarrow> bool" where
  "HasPrefix s p \<longleftrightarrow> take (length p) s = p"

definition HasSuffix :: "string \<Rightarrow> string \<Rightarrow> bool" where
  "HasSuffix s p \<longleftrightarrow> length p \<le> length s \<and> drop (length s - length p) s = p"

definition TrimPrefix :: "string \<Rightarrow> string \<Rightarrow> string" where
  "TrimPrefix s p = (if HasPrefix s p then drop (length p) s else s)"

definition TrimSuffix :: "string \<Rightarrow> string \<Rightarrow> string" where
  "TrimSuffix s p = (if HasSuffix s p then take (length s - length p) s else s)"

text \<open>\<open>strings.Split(s, c)\<close> for a separator of one byte: one more part than separators.\<close>

fun Split :: "char \<Rightarrow> string \<Rightarrow> string list" where
  "Split c [] = [[]]"
| "Split c (x # xs) =
     (if x = c then [] # Split c xs
      else (case Split c xs of [] \<Rightarrow> [[x]] | p # ps \<Rightarrow> (x # p) # ps))"

text \<open>\<open>strings.Join\<close>.\<close>

fun Join :: "string \<Rightarrow> string list \<Rightarrow> string" where
  "Join sep [] = []"
| "Join sep [p] = p"
| "Join sep (p # q # ps) = p @ sep @ Join sep (q # ps)"

text \<open>\<open>strings.Cut(s, c)\<close>: the text before and after the first \<open>c\<close>, and whether there is one.\<close>

definition Cut :: "char \<Rightarrow> string \<Rightarrow> string \<times> string \<times> bool" where
  "Cut c s = (if c \<in> set s then (takeWhile (\<lambda>x. x \<noteq> c) s, tl (dropWhile (\<lambda>x. x \<noteq> c) s), True)
              else (s, [], False))"

text \<open>
  \<open>strings.Index\<close>: the position of the first occurrence of \<open>p\<close> in \<open>s\<close>, if any.
\<close>

fun Index :: "string \<Rightarrow> string \<Rightarrow> nat option" where
  "Index [] p = (if p = [] then Some 0 else None)"
| "Index (x # xs) p = (if HasPrefix (x # xs) p then Some 0 else map_option Suc (Index xs p))"

text \<open>
  White space as \<open>unicode.IsSpace\<close> has it, each character by its UTF-8 bytes. A byte sequence
  starts (or ends) with one of these characters exactly when it starts (or ends) with these bytes.
\<close>

definition go_spaces :: "string list" where
  "go_spaces =
    [[CHR 0x20], [CHR 0x09], [CHR 0x0A], [CHR 0x0B], [CHR 0x0C], [CHR 0x0D],
     [CHR 0xC2, CHR 0x85], [CHR 0xC2, CHR 0xA0], [CHR 0xE1, CHR 0x9A, CHR 0x80],
     [CHR 0xE2, CHR 0x80, CHR 0x80], [CHR 0xE2, CHR 0x80, CHR 0x81], [CHR 0xE2, CHR 0x80, CHR 0x82],
     [CHR 0xE2, CHR 0x80, CHR 0x83], [CHR 0xE2, CHR 0x80, CHR 0x84], [CHR 0xE2, CHR 0x80, CHR 0x85],
     [CHR 0xE2, CHR 0x80, CHR 0x86], [CHR 0xE2, CHR 0x80, CHR 0x87], [CHR 0xE2, CHR 0x80, CHR 0x88],
     [CHR 0xE2, CHR 0x80, CHR 0x89], [CHR 0xE2, CHR 0x80, CHR 0x8A], [CHR 0xE2, CHR 0x80, CHR 0xA8],
     [CHR 0xE2, CHR 0x80, CHR 0xA9], [CHR 0xE2, CHR 0x80, CHR 0xAF], [CHR 0xE2, CHR 0x81, CHR 0x9F],
     [CHR 0xE3, CHR 0x80, CHR 0x80]]"

text \<open>The white-space character at the front of \<open>s\<close>, out of the list \<open>ws\<close>.\<close>

definition space_at :: "string list \<Rightarrow> string \<Rightarrow> string option" where
  "space_at ws s = find (\<lambda>w. w \<noteq> [] \<and> HasPrefix s w) ws"

lemma space_at_Some: "space_at ws s = Some w \<Longrightarrow> w \<noteq> [] \<and> w \<in> set ws \<and> HasPrefix s w"
  by (auto simp: space_at_def find_Some_iff in_set_conv_nth)

lemma space_at_shrinks: "space_at ws s = Some w \<Longrightarrow> length s - length w < length s"
  by (drule space_at_Some) (cases s; auto simp: HasPrefix_def)

function trim_with :: "string list \<Rightarrow> string \<Rightarrow> string" where
  "trim_with ws s = (case space_at ws s of None \<Rightarrow> s | Some w \<Rightarrow> trim_with ws (drop (length w) s))"
  by pat_completeness auto
termination
  by (relation "measure (\<lambda>(ws, s). length s)") (auto dest: space_at_shrinks)

declare trim_with.simps [simp del]

definition TrimSpace :: "string \<Rightarrow> string" where
  "TrimSpace s = rev (trim_with (map rev go_spaces) (rev (trim_with go_spaces s)))"

text \<open>\<open>strings.Fields\<close>: the maximal runs of bytes without white space; \<open>cur\<close> is the current
  run, reversed.\<close>

function fields_from :: "string \<Rightarrow> string \<Rightarrow> string list" where
  "fields_from cur [] = (if cur = [] then [] else [rev cur])"
| "fields_from cur (c # s) =
     (case space_at go_spaces (c # s) of
        Some w \<Rightarrow> (if cur = [] then [] else [rev cur]) @ fields_from [] (drop (length w) (c # s))
      | None \<Rightarrow> fields_from (c # cur) s)"
  by pat_completeness auto
termination
  by (relation "measure (\<lambda>(cur, s). length s)") (auto dest: space_at_shrinks)

definition Fields :: "string \<Rightarrow> string list" where
  "Fields s = fields_from [] s"

text \<open>
  \<open>strings.ToLower\<close> on bytes: the ASCII letters, and the two characters outside ASCII whose lower
  case is an ASCII letter (the Kelvin sign and the dotted capital I). The bytes of every other
  character are left alone; a user name that holds one is refused by the user-name pattern with
  and without its case folded.
\<close>

definition lower_char :: "char \<Rightarrow> char" where
  "lower_char c =
     (if 65 \<le> (of_char c :: nat) \<and> (of_char c :: nat) \<le> 90 then char_of ((of_char c :: nat) + 32) else c)"

fun ToLower :: "string \<Rightarrow> string" where
  "ToLower [] = []"
| "ToLower (c # s) =
     (if HasPrefix (c # s) [CHR 0xE2, CHR 0x84, CHR 0xAA] then CHR ''k'' # ToLower (drop 2 s)
      else if HasPrefix (c # s) [CHR 0xC4, CHR 0xB0] then CHR ''i'' # ToLower (drop 1 s)
      else lower_char c # ToLower s)"

section \<open>Character classes, hexadecimal, quoting\<close>

definition in_range :: "char \<Rightarrow> nat \<Rightarrow> nat \<Rightarrow> bool" where
  "in_range c lo hi \<longleftrightarrow> lo \<le> of_char c \<and> of_char c \<le> hi"

definition is_digit :: "char \<Rightarrow> bool" where "is_digit c \<longleftrightarrow> in_range c 48 57"
definition is_lower :: "char \<Rightarrow> bool" where "is_lower c \<longleftrightarrow> in_range c 97 122"
definition is_upper :: "char \<Rightarrow> bool" where "is_upper c \<longleftrightarrow> in_range c 65 90"

definition is_hex :: "char \<Rightarrow> bool" where
  "is_hex c \<longleftrightarrow> is_digit c \<or> in_range c 97 102 \<or> in_range c 65 70"

text \<open>\<open>hex.DecodeString\<close> succeeds on an even number of hexadecimal digits.\<close>

definition hex_decodable :: "string \<Rightarrow> bool" where
  "hex_decodable s \<longleftrightarrow> even (length s) \<and> list_all is_hex s"

definition hex_digit :: "nat \<Rightarrow> char" where
  "hex_digit n = ''0123456789abcdef'' ! (n mod 16)"

text \<open>\<open>hex.EncodeToString\<close>: two lower-case digits per byte.\<close>

definition hex_encode :: "string \<Rightarrow> string" where
  "hex_encode bs = concat (map (\<lambda>b. [hex_digit (of_char b div 16), hex_digit (of_char b mod 16)]) bs)"

text \<open>
  \<open>strconv.Quote\<close> (the verb \<open>%q\<close>): double quotes around, the quote, the backslash and control
  bytes escaped.
\<close>

definition quote_char :: "char \<Rightarrow> string" where
  "quote_char c =
     (if c = CHR 0x22 then [CHR 0x5C, CHR 0x22] else if c = CHR 0x5C then [CHR 0x5C, CHR 0x5C]
      else if c = CHR 0x07 then [CHR 0x5C, CHR ''a''] else if c = CHR 0x08 then [CHR 0x5C, CHR ''b'']
      else if c = CHR 0x0C then [CHR 0x5C, CHR ''f''] else if c = CHR 0x0A then [CHR 0x5C, CHR ''n'']
      else if c = CHR 0x0D then [CHR 0x5C, CHR ''r''] else if c = CHR 0x09 then [CHR 0x5C, CHR ''t'']
      else if c = CHR 0x0B then [CHR 0x5C, CHR ''v'']
      else if (of_char c :: nat) < 32 \<or> c = CHR 0x7F
        then [CHR 0x5C, CHR ''x'', hex_digit (of_char c div 16), hex_digit (of_char c mod 16)]
      else [c])"

definition Quote :: "string \<Rightarrow> string" where
  "Quote s = [CHR 0x22] @ concat (map quote_char s) @ [CHR 0x22]"

text \<open>\<open>strconv.FormatInt\<close> in base ten (the verb \<open>%d\<close>).\<close>

fun format_nat :: "nat \<Rightarrow> string" where
  "format_nat n = (if n < 10 then [hex_digit n] else format_nat (n div 10) @ [hex_digit (n mod 10)])"

declare format_nat.simps [simp del]

definition FormatInt :: "int \<Rightarrow> string" where
  "FormatInt i = (if i < 0 then CHR ''-'' # format_nat (nat (- i)) else format_nat (nat i))"

section \<open>Time\<close>

text \<open>
  A \<open>time.Time\<close> is the number of nanoseconds since the zero time (1 January of year 1, UTC);
  a \<open>time.Duration\<close> is a number of nanoseconds.
\<close>

type_synonym time = int
type_synonym duration = int

definition IsZero :: "time \<Rightarrow> bool" where "IsZero t \<longleftrightarrow> t = 0"

abbreviation second :: duration where "second \<equiv> 1000000000"
abbreviation minute :: duration where "minute \<equiv> 60 * second"
abbreviation hour :: duration where "hour \<equiv> 60 * minute"

section \<open>Facts about the string functions\<close>

lemma HasPrefix_iff [go_string]: "HasPrefix s p \<longleftrightarrow> (\<exists>r. s = p @ r)"
  unfolding HasPrefix_def by (metis append_take_drop_id append_eq_conv_conj)

lemma HasPrefix_append [simp]: "HasPrefix (p @ r) p"
  by (simp add: HasPrefix_def)

lemma TrimPrefix_append [simp]: "TrimPrefix (p @ r) p = r"
  by (simp add: TrimPrefix_def)

lemma HasSuffix_append [simp]: "HasSuffix (r @ p) p"
  by (simp add: HasSuffix_def)

lemma HasSuffix_iff [go_string]: "HasSuffix s p \<longleftrightarrow> (\<exists>r. s = r @ p)"
  unfolding HasSuffix_def by (metis append_take_drop_id diff_diff_cancel length_append
      append_eq_conv_conj le_add2 add_diff_cancel_right')

lemma TrimSuffix_append [simp]: "TrimSuffix (r @ p) p = r"
  by (simp add: TrimSuffix_def)

lemma Split_nonempty [simp]: "Split c s \<noteq> []"
  by (induction s) (auto split: list.splits)

lemma Split_no_sep: "c \<notin> set s \<Longrightarrow> Split c s = [s]"
  by (induction s) auto

lemma Split_append_sep: "c \<notin> set p \<Longrightarrow> Split c (p @ c # s) = p # Split c s"
  by (induction p) auto

lemma Split_snoc_sep: "Split c (s @ [c]) = Split c s @ [[]]"
proof (induction s)
  case (Cons x xs)
  then show ?case by (cases "Split c xs") auto
qed simp

text \<open>Splitting and joining are inverse on parts without the separator.\<close>

lemma Join_Split: "Join [c] (Split c s) = s"
proof (induction s)
  case (Cons x xs)
  show ?case
  proof (cases "Split c xs")
    case (Cons p ps)
    then show ?thesis using Cons.IH by (cases ps) auto
  qed simp
qed simp

lemma Split_Join:
  "ps \<noteq> [] \<Longrightarrow> \<forall>p \<in> set ps. c \<notin> set p \<Longrightarrow> Split c (Join [c] ps) = ps"
proof (induction ps)
  case (Cons p ps)
  then show ?case by (cases ps) (auto simp: Split_no_sep Split_append_sep)
qed simp

lemma Split_no_sep_parts: "p \<in> set (Split c s) \<Longrightarrow> c \<notin> set p"
  by (induction s arbitrary: p) (auto split: if_splits list.splits)

lemma Split_parts_subset: "p \<in> set (Split c s) \<Longrightarrow> set p \<subseteq> set s"
proof (induction s arbitrary: p)
  case (Cons x xs)
  then show ?case by (fastforce split: if_splits list.splits)
qed simp

lemma takeWhile_to: "c \<notin> set p \<Longrightarrow> takeWhile (\<lambda>x. x \<noteq> c) (p @ c # s) = p"
  by (induction p) auto

lemma dropWhile_to: "c \<notin> set p \<Longrightarrow> dropWhile (\<lambda>x. x \<noteq> c) (p @ c # s) = c # s"
  by (induction p) auto

lemma Cut_append: "c \<notin> set p \<Longrightarrow> Cut c (p @ c # s) = (p, s, True)"
  by (simp add: Cut_def takeWhile_to dropWhile_to)

lemma Cut_True: "Cut c s = (a, b, True) \<longleftrightarrow> c \<notin> set a \<and> s = a @ c # b"
proof
  assume cut: "Cut c s = (a, b, True)"
  then have "c \<in> set s" by (simp add: Cut_def split: if_splits)
  then obtain p q where s: "s = p @ c # q" and p: "c \<notin> set p" using split_list_first by metis
  with cut show "c \<notin> set a \<and> s = a @ c # b" by (simp add: Cut_append)
next
  assume "c \<notin> set a \<and> s = a @ c # b"
  then show "Cut c s = (a, b, True)" by (simp add: Cut_append)
qed

lemma trim_with_none: "space_at ws s = None \<Longrightarrow> trim_with ws s = s"
  by (subst trim_with.simps) simp

lemma trim_with_done: "space_at ws (trim_with ws s) = None"
proof (induction ws s rule: trim_with.induct)
  case (1 ws s)
  then show ?case by (subst trim_with.simps) (auto split: option.splits)
qed

lemma trim_with_suffix: "\<exists>p. s = p @ trim_with ws s"
proof (induction ws s rule: trim_with.induct)
  case (1 ws s)
  show ?case
  proof (cases "space_at ws s")
    case (Some w)
    with "1" obtain p where "drop (length w) s = p @ trim_with ws (drop (length w) s)" by blast
    then have "s = (take (length w) s @ p) @ trim_with ws (drop (length w) s)"
      by (metis append.assoc append_take_drop_id)
    moreover have "trim_with ws s = trim_with ws (drop (length w) s)"
      using Some by (simp add: trim_with.simps [of ws s])
    ultimately show ?thesis by metis
  qed (simp add: trim_with_none)
qed

lemma space_at_prefix:
  assumes "space_at ws (s @ t) = None"
  shows "space_at ws s = None"
  using assms by (auto simp: space_at_def find_None_iff HasPrefix_iff)

lemma TrimSpace_idem [simp]: "TrimSpace (TrimSpace s) = TrimSpace s"
proof -
  define l where "l = trim_with go_spaces s"
  define r where "r = trim_with (map rev go_spaces) (rev l)"
  obtain p where p: "rev l = p @ r" using trim_with_suffix unfolding r_def by blast
  then have "l = rev r @ rev p" by (metis rev_append rev_rev_ident)
  moreover have "space_at go_spaces l = None" unfolding l_def by (rule trim_with_done)
  ultimately have "trim_with go_spaces (rev r) = rev r"
    by (metis space_at_prefix trim_with_none)
  moreover have "trim_with (map rev go_spaces) r = r"
    unfolding r_def by (rule trim_with_none) (rule trim_with_done)
  ultimately show ?thesis unfolding TrimSpace_def l_def [symmetric] r_def [symmetric] by simp
qed

lemma TrimSpace_Nil [simp]: "TrimSpace [] = []"
  by (simp add: TrimSpace_def trim_with_none space_at_def go_spaces_def HasPrefix_def)

text \<open>
  The bytes a space character can start or end with. Text that starts and ends with other bytes
  is left alone by \<^const>\<open>TrimSpace\<close>.
\<close>

definition space_edge :: "char \<Rightarrow> bool" where
  "space_edge c \<longleftrightarrow> c \<in> set (map hd go_spaces) \<union> set (map last go_spaces)"

lemma space_at_hd: "space_at ws (c # s) = Some w \<Longrightarrow> c \<in> set (map hd ws)"
  by (drule space_at_Some) (force simp: HasPrefix_iff Cons_eq_append_conv)

lemma go_spaces_nonempty: "w \<in> set go_spaces \<Longrightarrow> w \<noteq> []"
  by (auto simp: go_spaces_def)

lemma TrimSpace_id:
  assumes "s \<noteq> [] \<Longrightarrow> \<not> space_edge (hd s) \<and> \<not> space_edge (last s)"
  shows "TrimSpace s = s"
proof (cases "s = []")
  case False
  then obtain c t where ct: "s = c # t" by (cases s) auto
  obtain d u where du: "rev s = d # u" using False by (cases "rev s") auto
  then have d: "d = last s" by (metis hd_rev list.sel(1))
  have hds: "set (map hd (map rev go_spaces)) = set (map last go_spaces)"
    by (auto simp: image_image hd_rev)
  have "space_at go_spaces s = None"
    using assms False ct space_at_hd [of go_spaces c t] by (cases "space_at go_spaces s") (auto simp: space_edge_def)
  moreover have "space_at (map rev go_spaces) (rev s) = None"
    using assms False d space_at_hd [of "map rev go_spaces" d u] hds
    unfolding du by (cases "space_at (map rev go_spaces) (d # u)") (auto simp: space_edge_def)
  ultimately show ?thesis by (simp add: TrimSpace_def trim_with_none)
qed simp

lemma hex_encode_length: "length (hex_encode bs) = 2 * length bs"
  by (induction bs) (auto simp: hex_encode_def)

lemma is_hex_hex_digit: "is_hex (hex_digit n)"
proof -
  have "list_all is_hex ''0123456789abcdef''"
    by (simp add: is_hex_def is_digit_def in_range_def)
  moreover have "n mod 16 < length ''0123456789abcdef''" by simp
  ultimately show ?thesis unfolding hex_digit_def list_all_length by blast
qed

lemma hex_decodable_encode: "hex_decodable (hex_encode bs)"
proof -
  have "list_all is_hex (hex_encode bs)"
    by (auto simp: list_all_iff hex_encode_def is_hex_hex_digit)
  then show ?thesis by (simp add: hex_decodable_def hex_encode_length)
qed

section \<open>Generic facts on lists\<close>

lemma sort_strings_set [simp]: "set (sort (xs :: string list)) = set xs"
  by simp

lemma map_filter_cong_set:
  "(\<And>x. x \<in> set xs \<Longrightarrow> P x = Q x) \<Longrightarrow> filter P xs = filter Q xs"
  by (rule filter_cong) auto

lemma distinct_map_update:
  assumes "distinct (map k xs)" and "\<And>x. k (f x) = k x"
  shows "distinct (map (\<lambda>x. k (f x)) xs)"
  using assms by simp

lemma find_Some_mem: "find P xs = Some x \<Longrightarrow> x \<in> set xs \<and> P x"
  by (auto simp: find_Some_iff)

lemma find_unique:
  assumes "distinct (map k xs)" and "x \<in> set xs" and "k x = v"
  shows "find (\<lambda>y. k y = v) xs = Some x"
  using assms by (induction xs) (auto simp: image_iff)

end
