(* ===== verification/Go_Errors.thy ===== *)
theory Go_Errors
  imports Go_Prelude
begin

text \<open>
  The two error vocabularies of the program: \<open>internal/domain/regixtry/errors.go\<close> and
  \<open>internal/domain/auth/errors.go\<close>. A Go \<open>error\<close> is one of either kind or an error of
  another package. Every constructor function of the two files is here under its name; the ones
  of the auth package carry the prefix \<open>auth_\<close> where both packages have the name.
\<close>

datatype ErrorCode =
    ErrorCodeInvalidDigest | ErrorCodeDigestMismatch | ErrorCodeInvalidRepository
  | ErrorCodeInvalidManifest | ErrorCodeValidation | ErrorCodeNotFound | ErrorCodeConflict
  | ErrorCodeUnauthorized | ErrorCodePolicyViolation | ErrorCodeUnsupported

datatype auth_ErrorCode =
    auth_ErrorCodeValidation | auth_ErrorCodeNotFound | ErrorCodeInvalidCredentials
  | ErrorCodeForbidden | ErrorCodeExpiredToken | ErrorCodeRevokedToken | ErrorCodeDisabledUser
  | ErrorCodeBootstrapRequired | auth_ErrorCodeConflict

datatype go_error =
    RegError ErrorCode string
  | AuthError auth_ErrorCode string
  | OtherError string

type_synonym 'a result = "go_error + 'a"
type_synonym ('a, 's) op = "(go_error, 'a, 's) outcome"

section \<open>\<open>IsCode\<close>\<close>

definition IsCode :: "go_error \<Rightarrow> ErrorCode \<Rightarrow> bool" where
  "IsCode err code = (case err of RegError c _ \<Rightarrow> c = code | _ \<Rightarrow> False)"

definition auth_IsCode :: "go_error \<Rightarrow> auth_ErrorCode \<Rightarrow> bool" where
  "auth_IsCode err code = (case err of AuthError c _ \<Rightarrow> c = code | _ \<Rightarrow> False)"

section \<open>The constructors of the registry domain\<close>

definition NewInvalidDigestError :: "string \<Rightarrow> go_error" where
  "NewInvalidDigestError value = RegError ErrorCodeInvalidDigest (''invalid digest '' @ Quote value)"

definition NewDigestMismatchError :: "string \<Rightarrow> string \<Rightarrow> go_error" where
  "NewDigestMismatchError expected actual =
     RegError ErrorCodeDigestMismatch (''digest mismatch: expected '' @ expected @ '', got '' @ actual)"

definition NewInvalidRepositoryError :: "string \<Rightarrow> go_error" where
  "NewInvalidRepositoryError value =
     RegError ErrorCodeInvalidRepository (''invalid repository '' @ Quote value)"

definition NewInvalidManifestError :: "string \<Rightarrow> go_error" where
  "NewInvalidManifestError message = RegError ErrorCodeInvalidManifest message"

definition NewValidationError :: "string \<Rightarrow> go_error" where
  "NewValidationError message = RegError ErrorCodeValidation message"

definition NewNotFoundError :: "string \<Rightarrow> string \<Rightarrow> go_error" where
  "NewNotFoundError kind value =
     RegError ErrorCodeNotFound (kind @ '' '' @ Quote value @ '' was not found'')"

definition NewConflictError :: "string \<Rightarrow> go_error" where
  "NewConflictError message = RegError ErrorCodeConflict message"

definition NewUnauthorizedError :: "string \<Rightarrow> go_error" where
  "NewUnauthorizedError message = RegError ErrorCodeUnauthorized message"

definition NewPolicyViolationError :: "string \<Rightarrow> go_error" where
  "NewPolicyViolationError message = RegError ErrorCodePolicyViolation message"

definition NewUnsupportedError :: "string \<Rightarrow> go_error" where
  "NewUnsupportedError message = RegError ErrorCodeUnsupported message"

section \<open>The constructors of the auth domain\<close>

definition auth_NewValidationError :: "string \<Rightarrow> go_error" where
  "auth_NewValidationError message = AuthError auth_ErrorCodeValidation message"

definition auth_NewNotFoundError :: "string \<Rightarrow> string \<Rightarrow> go_error" where
  "auth_NewNotFoundError kind value =
     AuthError auth_ErrorCodeNotFound (kind @ '' '' @ Quote value @ '' was not found'')"

definition NewInvalidCredentialsError :: go_error where
  "NewInvalidCredentialsError = AuthError ErrorCodeInvalidCredentials ''invalid credentials''"

definition NewForbiddenError :: "string \<Rightarrow> go_error" where
  "NewForbiddenError message = AuthError ErrorCodeForbidden message"

definition NewExpiredTokenError :: "string \<Rightarrow> go_error" where
  "NewExpiredTokenError accessor =
     AuthError ErrorCodeExpiredToken (''token '' @ Quote accessor @ '' has expired'')"

definition NewRevokedTokenError :: "string \<Rightarrow> go_error" where
  "NewRevokedTokenError accessor =
     AuthError ErrorCodeRevokedToken (''token '' @ Quote accessor @ '' has been revoked'')"

definition NewDisabledUserError :: "string \<Rightarrow> go_error" where
  "NewDisabledUserError username =
     AuthError ErrorCodeDisabledUser (''user '' @ Quote username @ '' is disabled'')"

definition NewBootstrapRequiredError :: go_error where
  "NewBootstrapRequiredError = AuthError ErrorCodeBootstrapRequired
     ''auth enabled requires an active global admin; run `registry bootstrap-admin`''"

definition auth_NewConflictError :: "string \<Rightarrow> go_error" where
  "auth_NewConflictError message = AuthError auth_ErrorCodeConflict message"

section \<open>Codes of the constructed errors\<close>

lemma IsCode_simps [simp]:
  "IsCode (RegError c m) code \<longleftrightarrow> c = code"
  "\<not> IsCode (AuthError a m) code"
  "\<not> IsCode (OtherError m) code"
  by (simp_all add: IsCode_def)

lemma auth_IsCode_simps [simp]:
  "auth_IsCode (AuthError a m) acode \<longleftrightarrow> a = acode"
  "\<not> auth_IsCode (RegError c m) acode"
  "\<not> auth_IsCode (OtherError m) acode"
  by (simp_all add: auth_IsCode_def)

lemmas reg_error_defs =
  NewInvalidDigestError_def NewDigestMismatchError_def NewInvalidRepositoryError_def
  NewInvalidManifestError_def NewValidationError_def NewNotFoundError_def NewConflictError_def
  NewUnauthorizedError_def NewPolicyViolationError_def NewUnsupportedError_def

lemmas auth_error_defs =
  auth_NewValidationError_def auth_NewNotFoundError_def NewInvalidCredentialsError_def
  NewForbiddenError_def NewExpiredTokenError_def NewRevokedTokenError_def
  NewDisabledUserError_def NewBootstrapRequiredError_def auth_NewConflictError_def

lemmas error_defs = reg_error_defs auth_error_defs

end
