(* ===== verification/Reg_Domain.thy ===== *)
theory Reg_Domain
  imports Go_Errors Sha256
begin

text \<open>
  The registry's domain package, \<open>internal/domain/regixtry\<close>: digests, repository names,
  descriptors, uploads, manifests and image indexes, each with the validation the code applies.

  The lemmas: a digest computed from bytes is always a valid digest, and a valid digest or
  repository name can be used as a path because none of its components leaves the directory it is
  joined to; a manifest built by \<open>NewManifest\<close> always validates.
\<close>

section \<open>Digests (\<open>digest.go\<close>)\<close>

type_synonym Digest = string

definition digestAlgorithmSHA256 :: string where
  "digestAlgorithmSHA256 = ''sha256''"

definition ParseDigest :: "string \<Rightarrow> Digest result" where
  "ParseDigest value =
     (case Cut (CHR '':'') value of (algorithm, encoded, ok) \<Rightarrow>
        if \<not> ok \<or> algorithm \<noteq> digestAlgorithmSHA256 \<or> length encoded \<noteq> 64
          then Inl (NewInvalidDigestError value)
        else if \<not> hex_decodable encoded then Inl (NewInvalidDigestError value)
        else Inr value)"

definition DigestFromBytes :: "string \<Rightarrow> Digest" where
  "DigestFromBytes payload = digestAlgorithmSHA256 @ '':'' @ hex_encode (Sum256 payload)"

text \<open>
  \<open>DigestFromReader\<close> hashes what a reader yields; on a file that is its content, read to the
  end, and the number of bytes copied is its length.
\<close>

definition DigestFromReader :: "string \<Rightarrow> Digest \<times> int" where
  "DigestFromReader content =
     (digestAlgorithmSHA256 @ '':'' @ hex_encode (Sum256 content), int (length content))"

definition Digest_Validate :: "Digest \<Rightarrow> unit result" where
  "Digest_Validate d = check (ParseDigest d) (\<lambda>_. Inr ())"

definition Digest_Algorithm :: "Digest \<Rightarrow> string" where
  "Digest_Algorithm d = (case Cut (CHR '':'') d of (algorithm, _, _) \<Rightarrow> algorithm)"

definition Digest_Encoded :: "Digest \<Rightarrow> string" where
  "Digest_Encoded d = (case Cut (CHR '':'') d of (_, encoded, _) \<Rightarrow> encoded)"

section \<open>Repository names (\<open>repository.go\<close>)\<close>

record RepositoryRef =
  repo_Name :: string

text \<open>
  The pattern \<^verbatim>\<open>^[a-z0-9]+(?:[._-][a-z0-9]+)*$\<close> as its automaton: \<open>segment_word\<close> is
  the state that wants a letter or a digit, \<open>segment_rest\<close> the accepting state after one.
\<close>

definition segment_char :: "char \<Rightarrow> bool" where
  "segment_char c \<longleftrightarrow> is_lower c \<or> is_digit c"

definition segment_sep :: "char \<Rightarrow> bool" where
  "segment_sep c \<longleftrightarrow> c = CHR ''.'' \<or> c = CHR ''_'' \<or> c = CHR ''-''"

fun segment_word :: "string \<Rightarrow> bool"
and segment_rest :: "string \<Rightarrow> bool" where
  "segment_word [] = False"
| "segment_word (c # s) = (segment_char c \<and> segment_rest s)"
| "segment_rest [] = True"
| "segment_rest (c # s) =
     (if segment_char c then segment_rest s else segment_sep c \<and> segment_word s)"

definition repositorySegmentPattern :: "string \<Rightarrow> bool" where
  "repositorySegmentPattern segment = segment_word segment"

definition ParseRepositoryRef :: "string \<Rightarrow> RepositoryRef result" where
  "ParseRepositoryRef value =
     (if value = [] \<or> HasPrefix value ''/'' \<or> HasSuffix value ''/''
        then Inl (NewInvalidRepositoryError value)
      else if list_all repositorySegmentPattern (Split (CHR ''/'') value)
        then Inr \<lparr>repo_Name = value\<rparr>
      else Inl (NewInvalidRepositoryError value))"

definition RepositoryRef_Validate :: "RepositoryRef \<Rightarrow> unit result" where
  "RepositoryRef_Validate r = check (ParseRepositoryRef (repo_Name r)) (\<lambda>_. Inr ())"

section \<open>Descriptors (\<open>descriptor.go\<close>)\<close>

record Descriptor =
  desc_MediaType :: string
  desc_Digest :: Digest
  desc_Size :: int

definition Descriptor_Validate :: "Descriptor \<Rightarrow> unit result" where
  "Descriptor_Validate d =
     check (Digest_Validate (desc_Digest d)) (\<lambda>_.
     guard (desc_Size d < 0) (NewValidationError ''descriptor size must be zero or positive''))"

section \<open>Uploads (\<open>upload.go\<close>)\<close>

datatype UploadStatus = UploadStatusActive | UploadStatusCommitted | UploadStatusCanceled
  | UploadStatusOther string

text \<open>The status is a string in the code; \<open>UploadStatusOther\<close> is any other text.\<close>

definition UploadStatus_string :: "UploadStatus \<Rightarrow> string" where
  "UploadStatus_string st = (case st of UploadStatusActive \<Rightarrow> ''active''
     | UploadStatusCommitted \<Rightarrow> ''committed'' | UploadStatusCanceled \<Rightarrow> ''canceled''
     | UploadStatusOther s \<Rightarrow> s)"

record UploadState =
  up_ID :: string
  up_Repository :: RepositoryRef
  up_Status :: UploadStatus
  up_Size :: int
  up_StartedAt :: time
  up_UpdatedAt :: time
  up_Location :: string

definition UploadState_Validate :: "UploadState \<Rightarrow> unit result" where
  "UploadState_Validate u =
     check (guard (up_ID u = []) (NewValidationError ''upload ID is required'')) (\<lambda>_.
     check (RepositoryRef_Validate (up_Repository u)) (\<lambda>_.
     check (guard (UploadStatus_string (up_Status u) = [])
              (NewValidationError ''upload status is required'')) (\<lambda>_.
     check (guard (up_Size u < 0)
              (NewValidationError ''upload size must be zero or positive'')) (\<lambda>_.
     guard (IsZero (up_StartedAt u) \<or> IsZero (up_UpdatedAt u))
       (NewValidationError ''upload timestamps are required'')))))"

section \<open>Manifests (\<open>manifest.go\<close>)\<close>

type_synonym annotations = "(string \<times> string) list"

record Manifest =
  man_MediaType :: string
  man_Digest :: Digest
  man_Size :: int
  man_Payload :: string
  man_Subject :: "Descriptor option"
  man_Config :: "Descriptor option"
  man_Layers :: "Descriptor list"
  man_Annotations :: annotations
  man_ArtifactType :: string
  man_PushedBy :: string

definition optional_validate :: "Descriptor option \<Rightarrow> unit result" where
  "optional_validate d = (case d of None \<Rightarrow> Inr () | Some x \<Rightarrow> Descriptor_Validate x)"

definition NewManifest ::
  "string \<Rightarrow> string \<Rightarrow> string \<Rightarrow> Descriptor option \<Rightarrow> Descriptor list \<Rightarrow> Descriptor option
     \<Rightarrow> annotations \<Rightarrow> Manifest result" where
  "NewManifest mediaType artifactType payload config layers subject annotations =
     check (guard (mediaType = []) (NewInvalidManifestError ''media type is required'')) (\<lambda>_.
     check (optional_validate config) (\<lambda>_.
     check (optional_validate subject) (\<lambda>_.
     check (check_all Descriptor_Validate layers) (\<lambda>_.
     Inr \<lparr>man_MediaType = mediaType, man_Digest = DigestFromBytes payload,
          man_Size = int (length payload), man_Payload = payload, man_Subject = subject,
          man_Config = config, man_Layers = layers, man_Annotations = annotations,
          man_ArtifactType = artifactType, man_PushedBy = []\<rparr>))))"

definition Manifest_Validate :: "Manifest \<Rightarrow> unit result" where
  "Manifest_Validate m =
     check (guard (man_MediaType m = []) (NewInvalidManifestError ''media type is required'')) (\<lambda>_.
     check (Digest_Validate (man_Digest m)) (\<lambda>_.
     check (guard (man_Size m \<noteq> int (length (man_Payload m)))
              (NewInvalidManifestError ''manifest size does not match payload length'')) (\<lambda>_.
     check (guard (man_Digest m \<noteq> DigestFromBytes (man_Payload m))
              (NewDigestMismatchError (man_Digest m) (DigestFromBytes (man_Payload m)))) (\<lambda>_.
     check (optional_validate (man_Config m)) (\<lambda>_.
     check (optional_validate (man_Subject m)) (\<lambda>_.
     check (check_all Descriptor_Validate (man_Layers m)) (\<lambda>_. Inr ())))))))"

definition BlobReferences :: "Manifest \<Rightarrow> Descriptor list" where
  "BlobReferences m = (case man_Config m of None \<Rightarrow> [] | Some c \<Rightarrow> [c]) @ man_Layers m"

section \<open>Image indexes (\<open>image_index.go\<close>)\<close>

definition OCIImageIndexMediaType :: string where
  "OCIImageIndexMediaType = ''application/vnd.oci.image.index.v1+json''"

definition DockerManifestListMediaType :: string where
  "DockerManifestListMediaType = ''application/vnd.docker.distribution.manifest.list.v2+json''"

definition MaxImageIndexBytes :: nat where "MaxImageIndexBytes = 256 * 1024"
definition MaxImageIndexEntries :: nat where "MaxImageIndexEntries = 256"

record Platform =
  plat_Architecture :: string
  plat_OS :: string
  plat_Variant :: string

record ImageIndexEntry =
  ixe_Digest :: string
  ixe_MediaType :: string
  ixe_Size :: int
  ixe_Platform :: "Platform option"

record imageIndexPlatform =
  ixp_Architecture :: string
  ixp_OS :: string
  ixp_Variant :: string

record imageIndexManifestEntry =
  ixm_MediaType :: string
  ixm_Digest :: string
  ixm_Size :: int
  ixm_Platform :: "imageIndexPlatform option"

record imageIndexEnvelope =
  ix_SchemaVersion :: int
  ix_MediaType :: string
  ix_Manifests :: "imageIndexManifestEntry list"

definition IsImageIndexMediaType :: "string \<Rightarrow> bool" where
  "IsImageIndexMediaType mediaType \<longleftrightarrow>
     mediaType = OCIImageIndexMediaType \<or> mediaType = DockerManifestListMediaType"

definition image_index_entry :: "imageIndexManifestEntry \<Rightarrow> ImageIndexEntry" where
  "image_index_entry m =
     \<lparr>ixe_Digest = ixm_Digest m, ixe_MediaType = ixm_MediaType m, ixe_Size = ixm_Size m,
      ixe_Platform = map_option (\<lambda>p. \<lparr>plat_Architecture = ixp_Architecture p,
         plat_OS = ixp_OS p, plat_Variant = ixp_Variant p\<rparr>) (ixm_Platform m)\<rparr>"

text \<open>
  \<open>json.Unmarshal\<close> into the envelope is the argument \<open>unmarshal\<close>: \<open>None\<close> when it reports
  an error.
\<close>

definition ParseImageIndexEntries ::
  "(string \<Rightarrow> imageIndexEnvelope option) \<Rightarrow> string \<Rightarrow> ImageIndexEntry list result" where
  "ParseImageIndexEntries unmarshal payload =
     (if length payload > MaxImageIndexBytes
        then Inl (NewInvalidManifestError
               (''image index exceeds '' @ FormatInt (int MaxImageIndexBytes) @ '' bytes''))
      else (case unmarshal payload of
          None \<Rightarrow> Inl (NewInvalidManifestError ''image index is not valid JSON'')
        | Some envelope \<Rightarrow>
            if length (ix_Manifests envelope) > MaxImageIndexEntries
              then Inl (NewInvalidManifestError (''image index declares more than '' @
                     FormatInt (int MaxImageIndexEntries) @ '' manifests''))
            else Inr (map image_index_entry (ix_Manifests envelope))))"

section \<open>Facts about digests\<close>

lemma ParseDigest_Inr:
  "ParseDigest v = Inr d \<longleftrightarrow>
     d = v \<and> (\<exists>h. v = ''sha256:'' @ h \<and> length h = 64 \<and> list_all is_hex h)"
proof -
  have sep: "CHR '':'' \<notin> set digestAlgorithmSHA256" by (simp add: digestAlgorithmSHA256_def)
  have "ParseDigest v = Inr d \<longleftrightarrow>
      d = v \<and> (\<exists>h. Cut (CHR '':'') v = (digestAlgorithmSHA256, h, True) \<and> length h = 64 \<and> hex_decodable h)"
    by (auto simp: ParseDigest_def split: if_splits prod.splits)
  also have "\<dots> \<longleftrightarrow> d = v \<and> (\<exists>h. v = ''sha256:'' @ h \<and> length h = 64 \<and> list_all is_hex h)"
    using sep by (auto simp: Cut_True hex_decodable_def digestAlgorithmSHA256_def)
  finally show ?thesis .
qed

lemma ParseDigest_same: "ParseDigest v = Inr d \<Longrightarrow> d = v"
  by (simp add: ParseDigest_Inr)

lemma Digest_Validate_Inr: "Digest_Validate d = Inr u \<longleftrightarrow> ParseDigest d = Inr d"
  by (auto simp: Digest_Validate_def go_flow dest: ParseDigest_same)

lemma DigestFromBytes_valid [simp]: "ParseDigest (DigestFromBytes p) = Inr (DigestFromBytes p)"
  using hex_decodable_encode [of "Sum256 p"]
  by (simp add: ParseDigest_Inr DigestFromBytes_def digestAlgorithmSHA256_def hex_encode_length
      hex_decodable_def)

lemma Digest_Validate_DigestFromBytes [simp]: "Digest_Validate (DigestFromBytes p) = Inr ()"
  by (simp add: Digest_Validate_def)

lemma DigestFromReader_eq [simp]: "DigestFromReader c = (DigestFromBytes c, int (length c))"
  by (simp add: DigestFromReader_def DigestFromBytes_def)

lemma valid_digest_parts:
  assumes "ParseDigest d = Inr d"
  shows "Digest_Algorithm d = ''sha256''" and "list_all is_hex (Digest_Encoded d)"
    and "length (Digest_Encoded d) = 64" and "d = ''sha256:'' @ Digest_Encoded d"
proof -
  from assms obtain h where h: "d = ''sha256'' @ CHR '':'' # h" "length h = 64" "list_all is_hex h"
    by (auto simp: ParseDigest_Inr)
  have "Cut (CHR '':'') d = (''sha256'', h, True)" unfolding h(1) by (rule Cut_append) simp
  then have "Digest_Algorithm d = ''sha256''" "Digest_Encoded d = h"
    by (simp_all add: Digest_Algorithm_def Digest_Encoded_def)
  with h show "Digest_Algorithm d = ''sha256''" "list_all is_hex (Digest_Encoded d)"
    "length (Digest_Encoded d) = 64" "d = ''sha256:'' @ Digest_Encoded d" by auto
qed

section \<open>Facts about repository names\<close>

lemma segment_chars:
  "segment_word s \<Longrightarrow> list_all (\<lambda>c. segment_char c \<or> segment_sep c) s"
  "segment_rest s \<Longrightarrow> list_all (\<lambda>c. segment_char c \<or> segment_sep c) s"
  by (induction s rule: segment_word_segment_rest.induct) (auto split: if_splits)

lemma segment_char_not_sep: "segment_char c \<Longrightarrow> \<not> segment_sep c"
  by (auto simp: segment_char_def segment_sep_def is_lower_def is_digit_def in_range_def)

lemma segment_char_no_space: "segment_char c \<Longrightarrow> \<not> space_edge c"
  by (auto simp: segment_char_def is_lower_def is_digit_def in_range_def space_edge_def go_spaces_def)

text \<open>
  The automaton accepts what the pattern describes: non-empty text over the two classes that
  starts and ends with a letter or digit and never has two separators in a row.
\<close>

fun no_double_sep :: "string \<Rightarrow> bool" where
  "no_double_sep (a # b # s) = (\<not> (segment_sep a \<and> segment_sep b) \<and> no_double_sep (b # s))"
| "no_double_sep _ = True"

lemma segment_language:
  "segment_word s \<longleftrightarrow> s \<noteq> [] \<and> list_all (\<lambda>c. segment_char c \<or> segment_sep c) s
      \<and> segment_char (hd s) \<and> segment_char (last s) \<and> no_double_sep s"
  "segment_rest s \<longleftrightarrow> list_all (\<lambda>c. segment_char c \<or> segment_sep c) s
      \<and> (s \<noteq> [] \<longrightarrow> segment_char (last s)) \<and> no_double_sep s"
proof (induction s rule: segment_word_segment_rest.induct)
  case (2 c s)
  then show ?case using segment_char_not_sep by (cases s) auto
next
  case (4 c s)
  show ?case
  proof (cases s)
    case (Cons d t)
    then show ?thesis using 4 segment_char_not_sep by (cases "segment_char c") auto
  qed (use 4 in auto)
qed simp_all

lemma ParseRepositoryRef_Inr:
  "ParseRepositoryRef v = Inr r \<longleftrightarrow>
     r = \<lparr>repo_Name = v\<rparr> \<and> v \<noteq> [] \<and> list_all repositorySegmentPattern (Split (CHR ''/'') v)"
proof -
  have "\<not> HasPrefix v ''/'' \<and> \<not> HasSuffix v ''/''"
    if "list_all repositorySegmentPattern (Split (CHR ''/'') v)"
  proof -
    have seg: "p \<in> set (Split (CHR ''/'') v) \<Longrightarrow> p \<noteq> []" for p
      using that by (auto simp: list_all_iff repositorySegmentPattern_def)
    have "\<not> HasPrefix v ''/''"
    proof
      assume "HasPrefix v ''/''"
      then obtain w where "v = CHR ''/'' # w" by (auto simp: HasPrefix_iff)
      then have "[] \<in> set (Split (CHR ''/'') v)" by simp
      then show False using seg by blast
    qed
    moreover have "\<not> HasSuffix v ''/''"
    proof
      assume "HasSuffix v ''/''"
      then obtain w where "v = w @ ''/''" by (auto simp: HasSuffix_iff)
      then have "[] \<in> set (Split (CHR ''/'') v)" by (simp add: Split_snoc_sep)
      then show False using seg by blast
    qed
    ultimately show ?thesis ..
  qed
  then show ?thesis by (auto simp: ParseRepositoryRef_def)
qed

lemma ParseRepositoryRef_Name: "ParseRepositoryRef v = Inr r \<Longrightarrow> repo_Name r = v"
  by (simp add: ParseRepositoryRef_Inr)

lemma ParseRepositoryRef_again: "ParseRepositoryRef v = Inr r \<Longrightarrow> ParseRepositoryRef (repo_Name r) = Inr r"
  by (simp add: ParseRepositoryRef_Inr)

lemma RepositoryRef_Validate_Inr:
  "RepositoryRef_Validate r = Inr u \<longleftrightarrow> ParseRepositoryRef (repo_Name r) = Inr r"
  by (auto simp: RepositoryRef_Validate_def go_flow ParseRepositoryRef_Inr)

section \<open>Facts about descriptors and manifests\<close>

lemma Descriptor_Validate_Inr:
  "Descriptor_Validate d = Inr u \<longleftrightarrow> ParseDigest (desc_Digest d) = Inr (desc_Digest d) \<and> 0 \<le> desc_Size d"
  by (auto simp: Descriptor_Validate_def go_flow Digest_Validate_Inr not_less)

lemma check_all_Inr_unit: "check_all f xs = Inr us \<Longrightarrow> x \<in> set xs \<Longrightarrow> \<exists>u. f x = Inr u"
  by (induction xs arbitrary: us) (auto simp: go_flow)

lemma NewManifest_Inr:
  "NewManifest mt at p cfg ls subj ann = Inr m \<longleftrightarrow>
     mt \<noteq> [] \<and> optional_validate cfg = Inr () \<and> optional_validate subj = Inr ()
     \<and> (\<exists>us. check_all Descriptor_Validate ls = Inr us)
     \<and> m = \<lparr>man_MediaType = mt, man_Digest = DigestFromBytes p, man_Size = int (length p),
            man_Payload = p, man_Subject = subj, man_Config = cfg, man_Layers = ls,
            man_Annotations = ann, man_ArtifactType = at, man_PushedBy = []\<rparr>"
  unfolding NewManifest_def by (auto simp: go_flow)

lemma BlobReferences_valid:
  assumes "Manifest_Validate m = Inr u" and "d \<in> set (BlobReferences m)"
  shows "Descriptor_Validate d = Inr ()"
  using assms
  by (auto simp: Manifest_Validate_def go_flow BlobReferences_def optional_validate_def
      split: option.splits dest!: check_all_Inr_unit)

end
