(* ===== verification/Auth_Domain.thy ===== *)
theory Auth_Domain
  imports Reg_Domain
begin

text \<open>
  The auth domain package, \<open>internal/domain/auth\<close>: users, repository roles and grants, tokens,
  scopes and principals. The lemmas: what each validation accepts; scopes survive the trip through
  their text form, by which a token stores them; access decisions are exactly a grant (or a
  registry-wide role) together with a scope, and grow with the role.
\<close>

section \<open>Users (\<open>user.go\<close>)\<close>

record User =
  user_ID :: string
  user_Username :: string
  user_PasswordHash :: string
  user_IsAdmin :: bool
  user_IsReadOnly :: bool
  user_IsRobot :: bool
  user_Enabled :: bool
  user_CreatedAt :: time
  user_UpdatedAt :: time

definition RobotPasswordHash :: string where
  "RobotPasswordHash = ''robot:no-password''"

text \<open>The pattern \<^verbatim>\<open>^[A-Za-z0-9](?:[A-Za-z0-9._-]*[A-Za-z0-9])?$\<close>.\<close>

definition username_edge :: "char \<Rightarrow> bool" where
  "username_edge c \<longleftrightarrow> is_upper c \<or> is_lower c \<or> is_digit c"

definition usernamePattern :: "string \<Rightarrow> bool" where
  "usernamePattern s \<longleftrightarrow>
     s \<noteq> [] \<and> username_edge (hd s) \<and> username_edge (last s)
     \<and> list_all (\<lambda>c. username_edge c \<or> segment_sep c) s"

definition User_Validate :: "User \<Rightarrow> unit result" where
  "User_Validate u =
     (let username = TrimSpace (user_Username u) in
     check (guard (username = []) (auth_NewValidationError ''username is required'')) (\<lambda>_.
     check (guard (\<not> usernamePattern username) (auth_NewValidationError
              ''username must contain only letters, numbers, dot, dash, or underscore'')) (\<lambda>_.
     check (guard (TrimSpace (user_ID u) = []) (auth_NewValidationError ''user id is required'')) (\<lambda>_.
     check (guard (TrimSpace (user_PasswordHash u) = [])
              (auth_NewValidationError ''password hash is required'')) (\<lambda>_.
     check (guard (IsZero (user_CreatedAt u)) (auth_NewValidationError ''created at is required'')) (\<lambda>_.
     check (guard (IsZero (user_UpdatedAt u)) (auth_NewValidationError ''updated at is required'')) (\<lambda>_.
     guard (user_IsRobot u \<and> (user_IsAdmin u \<or> user_IsReadOnly u))
       (auth_NewValidationError ''robot accounts cannot be admin or read-only''))))))))"

section \<open>Roles and grants (\<open>grant.go\<close>)\<close>

text \<open>A role is a string in the code; \<open>RepoRoleOther\<close> is any text that is no role.\<close>

datatype RepoRole = RepoRoleReader | RepoRoleWriter | RepoRoleAdmin | RepoRoleOther string

record RepoGrant =
  grant_UserID :: string
  grant_Repository :: RepositoryRef
  grant_Role :: RepoRole
  grant_CreatedAt :: time
  grant_UpdatedAt :: time

definition RepoRole_Validate :: "RepoRole \<Rightarrow> unit result" where
  "RepoRole_Validate r = (case r of
       RepoRoleOther _ \<Rightarrow> Inl (auth_NewValidationError ''repository role is invalid'')
     | _ \<Rightarrow> Inr ())"

definition AllowsRead :: "RepoRole \<Rightarrow> bool" where
  "AllowsRead r \<longleftrightarrow> r = RepoRoleReader \<or> r = RepoRoleWriter \<or> r = RepoRoleAdmin"

definition AllowsWrite :: "RepoRole \<Rightarrow> bool" where
  "AllowsWrite r \<longleftrightarrow> r = RepoRoleWriter \<or> r = RepoRoleAdmin"

definition AllowsAdmin :: "RepoRole \<Rightarrow> bool" where
  "AllowsAdmin r \<longleftrightarrow> r = RepoRoleAdmin"

definition RepoGrant_Validate :: "RepoGrant \<Rightarrow> unit result" where
  "RepoGrant_Validate g =
     check (guard (grant_UserID g = []) (auth_NewValidationError ''grant user id is required'')) (\<lambda>_.
     check (RepositoryRef_Validate (grant_Repository g)) (\<lambda>_.
     check (RepoRole_Validate (grant_Role g)) (\<lambda>_.
     check (guard (IsZero (grant_CreatedAt g))
              (auth_NewValidationError ''grant created at is required'')) (\<lambda>_.
     guard (IsZero (grant_UpdatedAt g)) (auth_NewValidationError ''grant updated at is required'')))))"

text \<open>
  Roles ordered by what they allow. Texts that are no role come first, among themselves in
  dictionary order.
\<close>

fun role_rank :: "RepoRole \<Rightarrow> nat" where
  "role_rank (RepoRoleOther _) = 0"
| "role_rank RepoRoleReader = 1"
| "role_rank RepoRoleWriter = 2"
| "role_rank RepoRoleAdmin = 3"

fun role_text :: "RepoRole \<Rightarrow> string" where
  "role_text (RepoRoleOther s) = s"
| "role_text RepoRoleReader = ''repo-reader''"
| "role_text RepoRoleWriter = ''repo-writer''"
| "role_text RepoRoleAdmin = ''repo-admin''"

instantiation RepoRole :: linorder
begin

definition less_eq_RepoRole :: "RepoRole \<Rightarrow> RepoRole \<Rightarrow> bool" where
  "less_eq_RepoRole r s \<longleftrightarrow>
     role_rank r < role_rank s \<or> (role_rank r = role_rank s \<and> role_text r \<le> role_text s)"

definition less_RepoRole :: "RepoRole \<Rightarrow> RepoRole \<Rightarrow> bool" where
  "less_RepoRole r s \<longleftrightarrow>
     role_rank r < role_rank s \<or> (role_rank r = role_rank s \<and> role_text r < role_text s)"

instance
proof
  fix x y z :: RepoRole
  show "x < y \<longleftrightarrow> x \<le> y \<and> \<not> y \<le> x" by (auto simp: less_eq_RepoRole_def less_RepoRole_def)
  show "x \<le> x" by (simp add: less_eq_RepoRole_def)
  show "x \<le> y \<Longrightarrow> y \<le> z \<Longrightarrow> x \<le> z" by (auto simp: less_eq_RepoRole_def)
  show "x \<le> y \<Longrightarrow> y \<le> x \<Longrightarrow> x = y"
    by (cases x; cases y) (auto simp: less_eq_RepoRole_def)
  show "x \<le> y \<or> y \<le> x" by (auto simp: less_eq_RepoRole_def)
qed

end

section \<open>Scopes (\<open>scope.go\<close>)\<close>

record Scope =
  scope_Type :: string
  scope_Name :: string
  scope_Actions :: "string list"
  scope_Canonical :: string
  scope_repository :: RepositoryRef

definition scopeTypeRepository :: string where "scopeTypeRepository = ''repository''"
definition scopeTypeRegixtry :: string where "scopeTypeRegixtry = ''regixtry''"
definition actionPull :: string where "actionPull = ''pull''"
definition actionPush :: string where "actionPush = ''push''"
definition actionDelete :: string where "actionDelete = ''delete''"
definition actionCatalog :: string where "actionCatalog = ''catalog''"
definition actionWildcard :: string where "actionWildcard = ''*''"

text \<open>The loop of \<open>normalizeScopeActions\<close>: \<open>seen\<close> holds the actions collected so far.\<close>

fun scope_actions_loop :: "bool \<Rightarrow> string list \<Rightarrow> string list \<Rightarrow> string list result" where
  "scope_actions_loop repository seen [] = Inr seen"
| "scope_actions_loop repository seen (part # parts) =
     (let action = TrimSpace part in
      if action = [] then Inl (auth_NewValidationError ''scope actions are required'')
      else if repository \<and> action \<noteq> actionPull \<and> action \<noteq> actionPush \<and> action \<noteq> actionDelete
        then Inl (auth_NewValidationError
               ''repository scope actions must be pull, push, and/or delete'')
      else if \<not> repository \<and> action \<noteq> actionWildcard
        then Inl (auth_NewValidationError ''registry catalog scopes must use *'')
      else if action \<in> set seen then scope_actions_loop repository seen parts
      else scope_actions_loop repository (seen @ [action]) parts)"

definition action_weight :: "string \<Rightarrow> nat" where
  "action_weight action = (if action = actionPull then 0 else if action = actionPush then 1
     else if action = actionDelete then 2 else 3)"

definition normalizeScopeActions :: "string \<Rightarrow> bool \<Rightarrow> string list result" where
  "normalizeScopeActions raw repository =
     check (scope_actions_loop repository [] (Split (CHR '','') (TrimSpace raw))) (\<lambda>actions.
     let sorted_actions = (if repository then sort_key action_weight actions else sort actions) in
     check (guard (sorted_actions = []) (auth_NewValidationError ''scope actions are required''))
       (\<lambda>_. Inr sorted_actions))"

definition ParseScope :: "string \<Rightarrow> Scope result" where
  "ParseScope raw =
     (case Split (CHR '':'') (TrimSpace raw) of
        [p0, p1, p2] \<Rightarrow>
          let resourceType = TrimSpace p0; resourceName = TrimSpace p1 in
          check (guard (resourceName = [])
                   (auth_NewValidationError ''scope resource name is required'')) (\<lambda>_.
          if resourceType = scopeTypeRepository then
            check (ParseRepositoryRef resourceName) (\<lambda>repository.
            check (normalizeScopeActions p2 True) (\<lambda>actions.
            Inr \<lparr>scope_Type = scopeTypeRepository, scope_Name = repo_Name repository,
                 scope_Actions = actions,
                 scope_Canonical = scopeTypeRepository @ '':'' @ repo_Name repository @ '':''
                   @ Join '','' actions,
                 scope_repository = repository\<rparr>))
          else if resourceType = scopeTypeRegixtry then
            check (guard (resourceName \<noteq> actionCatalog)
                     (auth_NewValidationError ''registry scope name is invalid'')) (\<lambda>_.
            check (normalizeScopeActions p2 False) (\<lambda>actions.
            Inr \<lparr>scope_Type = scopeTypeRegixtry, scope_Name = resourceName,
                 scope_Actions = actions,
                 scope_Canonical = scopeTypeRegixtry @ '':'' @ resourceName @ '':'' @ Join '','' actions,
                 scope_repository = \<lparr>repo_Name = []\<rparr>\<rparr>))
          else Inl (auth_NewValidationError ''scope resource type is invalid''))
      | _ \<Rightarrow> Inl (auth_NewValidationError ''scope must use the format <type>:<name>:<actions>''))"

text \<open>
  \<open>ParseScopes\<close>: the fields of all the values, parsed in order (\<open>strings.Fields\<close> yields no
  empty field, so the guard on an empty candidate never fires).
\<close>

definition ParseScopes :: "string list \<Rightarrow> Scope list result" where
  "ParseScopes values =
     check_all ParseScope (filter (\<lambda>c. c \<noteq> []) (concat (map (\<lambda>v. Fields (TrimSpace v)) values)))"

text \<open>The canonical texts, each once, in the order of their first occurrence.\<close>

fun distinct_canonical :: "string list \<Rightarrow> Scope list \<Rightarrow> string list" where
  "distinct_canonical seen [] = []"
| "distinct_canonical seen (s # ss) =
     (if scope_Canonical s = [] \<or> scope_Canonical s \<in> set seen then distinct_canonical seen ss
      else scope_Canonical s # distinct_canonical (scope_Canonical s # seen) ss)"

definition NormalizeScopes :: "Scope list \<Rightarrow> string" where
  "NormalizeScopes scopes =
     (if scopes = [] then [] else Join '' '' (sort (distinct_canonical [] scopes)))"

definition IsRepository :: "Scope \<Rightarrow> bool" where
  "IsRepository s \<longleftrightarrow> scope_Type s = scopeTypeRepository"

definition IsRegixtryCatalog :: "Scope \<Rightarrow> bool" where
  "IsRegixtryCatalog s \<longleftrightarrow> scope_Type s = scopeTypeRegixtry \<and> scope_Name s = actionCatalog
     \<and> scope_Actions s = [actionWildcard]"

definition hasAction :: "Scope \<Rightarrow> string \<Rightarrow> bool" where
  "hasAction s action \<longleftrightarrow> list_ex (\<lambda>candidate. candidate = action) (scope_Actions s)"

definition AllowsPull :: "Scope \<Rightarrow> bool" where "AllowsPull s \<longleftrightarrow> hasAction s actionPull"
definition AllowsPush :: "Scope \<Rightarrow> bool" where "AllowsPush s \<longleftrightarrow> hasAction s actionPush"
definition AllowsDelete :: "Scope \<Rightarrow> bool" where "AllowsDelete s \<longleftrightarrow> hasAction s actionDelete"

section \<open>Tokens (\<open>token.go\<close>)\<close>

datatype TokenKind = TokenKindAccess | TokenKindAdminCredential | TokenKindOther string

definition AccessTokenTTL :: duration where "AccessTokenTTL = 15 * minute"
definition DefaultAdminTokenTTL :: duration where "DefaultAdminTokenTTL = 30 * 24 * hour"

record Token =
  tok_ID :: string
  tok_UserID :: string
  tok_Kind :: TokenKind
  tok_Name :: string
  tok_Scope :: string
  tok_Accessor :: string
  tok_SecretHash :: string
  tok_ExpiresAt :: time
  tok_CreatedAt :: time
  tok_RevokedAt :: "time option"

definition Token_Scopes :: "Token \<Rightarrow> Scope list result" where
  "Token_Scopes t =
     (let trimmed = TrimSpace (tok_Scope t)
      in if trimmed = [] then Inr [] else ParseScopes [trimmed])"

definition Token_Validate :: "Token \<Rightarrow> unit result" where
  "Token_Validate t =
     check (guard (TrimSpace (tok_ID t) = []) (auth_NewValidationError ''token id is required'')) (\<lambda>_.
     check (guard (TrimSpace (tok_UserID t) = [])
              (auth_NewValidationError ''token user id is required'')) (\<lambda>_.
     check (guard (tok_Kind t \<noteq> TokenKindAccess \<and> tok_Kind t \<noteq> TokenKindAdminCredential)
              (auth_NewValidationError ''token kind is invalid'')) (\<lambda>_.
     check (guard (TrimSpace (tok_Accessor t) = [])
              (auth_NewValidationError ''token accessor is required'')) (\<lambda>_.
     check (guard (TrimSpace (tok_SecretHash t) = [])
              (auth_NewValidationError ''token secret hash is required'')) (\<lambda>_.
     check (guard (IsZero (tok_CreatedAt t))
              (auth_NewValidationError ''token created at is required'')) (\<lambda>_.
     check (guard (IsZero (tok_ExpiresAt t))
              (auth_NewValidationError ''token expires at is required'')) (\<lambda>_.
     check (guard (\<not> tok_ExpiresAt t > tok_CreatedAt t)
              (auth_NewValidationError ''token expiry must be after creation'')) (\<lambda>_.
     check (guard (tok_Kind t = TokenKindAccess \<and> tok_Name t \<noteq> [])
              (auth_NewValidationError ''access tokens must not have a display name'')) (\<lambda>_.
     check (guard (tok_Kind t = TokenKindAdminCredential \<and> TrimSpace (tok_Scope t) \<noteq> [])
              (auth_NewValidationError ''admin credential tokens must not store access scope'')) (\<lambda>_.
     check (Token_Scopes t) (\<lambda>_. Inr ())))))))))))"

definition IsExpired :: "Token \<Rightarrow> time \<Rightarrow> bool" where
  "IsExpired t now \<longleftrightarrow> \<not> now < tok_ExpiresAt t"

definition IsRevoked :: "Token \<Rightarrow> bool" where
  "IsRevoked t \<longleftrightarrow> tok_RevokedAt t \<noteq> None"

definition IsActive :: "Token \<Rightarrow> time \<Rightarrow> unit result" where
  "IsActive t now =
     check (guard (IsRevoked t) (NewRevokedTokenError (tok_Accessor t))) (\<lambda>_.
     guard (IsExpired t now) (NewExpiredTokenError (tok_Accessor t)))"

section \<open>Principals (\<open>principal.go\<close>)\<close>

record Principal =
  pr_Subject :: string
  pr_UserID :: string
  pr_Username :: string
  pr_IsAdmin :: bool
  pr_IsReadOnly :: bool
  pr_Grants :: "RepoGrant list"
  pr_Scopes :: "Scope list"
  pr_ExpiresAt :: time

definition hasGrantedRepositoryAccess :: "Principal \<Rightarrow> string \<Rightarrow> (RepoRole \<Rightarrow> bool) \<Rightarrow> bool" where
  "hasGrantedRepositoryAccess p repository allows =
     (if pr_IsAdmin p then True
      else if pr_IsReadOnly p \<and> allows RepoRoleReader then True
      else list_ex (\<lambda>grant. repo_Name (grant_Repository grant) = repository \<and> allows (grant_Role grant))
             (pr_Grants p))"

definition scopeAllowsRepository :: "Principal \<Rightarrow> string \<Rightarrow> (Scope \<Rightarrow> bool) \<Rightarrow> bool" where
  "scopeAllowsRepository p repository allows =
     list_ex (\<lambda>scope. IsRepository scope \<and> scope_Name scope = repository \<and> allows scope) (pr_Scopes p)"

definition scopeAllowsCatalog :: "Principal \<Rightarrow> bool" where
  "scopeAllowsCatalog p = list_ex IsRegixtryCatalog (pr_Scopes p)"

definition HasReadAccess :: "Principal \<Rightarrow> string \<Rightarrow> bool" where
  "HasReadAccess p repository \<longleftrightarrow> hasGrantedRepositoryAccess p repository AllowsRead
     \<and> scopeAllowsRepository p repository AllowsPull"

definition HasWriteAccess :: "Principal \<Rightarrow> string \<Rightarrow> bool" where
  "HasWriteAccess p repository \<longleftrightarrow> hasGrantedRepositoryAccess p repository AllowsWrite
     \<and> scopeAllowsRepository p repository AllowsPush"

definition HasGrantedWriteAccess :: "Principal \<Rightarrow> string \<Rightarrow> bool" where
  "HasGrantedWriteAccess p repository \<longleftrightarrow> hasGrantedRepositoryAccess p repository AllowsWrite"

definition HasDeleteAccess :: "Principal \<Rightarrow> string \<Rightarrow> bool" where
  "HasDeleteAccess p repository \<longleftrightarrow> hasGrantedRepositoryAccess p repository AllowsWrite
     \<and> scopeAllowsRepository p repository AllowsDelete"

definition HasRepoAdminAccess :: "Principal \<Rightarrow> string \<Rightarrow> bool" where
  "HasRepoAdminAccess p repository =
     (if \<not> hasGrantedRepositoryAccess p repository AllowsAdmin then False
      else scopeAllowsRepository p repository AllowsPush)"

definition HasCatalogAccess :: "Principal \<Rightarrow> string \<Rightarrow> bool" where
  "HasCatalogAccess p repository =
     (if \<not> hasGrantedRepositoryAccess p repository AllowsRead then False
      else scopeAllowsCatalog p \<or> scopeAllowsRepository p repository AllowsPull)"

definition CanAccessCatalog :: "Principal \<Rightarrow> bool" where
  "CanAccessCatalog p =
     (if scopeAllowsCatalog p then True
      else list_ex (\<lambda>scope. IsRepository scope \<and> AllowsPull scope) (pr_Scopes p))"

section \<open>Facts about roles\<close>

lemma role_allows_mono:
  "r \<le> s \<Longrightarrow> AllowsRead r \<Longrightarrow> AllowsRead s"
  "r \<le> s \<Longrightarrow> AllowsWrite r \<Longrightarrow> AllowsWrite s"
  "r \<le> s \<Longrightarrow> AllowsAdmin r \<Longrightarrow> AllowsAdmin s"
  by (cases r; cases s; simp add: less_eq_RepoRole_def AllowsRead_def AllowsWrite_def AllowsAdmin_def)+

lemma role_allows_chain:
  "AllowsAdmin r \<Longrightarrow> AllowsWrite r" "AllowsWrite r \<Longrightarrow> AllowsRead r"
  by (auto simp: AllowsRead_def AllowsWrite_def AllowsAdmin_def)

lemma reader_allows [simp]:
  "AllowsRead RepoRoleReader" "\<not> AllowsWrite RepoRoleReader" "\<not> AllowsAdmin RepoRoleReader"
  by (simp_all add: AllowsRead_def AllowsWrite_def AllowsAdmin_def)

lemma RepoRole_Validate_Inr: "RepoRole_Validate r = Inr u \<longleftrightarrow> AllowsRead r"
  by (cases r) (auto simp: RepoRole_Validate_def AllowsRead_def)

section \<open>Scopes and their text\<close>

text \<open>What a scope says, apart from the parsed repository it carries along.\<close>

definition scope_core :: "Scope \<Rightarrow> string \<times> string \<times> string list \<times> string" where
  "scope_core s = (scope_Type s, scope_Name s, scope_Actions s, scope_Canonical s)"

text \<open>The action lists that \<open>normalizeScopeActions\<close> yields for a repository.\<close>

definition action_lists :: "string list list" where
  "action_lists = [[actionPull], [actionPush], [actionDelete], [actionPull, actionPush],
     [actionPull, actionDelete], [actionPush, actionDelete], [actionPull, actionPush, actionDelete]]"

definition repository_canonical :: "string \<Rightarrow> string list \<Rightarrow> string" where
  "repository_canonical name actions = ''repository:'' @ name @ '':'' @ Join '','' actions"

text \<open>A scope whose canonical text says what its fields say.\<close>

definition well_scoped :: "Scope \<Rightarrow> bool" where
  "well_scoped s \<longleftrightarrow>
     (\<exists>r actions. ParseRepositoryRef (scope_Name s) = Inr r \<and> actions \<in> set action_lists
        \<and> scope_core s = (''repository'', scope_Name s, actions, repository_canonical (scope_Name s) actions))
     \<or> scope_core s = (''regixtry'', ''catalog'', [''*''], ''regixtry:catalog:*'')"

lemmas action_names = actionPull_def actionPush_def actionDelete_def actionCatalog_def
  actionWildcard_def scopeTypeRepository_def scopeTypeRegixtry_def


lemma scope_actions_step:
  assumes "scope_actions_loop repository seen (part # parts) = Inr actions"
  shows "scope_actions_loop repository (if TrimSpace part \<in> set seen then seen else seen @ [TrimSpace part])
           parts = Inr actions"
    and "if repository then TrimSpace part \<in> {actionPull, actionPush, actionDelete}
         else TrimSpace part = actionWildcard"
  using assms by (auto simp: Let_def split: if_splits)

lemma scope_actions_loop_Inr:
  "scope_actions_loop repository seen parts = Inr actions \<Longrightarrow> distinct seen \<Longrightarrow>
     distinct actions \<and> set actions = set seen \<union> TrimSpace ` set parts
     \<and> (\<forall>p \<in> set parts. if repository then TrimSpace p \<in> {actionPull, actionPush, actionDelete}
          else TrimSpace p = actionWildcard)"
proof (induction parts arbitrary: seen)
  case (Cons part parts)
  let ?seen = "if TrimSpace part \<in> set seen then seen else seen @ [TrimSpace part]"
  have "distinct ?seen" using Cons.prems(2) by simp
  with Cons.IH scope_actions_step(1) [OF Cons.prems(1)]
  have "distinct actions \<and> set actions = set ?seen \<union> TrimSpace ` set parts
     \<and> (\<forall>p \<in> set parts. if repository then TrimSpace p \<in> {actionPull, actionPush, actionDelete}
          else TrimSpace p = actionWildcard)" by blast
  moreover have "set ?seen = insert (TrimSpace part) (set seen)" by auto
  ultimately show ?case using scope_actions_step(2) [OF Cons.prems(1)] by (simp del: insert_iff)
qed simp

lemma small_sorted_lists:
  assumes "sorted xs" "distinct xs" "set xs \<subseteq> {0, 1, 2 :: nat}"
  shows "xs \<in> {[], [0], [1], [2], [0, 1], [0, 2], [1, 2], [0, 1, 2]}"
proof -
  have eq: "filter (\<lambda>x. x \<in> set xs) [0, 1, 2] = xs"
  proof (rule sorted_distinct_set_unique)
    show "set (filter (\<lambda>x. x \<in> set xs) [0, 1, 2]) = set xs"
      using assms(3) unfolding set_filter by auto
  qed (use assms in auto)
  show ?thesis
    by (subst eq [symmetric]) (cases "0 \<in> set xs"; cases "1 \<in> set xs"; cases "2 \<in> set xs"; simp)
qed

lemma action_weight_inv:
  assumes "a \<in> {actionPull, actionPush, actionDelete}"
  shows "[actionPull, actionPush, actionDelete] ! action_weight a = a"
  using assms by (auto simp: action_weight_def action_names)
definition action_list_of :: "nat list \<Rightarrow> string list" where
  "action_list_of = map ((!) [actionPull, actionPush, actionDelete])"

lemma action_list_of_weights:
  assumes "ws \<in> {[], [0], [1], [2], [0, 1], [0, 2], [1, 2], [0, 1, 2]}" and "ws \<noteq> []"
  shows "action_list_of ws \<in> set action_lists"
proof -
  have "list_all (\<lambda>ws. ws = [] \<or> action_list_of ws \<in> set action_lists)
    [[], [0], [1], [2], [0, 1], [0, 2], [1, 2], [0, 1, 2]]" by code_simp
  with assms show ?thesis unfolding list_all_iff list.set by metis
qed

lemma action_weight_inj: "inj_on action_weight {actionPull, actionPush, actionDelete}"
  by (rule inj_on_inverseI) (rule action_weight_inv)

lemma action_weight_range: "action_weight ` {actionPull, actionPush, actionDelete} \<subseteq> {0, 1, 2}"
  by (auto simp: action_weight_def)

lemma normalizeScopeActions_repository:
  assumes "normalizeScopeActions raw True = Inr actions"
  shows "actions \<in> set action_lists"
proof -
  from assms obtain as where loop: "scope_actions_loop True [] (Split (CHR '','') (TrimSpace raw)) = Inr as"
    and actions: "actions = sort_key action_weight as" and ne: "actions \<noteq> []"
    by (auto simp: normalizeScopeActions_def go_flow Let_def)
  have "distinct ([] :: string list)" by simp
  from scope_actions_loop_Inr [OF loop this]
  have dist: "distinct as" and sub: "set as \<subseteq> {actionPull, actionPush, actionDelete}"
    unfolding if_True list.set(1) by blast+
  have "set (map action_weight actions) \<subseteq> {0, 1, 2}"
    using image_mono [OF sub, of action_weight] action_weight_range unfolding actions set_map set_sort by (rule subset_trans)
  moreover have "distinct (map action_weight actions)"
    using dist inj_on_subset [OF action_weight_inj sub] unfolding actions by (simp add: distinct_map)
  moreover have "sorted (map action_weight actions)" unfolding actions by simp
  ultimately have cases: "map action_weight actions \<in> {[], [0], [1], [2], [0, 1], [0, 2], [1, 2], [0, 1, 2]}"
    by (intro small_sorted_lists)
  have "[actionPull, actionPush, actionDelete] ! action_weight a = a" if "a \<in> set actions" for a
    using sub that unfolding actions set_sort by (intro action_weight_inv) blast
  then have eq: "action_list_of (map action_weight actions) = actions"
    unfolding action_list_of_def map_map o_def by (intro map_idI)
  have "map action_weight actions \<noteq> []" using ne by simp
  with cases have "action_list_of (map action_weight actions) \<in> set action_lists"
    by (rule action_list_of_weights)
  then show ?thesis unfolding eq .
qed

lemma normalizeScopeActions_catalog:
  assumes "normalizeScopeActions raw False = Inr actions"
  shows "actions = [actionWildcard]"
proof -
  from assms obtain as where loop: "scope_actions_loop False [] (Split (CHR '','') (TrimSpace raw)) = Inr as"
    and actions: "actions = sort as" and ne: "actions \<noteq> []"
    by (auto simp: normalizeScopeActions_def go_flow Let_def)
  from scope_actions_loop_Inr [OF loop] have sub: "set as \<subseteq> {actionWildcard}" and "distinct as" by auto
  moreover from ne actions have "as \<noteq> []" by auto
  ultimately have "as = [actionWildcard]"
    by (cases as rule: list.exhaust; cases "tl as") auto
  then show ?thesis using actions by simp
qed

lemma normalizeScopeActions_id:
  assumes "actions \<in> set action_lists"
  shows "normalizeScopeActions (Join '','' actions) True = Inr actions"
proof -
  have "list_all (\<lambda>as. normalizeScopeActions (Join '','' as) True = Inr as) action_lists"
    by code_simp
  then show ?thesis using assms by (simp add: list_all_iff)
qed

lemma normalizeScopeActions_wildcard: "normalizeScopeActions ''*'' False = Inr [''*'']"
  by code_simp

text \<open>Texts without a byte that starts a white-space character.\<close>

definition plain :: "string \<Rightarrow> bool" where
  "plain s \<longleftrightarrow> (\<forall>c \<in> set s. \<not> space_edge c)"

lemma plain_append [simp]: "plain (s @ t) \<longleftrightarrow> plain s \<and> plain t"
  by (auto simp: plain_def)

lemma plain_space_at: "plain s \<Longrightarrow> s \<noteq> [] \<Longrightarrow> space_at go_spaces (s @ t) = None"
  by (cases s; cases "space_at go_spaces (s @ t)") (auto simp: plain_def space_edge_def dest: space_at_hd)

lemma fields_from_plain: "plain s \<Longrightarrow> fields_from cur (s @ t) = fields_from (rev s @ cur) t"
proof (induction s arbitrary: cur)
  case (Cons c s)
  then have "space_at go_spaces (c # s @ t) = None" using plain_space_at [of "c # s" t] by simp
  with Cons show ?case by (simp add: plain_def)
qed simp

lemma space_at_blank: "space_at go_spaces (CHR '' '' # s) = Some '' ''"
  by (simp add: space_at_def go_spaces_def HasPrefix_def)

lemma fields_from_Join:
  "list_all (\<lambda>s. s \<noteq> [] \<and> plain s) ps \<Longrightarrow> fields_from [] (Join '' '' ps) = ps"
proof (induction ps)
  case (Cons p ps)
  show ?case
  proof (cases ps)
    case Nil
    then show ?thesis using Cons.prems fields_from_plain [of p "[]" "[]"] by auto
  next
    case (Cons q qs)
    then show ?thesis using Cons.prems Cons.IH fields_from_plain [of p "[]" "'' '' @ Join '' '' ps"]
      by (auto simp: space_at_blank)
  qed
qed simp

lemma Fields_Join: "list_all (\<lambda>s. s \<noteq> [] \<and> plain s) ps \<Longrightarrow> Fields (Join '' '' ps) = ps"
  by (simp add: Fields_def fields_from_Join)

lemma TrimSpace_plain: "plain s \<Longrightarrow> TrimSpace s = s"
  by (rule TrimSpace_id) (auto simp: plain_def)

lemma Join_edges:
  assumes "ps \<noteq> []" and "\<forall>p \<in> set ps. p \<noteq> []"
  shows "Join sep ps \<noteq> [] \<and> hd (Join sep ps) = hd (hd ps) \<and> last (Join sep ps) = last (last ps)"
  using assms
proof (induction ps)
  case (Cons p ps)
  then show ?case by (cases ps) auto
qed simp

lemma TrimSpace_Join_plain:
  assumes "list_all (\<lambda>s. s \<noteq> [] \<and> plain s) ps"
  shows "TrimSpace (Join '' '' ps) = Join '' '' ps"
proof (cases "ps = []")
  case False
  have p: "p \<noteq> [] \<and> plain p" if "p \<in> set ps" for p using assms that by (auto simp: list_all_iff)
  have "hd ps \<noteq> [] \<and> plain (hd ps)" "last ps \<noteq> [] \<and> plain (last ps)" using p False by auto
  then have "\<not> space_edge (hd (hd ps)) \<and> \<not> space_edge (last (last ps))" by (auto simp: plain_def)
  with Join_edges [of ps "'' ''"] False p show ?thesis by (intro TrimSpace_id) auto
qed simp

text \<open>Repository names are plain and hold no colon.\<close>

lemma repository_name_chars:
  assumes "ParseRepositoryRef v = Inr r" and "c \<in> set v"
  shows "segment_char c \<or> segment_sep c \<or> c = CHR ''/''"
proof (rule ccontr)
  assume *: "\<not> ?thesis"
  obtain xs ys where v: "v = xs @ c # ys" using assms(2) by (meson split_list)
  have "\<exists>p \<in> set (Split (CHR ''/'') (xs @ c # ys)). c \<in> set p"
    using * by (induction xs) (auto split: list.splits)
  then obtain p where "p \<in> set (Split (CHR ''/'') v)" and c: "c \<in> set p" using v by blast
  then have "segment_word p"
    using assms(1) by (auto simp: ParseRepositoryRef_Inr list_all_iff repositorySegmentPattern_def)
  then have "list_all (\<lambda>c. segment_char c \<or> segment_sep c) p" by (rule segment_chars)
  with c * show False by (auto simp: list_all_iff)
qed

lemma segment_sep_no_space: "segment_sep c \<Longrightarrow> \<not> space_edge c"
  by (auto simp: segment_sep_def space_edge_def go_spaces_def)

lemma repository_name_plain:
  assumes "ParseRepositoryRef v = Inr r"
  shows "plain v" and "CHR '':'' \<notin> set v" and "v \<noteq> []"
proof -
  show "plain v"
    using repository_name_chars [OF assms]
    by (fastforce simp: plain_def space_edge_def go_spaces_def
        dest: segment_char_no_space segment_sep_no_space)
  show "CHR '':'' \<notin> set v"
    using repository_name_chars [OF assms, of "CHR '':''"]
    by (auto simp: segment_char_def segment_sep_def is_lower_def is_digit_def in_range_def)
  show "v \<noteq> []" using assms by (simp add: ParseRepositoryRef_Inr)
qed

lemma action_lists_text:
  assumes "actions \<in> set action_lists"
  shows "plain (Join '','' actions)" and "CHR '':'' \<notin> set (Join '','' actions)"
    and "Join '','' actions \<noteq> []"
proof -
  have "list_all (\<lambda>as. plain (Join '','' as) \<and> CHR '':'' \<notin> set (Join '','' as)
      \<and> Join '','' as \<noteq> []) action_lists"
    by code_simp
  then show "plain (Join '','' actions)" "CHR '':'' \<notin> set (Join '','' actions)"
    "Join '','' actions \<noteq> []" using assms by (auto simp: list_all_iff)
qed

lemma plain_words: "plain ''repository:''" "plain ''repository''" "plain '':''"
  by code_simp+

lemma repository_canonical_split:
  assumes "ParseRepositoryRef n = Inr r" and "actions \<in> set action_lists"
  shows "Split (CHR '':'') (repository_canonical n actions) = [''repository'', n, Join '','' actions]"
proof -
  have eq: "repository_canonical n actions = ''repository'' @ CHR '':'' # n @ CHR '':'' # Join '','' actions"
    by (simp add: repository_canonical_def)
  show ?thesis unfolding eq
    using repository_name_plain(2) [OF assms(1)] action_lists_text(2) [OF assms(2)]
    by (subst Split_append_sep) (simp_all add: Split_append_sep Split_no_sep)
qed

lemma repository_canonical_plain:
  assumes "ParseRepositoryRef n = Inr r" and "actions \<in> set action_lists"
  shows "plain (repository_canonical n actions)"
  using repository_name_plain(1) [OF assms(1)] action_lists_text(1) [OF assms(2)]
  unfolding repository_canonical_def plain_append by (simp add: plain_words)

lemma ParseScope_well_scoped:
  assumes "ParseScope raw = Inr s"
  shows "well_scoped s
    \<and> scope_repository s = \<lparr>repo_Name = (if IsRepository s then scope_Name s else [])\<rparr>"
proof -
  from assms obtain p0 p1 p2 where "Split (CHR '':'') (TrimSpace raw) = [p0, p1, p2]"
    by (auto simp: ParseScope_def split: list.splits)
  with assms consider
      (repo) r actions where "ParseRepositoryRef (TrimSpace p1) = Inr r"
        "normalizeScopeActions p2 True = Inr actions"
        "s = \<lparr>scope_Type = scopeTypeRepository, scope_Name = repo_Name r, scope_Actions = actions,
             scope_Canonical = scopeTypeRepository @ '':'' @ repo_Name r @ '':'' @ Join '','' actions,
             scope_repository = r\<rparr>"
    | (cat) actions where "TrimSpace p1 = actionCatalog" "normalizeScopeActions p2 False = Inr actions"
        "s = \<lparr>scope_Type = scopeTypeRegixtry, scope_Name = TrimSpace p1, scope_Actions = actions,
             scope_Canonical = scopeTypeRegixtry @ '':'' @ TrimSpace p1 @ '':'' @ Join '','' actions,
             scope_repository = \<lparr>repo_Name = []\<rparr>\<rparr>"
    by (auto simp: ParseScope_def Let_def go_flow split: if_splits)
  then show ?thesis
  proof cases
    case repo
    then show ?thesis
      using normalizeScopeActions_repository [OF repo(2)]
      by (auto simp: well_scoped_def scope_core_def repository_canonical_def IsRepository_def
          scopeTypeRepository_def ParseRepositoryRef_Inr)
  next
    case cat
    then show ?thesis
      using normalizeScopeActions_catalog [OF cat(2)]
      by (auto simp: well_scoped_def scope_core_def IsRepository_def action_names)
  qed
qed

lemma well_scoped_reparse:
  assumes "well_scoped s"
  shows "\<exists>t. ParseScope (scope_Canonical s) = Inr t \<and> scope_core t = scope_core s"
  using assms unfolding well_scoped_def
proof (elim disjE exE conjE)
  fix r actions
  assume r: "ParseRepositoryRef (scope_Name s) = Inr r" and a: "actions \<in> set action_lists"
    and core: "scope_core s = (''repository'', scope_Name s, actions, repository_canonical (scope_Name s) actions)"
  let ?t = "\<lparr>scope_Type = ''repository'', scope_Name = scope_Name s, scope_Actions = actions,
     scope_Canonical = repository_canonical (scope_Name s) actions, scope_repository = r\<rparr>"
  have "scopeTypeRepository @ '':'' @ scope_Name s @ '':'' @ Join '','' actions
      = repository_canonical (scope_Name s) actions"
    by (simp add: repository_canonical_def scopeTypeRepository_def)
  then have "ParseScope (repository_canonical (scope_Name s) actions) = Inr ?t"
    using repository_canonical_split [OF r a] repository_name_plain(3) [OF r] r
      ParseRepositoryRef_Name [OF r] normalizeScopeActions_id [OF a]
    by (simp add: ParseScope_def Let_def TrimSpace_plain repository_canonical_plain [OF r a]
        repository_name_plain(1) [OF r] plain_words scopeTypeRepository_def)
  then show ?thesis using core by (auto simp: scope_core_def)
next
  assume core: "scope_core s = (''regixtry'', ''catalog'', [''*''], ''regixtry:catalog:*'')"
  have "ParseScope ''regixtry:catalog:*'' =
    Inr \<lparr>scope_Type = ''regixtry'', scope_Name = ''catalog'', scope_Actions = [''*''],
         scope_Canonical = ''regixtry:catalog:*'', scope_repository = \<lparr>repo_Name = []\<rparr>\<rparr>"
    by code_simp
  with core show ?thesis by (auto simp: scope_core_def)
qed

text \<open>Parsing the canonical text of a parsed scope gives the scope back, every field included.\<close>

lemma ParseScope_canonical:
  assumes "ParseScope raw = Inr s"
  shows "ParseScope (scope_Canonical s) = Inr s"
proof -
  obtain t where t: "ParseScope (scope_Canonical s) = Inr t" "scope_core t = scope_core s"
    using ParseScope_well_scoped [OF assms] well_scoped_reparse by blast
  have "scope_repository t = scope_repository s"
    using ParseScope_well_scoped [OF assms] ParseScope_well_scoped [OF t(1)] t(2)
    by (auto simp: well_scoped_def scope_core_def IsRepository_def scopeTypeRepository_def)
  with t show ?thesis by (cases s; cases t) (simp add: scope_core_def)
qed

lemma well_scoped_text:
  assumes "well_scoped s"
  shows "scope_Canonical s \<noteq> []" and "plain (scope_Canonical s)"
proof -
  have "plain ''regixtry:catalog:*''" by code_simp
  with assms show "plain (scope_Canonical s)"
    by (auto simp: well_scoped_def scope_core_def repository_canonical_plain)
  from assms show "scope_Canonical s \<noteq> []"
    by (auto simp: well_scoped_def scope_core_def repository_canonical_def)
qed

lemma distinct_canonical_set:
  "set (distinct_canonical seen ss) = scope_Canonical ` set ss - {[]} - set seen"
  "distinct (distinct_canonical seen ss)"
  by (induction seen ss rule: distinct_canonical.induct) auto

lemma ParseScopes_texts:
  assumes "list_all (\<lambda>t. t \<noteq> [] \<and> plain t) ts"
  shows "ParseScopes [Join '' '' ts] = check_all ParseScope ts"
proof -
  have "filter (\<lambda>c. c \<noteq> []) ts = ts" using assms by (auto simp: list_all_iff filter_id_conv)
  then show ?thesis using assms by (simp add: ParseScopes_def TrimSpace_Join_plain Fields_Join)
qed

lemma ParseScopes_well_scoped:
  assumes "ParseScopes vs = Inr ss" and "s \<in> set ss"
  shows "well_scoped s" and "ParseScope (scope_Canonical s) = Inr s"
proof -
  obtain raw where "ParseScope raw = Inr s"
    using assms unfolding ParseScopes_def by (blast dest: check_all_set)
  then show "well_scoped s" "ParseScope (scope_Canonical s) = Inr s"
    using ParseScope_well_scoped ParseScope_canonical by blast+
qed

lemma check_all_map:
  "(\<And>x. x \<in> set xs \<Longrightarrow> f (g x) = Inr x) \<Longrightarrow> check_all f (map g xs) = Inr xs"
  by (induction xs) auto

lemma ParseScopes_Normalize:
  assumes ss: "ParseScopes vs = Inr ss"
  shows "\<exists>ts. ParseScopes [NormalizeScopes ss] = Inr ts \<and> set ts = set ss \<and> distinct ts"
proof -
  let ?texts = "sort (distinct_canonical [] ss)"
  define orig where "orig = the_inv_into (set ss) scope_Canonical"
  have set_texts: "set (distinct_canonical [] ss) = scope_Canonical ` set ss"
    using ParseScopes_well_scoped [OF ss] well_scoped_text(1) by (auto simp: distinct_canonical_set)
  have inj: "inj_on scope_Canonical (set ss)"
    using ParseScopes_well_scoped(2) [OF ss] by (metis inj_onI sum.inject(2))
  have orig: "orig (scope_Canonical s) = s" if "s \<in> set ss" for s
    unfolding orig_def using that inj by (simp add: the_inv_into_f_f)
  have texts: "list_all (\<lambda>t. t \<noteq> [] \<and> plain t) ?texts"
    using ParseScopes_well_scoped [OF ss] well_scoped_text unfolding list_all_iff set_sort set_texts by auto
  have eq: "?texts = map scope_Canonical (map orig ?texts)"
    unfolding map_map by (rule map_idI [symmetric]) (auto simp: set_texts orig)
  have "check_all ParseScope (map scope_Canonical (map orig ?texts)) = Inr (map orig ?texts)"
    by (rule check_all_map) (auto simp: set_texts orig ParseScopes_well_scoped(2) [OF ss])
  then have "ParseScopes [Join '' '' ?texts] = Inr (map orig ?texts)"
    using ParseScopes_texts [OF texts] eq by metis
  moreover have "NormalizeScopes ss = Join '' '' ?texts" by (simp add: NormalizeScopes_def)
  moreover have "set (map orig ?texts) = set ss" by (auto simp: set_texts orig image_iff)
  moreover have "distinct (map orig ?texts)"
    by (simp add: distinct_map distinct_canonical_set inj_on_def) (use set_texts orig in auto)
  ultimately show ?thesis by metis
qed

lemma sort_eq_Nil: "sort xs = [] \<longleftrightarrow> xs = []"
  by (metis set_empty set_sort)

lemma NormalizeScopes_trimmed:
  assumes "ParseScopes vs = Inr ss"
  shows "TrimSpace (NormalizeScopes ss) = NormalizeScopes ss" and "NormalizeScopes ss = [] \<longleftrightarrow> ss = []"
proof -
  have texts: "list_all (\<lambda>t. t \<noteq> [] \<and> plain t) (sort (distinct_canonical [] ss))"
    using ParseScopes_well_scoped [OF assms] well_scoped_text by (auto simp: list_all_iff distinct_canonical_set)
  then show "TrimSpace (NormalizeScopes ss) = NormalizeScopes ss"
    by (simp add: NormalizeScopes_def TrimSpace_Join_plain)
  have "sort (distinct_canonical [] ss) \<noteq> []" if "ss \<noteq> []"
    using that ParseScopes_well_scoped(1) [OF assms] well_scoped_text(1)
      distinct_canonical_set(1) [of "[]" ss] by (cases ss) (auto simp: sort_eq_Nil)
  then show "NormalizeScopes ss = [] \<longleftrightarrow> ss = []"
    using Join_edges [of "sort (distinct_canonical [] ss)" "'' ''"] texts
    by (auto simp: NormalizeScopes_def list_all_iff)
qed

section \<open>Scopes on tokens\<close>

text \<open>
  C17: A token stores its scopes as one line of text (the normalised form). Reading them back from
  the token yields the same scopes, each once, whatever text the scopes were parsed from.
\<close>

theorem token_scopes_roundtrip:
  assumes "ParseScopes requested = Inr scopes" and "tok_Scope t = NormalizeScopes scopes"
  shows "\<exists>stored. Token_Scopes t = Inr stored \<and> set stored = set scopes \<and> distinct stored"
proof (cases "scopes = []")
  case True
  then show ?thesis using assms(2) by (simp add: Token_Scopes_def NormalizeScopes_def)
next
  case False
  then show ?thesis
    using ParseScopes_Normalize [OF assms(1)] NormalizeScopes_trimmed [OF assms(1)] assms(2)
    by (simp add: Token_Scopes_def)
qed

definition example_request :: "string list" where
  "example_request = [''repository:team/app:push,pull,push regixtry:catalog:*'', '' repository:team/app:pull,push'']"

definition example_scopes :: "Scope list" where
  "example_scopes =
     [\<lparr>scope_Type = ''repository'', scope_Name = ''team/app'', scope_Actions = [''pull'', ''push''],
        scope_Canonical = ''repository:team/app:pull,push'', scope_repository = \<lparr>repo_Name = ''team/app''\<rparr>\<rparr>,
      \<lparr>scope_Type = ''regixtry'', scope_Name = ''catalog'', scope_Actions = [''*''],
        scope_Canonical = ''regixtry:catalog:*'', scope_repository = \<lparr>repo_Name = []\<rparr>\<rparr>,
      \<lparr>scope_Type = ''repository'', scope_Name = ''team/app'', scope_Actions = [''pull'', ''push''],
        scope_Canonical = ''repository:team/app:pull,push'', scope_repository = \<lparr>repo_Name = ''team/app''\<rparr>\<rparr>]"

lemma example_scopes_parse: "ParseScopes example_request = Inr example_scopes"
  by code_simp

theorem token_scopes_roundtrip_witness:
  "\<exists>stored. Token_Scopes \<lparr>tok_ID = ''t1'', tok_UserID = ''u1'', tok_Kind = TokenKindAccess, tok_Name = [],
       tok_Scope = NormalizeScopes example_scopes, tok_Accessor = ''a'', tok_SecretHash = ''h'',
       tok_ExpiresAt = 2, tok_CreatedAt = 1, tok_RevokedAt = None\<rparr> = Inr stored
     \<and> set stored = set example_scopes \<and> distinct stored"
  by (rule token_scopes_roundtrip [OF example_scopes_parse]) simp

end
