(* ===== verification/Access_Control.thy ===== *)
theory Access_Control
  imports Auth_Domain
begin

text \<open>
  Access decisions: the actions and challenges of \<open>internal/ports/regixtry.go\<close>, the controllers
  of \<open>internal/ports/defaults.go\<close>, and the controller of the local operator tools in
  \<open>cmd/regixtry/main.go\<close>.

  The interface \<open>AccessController\<close> is the locale \<open>access_controller\<close>: what the registry
  service relies on is that a refusal is an error of the code \<open>ErrorCodeUnauthorized\<close>. The
  three controllers interpret it. The locale \<open>principal_controller\<close> adds the contract of the
  controller that is in force when authentication is on: a change needs a principal who holds
  both the grant and the scope.
\<close>

section \<open>Actions and challenges\<close>

datatype ActionVerb = ActionPull | ActionPush | ActionDelete | ActionCatalog | ActionInspect
  | ActionOther string

record Action =
  act_Verb :: ActionVerb
  act_Repository :: string
  act_Principal :: "Principal option"

record Challenge =
  ch_Scheme :: string
  ch_Realm :: string
  ch_Service :: string
  ch_Scope :: string
  ch_Error :: string

text \<open>A request context carries the principal the router put there, if any.\<close>

record request_context =
  ctx_principal :: "Principal option"

definition ContextWithPrincipal :: "request_context \<Rightarrow> Principal \<Rightarrow> request_context" where
  "ContextWithPrincipal ctx prin = ctx\<lparr>ctx_principal := Some prin\<rparr>"

definition PrincipalFromContext :: "request_context \<Rightarrow> Principal option" where
  "PrincipalFromContext ctx = ctx_principal ctx"

definition WithPrincipal :: "Action \<Rightarrow> Principal option \<Rightarrow> Action" where
  "WithPrincipal a prin = a\<lparr>act_Principal := prin\<rparr>"

definition Action_Scope :: "Action \<Rightarrow> string" where
  "Action_Scope a = (case act_Verb a of
       ActionCatalog \<Rightarrow> ''regixtry:catalog:*''
     | ActionPull \<Rightarrow> if act_Repository a = [] then [] else ''repository:'' @ act_Repository a @ '':pull''
     | ActionInspect \<Rightarrow> if act_Repository a = [] then [] else ''repository:'' @ act_Repository a @ '':pull''
     | ActionPush \<Rightarrow> if act_Repository a = [] then []
         else ''repository:'' @ act_Repository a @ '':pull,push''
     | ActionDelete \<Rightarrow> if act_Repository a = [] then []
         else ''repository:'' @ act_Repository a @ '':delete''
     | ActionOther _ \<Rightarrow> [])"

section \<open>The controllers\<close>

definition DefaultTenant :: string where "DefaultTenant = ''default''"

definition NewSingleTenantResolver :: "string \<Rightarrow> string" where
  "NewSingleTenantResolver tenant = (if tenant = [] then DefaultTenant else tenant)"

record AccessConfig =
  ac_AllowAnonymousPull :: bool
  ac_AllowAnonymousPush :: bool
  ac_Realm :: string
  ac_Service :: string

record configurableAccessController =
  cc_allowAnonymousPull :: bool
  cc_allowAnonymousPush :: bool
  cc_challenge :: Challenge

definition NewConfigurableAccessController :: "AccessConfig \<Rightarrow> configurableAccessController" where
  "NewConfigurableAccessController config =
     \<lparr>cc_allowAnonymousPull = ac_AllowAnonymousPull config,
      cc_allowAnonymousPush = ac_AllowAnonymousPush config,
      cc_challenge = \<lparr>ch_Scheme = ''Bearer'',
        ch_Realm = (if ac_Realm config = [] then ''regixtry'' else ac_Realm config),
        ch_Service = (if ac_Service config = [] then ''regixtry'' else ac_Service config),
        ch_Scope = [], ch_Error = []\<rparr>\<rparr>"

definition configurable_Authorize :: "configurableAccessController \<Rightarrow> Action \<Rightarrow> unit result" where
  "configurable_Authorize c action =
     (if act_Principal action \<noteq> None then Inr ()
      else if (act_Verb action = ActionPull \<or> act_Verb action = ActionInspect
               \<or> act_Verb action = ActionCatalog) \<and> cc_allowAnonymousPull c then Inr ()
      else if act_Verb action = ActionPush \<and> cc_allowAnonymousPush c then Inr ()
      else Inl (NewUnauthorizedError ''authentication required''))"

definition configurable_Challenge :: "configurableAccessController \<Rightarrow> Action \<Rightarrow> Challenge" where
  "configurable_Challenge c action = (cc_challenge c)\<lparr>ch_Scope := Action_Scope action\<rparr>"

definition NewPrincipalAccessController :: "Challenge \<Rightarrow> Challenge" where
  "NewPrincipalAccessController challenge = challenge
     \<lparr>ch_Scheme := (if ch_Scheme challenge = [] then ''Bearer'' else ch_Scheme challenge),
      ch_Realm := (if ch_Realm challenge = [] then ''regixtry'' else ch_Realm challenge),
      ch_Service := (if ch_Service challenge = [] then ''regixtry'' else ch_Service challenge)\<rparr>"

definition principal_Authorize :: "Action \<Rightarrow> unit result" where
  "principal_Authorize action =
     (case act_Principal action of
        None \<Rightarrow> Inl (NewUnauthorizedError ''authentication required'')
      | Some prin \<Rightarrow>
          if (case act_Verb action of
                ActionCatalog \<Rightarrow> CanAccessCatalog prin
              | ActionPull \<Rightarrow> act_Repository action = [] \<or> HasReadAccess prin (act_Repository action)
              | ActionInspect \<Rightarrow> act_Repository action = [] \<or> HasReadAccess prin (act_Repository action)
              | ActionPush \<Rightarrow> act_Repository action \<noteq> [] \<and> HasWriteAccess prin (act_Repository action)
              | ActionDelete \<Rightarrow> act_Repository action \<noteq> [] \<and> HasDeleteAccess prin (act_Repository action)
              | ActionOther _ \<Rightarrow> False)
          then Inr () else Inl (NewUnauthorizedError ''authorization required''))"

definition principal_Challenge :: "Challenge \<Rightarrow> Action \<Rightarrow> Challenge" where
  "principal_Challenge c action = c\<lparr>ch_Scope := Action_Scope action\<rparr>"

definition localOperator_Authorize :: "Action \<Rightarrow> unit result" where
  "localOperator_Authorize action = Inr ()"

section \<open>The interface\<close>

locale access_controller =
  fixes Authorize :: "Action \<Rightarrow> unit result"
  assumes refusal_code: "Authorize action = Inl e \<Longrightarrow> IsCode e ErrorCodeUnauthorized"
begin

text \<open>A decision is either a permission or a refusal the router answers with a challenge.\<close>

lemma decision: "Authorize action = Inr () \<or> (\<exists>m. Authorize action = Inl (RegError ErrorCodeUnauthorized m))"
proof (cases "Authorize action")
  case (Inl e)
  then have "IsCode e ErrorCodeUnauthorized" by (rule refusal_code)
  then show ?thesis using Inl by (cases e) auto
qed simp

end

locale principal_controller = access_controller +
  assumes push_needs: "Authorize \<lparr>act_Verb = ActionPush, act_Repository = r, act_Principal = po\<rparr> = Inr u
      \<Longrightarrow> \<exists>p. po = Some p \<and> HasWriteAccess p r"
    and delete_needs: "Authorize \<lparr>act_Verb = ActionDelete, act_Repository = r, act_Principal = po\<rparr> = Inr u
      \<Longrightarrow> \<exists>p. po = Some p \<and> HasDeleteAccess p r"
    and pull_needs: "Authorize \<lparr>act_Verb = ActionPull, act_Repository = r, act_Principal = po\<rparr> = Inr u
      \<Longrightarrow> \<exists>p. po = Some p \<and> (r = [] \<or> HasReadAccess p r)"
begin

text \<open>A change of a repository needs a grant that allows writing, whatever the scopes say.\<close>

lemma change_needs_grant:
  assumes "v = ActionPush \<or> v = ActionDelete"
    and "Authorize \<lparr>act_Verb = v, act_Repository = r, act_Principal = po\<rparr> = Inr u"
  shows "\<exists>p. po = Some p \<and> HasGrantedWriteAccess p r"
  using assms push_needs [of r po] delete_needs [of r po]
  unfolding HasWriteAccess_def HasDeleteAccess_def HasGrantedWriteAccess_def by blast

lemma anonymous_refused:
  assumes "v = ActionPush \<or> v = ActionDelete \<or> v = ActionPull"
  shows "\<exists>m. Authorize \<lparr>act_Verb = v, act_Repository = r, act_Principal = None\<rparr>
      = Inl (RegError ErrorCodeUnauthorized m)"
  using decision [of "\<lparr>act_Verb = v, act_Repository = r, act_Principal = None\<rparr>"]
    push_needs [of r None] delete_needs [of r None] pull_needs [of r None] assms by auto

end

interpretation configurable: access_controller "configurable_Authorize c" for c
  by unfold_locales (auto simp: configurable_Authorize_def reg_error_defs split: if_splits)

interpretation local_operator: access_controller localOperator_Authorize
  by unfold_locales (simp add: localOperator_Authorize_def)

interpretation principal: principal_controller principal_Authorize
  by unfold_locales
    (auto simp: principal_Authorize_def reg_error_defs split: option.splits if_splits ActionVerb.splits)

section \<open>What access means\<close>

lemma granted_iff:
  "hasGrantedRepositoryAccess p r allows \<longleftrightarrow>
     pr_IsAdmin p \<or> (pr_IsReadOnly p \<and> allows RepoRoleReader)
     \<or> (\<exists>g \<in> set (pr_Grants p). repo_Name (grant_Repository g) = r \<and> allows (grant_Role g))"
  by (auto simp: hasGrantedRepositoryAccess_def list_ex_iff)

lemma scope_allows_iff:
  "scopeAllowsRepository p r allows \<longleftrightarrow>
     (\<exists>s \<in> set (pr_Scopes p). IsRepository s \<and> scope_Name s = r \<and> allows s)"
  by (auto simp: scopeAllowsRepository_def list_ex_iff)

lemma has_action_iff:
  "AllowsPull s \<longleftrightarrow> actionPull \<in> set (scope_Actions s)"
  "AllowsPush s \<longleftrightarrow> actionPush \<in> set (scope_Actions s)"
  "AllowsDelete s \<longleftrightarrow> actionDelete \<in> set (scope_Actions s)"
  by (auto simp: AllowsPull_def AllowsPush_def AllowsDelete_def hasAction_def list_ex_iff)

lemmas access_defs = HasReadAccess_def HasWriteAccess_def HasDeleteAccess_def
  HasGrantedWriteAccess_def HasRepoAdminAccess_def HasCatalogAccess_def

text \<open>
  Raising the roles of a principal's grants, adding grants or adding scopes never takes an access
  away. \<open>stronger p q\<close>: \<open>q\<close> has everything \<open>p\<close> has.
\<close>

definition stronger :: "Principal \<Rightarrow> Principal \<Rightarrow> bool" where
  "stronger p q \<longleftrightarrow>
     (pr_IsAdmin p \<longrightarrow> pr_IsAdmin q) \<and> (pr_IsReadOnly p \<longrightarrow> pr_IsReadOnly q)
     \<and> (\<forall>g \<in> set (pr_Grants p). \<exists>h \<in> set (pr_Grants q).
           grant_Repository h = grant_Repository g \<and> grant_Role g \<le> grant_Role h)
     \<and> set (pr_Scopes p) \<subseteq> set (pr_Scopes q)"

lemma granted_mono:
  assumes "stronger p q" and "hasGrantedRepositoryAccess p r allows"
    and "\<And>x y. x \<le> y \<Longrightarrow> allows x \<Longrightarrow> allows y"
  shows "hasGrantedRepositoryAccess q r allows"
  using assms unfolding granted_iff stronger_def by metis

lemma scope_mono:
  "stronger p q \<Longrightarrow> scopeAllowsRepository p r allows \<Longrightarrow> scopeAllowsRepository q r allows"
  unfolding scope_allows_iff stronger_def by blast

lemma catalog_mono: "stronger p q \<Longrightarrow> CanAccessCatalog p \<Longrightarrow> CanAccessCatalog q"
  unfolding CanAccessCatalog_def scopeAllowsCatalog_def list_ex_iff stronger_def by (auto split: if_splits)

lemma access_mono:
  assumes "stronger p q"
  shows "HasReadAccess p r \<Longrightarrow> HasReadAccess q r" and "HasWriteAccess p r \<Longrightarrow> HasWriteAccess q r"
    and "HasDeleteAccess p r \<Longrightarrow> HasDeleteAccess q r"
    and "HasRepoAdminAccess p r \<Longrightarrow> HasRepoAdminAccess q r"
  using granted_mono [OF assms] scope_mono [OF assms] role_allows_mono
  unfolding access_defs by (metis (full_types))+

text \<open>A principal with one role on one repository and a scope for it, for the examples.\<close>

definition example_principal :: "RepoRole \<Rightarrow> string list \<Rightarrow> Principal" where
  "example_principal role actions =
     \<lparr>pr_Subject = ''u1'', pr_UserID = ''u1'', pr_Username = ''dev'', pr_IsAdmin = False,
      pr_IsReadOnly = False,
      pr_Grants = [\<lparr>grant_UserID = ''u1'', grant_Repository = \<lparr>repo_Name = ''team/app''\<rparr>,
         grant_Role = role, grant_CreatedAt = 1, grant_UpdatedAt = 1\<rparr>],
      pr_Scopes = [\<lparr>scope_Type = ''repository'', scope_Name = ''team/app'', scope_Actions = actions,
         scope_Canonical = repository_canonical ''team/app'' actions,
         scope_repository = \<lparr>repo_Name = ''team/app''\<rparr>\<rparr>],
      pr_ExpiresAt = 10\<rparr>"



text \<open>
  C15: Deleting is its own permission: a principal who may delete in a repository holds a scope that
  names the repository and the action delete, and a grant that allows writing or the global
  admin role; the pull and push scopes and the read-only role never suffice.
\<close>

theorem delete_needs_delete_scope:
  assumes "principal_Authorize \<lparr>act_Verb = ActionDelete, act_Repository = r, act_Principal = po\<rparr> = Inr ()"
  shows "\<exists>p. po = Some p
     \<and> (\<exists>s \<in> set (pr_Scopes p). IsRepository s \<and> scope_Name s = r \<and> actionDelete \<in> set (scope_Actions s))
     \<and> (pr_IsAdmin p \<or> (\<exists>g \<in> set (pr_Grants p). repo_Name (grant_Repository g) = r
            \<and> (grant_Role g = RepoRoleWriter \<or> grant_Role g = RepoRoleAdmin)))"
proof -
  obtain p where p: "po = Some p" "HasDeleteAccess p r" using principal.delete_needs [OF assms] by blast
  then show ?thesis
    by (auto simp: HasDeleteAccess_def granted_iff scope_allows_iff has_action_iff AllowsWrite_def)
qed

theorem delete_needs_delete_scope_witness:
  "\<exists>p. Some (example_principal RepoRoleWriter [''delete'']) = Some p
     \<and> (\<exists>s \<in> set (pr_Scopes p). IsRepository s \<and> scope_Name s = ''team/app''
          \<and> actionDelete \<in> set (scope_Actions s))
     \<and> (pr_IsAdmin p \<or> (\<exists>g \<in> set (pr_Grants p). repo_Name (grant_Repository g) = ''team/app''
            \<and> (grant_Role g = RepoRoleWriter \<or> grant_Role g = RepoRoleAdmin)))"
  by (rule delete_needs_delete_scope) code_simp

section \<open>Challenges\<close>

lemma ParseScopes_single:
  "ParseScope t = Inr s \<Longrightarrow> t \<noteq> [] \<Longrightarrow> plain t \<Longrightarrow> ParseScopes [t] = Inr [s]"
  using ParseScopes_texts [of "[t]"] by simp

lemma repository_scope_parses:
  assumes "ParseRepositoryRef name = Inr r" and "actions \<in> set action_lists"
  shows "ParseScopes [repository_canonical name actions] =
    Inr [\<lparr>scope_Type = ''repository'', scope_Name = name, scope_Actions = actions,
          scope_Canonical = repository_canonical name actions, scope_repository = r\<rparr>]"
proof -
  let ?s = "\<lparr>scope_Type = ''repository'', scope_Name = name, scope_Actions = actions,
     scope_Canonical = repository_canonical name actions, scope_repository = r\<rparr>"
  have "well_scoped ?s" using assms by (auto simp: well_scoped_def scope_core_def)
  then obtain t where t: "ParseScope (repository_canonical name actions) = Inr t" "scope_core t = scope_core ?s"
    using well_scoped_reparse [of ?s] by auto
  have "scope_repository t = r"
    using ParseScope_well_scoped [OF t(1)] t(2) assms(1)
    by (auto simp: scope_core_def IsRepository_def scopeTypeRepository_def ParseRepositoryRef_Inr)
  with t(2) have "t = ?s" by (cases t) (simp add: scope_core_def)
  with t(1) show ?thesis using repository_canonical_plain [OF assms]
    by (intro ParseScopes_single) (auto simp: repository_canonical_def)
qed

definition verb_granted :: "ActionVerb \<Rightarrow> Principal \<Rightarrow> string \<Rightarrow> bool" where
  "verb_granted v p r = (case v of
       ActionCatalog \<Rightarrow> True
     | ActionPull \<Rightarrow> hasGrantedRepositoryAccess p r AllowsRead
     | ActionInspect \<Rightarrow> hasGrantedRepositoryAccess p r AllowsRead
     | ActionPush \<Rightarrow> hasGrantedRepositoryAccess p r AllowsWrite
     | ActionDelete \<Rightarrow> hasGrantedRepositoryAccess p r AllowsWrite
     | ActionOther _ \<Rightarrow> False)"

lemma catalog_scope_parses:
  "ParseScopes [''regixtry:catalog:*''] =
     Inr [\<lparr>scope_Type = ''regixtry'', scope_Name = ''catalog'', scope_Actions = [''*''],
          scope_Canonical = ''regixtry:catalog:*'', scope_repository = \<lparr>repo_Name = []\<rparr>\<rparr>]"
  by code_simp

lemma action_scope_parses:
  assumes "ParseRepositoryRef r = Inr ref" and "\<forall>t. v \<noteq> ActionOther t"
  shows "\<exists>s. ParseScopes [Action_Scope \<lparr>act_Verb = v, act_Repository = r, act_Principal = po\<rparr>] = Inr [s]
    \<and> (v = ActionCatalog \<longrightarrow> IsRegixtryCatalog s)
    \<and> (v \<noteq> ActionCatalog \<longrightarrow> IsRepository s \<and> scope_Name s = r)
    \<and> ((v = ActionPull \<or> v = ActionInspect) \<longrightarrow> AllowsPull s) \<and> (v = ActionPush \<longrightarrow> AllowsPush s)
    \<and> (v = ActionDelete \<longrightarrow> AllowsDelete s)"
proof -
  have r: "r \<noteq> []" using assms(1) by (simp add: ParseRepositoryRef_Inr)
  note parses = repository_scope_parses [OF assms(1)]
  have pull: "''repository:'' @ r @ '':pull'' = repository_canonical r [actionPull]"
    and push: "''repository:'' @ r @ '':pull,push'' = repository_canonical r [actionPull, actionPush]"
    and del: "''repository:'' @ r @ '':delete'' = repository_canonical r [actionDelete]"
    by (simp_all add: repository_canonical_def action_names)
  have lists: "[actionPull] \<in> set action_lists" "[actionPull, actionPush] \<in> set action_lists"
    "[actionDelete] \<in> set action_lists" by (simp_all add: action_lists_def)
  note scope_facts = has_action_iff IsRepository_def scopeTypeRepository_def r
  show ?thesis
  proof (cases v)
    case ActionCatalog
    then show ?thesis using catalog_scope_parses
      by (simp add: Action_Scope_def IsRegixtryCatalog_def action_names)
  next
    case ActionPush
    then show ?thesis using parses [OF lists(2)] push by (simp add: Action_Scope_def scope_facts)
  next
    case ActionDelete
    then show ?thesis using parses [OF lists(3)] del by (simp add: Action_Scope_def scope_facts)
  qed (use parses [OF lists(1)] pull assms(2) in \<open>simp_all add: Action_Scope_def scope_facts\<close>)
qed



end
