(* ===== verification/Auth_Store.thy ===== *)
theory Auth_Store
  imports Access_Control
begin

text \<open>
  The auth database, \<open>internal/infra/auth/postgres\<close>: the three tables as lists of rows, each
  statement of \<open>store.go\<close> as a function on them, with the keys and references of
  \<open>migrations.go\<close> enforced where a row is written. A statement that fails leaves the tables
  alone, so a write is a function to \<^typ>\<open>'a result\<close>.

  A time column holds the text of \<open>formatTime\<close>; it reads back as the same time, so the rows keep
  the time itself and its text is used where the database orders by the column. The order of
  texts is the one of the database's collation, given by the sort keys \<open>db_collation\<close>.
  Errors of the database itself (connection, disk) are not modelled.

  \<open>auth_inv\<close> is the invariant of the tables. The locale \<open>user_store\<close> states the table of users
  as a finite map from ids to users, which is all the service needs to know of it; \<open>pg\<close> is
  the interpretation on the statements.
\<close>

section \<open>Time as text\<close>

text \<open>The date of a day, counted from 1 January of year 1 (the proleptic Gregorian calendar).\<close>

definition civil_from_days :: "int \<Rightarrow> int \<times> int \<times> int" where
  "civil_from_days day =
     (let z = day + 306; era = z div 146097; doe = z - era * 146097;
          yoe = (doe - doe div 1460 + doe div 36524 - doe div 146096) div 365;
          doy = doe - (365 * yoe + yoe div 4 - yoe div 100); mp = (5 * doy + 2) div 153;
          d = doy - (153 * mp + 2) div 5 + 1; m = (if mp < 10 then mp + 3 else mp - 9)
      in (yoe + era * 400 + (if m \<le> 2 then 1 else 0), m, d))"

definition pad :: "nat \<Rightarrow> int \<Rightarrow> string" where
  "pad width i = (let t = FormatInt i in replicate (width - length t) (CHR ''0'') @ t)"

definition fraction_text :: "int \<Rightarrow> string" where
  "fraction_text f = (if f = 0 then [] else
     CHR ''.'' # rev (dropWhile (\<lambda>c. c = CHR ''0'') (rev (pad 9 f))))"

text \<open>\<open>value.UTC().Format(time.RFC3339Nano)\<close>: the fraction without its trailing zeros.\<close>

definition formatTime :: "time \<Rightarrow> string" where
  "formatTime t =
     (let secs = t div second; sod = secs mod 86400; (y, m, d) = civil_from_days (secs div 86400)
      in pad 4 y @ ''-'' @ pad 2 m @ ''-'' @ pad 2 d @ ''T'' @ pad 2 (sod div 3600) @ '':''
         @ pad 2 (sod mod 3600 div 60) @ '':'' @ pad 2 (sod mod 60)
         @ fraction_text (t mod second) @ ''Z'')"

section \<open>The tables\<close>

record auth_db =
  db_users :: "User list"
  db_tokens :: "Token list"
  db_grants :: "RepoGrant list"
  db_collation :: "string \<Rightarrow> string"

definition unique_violation :: "string \<Rightarrow> go_error" where
  "unique_violation key = OtherError (''duplicate key value violates unique constraint '' @ Quote key)"

definition foreign_key_violation :: "string \<Rightarrow> go_error" where
  "foreign_key_violation key =
     OtherError (''insert or update violates foreign key constraint '' @ Quote key)"

section \<open>Users\<close>

definition Store_HasActiveGlobalAdmin :: "auth_db \<Rightarrow> bool result" where
  "Store_HasActiveGlobalAdmin db =
     Inr (length (filter (\<lambda>u. user_IsAdmin u \<and> user_Enabled u) (db_users db)) > 0)"

definition scanUserRow :: "User \<Rightarrow> User result" where
  "scanUserRow row = check (User_Validate row) (\<lambda>_. Inr row)"

definition Store_ListUsers :: "auth_db \<Rightarrow> User list result" where
  "Store_ListUsers db = check_all scanUserRow
     (sort_key (\<lambda>u. db_collation db (user_Username u)) (filter (\<lambda>u. \<not> user_IsRobot u) (db_users db)))"

definition Store_ListRobots :: "auth_db \<Rightarrow> User list result" where
  "Store_ListRobots db = check_all scanUserRow
     (sort_key (\<lambda>u. db_collation db (user_Username u)) (filter user_IsRobot (db_users db)))"

definition scanUser :: "User option \<Rightarrow> User result" where
  "scanUser row = (case row of None \<Rightarrow> Inl (auth_NewNotFoundError ''user'' [])
     | Some u \<Rightarrow> scanUserRow u)"

definition Store_GetUserByUsername :: "auth_db \<Rightarrow> string \<Rightarrow> User result" where
  "Store_GetUserByUsername db username =
     scanUser (find (\<lambda>u. user_Username u = ToLower (TrimSpace username)) (db_users db))"

definition Store_GetUserByID :: "auth_db \<Rightarrow> string \<Rightarrow> User result" where
  "Store_GetUserByID db userID = scanUser (find (\<lambda>u. user_ID u = TrimSpace userID) (db_users db))"

text \<open>\<^verbatim>\<open>INSERT ... ON CONFLICT(id) DO UPDATE\<close>: the update keeps \<open>created_at\<close>.\<close>

definition user_row_update :: "User \<Rightarrow> User \<Rightarrow> User" where
  "user_row_update row excluded = excluded\<lparr>user_CreatedAt := user_CreatedAt row\<rparr>"

definition upsert_user_row :: "User list \<Rightarrow> User \<Rightarrow> User list" where
  "upsert_user_row rows u =
     (if \<exists>row \<in> set rows. user_ID row = user_ID u
        then map (\<lambda>row. if user_ID row = user_ID u then user_row_update row u else row) rows
      else rows @ [u])"

definition Store_UpsertUser :: "auth_db \<Rightarrow> User \<Rightarrow> auth_db result" where
  "Store_UpsertUser db user0 =
     (let user = user0\<lparr>user_Username := ToLower (TrimSpace (user_Username user0))\<rparr> in
      check (User_Validate user) (\<lambda>_.
      check (guard (\<exists>row \<in> set (db_users db). user_Username row = user_Username user \<and> user_ID row \<noteq> user_ID user)
               (unique_violation ''auth_users_username_key'')) (\<lambda>_.
      Inr (db\<lparr>db_users := upsert_user_row (db_users db) user\<rparr>))))"

definition Store_DeleteUser :: "auth_db \<Rightarrow> string \<Rightarrow> auth_db result" where
  "Store_DeleteUser db userID =
     (let trimmedUserID = TrimSpace userID in
      check (guard (\<not> (\<exists>row \<in> set (db_users db). user_ID row = trimmedUserID))
               (auth_NewNotFoundError ''user'' trimmedUserID)) (\<lambda>_.
      Inr (db\<lparr>db_grants := filter (\<lambda>g. grant_UserID g \<noteq> trimmedUserID) (db_grants db),
               db_tokens := filter (\<lambda>t. tok_UserID t \<noteq> trimmedUserID) (db_tokens db),
               db_users := filter (\<lambda>u. user_ID u \<noteq> trimmedUserID) (db_users db)\<rparr>)))"

section \<open>Grants\<close>

definition scan_grant :: "string \<Rightarrow> RepoGrant \<Rightarrow> RepoGrant result" where
  "scan_grant userID row =
     check (ParseRepositoryRef (repo_Name (grant_Repository row))) (\<lambda>repository.
     let grant = row\<lparr>grant_UserID := userID, grant_Repository := repository\<rparr> in
     check (RepoGrant_Validate grant) (\<lambda>_. Inr grant))"

definition Store_ListRepoGrants :: "auth_db \<Rightarrow> string \<Rightarrow> RepoGrant list result" where
  "Store_ListRepoGrants db userID = check_all (scan_grant userID)
     (sort_key (\<lambda>g. db_collation db (repo_Name (grant_Repository g)))
        (filter (\<lambda>g. grant_UserID g = TrimSpace userID) (db_grants db)))"

definition Store_ListRepoGrantsByRepository :: "auth_db \<Rightarrow> RepositoryRef \<Rightarrow> RepoGrant list result" where
  "Store_ListRepoGrantsByRepository db repository =
     check_all (\<lambda>row. let grant = row\<lparr>grant_Repository := repository\<rparr> in
         check (RepoGrant_Validate grant) (\<lambda>_. Inr grant))
       (sort_key (\<lambda>g. db_collation db (grant_UserID g))
          (filter (\<lambda>g. repo_Name (grant_Repository g) = repo_Name repository) (db_grants db)))"

definition same_grant_key :: "RepoGrant \<Rightarrow> RepoGrant \<Rightarrow> bool" where
  "same_grant_key g h \<longleftrightarrow> grant_UserID g = grant_UserID h
     \<and> repo_Name (grant_Repository g) = repo_Name (grant_Repository h)"

definition upsert_grant_row :: "RepoGrant list \<Rightarrow> RepoGrant \<Rightarrow> RepoGrant list" where
  "upsert_grant_row rows g =
     (if \<exists>row \<in> set rows. same_grant_key row g
        then map (\<lambda>row. if same_grant_key row g
               then row\<lparr>grant_Role := grant_Role g, grant_UpdatedAt := grant_UpdatedAt g\<rparr> else row) rows
      else rows @ [g])"

definition Store_PutRepoGrant :: "auth_db \<Rightarrow> RepoGrant \<Rightarrow> auth_db result" where
  "Store_PutRepoGrant db grant =
     check (RepoGrant_Validate grant) (\<lambda>_.
     check (guard (\<not> (\<exists>u \<in> set (db_users db). user_ID u = grant_UserID grant))
              (foreign_key_violation ''auth_repo_grants_user_id_fkey'')) (\<lambda>_.
     Inr (db\<lparr>db_grants := upsert_grant_row (db_grants db) grant\<rparr>)))"

definition Store_DeleteRepoGrant :: "auth_db \<Rightarrow> string \<Rightarrow> RepositoryRef \<Rightarrow> auth_db result" where
  "Store_DeleteRepoGrant db userID repository =
     (let hit = (\<lambda>g. grant_UserID g = TrimSpace userID
                    \<and> repo_Name (grant_Repository g) = repo_Name repository) in
      check (guard (\<not> (\<exists>g \<in> set (db_grants db). hit g))
               (auth_NewNotFoundError ''grant'' (repo_Name repository))) (\<lambda>_.
      Inr (db\<lparr>db_grants := filter (\<lambda>g. \<not> hit g) (db_grants db)\<rparr>)))"

section \<open>Tokens\<close>

definition Store_CreateToken :: "auth_db \<Rightarrow> Token \<Rightarrow> auth_db result" where
  "Store_CreateToken db token =
     check (Token_Validate token) (\<lambda>_.
     check (guard (\<exists>t \<in> set (db_tokens db). tok_ID t = tok_ID token)
              (unique_violation ''auth_tokens_pkey'')) (\<lambda>_.
     check (guard (\<exists>t \<in> set (db_tokens db). tok_Accessor t = tok_Accessor token)
              (unique_violation ''auth_tokens_accessor_key'')) (\<lambda>_.
     check (guard (\<exists>t \<in> set (db_tokens db). tok_SecretHash t = tok_SecretHash token)
              (unique_violation ''auth_tokens_secret_hash_key'')) (\<lambda>_.
     check (guard (\<not> (\<exists>u \<in> set (db_users db). user_ID u = tok_UserID token))
              (foreign_key_violation ''auth_tokens_user_id_fkey'')) (\<lambda>_.
     Inr (db\<lparr>db_tokens := db_tokens db @ [token]\<rparr>))))))"

definition scanTokenRow :: "Token \<Rightarrow> Token result" where
  "scanTokenRow row = check (Token_Validate row) (\<lambda>_. Inr row)"

definition scanToken :: "Token option \<Rightarrow> Token result" where
  "scanToken row = (case row of None \<Rightarrow> Inl (auth_NewNotFoundError ''token'' [])
     | Some t \<Rightarrow> scanTokenRow t)"

definition Store_GetTokenBySecretHash :: "auth_db \<Rightarrow> TokenKind \<Rightarrow> string \<Rightarrow> Token result" where
  "Store_GetTokenBySecretHash db kind secretHash =
     scanToken (find (\<lambda>t. tok_Kind t = kind \<and> tok_SecretHash t = TrimSpace secretHash) (db_tokens db))"

definition Store_GetTokenByAccessor :: "auth_db \<Rightarrow> TokenKind \<Rightarrow> string \<Rightarrow> Token result" where
  "Store_GetTokenByAccessor db kind accessor =
     scanToken (find (\<lambda>t. tok_Kind t = kind \<and> tok_Accessor t = TrimSpace accessor) (db_tokens db))"

definition Store_ListTokensByUser :: "auth_db \<Rightarrow> string \<Rightarrow> TokenKind \<Rightarrow> Token list result" where
  "Store_ListTokensByUser db userID kind = check_all scanTokenRow
     (rev (sort_key (\<lambda>t. db_collation db (formatTime (tok_CreatedAt t)))
        (filter (\<lambda>t. tok_UserID t = TrimSpace userID \<and> tok_Kind t = kind) (db_tokens db))))"

definition Store_RevokeTokenByAccessor :: "auth_db \<Rightarrow> string \<Rightarrow> time \<Rightarrow> auth_db result" where
  "Store_RevokeTokenByAccessor db accessor revokedAt =
     (let hit = (\<lambda>t. tok_Accessor t = TrimSpace accessor \<and> tok_RevokedAt t = None) in
      check (guard (\<not> (\<exists>t \<in> set (db_tokens db). hit t)) (auth_NewNotFoundError ''token'' accessor)) (\<lambda>_.
      Inr (db\<lparr>db_tokens := map (\<lambda>t. if hit t then t\<lparr>tok_RevokedAt := Some revokedAt\<rparr> else t)
                             (db_tokens db)\<rparr>)))"

text \<open>An empty database, as \<open>bootstrapSchema\<close> creates it.\<close>

definition empty_auth_db :: "(string \<Rightarrow> string) \<Rightarrow> auth_db" where
  "empty_auth_db collation = \<lparr>db_users = [], db_tokens = [], db_grants = [], db_collation = collation\<rparr>"

section \<open>The invariant of the tables\<close>

definition users_ok :: "User list \<Rightarrow> bool" where
  "users_ok us \<longleftrightarrow> distinct (map user_ID us) \<and> distinct (map user_Username us)
     \<and> (\<forall>u \<in> set us. User_Validate u = Inr () \<and> TrimSpace (user_ID u) = user_ID u)"

definition tokens_ok :: "User list \<Rightarrow> Token list \<Rightarrow> bool" where
  "tokens_ok us ts \<longleftrightarrow> distinct (map tok_ID ts) \<and> distinct (map tok_Accessor ts)
     \<and> distinct (map tok_SecretHash ts)
     \<and> (\<forall>t \<in> set ts. Token_Validate t = Inr () \<and> tok_UserID t \<in> user_ID ` set us)"

definition grant_key :: "RepoGrant \<Rightarrow> string \<times> string" where
  "grant_key g = (grant_UserID g, repo_Name (grant_Repository g))"

definition grants_ok :: "User list \<Rightarrow> RepoGrant list \<Rightarrow> bool" where
  "grants_ok us gs \<longleftrightarrow> distinct (map grant_key gs)
     \<and> (\<forall>g \<in> set gs. RepoGrant_Validate g = Inr () \<and> grant_UserID g \<in> user_ID ` set us)"

definition auth_inv :: "auth_db \<Rightarrow> bool" where
  "auth_inv db \<longleftrightarrow> users_ok (db_users db) \<and> tokens_ok (db_users db) (db_tokens db)
     \<and> grants_ok (db_users db) (db_grants db)"

lemma distinct_map_keep:
  assumes "distinct (map k xs)" and "\<And>x. x \<in> set xs \<Longrightarrow> k (f x) = k x"
  shows "distinct (map k (map f xs))"
proof -
  have "map k (map f xs) = map k xs" using assms(2) by simp
  then show ?thesis using assms(1) by metis
qed

lemma distinct_map_snoc:
  "distinct (map k (xs @ [x])) \<longleftrightarrow> distinct (map k xs) \<and> (\<forall>y \<in> set xs. k y \<noteq> k x)"
  by (auto simp: image_iff)

lemma mem_imageI: "x \<in> S \<Longrightarrow> f x = a \<Longrightarrow> a \<in> f ` S"
  by (rule rev_image_eqI) auto

lemma auth_inv_empty: "auth_inv (empty_auth_db collation)"
  by (simp add: auth_inv_def users_ok_def tokens_ok_def grants_ok_def empty_auth_db_def)

lemma same_grant_key_iff: "same_grant_key g h \<longleftrightarrow> grant_key g = grant_key h"
  by (simp add: same_grant_key_def grant_key_def)

section \<open>The table of users as a map\<close>

definition user_at :: "auth_db \<Rightarrow> string \<Rightarrow> User option" where
  "user_at db i = find (\<lambda>u. user_ID u = i) (db_users db)"

definition normal_user :: "User \<Rightarrow> User" where
  "normal_user u = u\<lparr>user_Username := ToLower (TrimSpace (user_Username u))\<rparr>"

text \<open>What the row of a user is after \<open>UpsertUser\<close>: an existing row keeps its creation time.\<close>

definition stored_user :: "User option \<Rightarrow> User \<Rightarrow> User" where
  "stored_user old u = (case old of None \<Rightarrow> normal_user u | Some row \<Rightarrow> user_row_update row (normal_user u))"

definition active_admin :: "User \<Rightarrow> bool" where
  "active_admin u \<longleftrightarrow> user_IsAdmin u \<and> user_Enabled u"

lemma normal_user_simps [simp]:
  "user_ID (normal_user u) = user_ID u" "user_IsAdmin (normal_user u) = user_IsAdmin u"
  "user_Enabled (normal_user u) = user_Enabled u" "user_IsRobot (normal_user u) = user_IsRobot u"
  "user_PasswordHash (normal_user u) = user_PasswordHash u"
  by (simp_all add: normal_user_def)

lemma user_row_update_simps [simp]:
  "user_ID (user_row_update r u) = user_ID u" "user_Username (user_row_update r u) = user_Username u"
  "user_IsAdmin (user_row_update r u) = user_IsAdmin u" "user_Enabled (user_row_update r u) = user_Enabled u"
  by (simp_all add: user_row_update_def)

lemma stored_user_simps [simp]:
  "user_ID (stored_user old u) = user_ID u" "active_admin (stored_user old u) = active_admin u"
  by (simp_all add: stored_user_def active_admin_def split: option.splits)

lemma user_at_Some: "user_at db i = Some u \<Longrightarrow> u \<in> set (db_users db) \<and> user_ID u = i"
  unfolding user_at_def by (drule find_Some_mem) simp

lemma user_at_iff:
  assumes "auth_inv db"
  shows "user_at db i = Some u \<longleftrightarrow> u \<in> set (db_users db) \<and> user_ID u = i"
  using assms user_at_Some find_unique [of user_ID "db_users db" u i]
  unfolding auth_inv_def users_ok_def user_at_def by metis

lemma user_at_None: "user_at db i = None \<longleftrightarrow> i \<notin> user_ID ` set (db_users db)"
  by (auto simp: user_at_def find_None_iff)

lemma row_valid: "auth_inv db \<Longrightarrow> u \<in> set (db_users db) \<Longrightarrow> User_Validate u = Inr ()"
  by (simp add: auth_inv_def users_ok_def)

lemma User_Validate_robot: "User_Validate u = Inr x \<Longrightarrow> user_IsRobot u \<Longrightarrow> \<not> user_IsAdmin u"
  by (auto simp: User_Validate_def go_flow Let_def)

lemma User_Validate_update:
  "User_Validate row = Inr x \<Longrightarrow> User_Validate u = Inr y \<Longrightarrow> User_Validate (user_row_update row u) = Inr ()"
  by (auto simp: User_Validate_def user_row_update_def go_flow Let_def)

lemma User_Validate_unit: "User_Validate u = Inr x \<longleftrightarrow> User_Validate u = Inr ()"
  by simp

lemma check_all_scan:
  "(\<And>u. u \<in> set us \<Longrightarrow> User_Validate u = Inr ()) \<Longrightarrow> check_all scanUserRow us = Inr us"
  by (rule check_all_id) (simp add: scanUserRow_def)

lemma Store_ListUsers_ok:
  assumes "auth_inv db"
  shows "\<exists>us. Store_ListUsers db = Inr us \<and> set us = {u \<in> set (db_users db). \<not> user_IsRobot u}"
  unfolding Store_ListUsers_def using row_valid [OF assms] by (subst check_all_scan) auto

lemma Store_ListRobots_ok:
  assumes "auth_inv db"
  shows "\<exists>us. Store_ListRobots db = Inr us \<and> set us = {u \<in> set (db_users db). user_IsRobot u}"
  unfolding Store_ListRobots_def using row_valid [OF assms] by (subst check_all_scan) auto

lemma Store_GetUserByID_Inr:
  "Store_GetUserByID db i = Inr u \<Longrightarrow> u \<in> set (db_users db) \<and> user_ID u = TrimSpace i \<and> User_Validate u = Inr ()"
  by (auto simp: Store_GetUserByID_def scanUser_def scanUserRow_def go_flow split: option.splits
      dest!: find_Some_mem)

lemma Store_GetUserByUsername_Inr:
  "Store_GetUserByUsername db n = Inr u \<Longrightarrow>
     u \<in> set (db_users db) \<and> user_Username u = ToLower (TrimSpace n) \<and> User_Validate u = Inr ()"
  by (auto simp: Store_GetUserByUsername_def scanUser_def scanUserRow_def go_flow split: option.splits
      dest!: find_Some_mem)

lemma find_map_key:
  assumes "\<And>x. k (f x) = k x"
  shows "find (\<lambda>x. k x = v) (map f xs) = map_option f (find (\<lambda>x. k x = v) xs)"
  using assms by (induction xs) auto

lemma find_append: "find P (xs @ ys) = (case find P xs of None \<Rightarrow> find P ys | Some x \<Rightarrow> Some x)"
  by (induction xs) auto

lemma find_upsert:
  "find (\<lambda>u. user_ID u = i) (upsert_user_row us u) =
     (if i = user_ID u then Some (case find (\<lambda>r. user_ID r = user_ID u) us of
          None \<Rightarrow> u | Some row \<Rightarrow> user_row_update row u)
      else find (\<lambda>r. user_ID r = i) us)"
proof (cases "\<exists>row \<in> set us. user_ID row = user_ID u")
  case True
  then obtain r where r: "find (\<lambda>r. user_ID r = user_ID u) us = Some r" "user_ID r = user_ID u"
    by (cases "find (\<lambda>r. user_ID r = user_ID u) us") (auto simp: find_None_iff dest: find_Some_mem)
  let ?f = "\<lambda>row. if user_ID row = user_ID u then user_row_update row u else row"
  have eq: "upsert_user_row us u = map ?f us" using True by (simp add: upsert_user_row_def)
  have "find (\<lambda>u. user_ID u = i) (upsert_user_row us u) = map_option ?f (find (\<lambda>u. user_ID u = i) us)"
    unfolding eq by (rule find_map_key) simp
  then show ?thesis using r
    by (cases "find (\<lambda>u. user_ID u = i) us") (auto dest: find_Some_mem)
next
  case False
  then have "find (\<lambda>r. user_ID r = user_ID u) us = None" by (auto simp: find_None_iff)
  then show ?thesis using False
    by (auto simp: upsert_user_row_def find_append split: option.splits)
qed

lemma user_at_upsert:
  assumes "Store_UpsertUser db u = Inr db'"
  shows "user_at db' = (user_at db)(user_ID u \<mapsto> stored_user (user_at db (user_ID u)) u)"
  using assms
  by (auto simp: Store_UpsertUser_def go_flow Let_def user_at_def find_upsert stored_user_def
      normal_user_def [symmetric] fun_eq_iff)

lemma upsert_ids: "user_ID ` set (upsert_user_row us u) = insert (user_ID u) (user_ID ` set us)"
proof (cases "\<exists>row \<in> set us. user_ID row = user_ID u")
  case True
  have "map user_ID (upsert_user_row us u) = map user_ID us" using True by (simp add: upsert_user_row_def)
  then have "user_ID ` set (upsert_user_row us u) = user_ID ` set us" by (metis list.set_map)
  then show ?thesis using True by (auto intro: mem_imageI)
qed (auto simp: upsert_user_row_def)

lemma upsert_distinct_ids:
  assumes "distinct (map user_ID us)"
  shows "distinct (map user_ID (upsert_user_row us u))"
proof (cases "\<exists>row \<in> set us. user_ID row = user_ID u")
  case True
  then show ?thesis using assms distinct_map_keep [of user_ID us] unfolding upsert_user_row_def by simp
next
  case False
  then show ?thesis using assms unfolding upsert_user_row_def by (auto simp: distinct_map_snoc)
qed

lemma upsert_distinct_names:
  assumes "distinct (map user_Username us)" and "distinct (map user_ID us)"
    and fresh: "\<not> (\<exists>row \<in> set us. user_Username row = user_Username u \<and> user_ID row \<noteq> user_ID u)"
  shows "distinct (map user_Username (upsert_user_row us u))"
  using assms
proof (induction us)
  case (Cons r us)
  show ?case
  proof (cases "user_ID r = user_ID u")
    case True
    then have "user_ID u \<notin> user_ID ` set us" using Cons.prems(2) by auto
    then have "map (\<lambda>row. if user_ID row = user_ID u then user_row_update row u else row) us = us"
      by (intro map_idI) (auto simp: image_iff)
    moreover have "user_Username u \<notin> user_Username ` set us"
      using Cons.prems(3) \<open>user_ID u \<notin> user_ID ` set us\<close> by (force simp: image_iff)
    ultimately show ?thesis using Cons.prems True by (auto simp: upsert_user_row_def)
  next
    case False
    then have "upsert_user_row (r # us) u = r # upsert_user_row us u"
      by (simp add: upsert_user_row_def)
    moreover have "user_Username r \<notin> user_Username ` set (upsert_user_row us u)"
      using Cons.prems False by (auto simp: upsert_user_row_def split: if_splits)
    ultimately show ?thesis using Cons by auto
  qed
qed (simp add: upsert_user_row_def)

lemma Store_UpsertUser_inv:
  assumes "auth_inv db" and "Store_UpsertUser db u = Inr db'" and "TrimSpace (user_ID u) = user_ID u"
  shows "auth_inv db'"
proof -
  let ?u = "normal_user u" and ?us = "db_users db"
  from assms(2) have valid: "User_Validate ?u = Inr ()"
    and fresh: "\<not> (\<exists>row \<in> set ?us. user_Username row = user_Username ?u \<and> user_ID row \<noteq> user_ID ?u)"
    and db': "db' = db\<lparr>db_users := upsert_user_row ?us ?u\<rparr>"
    by (auto simp: Store_UpsertUser_def go_flow Let_def normal_user_def)
  have ok: "users_ok ?us" using assms(1) by (simp add: auth_inv_def)
  have "\<forall>v \<in> set (upsert_user_row ?us ?u). User_Validate v = Inr () \<and> TrimSpace (user_ID v) = user_ID v"
    using ok valid assms(3) by (auto simp: upsert_user_row_def users_ok_def intro: User_Validate_update)
  then have "users_ok (upsert_user_row ?us ?u)"
    using ok upsert_distinct_ids upsert_distinct_names [OF _ _ fresh] by (simp add: users_ok_def)
  then show ?thesis using assms(1) db' by (auto simp: auth_inv_def tokens_ok_def grants_ok_def upsert_ids)
qed

lemma find_filter: "find P (filter Q xs) = find (\<lambda>x. Q x \<and> P x) xs"
  by (induction xs) auto

lemma user_at_delete:
  assumes "Store_DeleteUser db i = Inr db'"
  shows "user_at db' = (user_at db)(TrimSpace i := None)"
proof
  fix j
  from assms have "db_users db' = filter (\<lambda>u. user_ID u \<noteq> TrimSpace i) (db_users db)"
    by (auto simp: Store_DeleteUser_def go_flow Let_def)
  then have "user_at db' j = find (\<lambda>u. user_ID u \<noteq> TrimSpace i \<and> user_ID u = j) (db_users db)"
    by (simp add: user_at_def find_filter)
  then show "user_at db' j = ((user_at db)(TrimSpace i := None)) j"
    by (cases "j = TrimSpace i") (auto simp: user_at_def find_None_iff intro!: find_cong)
qed

lemma Store_DeleteUser_inv:
  assumes "auth_inv db" and "Store_DeleteUser db i = Inr db'"
  shows "auth_inv db'"
proof -
  let ?i = "TrimSpace i"
  let ?us = "filter (\<lambda>u. user_ID u \<noteq> ?i) (db_users db)"
  from assms(2) have db': "db' = db\<lparr>db_grants := filter (\<lambda>g. grant_UserID g \<noteq> ?i) (db_grants db),
      db_tokens := filter (\<lambda>t. tok_UserID t \<noteq> ?i) (db_tokens db), db_users := ?us\<rparr>"
    by (auto simp: Store_DeleteUser_def go_flow Let_def)
  have left: "j \<in> user_ID ` set ?us" if "j \<in> user_ID ` set (db_users db)" "j \<noteq> ?i" for j
    using that by auto
  have "users_ok ?us" using assms(1) by (simp add: auth_inv_def users_ok_def distinct_map_filter)
  moreover have "tokens_ok ?us (db_tokens db')"
    using assms(1) left unfolding db' by (simp add: auth_inv_def tokens_ok_def distinct_map_filter)
  moreover have "grants_ok ?us (db_grants db')"
    using assms(1) left unfolding db' by (simp add: auth_inv_def grants_ok_def distinct_map_filter)
  ultimately show ?thesis by (simp add: auth_inv_def db')
qed

lemma Store_PutRepoGrant_inv:
  assumes "auth_inv db" and "Store_PutRepoGrant db g = Inr db'"
  shows "auth_inv db'"
proof -
  have ok: "grants_ok (db_users db) (db_grants db)" using assms(1) by (simp add: auth_inv_def)
  from assms(2) have g: "RepoGrant_Validate g = Inr ()" "grant_UserID g \<in> user_ID ` set (db_users db)"
    and db': "db' = db\<lparr>db_grants := upsert_grant_row (db_grants db) g\<rparr>"
    by (auto simp: Store_PutRepoGrant_def go_flow intro: mem_imageI)
  have "distinct (map grant_key (upsert_grant_row (db_grants db) g))"
  proof (cases "\<exists>row \<in> set (db_grants db). same_grant_key row g")
    case True
    then show ?thesis using ok distinct_map_keep [of grant_key "db_grants db"]
      unfolding upsert_grant_row_def grants_ok_def by (simp add: grant_key_def)
  next
    case False
    then show ?thesis using ok
      by (auto simp: upsert_grant_row_def distinct_map_snoc same_grant_key_iff grants_ok_def)
  qed
  moreover have "\<forall>h \<in> set (upsert_grant_row (db_grants db) g).
      RepoGrant_Validate h = Inr () \<and> grant_UserID h \<in> user_ID ` set (db_users db)"
    using ok g by (auto simp: upsert_grant_row_def grants_ok_def RepoGrant_Validate_def go_flow)
  ultimately show ?thesis using assms(1) db' by (simp add: auth_inv_def grants_ok_def)
qed

lemma Store_DeleteRepoGrant_inv:
  "auth_inv db \<Longrightarrow> Store_DeleteRepoGrant db i r = Inr db' \<Longrightarrow> auth_inv db'"
  by (auto simp: Store_DeleteRepoGrant_def go_flow Let_def auth_inv_def grants_ok_def distinct_map_filter)

lemma Store_CreateToken_inv:
  "auth_inv db \<Longrightarrow> Store_CreateToken db t = Inr db' \<Longrightarrow> auth_inv db'"
  by (auto simp: Store_CreateToken_def go_flow auth_inv_def tokens_ok_def distinct_map_snoc
      simp del: map_append intro: mem_imageI)

lemma Token_Validate_revoke:
  "Token_Validate (t\<lparr>tok_RevokedAt := r\<rparr>) = Token_Validate t"
  by (simp add: Token_Validate_def Token_Scopes_def)

lemma Store_RevokeTokenByAccessor_inv:
  assumes "auth_inv db" and "Store_RevokeTokenByAccessor db a now = Inr db'"
  shows "auth_inv db'"
proof -
  let ?f = "\<lambda>t. if tok_Accessor t = TrimSpace a \<and> tok_RevokedAt t = None
      then t\<lparr>tok_RevokedAt := Some now\<rparr> else t"
  from assms(2) have db': "db' = db\<lparr>db_tokens := map ?f (db_tokens db)\<rparr>"
    by (auto simp: Store_RevokeTokenByAccessor_def go_flow Let_def)
  have "tokens_ok (db_users db) (map ?f (db_tokens db))"
    using assms(1) distinct_map_keep [of tok_ID "db_tokens db" ?f]
      distinct_map_keep [of tok_Accessor "db_tokens db" ?f] distinct_map_keep [of tok_SecretHash "db_tokens db" ?f]
    unfolding auth_inv_def tokens_ok_def by (auto simp: Token_Validate_revoke simp del: map_map)
  then show ?thesis using assms(1) unfolding db' by (simp add: auth_inv_def)
qed

lemmas store_inv = Store_UpsertUser_inv Store_DeleteUser_inv Store_PutRepoGrant_inv
  Store_DeleteRepoGrant_inv Store_CreateToken_inv Store_RevokeTokenByAccessor_inv

section \<open>The contract of the user table\<close>

locale user_store =
  fixes inv :: "'db \<Rightarrow> bool"
    and users :: "'db \<Rightarrow> string \<Rightarrow> User option"
    and HasAdmin :: "'db \<Rightarrow> bool result"
    and GetByID :: "'db \<Rightarrow> string \<Rightarrow> User result"
    and ListHumans :: "'db \<Rightarrow> User list result"
    and Upsert :: "'db \<Rightarrow> User \<Rightarrow> 'db result"
    and Delete :: "'db \<Rightarrow> string \<Rightarrow> 'db result"
  assumes users_id: "users db i = Some u \<Longrightarrow> user_ID u = i"
    and robots: "inv db \<Longrightarrow> users db i = Some u \<Longrightarrow> user_IsRobot u \<Longrightarrow> \<not> user_IsAdmin u"
    and trimmed: "inv db \<Longrightarrow> users db i = Some u \<Longrightarrow> TrimSpace i = i"
    and has_admin: "inv db \<Longrightarrow> HasAdmin db = Inr (\<exists>i u. users db i = Some u \<and> active_admin u)"
    and get: "inv db \<Longrightarrow> GetByID db i = (case users db (TrimSpace i) of
        None \<Rightarrow> Inl (auth_NewNotFoundError ''user'' []) | Some u \<Rightarrow> Inr u)"
    and humans: "inv db \<Longrightarrow> \<exists>us. ListHumans db = Inr us
        \<and> set us = {u. users db (user_ID u) = Some u \<and> \<not> user_IsRobot u}"
    and upsert: "Upsert db u = Inr db' \<Longrightarrow>
        users db' = (users db)(user_ID u \<mapsto> stored_user (users db (user_ID u)) u)"
    and upsert_inv: "inv db \<Longrightarrow> Upsert db u = Inr db' \<Longrightarrow> TrimSpace (user_ID u) = user_ID u \<Longrightarrow> inv db'"
    and delete: "Delete db i = Inr db' \<Longrightarrow> users db' = (users db)(TrimSpace i := None)"
    and delete_inv: "inv db \<Longrightarrow> Delete db i = Inr db' \<Longrightarrow> inv db'"
begin

text \<open>What the service relies on to keep an active global admin.\<close>

lemma admin_iff: "inv db \<Longrightarrow> HasAdmin db = Inr b \<Longrightarrow> b \<longleftrightarrow> (\<exists>i u. users db i = Some u \<and> active_admin u)"
  using has_admin by simp

lemma has_admin_True:
  assumes "inv db" and "\<exists>i u. users db i = Some u \<and> active_admin u"
  shows "HasAdmin db = Inr True"
  unfolding has_admin [OF assms(1)] using assms(2) by simp

lemma upsert_keeps_admin:
  assumes "inv db" "Upsert db u = Inr db'" "TrimSpace (user_ID u) = user_ID u"
    and "active_admin u \<or> (\<exists>i v. i \<noteq> user_ID u \<and> users db i = Some v \<and> active_admin v)"
  shows "HasAdmin db' = Inr True"
proof -
  have "inv db'" by (rule upsert_inv [OF assms(1-3)])
  moreover have "\<exists>i v. users db' i = Some v \<and> active_admin v"
    using assms(4)
  proof (elim disjE exE conjE)
    assume "active_admin u"
    then have "users db' (user_ID u) = Some (stored_user (users db (user_ID u)) u)
        \<and> active_admin (stored_user (users db (user_ID u)) u)"
      by (simp add: upsert [OF assms(2)])
    then show ?thesis by blast
  next
    fix i v
    assume "i \<noteq> user_ID u" "users db i = Some v" "active_admin v"
    then have "users db' i = Some v \<and> active_admin v" by (simp add: upsert [OF assms(2)])
    then show ?thesis by blast
  qed
  ultimately show ?thesis by (rule has_admin_True)
qed

lemma delete_keeps_admin:
  assumes "inv db" "Delete db i = Inr db'" "j \<noteq> TrimSpace i" "users db j = Some v" "active_admin v"
  shows "HasAdmin db' = Inr True"
proof -
  have "inv db'" using assms(1,2) by (rule delete_inv)
  moreover have "users db' j = Some v" using assms unfolding delete [OF assms(2)] by simp
  ultimately show ?thesis using assms(5) by (intro has_admin_True) blast+
qed

lemma get_Inr: "inv db \<Longrightarrow> GetByID db i = Inr u \<Longrightarrow>
    users db (TrimSpace i) = Some u \<and> user_ID u = TrimSpace i \<and> TrimSpace (user_ID u) = user_ID u"
  using users_id by (auto simp: get split: option.splits)

lemma get_after_upsert:
  assumes "inv db" "Upsert db u = Inr db'" "TrimSpace (user_ID u) = user_ID u"
  shows "GetByID db' (user_ID u) = Inr (stored_user (users db (user_ID u)) u)"
  using upsert_inv [OF assms] upsert [OF assms(2)] assms(3) by (simp add: get)

lemma get_after_delete:
  "inv db \<Longrightarrow> Delete db i = Inr db' \<Longrightarrow> GetByID db' i = Inl (auth_NewNotFoundError ''user'' [])"
  using delete_inv delete by (simp add: get)

end

interpretation pg: user_store auth_inv user_at Store_HasActiveGlobalAdmin Store_GetUserByID
  Store_ListUsers Store_UpsertUser Store_DeleteUser
proof
  show "user_at db i = Some u \<Longrightarrow> user_ID u = i" for db i u by (simp add: user_at_Some)
  show "auth_inv db \<Longrightarrow> user_at db i = Some u \<Longrightarrow> user_IsRobot u \<Longrightarrow> \<not> user_IsAdmin u" for db i u
    using row_valid User_Validate_robot user_at_Some by blast
  show "auth_inv db \<Longrightarrow> user_at db i = Some u \<Longrightarrow> TrimSpace i = i" for db i u
    using user_at_Some [of db i u] by (auto simp: auth_inv_def users_ok_def)
  show "auth_inv db \<Longrightarrow> Store_HasActiveGlobalAdmin db = Inr (\<exists>i u. user_at db i = Some u \<and> active_admin u)" for db
    unfolding Store_HasActiveGlobalAdmin_def
    by (simp add: user_at_iff active_admin_def filter_empty_conv) blast
  show "auth_inv db \<Longrightarrow> Store_GetUserByID db i = (case user_at db (TrimSpace i) of
        None \<Rightarrow> Inl (auth_NewNotFoundError ''user'' []) | Some u \<Rightarrow> Inr u)" for db i
    using row_valid user_at_Some [of db "TrimSpace i"]
    unfolding Store_GetUserByID_def scanUser_def scanUserRow_def user_at_def [symmetric]
    by (cases "user_at db (TrimSpace i)") auto
  show "auth_inv db \<Longrightarrow> \<exists>us. Store_ListUsers db = Inr us
        \<and> set us = {u. user_at db (user_ID u) = Some u \<and> \<not> user_IsRobot u}" for db
    using Store_ListUsers_ok [of db] by (simp add: user_at_iff)
qed (rule user_at_upsert Store_UpsertUser_inv user_at_delete Store_DeleteUser_inv; assumption)+

section \<open>Grants and tokens\<close>

lemma scan_grant_Inr: "scan_grant i row = Inr g \<Longrightarrow> g = row\<lparr>grant_UserID := i\<rparr>"
  by (auto simp: scan_grant_def go_flow Let_def ParseRepositoryRef_Inr)

lemma grant_valid_repository:
  "RepoGrant_Validate g = Inr u \<Longrightarrow> ParseRepositoryRef (repo_Name (grant_Repository g)) = Inr (grant_Repository g)"
  by (auto simp: RepoGrant_Validate_def go_flow RepositoryRef_Validate_Inr)

text \<open>The grants of a user with a trimmed id, as the tables hold them.\<close>

lemma Store_ListRepoGrants_ok:
  assumes "auth_inv db" and "TrimSpace i = i"
  shows "\<exists>gs. Store_ListRepoGrants db i = Inr gs \<and> set gs = {g \<in> set (db_grants db). grant_UserID g = i}"
proof -
  let ?rows = "sort_key (\<lambda>g. db_collation db (repo_Name (grant_Repository g)))
    (filter (\<lambda>g. grant_UserID g = i) (db_grants db))"
  have "scan_grant i g = Inr g" if "g \<in> set ?rows" for g
  proof -
    have v: "RepoGrant_Validate g = Inr ()" and i: "grant_UserID g = i"
      using that assms(1) by (auto simp: auth_inv_def grants_ok_def)
    then have "g\<lparr>grant_UserID := i, grant_Repository := grant_Repository g\<rparr> = g" by simp
    then show ?thesis using v grant_valid_repository [OF v] by (simp add: scan_grant_def)
  qed
  then have "check_all (scan_grant i) ?rows = Inr ?rows" by (rule check_all_id)
  moreover have "set ?rows = {g \<in> set (db_grants db). grant_UserID g = i}" by auto
  ultimately show ?thesis using assms(2) unfolding Store_ListRepoGrants_def by metis
qed

lemma Store_GetTokenBySecretHash_Inr:
  "Store_GetTokenBySecretHash db k h = Inr t \<Longrightarrow>
     t \<in> set (db_tokens db) \<and> tok_Kind t = k \<and> tok_SecretHash t = TrimSpace h"
  by (auto simp: Store_GetTokenBySecretHash_def scanToken_def scanTokenRow_def go_flow split: option.splits
      dest!: find_Some_mem)

lemma Store_GetTokenByAccessor_Inr:
  "Store_GetTokenByAccessor db k a = Inr t \<Longrightarrow>
     t \<in> set (db_tokens db) \<and> tok_Kind t = k \<and> tok_Accessor t = TrimSpace a"
  by (auto simp: Store_GetTokenByAccessor_def scanToken_def scanTokenRow_def go_flow split: option.splits
      dest!: find_Some_mem)

lemma token_by_hash:
  assumes "auth_inv db" and "t \<in> set (db_tokens db)" and "tok_Kind t = k" and "TrimSpace h = tok_SecretHash t"
  shows "Store_GetTokenBySecretHash db k h = Inr t"
proof -
  have dist: "distinct (map tok_SecretHash (db_tokens db))" and valid: "Token_Validate t = Inr ()"
    using assms(1,2) by (auto simp: auth_inv_def tokens_ok_def)
  have "find (\<lambda>t. tok_Kind t = k \<and> tok_SecretHash t = TrimSpace h) ts = Some t"
    if "distinct (map tok_SecretHash ts)" "t \<in> set ts" for ts
    using that assms(3,4) by (induction ts) (auto simp: image_iff)
  from this [OF dist assms(2)]
  have "find (\<lambda>t. tok_Kind t = k \<and> tok_SecretHash t = TrimSpace h) (db_tokens db) = Some t" .
  then show ?thesis using valid by (simp add: Store_GetTokenBySecretHash_def scanToken_def scanTokenRow_def)
qed

end
