(* ===== verification/Auth_Service.thy ===== *)
theory Auth_Service
  imports Auth_Store
begin

text \<open>
  The auth service, \<open>internal/app/auth/service.go\<close>: every exported operation and every helper,
  as functions of the auth database. What an operation draws from outside (the clock, UUIDs,
  random bytes, the salted hash bcrypt computes for this call) is the record \<open>auth_env\<close>; bcrypt
  itself is a third-party package, so its two functions are fields of that record.
\<close>

record auth_env =
  env_now :: time
  env_user_uuid :: string
  env_token_uuid :: string
  env_accessor_uuid :: string
  env_random :: string
  env_GenerateFromPassword :: "string \<Rightarrow> string result"
  env_CompareHashAndPassword :: "string \<Rightarrow> string \<Rightarrow> bool"

section \<open>Inputs and results (\<open>internal/ports/auth.go\<close>)\<close>

record LoginResult =
  lr_Principal :: Principal
  lr_BearerToken :: string
  lr_ExpiresAt :: time
  lr_Accessor :: string
  lr_Scope :: string

record BootstrapAdminInput =
  bai_Username :: string
  bai_Password :: string
  bai_RotatePassword :: bool

record BootstrapAdminResult =
  bar_User :: User
  bar_Created :: bool
  bar_PasswordRotated :: bool

record CreateAdminTokenInput =
  cati_UserID :: string
  cati_Name :: string
  cati_TTL :: duration

record CreateUserInput =
  cui_Username :: string
  cui_Password :: string
  cui_IsAdmin :: bool
  cui_IsReadOnly :: bool
  cui_Enabled :: bool

record UpdateUserInput =
  uui_UserID :: string
  uui_Username :: string
  uui_IsAdmin :: bool
  uui_IsReadOnly :: bool
  uui_PreserveAdmin :: bool

record CreateRobotInput =
  cri_Name :: string
  cri_Repository :: string
  cri_Role :: RepoRole
  cri_TTL :: duration

record CreatedRobot =
  cr_User :: User
  cr_Grant :: RepoGrant
  cr_Secret :: string
  cr_Accessor :: string
  cr_ExpiresAt :: time

record CreatedAdminToken =
  cat_Token :: Token
  cat_Secret :: string
  cat_Plaintext :: string
  cat_Accessor :: string
  cat_ExpiresAt :: time
  cat_TargetUser :: User

record AdminUser =
  au_ID :: string
  au_Username :: string
  au_IsAdmin :: bool
  au_IsReadOnly :: bool
  au_Enabled :: bool
  au_CreatedAt :: time
  au_UpdatedAt :: time

record AdminRepoGrant =
  arg_UserID :: string
  arg_Repository :: RepositoryRef
  arg_Role :: RepoRole
  arg_CreatedAt :: time
  arg_UpdatedAt :: time

record AdminRepositoryGrant =
  argr_Username :: string
  argr_Role :: RepoRole
  argr_CreatedAt :: time
  argr_UpdatedAt :: time

record AdminRobot =
  ar_ID :: string
  ar_Username :: string
  ar_Repository :: string
  ar_Role :: RepoRole
  ar_Enabled :: bool
  ar_CreatedAt :: time

record AdminCreatedRobot =
  acr_Robot :: AdminRobot
  acr_Secret :: string
  acr_Accessor :: string
  acr_ExpiresAt :: time

record AdminToken =
  at_ID :: string
  at_UserID :: string
  at_Kind :: TokenKind
  at_Name :: string
  at_Accessor :: string
  at_ExpiresAt :: time
  at_CreatedAt :: time
  at_RevokedAt :: "time option"

record AdminCreatedToken =
  act_Token :: AdminToken
  act_Secret :: string
  act_Accessor :: string
  act_ExpiresAt :: time
  act_TargetUser :: AdminUser

definition toAdminRobot :: "User \<Rightarrow> RepoGrant \<Rightarrow> AdminRobot" where
  "toAdminRobot user grant =
     \<lparr>ar_ID = user_ID user, ar_Username = user_Username user,
      ar_Repository = repo_Name (grant_Repository grant), ar_Role = grant_Role grant,
      ar_Enabled = user_Enabled user, ar_CreatedAt = user_CreatedAt user\<rparr>"

definition toAdminUser :: "User \<Rightarrow> AdminUser" where
  "toAdminUser user =
     \<lparr>au_ID = user_ID user, au_Username = user_Username user, au_IsAdmin = user_IsAdmin user,
      au_IsReadOnly = user_IsReadOnly user, au_Enabled = user_Enabled user,
      au_CreatedAt = user_CreatedAt user, au_UpdatedAt = user_UpdatedAt user\<rparr>"

definition toAdminRepoGrant :: "RepoGrant \<Rightarrow> AdminRepoGrant" where
  "toAdminRepoGrant grant =
     \<lparr>arg_UserID = grant_UserID grant, arg_Repository = grant_Repository grant,
      arg_Role = grant_Role grant, arg_CreatedAt = grant_CreatedAt grant,
      arg_UpdatedAt = grant_UpdatedAt grant\<rparr>"

definition toAdminToken :: "Token \<Rightarrow> AdminToken" where
  "toAdminToken token =
     \<lparr>at_ID = tok_ID token, at_UserID = tok_UserID token, at_Kind = tok_Kind token,
      at_Name = tok_Name token, at_Accessor = tok_Accessor token, at_ExpiresAt = tok_ExpiresAt token,
      at_CreatedAt = tok_CreatedAt token, at_RevokedAt = tok_RevokedAt token\<rparr>"

section \<open>Helpers\<close>

definition requireAdmin :: "Principal \<Rightarrow> unit result" where
  "requireAdmin actor =
     guard (\<not> pr_IsAdmin actor) (NewForbiddenError ''administrator privileges are required'')"

definition requireAdminOrRepoAdmin :: "Principal \<Rightarrow> string \<Rightarrow> unit result" where
  "requireAdminOrRepoAdmin actor repository =
     (if pr_IsAdmin actor then Inr ()
      else if list_ex (\<lambda>grant. repo_Name (grant_Repository grant) = repository
                        \<and> AllowsAdmin (grant_Role grant)) (pr_Grants actor) then Inr ()
      else Inl (NewForbiddenError ''repository administrator privileges are required''))"

definition normalizeUsername :: "string \<Rightarrow> string" where
  "normalizeUsername username = ToLower (TrimSpace username)"

definition validatePassword :: "string \<Rightarrow> unit result" where
  "validatePassword password = guard (length (TrimSpace password) < 8)
     (auth_NewValidationError ''password must be at least 8 characters'')"

definition hashPassword :: "auth_env \<Rightarrow> string \<Rightarrow> string result" where
  "hashPassword env password = env_GenerateFromPassword env password"

definition hashSecret :: "string \<Rightarrow> string" where
  "hashSecret secret = hex_encode (Sum256 secret)"

text \<open>\<open>randomSecret(32)\<close>: the 32 bytes read from \<open>crypto/rand\<close>, in hexadecimal.\<close>

definition randomSecret :: "auth_env \<Rightarrow> string" where
  "randomSecret env = hex_encode (take 32 (env_random env))"

definition shortAccessor :: "auth_env \<Rightarrow> string \<Rightarrow> string" where
  "shortAccessor env kind = kind @ ''_'' @ filter (\<lambda>c. c \<noteq> CHR ''-'') (env_accessor_uuid env)"

definition ensureAnotherActiveAdmin :: "auth_db \<Rightarrow> string \<Rightarrow> bool \<Rightarrow> unit result" where
  "ensureAnotherActiveAdmin db exceptUserID includeTarget =
     check (Store_ListUsers db) (\<lambda>users.
     if list_ex (\<lambda>user. user_ID user \<noteq> exceptUserID \<and> user_IsAdmin user \<and> user_Enabled user) users
       then Inr ()
     else guard includeTarget
       (auth_NewConflictError ''at least one active global admin must remain configured''))"

definition getActiveUserByUsername :: "auth_db \<Rightarrow> string \<Rightarrow> User result" where
  "getActiveUserByUsername db username =
     (case Store_GetUserByUsername db (normalizeUsername username) of
        Inl err \<Rightarrow> if auth_IsCode err auth_ErrorCodeNotFound then Inl NewInvalidCredentialsError
                   else Inl err
      | Inr user \<Rightarrow> if \<not> user_Enabled user then Inl (NewDisabledUserError (user_Username user))
                    else Inr user)"

text \<open>A failure to list the grants leaves the principal without any.\<close>

definition buildPrincipal :: "auth_db \<Rightarrow> User \<Rightarrow> Token \<Rightarrow> Principal result" where
  "buildPrincipal db user token =
     (let grants = (case Store_ListRepoGrants db (user_ID user) of Inl _ \<Rightarrow> [] | Inr gs \<Rightarrow> gs) in
      check (Token_Scopes token) (\<lambda>scopes.
      Inr \<lparr>pr_Subject = tok_Accessor token, pr_UserID = user_ID user, pr_Username = user_Username user,
           pr_IsAdmin = user_IsAdmin user, pr_IsReadOnly = user_IsReadOnly user, pr_Grants = grants,
           pr_Scopes = scopes, pr_ExpiresAt = tok_ExpiresAt token\<rparr>))"

text \<open>
  The loop over the grants stops at the first grant for the repository, so the three flags are
  those of that grant, or all false when there is none.
\<close>

definition intersectRequestedActions :: "bool \<Rightarrow> bool \<Rightarrow> RepoGrant list \<Rightarrow> Scope \<Rightarrow> string list" where
  "intersectRequestedActions isAdmin isReadOnly grants requested =
     (let (allowPull, allowPush, allowDelete) =
        (if isAdmin then (AllowsPull requested, AllowsPush requested, AllowsDelete requested)
         else if isReadOnly then (AllowsPull requested, False, False)
         else (case find (\<lambda>grant. repo_Name (grant_Repository grant) = repo_Name (scope_repository requested)) grants of
             None \<Rightarrow> (False, False, False)
           | Some grant \<Rightarrow> (AllowsRead (grant_Role grant) \<and> AllowsPull requested,
                            AllowsWrite (grant_Role grant) \<and> AllowsPush requested,
                            AllowsWrite (grant_Role grant) \<and> AllowsDelete requested)))
      in (if allowPull then [''pull''] else []) @ (if allowPush then [''push''] else [])
         @ (if allowDelete then [''delete''] else []))"

fun granted_loop :: "User \<Rightarrow> RepoGrant list \<Rightarrow> Scope list \<Rightarrow> Scope list" where
  "granted_loop user grants [] = []"
| "granted_loop user grants (requested # rest) =
     (if IsRegixtryCatalog requested then requested # granted_loop user grants rest
      else if \<not> IsRepository requested then granted_loop user grants rest
      else let actions = intersectRequestedActions (user_IsAdmin user) (user_IsReadOnly user) grants requested
        in if actions = [] then granted_loop user grants rest
           else \<lparr>scope_Type = ''repository'', scope_Name = repo_Name (scope_repository requested),
                 scope_Actions = actions,
                 scope_Canonical = ''repository:'' @ repo_Name (scope_repository requested) @ '':''
                   @ Join '','' actions,
                 scope_repository = \<lparr>repo_Name = []\<rparr>\<rparr> # granted_loop user grants rest)"

definition grantedScopes :: "auth_db \<Rightarrow> User \<Rightarrow> Scope list \<Rightarrow> Scope list result" where
  "grantedScopes db user requestedScopes =
     (if requestedScopes = [] then Inr []
      else check (Store_ListRepoGrants db (user_ID user)) (\<lambda>grants.
        Inr (granted_loop user grants requestedScopes)))"

definition issueAccessToken :: "auth_env \<Rightarrow> auth_db \<Rightarrow> User \<Rightarrow> Scope list \<Rightarrow> (LoginResult, auth_db) op" where
  "issueAccessToken env db user requestedScopes =
     (let secret = randomSecret env in
      attempt (grantedScopes db user requestedScopes) db (\<lambda>granted.
      let grantedScope = NormalizeScopes granted;
          now = env_now env;
          token = \<lparr>tok_ID = env_token_uuid env, tok_UserID = user_ID user, tok_Kind = TokenKindAccess,
             tok_Name = [], tok_Scope = grantedScope, tok_Accessor = shortAccessor env ''atk'',
             tok_SecretHash = hashSecret secret, tok_ExpiresAt = now + AccessTokenTTL,
             tok_CreatedAt = now, tok_RevokedAt = None\<rparr>
      in attempt (Store_CreateToken db token) db (\<lambda>db1.
         attempt (buildPrincipal db1 user token) db1 (\<lambda>prin.
         (Inr \<lparr>lr_Principal = prin, lr_BearerToken = secret, lr_ExpiresAt = tok_ExpiresAt token,
               lr_Accessor = tok_Accessor token, lr_Scope = grantedScope\<rparr>, db1)))))"

section \<open>Bootstrap and users\<close>

definition EnsureBootstrapAdmin :: "auth_db \<Rightarrow> unit result" where
  "EnsureBootstrapAdmin db =
     check (Store_HasActiveGlobalAdmin db) (\<lambda>hasAdmin. guard (\<not> hasAdmin) NewBootstrapRequiredError)"

definition ListUsers :: "auth_db \<Rightarrow> Principal \<Rightarrow> User list result" where
  "ListUsers db actor = check (requireAdmin actor) (\<lambda>_. Store_ListUsers db)"

definition ListAdminUsers :: "auth_db \<Rightarrow> Principal \<Rightarrow> AdminUser list result" where
  "ListAdminUsers db actor = check (ListUsers db actor) (\<lambda>users. Inr (map toAdminUser users))"

definition BootstrapAdmin ::
  "auth_env \<Rightarrow> auth_db \<Rightarrow> BootstrapAdminInput \<Rightarrow> (BootstrapAdminResult, auth_db) op" where
  "BootstrapAdmin env db input =
     (let username = normalizeUsername (bai_Username input) in
      attempt (guard (username = []) (auth_NewValidationError ''username is required'')) db (\<lambda>_.
      attempt (validatePassword (bai_Password input)) db (\<lambda>_.
      let now = env_now env in
      case Store_GetUserByUsername db username of
        Inr user \<Rightarrow>
          attempt (if \<not> user_IsAdmin user
                   then check (Store_HasActiveGlobalAdmin db) (\<lambda>hasOtherAdmin.
                     guard hasOtherAdmin (auth_NewConflictError ''a global admin already exists''))
                   else Inr ()) db (\<lambda>_.
          let updated = user\<lparr>user_Username := username, user_IsAdmin := True, user_Enabled := True,
                user_UpdatedAt := now\<rparr> in
          attempt (if bai_RotatePassword input
                   then check (hashPassword env (bai_Password input)) (\<lambda>hash.
                     Inr (updated\<lparr>user_PasswordHash := hash\<rparr>, True))
                   else Inr (updated, False)) db (\<lambda>(updated, rotated).
          attempt (Store_UpsertUser db updated) db (\<lambda>db1.
          (Inr \<lparr>bar_User = updated, bar_Created = False, bar_PasswordRotated = rotated\<rparr>, db1))))
      | Inl err \<Rightarrow>
          if \<not> auth_IsCode err auth_ErrorCodeNotFound then (Inl err, db)
          else attempt (Store_HasActiveGlobalAdmin db) db (\<lambda>hasAdmin.
            attempt (guard hasAdmin (auth_NewConflictError ''a global admin already exists'')) db (\<lambda>_.
            attempt (hashPassword env (bai_Password input)) db (\<lambda>hash.
            let user = \<lparr>user_ID = env_user_uuid env, user_Username = username, user_PasswordHash = hash,
                  user_IsAdmin = True, user_IsReadOnly = False, user_IsRobot = False,
                  user_Enabled = True, user_CreatedAt = now, user_UpdatedAt = now\<rparr> in
            attempt (Store_UpsertUser db user) db (\<lambda>db1.
            (Inr \<lparr>bar_User = user, bar_Created = True, bar_PasswordRotated = False\<rparr>, db1))))))))"

definition CreateUser :: "auth_env \<Rightarrow> auth_db \<Rightarrow> Principal \<Rightarrow> CreateUserInput \<Rightarrow> (User, auth_db) op" where
  "CreateUser env db actor input =
     attempt (requireAdmin actor) db (\<lambda>_.
     let username = normalizeUsername (cui_Username input) in
     attempt (guard (username = []) (auth_NewValidationError ''username is required'')) db (\<lambda>_.
     attempt (validatePassword (cui_Password input)) db (\<lambda>_.
     attempt (case Store_GetUserByUsername db username of
                Inr _ \<Rightarrow> Inl (auth_NewConflictError ''username already exists'')
              | Inl err \<Rightarrow> guard (\<not> auth_IsCode err auth_ErrorCodeNotFound) err) db (\<lambda>_.
     attempt (hashPassword env (cui_Password input)) db (\<lambda>hash.
     let now = env_now env;
         user = \<lparr>user_ID = env_user_uuid env, user_Username = username, user_PasswordHash = hash,
           user_IsAdmin = cui_IsAdmin input, user_IsReadOnly = cui_IsReadOnly input,
           user_IsRobot = False, user_Enabled = cui_Enabled input, user_CreatedAt = now,
           user_UpdatedAt = now\<rparr> in
     attempt (Store_UpsertUser db user) db (\<lambda>db1. (Inr user, db1)))))))"

definition CreateAdminUser :: "auth_env \<Rightarrow> auth_db \<Rightarrow> Principal \<Rightarrow> CreateUserInput \<Rightarrow> (AdminUser, auth_db) op" where
  "CreateAdminUser env db actor input =
     (case CreateUser env db actor input of (r, db1) \<Rightarrow>
        attempt r db1 (\<lambda>user. (Inr (toAdminUser user), db1)))"

definition UpdateUser :: "auth_env \<Rightarrow> auth_db \<Rightarrow> Principal \<Rightarrow> UpdateUserInput \<Rightarrow> (User, auth_db) op" where
  "UpdateUser env db actor input =
     attempt (requireAdmin actor) db (\<lambda>_.
     attempt (Store_GetUserByID db (uui_UserID input)) db (\<lambda>user.
     let requested = normalizeUsername (uui_Username input);
         nextUsername = (if requested = [] then user_Username user else requested) in
     attempt (if nextUsername \<noteq> user_Username user
              then (case Store_GetUserByUsername db nextUsername of
                      Inr other \<Rightarrow> guard (user_ID other \<noteq> user_ID user)
                         (auth_NewConflictError ''username already exists'')
                    | Inl lookupErr \<Rightarrow> guard (\<not> auth_IsCode lookupErr auth_ErrorCodeNotFound) lookupErr)
              else Inr ()) db (\<lambda>_.
     attempt (if user_IsAdmin user \<and> \<not> uui_IsAdmin input
              then ensureAnotherActiveAdmin db (user_ID user) (user_Enabled user) else Inr ()) db (\<lambda>_.
     let user = user\<lparr>user_Username := nextUsername, user_IsAdmin := uui_IsAdmin input,
           user_IsReadOnly := uui_IsReadOnly input, user_UpdatedAt := env_now env\<rparr> in
     attempt (Store_UpsertUser db user) db (\<lambda>db1. (Inr user, db1))))))"

definition SetUserEnabled :: "auth_env \<Rightarrow> auth_db \<Rightarrow> Principal \<Rightarrow> string \<Rightarrow> bool \<Rightarrow> (User, auth_db) op" where
  "SetUserEnabled env db actor userID enabled =
     attempt (requireAdmin actor) db (\<lambda>_.
     attempt (Store_GetUserByID db userID) db (\<lambda>user.
     attempt (if user_IsAdmin user \<and> user_Enabled user \<and> \<not> enabled
              then ensureAnotherActiveAdmin db (user_ID user) True else Inr ()) db (\<lambda>_.
     let user = user\<lparr>user_Enabled := enabled, user_UpdatedAt := env_now env\<rparr> in
     attempt (Store_UpsertUser db user) db (\<lambda>db1. (Inr user, db1)))))"

definition EnableAdminUser :: "auth_env \<Rightarrow> auth_db \<Rightarrow> Principal \<Rightarrow> string \<Rightarrow> (AdminUser, auth_db) op" where
  "EnableAdminUser env db actor userID =
     (case SetUserEnabled env db actor userID True of (r, db1) \<Rightarrow>
        attempt r db1 (\<lambda>user. (Inr (toAdminUser user), db1)))"

definition DisableAdminUser :: "auth_env \<Rightarrow> auth_db \<Rightarrow> Principal \<Rightarrow> string \<Rightarrow> (AdminUser, auth_db) op" where
  "DisableAdminUser env db actor userID =
     (case SetUserEnabled env db actor userID False of (r, db1) \<Rightarrow>
        attempt r db1 (\<lambda>user. (Inr (toAdminUser user), db1)))"

definition DeleteUser :: "auth_db \<Rightarrow> Principal \<Rightarrow> string \<Rightarrow> (unit, auth_db) op" where
  "DeleteUser db actor userID =
     attempt (requireAdmin actor) db (\<lambda>_.
     attempt (Store_GetUserByID db userID) db (\<lambda>user.
     attempt (if user_IsAdmin user \<and> user_Enabled user
              then ensureAnotherActiveAdmin db (user_ID user) True else Inr ()) db (\<lambda>_.
     attempt (Store_DeleteUser db userID) db (\<lambda>db1. (Inr (), db1)))))"

section \<open>Login\<close>

definition LoginWithPassword ::
  "auth_env \<Rightarrow> auth_db \<Rightarrow> string \<Rightarrow> string \<Rightarrow> Scope list \<Rightarrow> (LoginResult, auth_db) op" where
  "LoginWithPassword env db username password requestedScopes =
     attempt (getActiveUserByUsername db username) db (\<lambda>user.
     attempt (guard (user_IsRobot user) NewInvalidCredentialsError) db (\<lambda>_.
     attempt (guard (\<not> env_CompareHashAndPassword env (user_PasswordHash user) password)
                NewInvalidCredentialsError) db (\<lambda>_.
     issueAccessToken env db user requestedScopes)))"

text \<open>\<open>checked\<close> is the clock when the stored token is examined, before \<open>env_now\<close>.\<close>

definition LoginWithPreissuedToken ::
  "auth_env \<Rightarrow> time \<Rightarrow> auth_db \<Rightarrow> string \<Rightarrow> string \<Rightarrow> Scope list \<Rightarrow> (LoginResult, auth_db) op" where
  "LoginWithPreissuedToken env checked db username token requestedScopes =
     attempt (getActiveUserByUsername db username) db (\<lambda>user.
     attempt (case Store_GetTokenBySecretHash db TokenKindAdminCredential (hashSecret token) of
                Inl err \<Rightarrow> if auth_IsCode err auth_ErrorCodeNotFound
                           then Inl NewInvalidCredentialsError else Inl err
              | Inr t \<Rightarrow> Inr t) db (\<lambda>storedToken.
     attempt (guard (tok_UserID storedToken \<noteq> user_ID user) NewInvalidCredentialsError) db (\<lambda>_.
     attempt (IsActive storedToken checked) db (\<lambda>_.
     issueAccessToken env db user requestedScopes))))"

definition VerifyAccessToken :: "auth_db \<Rightarrow> time \<Rightarrow> string \<Rightarrow> Principal result" where
  "VerifyAccessToken db now bearerToken =
     check (case Store_GetTokenBySecretHash db TokenKindAccess (hashSecret bearerToken) of
              Inl err \<Rightarrow> if auth_IsCode err auth_ErrorCodeNotFound
                         then Inl NewInvalidCredentialsError else Inl err
            | Inr t \<Rightarrow> Inr t) (\<lambda>storedToken.
     check (IsActive storedToken now) (\<lambda>_.
     check (Store_GetUserByID db (tok_UserID storedToken)) (\<lambda>user.
     check (guard (\<not> user_Enabled user) (NewDisabledUserError (user_Username user))) (\<lambda>_.
     case buildPrincipal db user storedToken of
       Inl _ \<Rightarrow> Inl NewInvalidCredentialsError
     | Inr prin \<Rightarrow> Inr prin))))"

section \<open>Admin tokens\<close>

definition CreateAdminToken ::
  "auth_env \<Rightarrow> auth_db \<Rightarrow> Principal \<Rightarrow> CreateAdminTokenInput \<Rightarrow> (CreatedAdminToken, auth_db) op" where
  "CreateAdminToken env db actor input =
     attempt (requireAdmin actor) db (\<lambda>_.
     attempt (Store_GetUserByID db (cati_UserID input)) db (\<lambda>user.
     attempt (guard (\<not> user_Enabled user) (NewDisabledUserError (user_Username user))) db (\<lambda>_.
     let ttl = (if cati_TTL input \<le> 0 then DefaultAdminTokenTTL else cati_TTL input) in
     attempt (guard (ttl > DefaultAdminTokenTTL)
                (auth_NewValidationError ''admin token ttl must be 30 days or shorter'')) db (\<lambda>_.
     let secret = randomSecret env;
         now = env_now env;
         token = \<lparr>tok_ID = env_token_uuid env, tok_UserID = user_ID user,
           tok_Kind = TokenKindAdminCredential, tok_Name = TrimSpace (cati_Name input), tok_Scope = [],
           tok_Accessor = shortAccessor env ''act'', tok_SecretHash = hashSecret secret,
           tok_ExpiresAt = now + ttl, tok_CreatedAt = now, tok_RevokedAt = None\<rparr> in
     attempt (Store_CreateToken db token) db (\<lambda>db1.
     (Inr \<lparr>cat_Token = token, cat_Secret = secret, cat_Plaintext = secret,
           cat_Accessor = tok_Accessor token, cat_ExpiresAt = tok_ExpiresAt token,
           cat_TargetUser = user\<rparr>, db1))))))"

definition CreateAdminUserToken ::
  "auth_env \<Rightarrow> auth_db \<Rightarrow> Principal \<Rightarrow> CreateAdminTokenInput \<Rightarrow> (AdminCreatedToken, auth_db) op" where
  "CreateAdminUserToken env db actor input =
     (case CreateAdminToken env db actor input of (r, db1) \<Rightarrow>
        attempt r db1 (\<lambda>created.
        (Inr \<lparr>act_Token = toAdminToken (cat_Token created), act_Secret = cat_Secret created,
              act_Accessor = cat_Accessor created, act_ExpiresAt = cat_ExpiresAt created,
              act_TargetUser = toAdminUser (cat_TargetUser created)\<rparr>, db1)))"

definition ListAdminTokens :: "auth_db \<Rightarrow> Principal \<Rightarrow> string \<Rightarrow> Token list result" where
  "ListAdminTokens db actor userID =
     check (requireAdmin actor) (\<lambda>_.
     check (Store_GetUserByID db userID) (\<lambda>_.
     Store_ListTokensByUser db userID TokenKindAdminCredential))"

definition ListAdminUserTokens :: "auth_db \<Rightarrow> Principal \<Rightarrow> string \<Rightarrow> AdminToken list result" where
  "ListAdminUserTokens db actor userID =
     check (ListAdminTokens db actor userID) (\<lambda>tokens. Inr (map toAdminToken tokens))"

definition RevokeAdminToken :: "auth_env \<Rightarrow> auth_db \<Rightarrow> Principal \<Rightarrow> string \<Rightarrow> (unit, auth_db) op" where
  "RevokeAdminToken env db actor accessor =
     attempt (requireAdmin actor) db (\<lambda>_.
     attempt (Store_RevokeTokenByAccessor db (TrimSpace accessor) (env_now env)) db (\<lambda>db1. (Inr (), db1)))"

definition RevokeAdminUserToken ::
  "auth_env \<Rightarrow> auth_db \<Rightarrow> Principal \<Rightarrow> string \<Rightarrow> string \<Rightarrow> (unit, auth_db) op" where
  "RevokeAdminUserToken env db actor userID accessor =
     attempt (requireAdmin actor) db (\<lambda>_.
     attempt (Store_GetUserByID db userID) db (\<lambda>user.
     attempt (Store_GetTokenByAccessor db TokenKindAdminCredential accessor) db (\<lambda>token.
     attempt (guard (tok_UserID token \<noteq> user_ID user)
                (auth_NewNotFoundError ''token'' (TrimSpace accessor))) db (\<lambda>_.
     attempt (Store_RevokeTokenByAccessor db (tok_Accessor token) (env_now env)) db (\<lambda>db1. (Inr (), db1))))))"

definition ResetPassword :: "auth_env \<Rightarrow> auth_db \<Rightarrow> Principal \<Rightarrow> string \<Rightarrow> string \<Rightarrow> (unit, auth_db) op" where
  "ResetPassword env db actor userID newPassword =
     attempt (requireAdmin actor) db (\<lambda>_.
     attempt (validatePassword newPassword) db (\<lambda>_.
     attempt (Store_GetUserByID db userID) db (\<lambda>user.
     attempt (hashPassword env newPassword) db (\<lambda>hash.
     attempt (Store_UpsertUser db (user\<lparr>user_PasswordHash := hash, user_UpdatedAt := env_now env\<rparr>)) db
       (\<lambda>db1. (Inr (), db1))))))"

section \<open>Grants\<close>

definition ListRepoGrants :: "auth_db \<Rightarrow> Principal \<Rightarrow> string \<Rightarrow> RepoGrant list result" where
  "ListRepoGrants db actor userID =
     check (requireAdmin actor) (\<lambda>_.
     check (Store_GetUserByID db userID) (\<lambda>_. Store_ListRepoGrants db userID))"

definition ListAdminUserRepoGrants :: "auth_db \<Rightarrow> Principal \<Rightarrow> string \<Rightarrow> AdminRepoGrant list result" where
  "ListAdminUserRepoGrants db actor userID =
     check (ListRepoGrants db actor userID) (\<lambda>grants. Inr (map toAdminRepoGrant grants))"

definition PutRepoGrant ::
  "auth_env \<Rightarrow> auth_db \<Rightarrow> Principal \<Rightarrow> string \<Rightarrow> string \<Rightarrow> RepoRole \<Rightarrow> (RepoGrant, auth_db) op" where
  "PutRepoGrant env db actor userID repository role =
     attempt (requireAdmin actor) db (\<lambda>_.
     attempt (Store_GetUserByID db userID) db (\<lambda>_.
     attempt (ParseRepositoryRef (TrimSpace repository)) db (\<lambda>repo.
     attempt (RepoRole_Validate role) db (\<lambda>_.
     let now = env_now env;
         grant = \<lparr>grant_UserID = userID, grant_Repository = repo, grant_Role = role,
           grant_CreatedAt = now, grant_UpdatedAt = now\<rparr> in
     attempt (Store_PutRepoGrant db grant) db (\<lambda>db1. (Inr grant, db1))))))"

definition PutAdminUserRepoGrant ::
  "auth_env \<Rightarrow> auth_db \<Rightarrow> Principal \<Rightarrow> string \<Rightarrow> string \<Rightarrow> RepoRole \<Rightarrow> (AdminRepoGrant, auth_db) op" where
  "PutAdminUserRepoGrant env db actor userID repository role =
     (case PutRepoGrant env db actor userID repository role of (r, db1) \<Rightarrow>
        attempt r db1 (\<lambda>grant. (Inr (toAdminRepoGrant grant), db1)))"

definition DeleteRepoGrant :: "auth_db \<Rightarrow> Principal \<Rightarrow> string \<Rightarrow> string \<Rightarrow> (unit, auth_db) op" where
  "DeleteRepoGrant db actor userID repository =
     attempt (requireAdmin actor) db (\<lambda>_.
     attempt (Store_GetUserByID db userID) db (\<lambda>_.
     attempt (ParseRepositoryRef (TrimSpace repository)) db (\<lambda>repo.
     attempt (Store_DeleteRepoGrant db userID repo) db (\<lambda>db1. (Inr (), db1)))))"

definition ListRepositoryGrants :: "auth_db \<Rightarrow> Principal \<Rightarrow> string \<Rightarrow> RepoGrant list result" where
  "ListRepositoryGrants db actor repository =
     check (ParseRepositoryRef (TrimSpace repository)) (\<lambda>repo.
     check (requireAdminOrRepoAdmin actor (repo_Name repo)) (\<lambda>_.
     Store_ListRepoGrantsByRepository db repo))"

definition ListAdminRepositoryGrants :: "auth_db \<Rightarrow> Principal \<Rightarrow> string \<Rightarrow> AdminRepositoryGrant list result" where
  "ListAdminRepositoryGrants db actor repository =
     check (ListRepositoryGrants db actor repository) (\<lambda>grants.
     check_all (\<lambda>grant. check (Store_GetUserByID db (grant_UserID grant)) (\<lambda>user.
       Inr \<lparr>argr_Username = user_Username user, argr_Role = grant_Role grant,
            argr_CreatedAt = grant_CreatedAt grant, argr_UpdatedAt = grant_UpdatedAt grant\<rparr>)) grants)"

text \<open>The check both delegate operations make on the target's present grants.\<close>

definition delegate_target_check :: "auth_db \<Rightarrow> Principal \<Rightarrow> User \<Rightarrow> RepositoryRef \<Rightarrow> unit result" where
  "delegate_target_check db actor target repo =
     (if \<not> pr_IsAdmin actor
      then check (Store_ListRepoGrants db (user_ID target)) (\<lambda>existing.
        guard (list_ex (\<lambda>grant. repo_Name (grant_Repository grant) = repo_Name repo
                          \<and> grant_Role grant = RepoRoleAdmin) existing)
          (NewForbiddenError
             ''repository administrators cannot modify another repository administrator's grant''))
      else Inr ())"

definition PutRepositoryGrant ::
  "auth_env \<Rightarrow> auth_db \<Rightarrow> Principal \<Rightarrow> string \<Rightarrow> string \<Rightarrow> RepoRole \<Rightarrow> (RepoGrant, auth_db) op" where
  "PutRepositoryGrant env db actor repository username role =
     attempt (ParseRepositoryRef (TrimSpace repository)) db (\<lambda>repo.
     attempt (requireAdminOrRepoAdmin actor (repo_Name repo)) db (\<lambda>_.
     attempt (RepoRole_Validate role) db (\<lambda>_.
     attempt (guard (\<not> pr_IsAdmin actor \<and> role = RepoRoleAdmin)
                (NewForbiddenError ''repository administrators cannot grant repo-admin'')) db (\<lambda>_.
     attempt (Store_GetUserByUsername db (normalizeUsername username)) db (\<lambda>target.
     attempt (delegate_target_check db actor target repo) db (\<lambda>_.
     let now = env_now env;
         grant = \<lparr>grant_UserID = user_ID target, grant_Repository = repo, grant_Role = role,
           grant_CreatedAt = now, grant_UpdatedAt = now\<rparr> in
     attempt (Store_PutRepoGrant db grant) db (\<lambda>db1. (Inr grant, db1))))))))"

definition PutAdminRepositoryGrant ::
  "auth_env \<Rightarrow> auth_db \<Rightarrow> Principal \<Rightarrow> string \<Rightarrow> string \<Rightarrow> RepoRole \<Rightarrow> (AdminRepositoryGrant, auth_db) op" where
  "PutAdminRepositoryGrant env db actor repository username role =
     (case PutRepositoryGrant env db actor repository username role of (r, db1) \<Rightarrow>
        attempt r db1 (\<lambda>grant. (Inr \<lparr>argr_Username = normalizeUsername username, argr_Role = grant_Role grant,
          argr_CreatedAt = grant_CreatedAt grant, argr_UpdatedAt = grant_UpdatedAt grant\<rparr>, db1)))"

definition DeleteRepositoryGrant :: "auth_db \<Rightarrow> Principal \<Rightarrow> string \<Rightarrow> string \<Rightarrow> (unit, auth_db) op" where
  "DeleteRepositoryGrant db actor repository username =
     attempt (ParseRepositoryRef (TrimSpace repository)) db (\<lambda>repo.
     attempt (requireAdminOrRepoAdmin actor (repo_Name repo)) db (\<lambda>_.
     attempt (Store_GetUserByUsername db (normalizeUsername username)) db (\<lambda>target.
     attempt (delegate_target_check db actor target repo) db (\<lambda>_.
     attempt (Store_DeleteRepoGrant db (user_ID target) repo) db (\<lambda>db1. (Inr (), db1))))))"

section \<open>Robots\<close>

text \<open>\<open>env2\<close> is what the nested \<open>CreateAdminToken\<close> draws.\<close>

definition CreateRobot ::
  "auth_env \<Rightarrow> auth_env \<Rightarrow> auth_db \<Rightarrow> Principal \<Rightarrow> CreateRobotInput \<Rightarrow> (CreatedRobot, auth_db) op" where
  "CreateRobot env env2 db actor input =
     attempt (requireAdmin actor) db (\<lambda>_.
     let username = normalizeUsername (cri_Name input) in
     attempt (guard (username = []) (auth_NewValidationError ''robot name is required'')) db (\<lambda>_.
     attempt (case Store_GetUserByUsername db username of
                Inr _ \<Rightarrow> Inl (auth_NewConflictError ''username already exists'')
              | Inl err \<Rightarrow> guard (\<not> auth_IsCode err auth_ErrorCodeNotFound) err) db (\<lambda>_.
     attempt (ParseRepositoryRef (TrimSpace (cri_Repository input))) db (\<lambda>repo.
     attempt (RepoRole_Validate (cri_Role input)) db (\<lambda>_.
     let now = env_now env;
         user = \<lparr>user_ID = env_user_uuid env, user_Username = username,
           user_PasswordHash = RobotPasswordHash, user_IsAdmin = False, user_IsReadOnly = False,
           user_IsRobot = True, user_Enabled = True, user_CreatedAt = now, user_UpdatedAt = now\<rparr> in
     attempt (Store_UpsertUser db user) db (\<lambda>db1.
     let grant = \<lparr>grant_UserID = user_ID user, grant_Repository = repo, grant_Role = cri_Role input,
           grant_CreatedAt = now, grant_UpdatedAt = now\<rparr> in
     attempt (Store_PutRepoGrant db1 grant) db1 (\<lambda>db2.
     case CreateAdminToken env2 db2 actor \<lparr>cati_UserID = user_ID user,
            cati_Name = TrimSpace (cri_Name input), cati_TTL = cri_TTL input\<rparr> of (r, db3) \<Rightarrow>
     attempt r db3 (\<lambda>created.
     (Inr \<lparr>cr_User = user, cr_Grant = grant, cr_Secret = cat_Secret created,
           cr_Accessor = cat_Accessor created, cr_ExpiresAt = cat_ExpiresAt created\<rparr>, db3)))))))))"

definition ListRobots :: "auth_db \<Rightarrow> Principal \<Rightarrow> User list result" where
  "ListRobots db actor = check (requireAdmin actor) (\<lambda>_. Store_ListRobots db)"

definition CreateAdminRobot ::
  "auth_env \<Rightarrow> auth_env \<Rightarrow> auth_db \<Rightarrow> Principal \<Rightarrow> CreateRobotInput \<Rightarrow> (AdminCreatedRobot, auth_db) op" where
  "CreateAdminRobot env env2 db actor input =
     (case CreateRobot env env2 db actor input of (r, db1) \<Rightarrow>
        attempt r db1 (\<lambda>created.
        (Inr \<lparr>acr_Robot = toAdminRobot (cr_User created) (cr_Grant created), acr_Secret = cr_Secret created,
              acr_Accessor = cr_Accessor created, acr_ExpiresAt = cr_ExpiresAt created\<rparr>, db1)))"

text \<open>The zero value of \<open>RepoGrant\<close>, which a robot without a grant is shown with.\<close>

definition zero_grant :: RepoGrant where
  "zero_grant = \<lparr>grant_UserID = [], grant_Repository = \<lparr>repo_Name = []\<rparr>, grant_Role = RepoRoleOther [],
     grant_CreatedAt = 0, grant_UpdatedAt = 0\<rparr>"

definition ListAdminRobots :: "auth_db \<Rightarrow> Principal \<Rightarrow> AdminRobot list result" where
  "ListAdminRobots db actor =
     check (ListRobots db actor) (\<lambda>robots.
     check_all (\<lambda>robot. check (Store_ListRepoGrants db (user_ID robot)) (\<lambda>grants.
       Inr (toAdminRobot robot (case grants of [] \<Rightarrow> zero_grant | g # _ \<Rightarrow> g)))) robots)"

definition DeleteRobot :: "auth_db \<Rightarrow> Principal \<Rightarrow> string \<Rightarrow> (unit, auth_db) op" where
  "DeleteRobot db actor userID =
     attempt (requireAdmin actor) db (\<lambda>_.
     attempt (Store_GetUserByID db userID) db (\<lambda>user.
     attempt (guard (\<not> user_IsRobot user)
                (auth_NewValidationError ''target user is not a robot account'')) db (\<lambda>_.
     attempt (Store_DeleteUser db userID) db (\<lambda>db1. (Inr (), db1)))))"

end
