(* ===== verification/Auth_Safety.thy ===== *)
theory Auth_Safety
  imports Auth_Service
begin

text \<open>
  What the auth service guarantees whatever the sequence of its operations: the tables keep their
  invariant, an active global admin stays, and a principal without privileges changes nothing.

  \<open>auth_step\<close> is the step relation: one rule per operation that writes, labelled with the
  principal who acts (\<open>None\<close> for the operations that take none). The \<open>Admin\<close> variants of the
  operations only project the results, so their steps are those of the operations they call.
\<close>

section \<open>Good states\<close>

definition has_admin :: "auth_db \<Rightarrow> bool" where
  "has_admin db \<longleftrightarrow> list_ex active_admin (db_users db)"

definition auth_good :: "auth_db \<Rightarrow> bool" where
  "auth_good db \<longleftrightarrow> auth_inv db \<and> has_admin db"

text \<open>
  What is assumed of \<open>uuid.NewString\<close> when a user is created: its text has no surrounding space
  and is the id of no user yet.
\<close>

definition fresh_env :: "auth_env \<Rightarrow> auth_db \<Rightarrow> bool" where
  "fresh_env env db \<longleftrightarrow> TrimSpace (env_user_uuid env) = env_user_uuid env
     \<and> user_at db (env_user_uuid env) = None"

lemma has_admin_at: "auth_inv db \<Longrightarrow> has_admin db \<longleftrightarrow> (\<exists>i u. user_at db i = Some u \<and> active_admin u)"
  by (auto simp: has_admin_def user_at_iff list_ex_iff)

lemma has_admin_store: "auth_inv db \<Longrightarrow> Store_HasActiveGlobalAdmin db = Inr (has_admin db)"
  by (simp add: Store_HasActiveGlobalAdmin_def has_admin_def active_admin_def list_ex_iff filter_empty_conv)

lemma auth_good_D:
  assumes "auth_good db"
  shows "auth_inv db" and "\<exists>i u. user_at db i = Some u \<and> active_admin u"
  using assms has_admin_at by (auto simp: auth_good_def)

lemma auth_good_I: "auth_inv db \<Longrightarrow> Store_HasActiveGlobalAdmin db = Inr True \<Longrightarrow> auth_good db"
  by (simp add: auth_good_def has_admin_store)

lemma good_upsert:
  assumes "auth_good db" "Store_UpsertUser db u = Inr db'" "TrimSpace (user_ID u) = user_ID u"
    and "user_at db (user_ID u) = None \<or> active_admin u
      \<or> (\<exists>j v. j \<noteq> user_ID u \<and> user_at db j = Some v \<and> active_admin v)"
  shows "auth_good db'"
proof (rule auth_good_I)
  note inv = auth_good_D(1) [OF assms(1)]
  show "auth_inv db'" by (rule pg.upsert_inv [OF inv assms(2,3)])
  have "active_admin u \<or> (\<exists>j v. j \<noteq> user_ID u \<and> user_at db j = Some v \<and> active_admin v)"
    using assms(4) auth_good_D(2) [OF assms(1)] by (metis option.distinct(1))
  then show "Store_HasActiveGlobalAdmin db' = Inr True" by (rule pg.upsert_keeps_admin [OF inv assms(2,3)])
qed

lemma good_update:
  assumes "auth_good db" "Store_GetUserByID db i = Inr user" "Store_UpsertUser db u = Inr db'"
    and "user_ID u = user_ID user"
    and "active_admin user \<Longrightarrow> active_admin u \<or> (\<exists>j v. j \<noteq> user_ID user \<and> user_at db j = Some v \<and> active_admin v)"
  shows "auth_good db'"
proof (rule good_upsert [OF assms(1,3)])
  note got = pg.get_Inr [OF auth_good_D(1) [OF assms(1)] assms(2)]
  show "TrimSpace (user_ID u) = user_ID u" using got assms(4) by simp
  obtain j v where j: "user_at db j = Some v" "active_admin v" using auth_good_D(2) [OF assms(1)] by blast
  show "user_at db (user_ID u) = None \<or> active_admin u
      \<or> (\<exists>j v. j \<noteq> user_ID u \<and> user_at db j = Some v \<and> active_admin v)"
  proof (cases "j = user_ID u")
    case True
    then have "v = user" using j got assms(4) by simp
    then show ?thesis using assms(4,5) j by metis
  qed (use j in blast)
qed

lemma good_delete:
  assumes "auth_good db" "Store_GetUserByID db i = Inr user" "Store_DeleteUser db i = Inr db'"
    and "active_admin user \<Longrightarrow> \<exists>j v. j \<noteq> user_ID user \<and> user_at db j = Some v \<and> active_admin v"
  shows "auth_good db'"
proof (rule auth_good_I)
  note inv = auth_good_D(1) [OF assms(1)]
  note got = pg.get_Inr [OF inv assms(2)]
  show "auth_inv db'" by (rule pg.delete_inv [OF inv assms(3)])
  obtain j v where "j \<noteq> TrimSpace i" "user_at db j = Some v" "active_admin v"
    using auth_good_D(2) [OF assms(1)] assms(4) got by (metis option.inject)
  then show "Store_HasActiveGlobalAdmin db' = Inr True" by (rule pg.delete_keeps_admin [OF inv assms(3)])
qed

text \<open>Writes to the other two tables.\<close>

lemma good_same_users:
  assumes "auth_good db" "auth_inv db'" "db_users db' = db_users db"
  shows "auth_good db'"
  using assms by (simp add: auth_good_def has_admin_def)

lemma users_unchanged:
  "Store_PutRepoGrant db g = Inr db' \<Longrightarrow> db_users db' = db_users db"
  "Store_DeleteRepoGrant db i r = Inr db' \<Longrightarrow> db_users db' = db_users db"
  "Store_CreateToken db t = Inr db' \<Longrightarrow> db_users db' = db_users db"
  "Store_RevokeTokenByAccessor db a now = Inr db' \<Longrightarrow> db_users db' = db_users db"
  by (auto simp: Store_PutRepoGrant_def Store_DeleteRepoGrant_def Store_CreateToken_def
      Store_RevokeTokenByAccessor_def go_flow Let_def)

lemma good_other_writes:
  "auth_good db \<Longrightarrow> Store_PutRepoGrant db g = Inr db' \<Longrightarrow> auth_good db'"
  "auth_good db \<Longrightarrow> Store_DeleteRepoGrant db i r = Inr db' \<Longrightarrow> auth_good db'"
  "auth_good db \<Longrightarrow> Store_CreateToken db t = Inr db' \<Longrightarrow> auth_good db'"
  "auth_good db \<Longrightarrow> Store_RevokeTokenByAccessor db a now = Inr db' \<Longrightarrow> auth_good db'"
  by (metis good_same_users auth_good_D(1) store_inv users_unchanged)+

lemma another_admin:
  assumes "auth_inv db" "ensureAnotherActiveAdmin db i True = Inr ()"
  shows "\<exists>j v. j \<noteq> i \<and> user_at db j = Some v \<and> active_admin v"
proof -
  obtain us where us: "Store_ListUsers db = Inr us"
      "set us = {u. user_at db (user_ID u) = Some u \<and> \<not> user_IsRobot u}"
    using pg.humans [OF assms(1)] by blast
  with assms(2) have "\<exists>u \<in> set us. user_ID u \<noteq> i \<and> user_IsAdmin u \<and> user_Enabled u"
    by (auto simp: ensureAnotherActiveAdmin_def list_ex_iff split: if_splits)
  then show ?thesis using us(2) by (auto simp: active_admin_def)
qed

section \<open>Every operation keeps a good state good\<close>

lemmas good_attempt = snd_attempt_inv [where P = auth_good]

lemma good_CreateUser:
  assumes "auth_good db" "fresh_env env db"
  shows "auth_good (snd (CreateUser env db actor input))"
  unfolding CreateUser_def Let_def
  by (intro good_attempt assms(1))
    (auto intro!: good_upsert [OF assms(1)] simp: assms(2) [unfolded fresh_env_def])

lemma good_BootstrapAdmin:
  assumes "auth_good db" "fresh_env env db"
  shows "auth_good (snd (BootstrapAdmin env db input))"
proof -
  have existing: "TrimSpace (user_ID u) = user_ID u" if "Store_GetUserByUsername db n = Inr u" for n u
    using Store_GetUserByUsername_Inr [OF that] auth_good_D(1) [OF assms(1)]
    by (simp add: auth_inv_def users_ok_def)
  show ?thesis
    unfolding BootstrapAdmin_def Let_def
    by (auto intro!: good_attempt assms(1) split: sum.splits if_splits
        simp: go_flow active_admin_def assms(2) [unfolded fresh_env_def] existing
        elim!: good_upsert [OF assms(1)])
qed

lemma good_UpdateUser:
  assumes "auth_good db"
  shows "auth_good (snd (UpdateUser env db actor input))"
proof -
  have upd: "auth_good d"
    if "Store_GetUserByID db i = Inr user" "Store_UpsertUser db u = Inr d" "user_ID u = user_ID user"
      "(if user_IsAdmin user \<and> \<not> user_IsAdmin u then ensureAnotherActiveAdmin db (user_ID user) (user_Enabled user)
        else Inr ()) = Inr ()" "user_Enabled u = user_Enabled user" for i user u d
    using good_update [OF assms that(1,2,3)] another_admin [OF auth_good_D(1) [OF assms], of "user_ID user"]
      that(4,5) by (auto simp: active_admin_def split: if_splits)
  show ?thesis
    unfolding UpdateUser_def Let_def by (intro good_attempt assms) (auto elim: upd)
qed

lemma good_SetUserEnabled:
  assumes "auth_good db"
  shows "auth_good (snd (SetUserEnabled env db actor i enabled))"
  unfolding SetUserEnabled_def Let_def
  by (intro good_attempt assms)
    (auto elim!: good_update [OF assms] simp: active_admin_def split: if_splits
      dest!: another_admin [OF auth_good_D(1) [OF assms]])

lemma good_ResetPassword:
  assumes "auth_good db"
  shows "auth_good (snd (ResetPassword env db actor i p))"
  unfolding ResetPassword_def Let_def
  by (intro good_attempt assms) (auto elim!: good_update [OF assms] simp: active_admin_def)

lemma good_DeleteUser:
  assumes "auth_good db"
  shows "auth_good (snd (DeleteUser db actor i))"
  unfolding DeleteUser_def
  by (intro good_attempt assms)
    (auto elim!: good_delete [OF assms] simp: active_admin_def split: if_splits
      dest!: another_admin [OF auth_good_D(1) [OF assms]])

lemma good_DeleteRobot:
  assumes "auth_good db"
  shows "auth_good (snd (DeleteRobot db actor i))"
proof -
  have "\<not> active_admin u" if "Store_GetUserByID db i = Inr u" "user_IsRobot u" for u
    using pg.robots pg.get_Inr [OF auth_good_D(1) [OF assms] that(1)] auth_good_D(1) [OF assms] that(2)
    by (auto simp: active_admin_def)
  then show ?thesis
    unfolding DeleteRobot_def
    by (intro good_attempt assms) (auto elim!: good_delete [OF assms] simp: go_flow)
qed

lemma good_issueAccessToken:
  assumes "auth_good db"
  shows "auth_good (snd (issueAccessToken env db user scopes))"
  unfolding issueAccessToken_def Let_def
  by (intro good_attempt assms) (auto intro: good_other_writes [OF assms])

lemma good_CreateAdminToken:
  assumes "auth_good db"
  shows "auth_good (snd (CreateAdminToken env db actor input))"
  unfolding CreateAdminToken_def Let_def
  by (intro good_attempt assms) (auto intro: good_other_writes [OF assms])

lemma good_robot_tail:
  assumes "auth_good d"
  shows "auth_good (snd (attempt (Store_PutRepoGrant d g) d (\<lambda>d1.
    case CreateAdminToken env2 d1 actor inp of (r, d2) \<Rightarrow> attempt r d2 (\<lambda>created. (Inr (f created), d2)))))"
proof (intro good_attempt assms)
  fix d1
  assume "Store_PutRepoGrant d g = Inr d1"
  then have "auth_good (snd (CreateAdminToken env2 d1 actor inp))"
    using good_other_writes(1) [OF assms] good_CreateAdminToken by blast
  then show "auth_good (snd (case CreateAdminToken env2 d1 actor inp of (r, d2) \<Rightarrow>
      attempt r d2 (\<lambda>created. (Inr (f created), d2))))"
    by (auto split: prod.split intro!: good_attempt)
qed

lemma good_CreateRobot:
  assumes "auth_good db" "fresh_env env db"
  shows "auth_good (snd (CreateRobot env env2 db actor input))"
proof -
  have ups: "auth_good d"
    if "Store_UpsertUser db \<lparr>user_ID = env_user_uuid env, user_Username = n, user_PasswordHash = h,
      user_IsAdmin = a, user_IsReadOnly = ro, user_IsRobot = rb, user_Enabled = e,
      user_CreatedAt = c, user_UpdatedAt = up\<rparr> = Inr d" for n h a ro rb e c up d
    using good_upsert [OF assms(1) that] assms(2) by (simp add: fresh_env_def)
  show ?thesis
    unfolding CreateRobot_def Let_def
    by (intro good_attempt assms(1) good_robot_tail) (auto intro: ups)
qed

lemma good_grant_ops:
  assumes "auth_good db"
  shows "auth_good (snd (PutRepoGrant env db actor i r role))"
    and "auth_good (snd (DeleteRepoGrant db actor i r))"
    and "auth_good (snd (PutRepositoryGrant env db actor r n role))"
    and "auth_good (snd (DeleteRepositoryGrant db actor r n))"
  unfolding PutRepoGrant_def DeleteRepoGrant_def PutRepositoryGrant_def DeleteRepositoryGrant_def Let_def
  by (intro good_attempt assms; auto intro: good_other_writes [OF assms])+

lemma good_token_ops:
  assumes "auth_good db"
  shows "auth_good (snd (RevokeAdminToken env db actor a))"
    and "auth_good (snd (RevokeAdminUserToken env db actor i a))"
    and "auth_good (snd (LoginWithPassword env db n p scopes))"
    and "auth_good (snd (LoginWithPreissuedToken env now db n t scopes))"
  unfolding RevokeAdminToken_def RevokeAdminUserToken_def LoginWithPassword_def LoginWithPreissuedToken_def
  by (intro good_attempt assms good_issueAccessToken; auto intro: good_other_writes [OF assms])+

lemmas good_ops = good_CreateUser good_BootstrapAdmin good_UpdateUser good_SetUserEnabled
  good_ResetPassword good_DeleteUser good_DeleteRobot good_CreateAdminToken good_CreateRobot
  good_grant_ops good_token_ops

section \<open>Sequences of operations\<close>

inductive auth_step :: "Principal option \<Rightarrow> auth_db \<Rightarrow> auth_db \<Rightarrow> bool" where
  step_Bootstrap: "fresh_env env db \<Longrightarrow> auth_step None db (snd (BootstrapAdmin env db input))"
| step_CreateUser: "fresh_env env db \<Longrightarrow> auth_step (Some actor) db (snd (CreateUser env db actor input))"
| step_UpdateUser: "auth_step (Some actor) db (snd (UpdateUser env db actor input))"
| step_SetUserEnabled: "auth_step (Some actor) db (snd (SetUserEnabled env db actor i enabled))"
| step_ResetPassword: "auth_step (Some actor) db (snd (ResetPassword env db actor i p))"
| step_DeleteUser: "auth_step (Some actor) db (snd (DeleteUser db actor i))"
| step_CreateRobot: "fresh_env env db \<Longrightarrow>
    auth_step (Some actor) db (snd (CreateRobot env env2 db actor input))"
| step_DeleteRobot: "auth_step (Some actor) db (snd (DeleteRobot db actor i))"
| step_CreateAdminToken: "auth_step (Some actor) db (snd (CreateAdminToken env db actor input))"
| step_RevokeAdminToken: "auth_step (Some actor) db (snd (RevokeAdminToken env db actor a))"
| step_RevokeAdminUserToken: "auth_step (Some actor) db (snd (RevokeAdminUserToken env db actor i a))"
| step_PutRepoGrant: "auth_step (Some actor) db (snd (PutRepoGrant env db actor i r role))"
| step_DeleteRepoGrant: "auth_step (Some actor) db (snd (DeleteRepoGrant db actor i r))"
| step_PutRepositoryGrant: "auth_step (Some actor) db (snd (PutRepositoryGrant env db actor r n role))"
| step_DeleteRepositoryGrant: "auth_step (Some actor) db (snd (DeleteRepositoryGrant db actor r n))"
| step_LoginPassword: "auth_step None db (snd (LoginWithPassword env db n p scopes))"
| step_LoginToken: "auth_step None db (snd (LoginWithPreissuedToken env now db n t scopes))"

inductive_cases auth_step_by: "auth_step (Some actor) db db'"

inductive auth_run :: "auth_db \<Rightarrow> auth_db \<Rightarrow> bool" where
  run_refl: "auth_run db db"
| run_step: "auth_run db db1 \<Longrightarrow> auth_step actor db1 db2 \<Longrightarrow> auth_run db db2"

lemma auth_step_good: "auth_step actor db db' \<Longrightarrow> auth_good db \<Longrightarrow> auth_good db'"
  by (induction rule: auth_step.induct) (simp_all add: good_ops)

text \<open>A small database for the examples: an admin, a repository administrator, a developer.\<close>

definition example_user :: "string \<Rightarrow> string \<Rightarrow> bool \<Rightarrow> User" where
  "example_user i name admin = \<lparr>user_ID = i, user_Username = name, user_PasswordHash = ''hash'',
     user_IsAdmin = admin, user_IsReadOnly = False, user_IsRobot = False, user_Enabled = True,
     user_CreatedAt = 1, user_UpdatedAt = 1\<rparr>"

definition example_grant :: "string \<Rightarrow> RepoRole \<Rightarrow> RepoGrant" where
  "example_grant i role = \<lparr>grant_UserID = i, grant_Repository = \<lparr>repo_Name = ''team/app''\<rparr>,
     grant_Role = role, grant_CreatedAt = 1, grant_UpdatedAt = 1\<rparr>"

definition example_auth_db :: auth_db where
  "example_auth_db = \<lparr>db_users = [example_user ''u1'' ''root'' True, example_user ''u2'' ''lead'' False,
       example_user ''u3'' ''dev'' False],
     db_tokens = [], db_grants = [example_grant ''u2'' RepoRoleAdmin, example_grant ''u3'' RepoRoleReader],
     db_collation = (\<lambda>t. t)\<rparr>"

definition example_actor :: "string \<Rightarrow> string \<Rightarrow> bool \<Rightarrow> RepoGrant list \<Rightarrow> Principal" where
  "example_actor i name admin grants = \<lparr>pr_Subject = ''atk'', pr_UserID = i, pr_Username = name,
     pr_IsAdmin = admin, pr_IsReadOnly = False, pr_Grants = grants, pr_Scopes = [], pr_ExpiresAt = 100\<rparr>"

definition example_env :: auth_env where
  "example_env = \<lparr>env_now = 5, env_user_uuid = ''u9'', env_token_uuid = ''t9'', env_accessor_uuid = ''a-9'',
     env_random = replicate 32 (CHR ''x''), env_GenerateFromPassword = (\<lambda>p. Inr (''h:'' @ p)),
     env_CompareHashAndPassword = (\<lambda>h p. h = ''h:'' @ p)\<rparr>"

lemma example_db_good: "auth_good example_auth_db"
  by code_simp

text \<open>
  C1: An active global admin is never lost: from any state whose tables are consistent and hold an
  active global admin, no sequence of operations of the service, by whatever principals and with
  whatever inputs, reaches a state without one, so \<open>EnsureBootstrapAdmin\<close> keeps succeeding;
  and the tables stay consistent (keys unique, every grant and token of an existing user).
\<close>

theorem active_admin_kept:
  assumes "auth_run db db'" and "auth_good db"
  shows "auth_inv db' \<and> EnsureBootstrapAdmin db' = Inr ()"
proof -
  have "auth_good db'" using assms by (induction rule: auth_run.induct) (auto intro: auth_step_good)
  then show ?thesis by (simp add: auth_good_def EnsureBootstrapAdmin_def has_admin_store)
qed

theorem active_admin_kept_witness:
  "auth_inv (snd (DeleteUser example_auth_db (example_actor ''u1'' ''root'' True []) ''u1''))
   \<and> EnsureBootstrapAdmin (snd (DeleteUser example_auth_db (example_actor ''u1'' ''root'' True []) ''u1'')) = Inr ()"
  by (rule active_admin_kept [OF run_step [OF run_refl step_DeleteUser] example_db_good])

lemma snd_attempt_refused: "\<exists>e. r = Inl e \<Longrightarrow> snd (attempt r s k) = s"
  by auto

text \<open>
  C4: Privilege: a principal who is no global admin and administers no repository changes nothing
  in the auth database, whichever operation it calls.
\<close>

theorem unprivileged_changes_nothing:
  assumes "auth_step (Some actor) db db'" and "\<not> pr_IsAdmin actor"
    and "\<forall>g \<in> set (pr_Grants actor). grant_Role g \<noteq> RepoRoleAdmin"
  shows "db' = db"
proof -
  have refuse: "\<exists>e. requireAdmin actor = Inl e" using assms(2) by (simp add: requireAdmin_def)
  have refuse_repo: "\<exists>e. requireAdminOrRepoAdmin actor r = Inl e" for r
    using assms(2,3) by (auto simp: requireAdminOrRepoAdmin_def list_ex_iff AllowsAdmin_def)
  have repo_ops: "snd (PutRepositoryGrant env db actor r n role) = db" "snd (DeleteRepositoryGrant db actor r n) = db"
    for env r n role
    unfolding PutRepositoryGrant_def DeleteRepositoryGrant_def
    by (cases "ParseRepositoryRef (TrimSpace r)"; simp only: attempt_simps snd_conv snd_attempt_refused [OF refuse_repo])+
  show ?thesis using assms(1)
    by (rule auth_step_by)
      (simp_all only: repo_ops CreateUser_def UpdateUser_def SetUserEnabled_def
        ResetPassword_def DeleteUser_def CreateRobot_def DeleteRobot_def CreateAdminToken_def
        RevokeAdminToken_def RevokeAdminUserToken_def PutRepoGrant_def DeleteRepoGrant_def
        snd_attempt_refused [OF refuse])
qed

theorem unprivileged_changes_nothing_witness:
  "snd (DeleteUser example_auth_db (example_actor ''u3'' ''dev'' False [example_grant ''u3'' RepoRoleReader]) ''u2'')
     = example_auth_db"
  by (rule unprivileged_changes_nothing [OF step_DeleteUser]) (simp_all add: example_actor_def example_grant_def)

section \<open>Delegated administration of a repository\<close>

definition repo_admins :: "auth_db \<Rightarrow> (string \<times> string) set" where
  "repo_admins db = grant_key ` {g \<in> set (db_grants db). grant_Role g = RepoRoleAdmin}"

text \<open>What the check of the target's grants establishes when the actor is a delegate.\<close>

lemma delegate_target_Inr:
  assumes "auth_inv db" "target \<in> set (db_users db)" "delegate_target_check db actor target repo = Inr ()"
    and "\<not> pr_IsAdmin actor"
  shows "(user_ID target, repo_Name repo) \<notin> repo_admins db"
proof -
  have "TrimSpace (user_ID target) = user_ID target"
    using assms(1,2) by (simp add: auth_inv_def users_ok_def)
  from Store_ListRepoGrants_ok [OF assms(1) this]
  obtain gs where gs: "Store_ListRepoGrants db (user_ID target) = Inr gs"
      "set gs = {g \<in> set (db_grants db). grant_UserID g = user_ID target}" by blast
  then have "\<not> (\<exists>g \<in> set gs. repo_Name (grant_Repository g) = repo_Name repo \<and> grant_Role g = RepoRoleAdmin)"
    using assms(3,4) by (auto simp: delegate_target_check_def go_flow list_ex_iff)
  then show ?thesis using gs(2) by (auto simp: repo_admins_def grant_key_def)
qed

lemma target_row:
  assumes "auth_inv db" "Store_GetUserByUsername db n = Inr target"
  shows "target \<in> set (db_users db)" "TrimSpace (user_ID target) = user_ID target"
  using Store_GetUserByUsername_Inr [OF assms(2)] assms(1) by (auto simp: auth_inv_def users_ok_def)

lemma upsert_grant_other:
  "grant_key h \<noteq> grant_key g \<Longrightarrow> h \<in> set (upsert_grant_row gs g) \<longleftrightarrow> h \<in> set gs"
  by (auto simp: upsert_grant_row_def same_grant_key_iff image_iff grant_key_def)

lemma upsert_grant_this:
  assumes "h \<in> set (upsert_grant_row gs g)" "grant_key h = grant_key g"
  shows "grant_Role h = grant_Role g"
  using assms by (auto simp: upsert_grant_row_def same_grant_key_iff grant_key_def split: if_splits)

lemma put_grant_frame:
  assumes "Store_PutRepoGrant db g = Inr db'"
  shows "db_users db' = db_users db" "db_tokens db' = db_tokens db"
    "grant_key h \<noteq> grant_key g \<Longrightarrow> h \<in> set (db_grants db') \<longleftrightarrow> h \<in> set (db_grants db)"
    "h \<in> set (db_grants db') \<Longrightarrow> grant_key h = grant_key g \<Longrightarrow> grant_Role h = grant_Role g"
  using assms upsert_grant_other [of h g "db_grants db"] upsert_grant_this [of h "db_grants db" g]
  by (auto simp: Store_PutRepoGrant_def go_flow)

lemma PutRepositoryGrant_Inr:
  assumes "PutRepositoryGrant env db actor repository username role = (Inr g, db')"
  shows "\<exists>repo target. ParseRepositoryRef (TrimSpace repository) = Inr repo
    \<and> requireAdminOrRepoAdmin actor (repo_Name repo) = Inr ()
    \<and> (pr_IsAdmin actor \<or> role \<noteq> RepoRoleAdmin)
    \<and> Store_GetUserByUsername db (normalizeUsername username) = Inr target
    \<and> delegate_target_check db actor target repo = Inr ()
    \<and> g = \<lparr>grant_UserID = user_ID target, grant_Repository = repo, grant_Role = role,
           grant_CreatedAt = env_now env, grant_UpdatedAt = env_now env\<rparr>
    \<and> Store_PutRepoGrant db g = Inr db'"
  using assms unfolding PutRepositoryGrant_def Let_def by (auto simp: go_flow)

lemma repo_admin_actor:
  "requireAdminOrRepoAdmin actor r = Inr () \<Longrightarrow> \<not> pr_IsAdmin actor \<Longrightarrow>
     \<exists>h \<in> set (pr_Grants actor). repo_Name (grant_Repository h) = r \<and> grant_Role h = RepoRoleAdmin"
  by (auto simp: requireAdminOrRepoAdmin_def list_ex_iff AllowsAdmin_def split: if_splits)

text \<open>
  C2: The bounds of delegation: when \<open>PutRepositoryGrant\<close> succeeds for an actor who is no global
  admin, the actor administers exactly that repository, the role given is not repo-admin, the
  target was no administrator of the repository, and nothing changes but the target's grant on
  that repository.
\<close>

theorem delegate_put_bounds:
  assumes "PutRepositoryGrant env db actor repository username role = (Inr g, db')"
    and "\<not> pr_IsAdmin actor" and "auth_inv db"
  shows "(\<exists>h \<in> set (pr_Grants actor). repo_Name (grant_Repository h) = TrimSpace repository
            \<and> grant_Role h = RepoRoleAdmin)
    \<and> repo_Name (grant_Repository g) = TrimSpace repository \<and> role \<noteq> RepoRoleAdmin \<and> grant_Role g = role
    \<and> grant_key g \<notin> repo_admins db
    \<and> db_users db' = db_users db \<and> db_tokens db' = db_tokens db
    \<and> (\<forall>h. grant_key h \<noteq> grant_key g \<longrightarrow> (h \<in> set (db_grants db') \<longleftrightarrow> h \<in> set (db_grants db)))"
proof -
  obtain repo target where *: "ParseRepositoryRef (TrimSpace repository) = Inr repo"
    "requireAdminOrRepoAdmin actor (repo_Name repo) = Inr ()" "role \<noteq> RepoRoleAdmin"
    "Store_GetUserByUsername db (normalizeUsername username) = Inr target"
    "delegate_target_check db actor target repo = Inr ()"
    "g = \<lparr>grant_UserID = user_ID target, grant_Repository = repo, grant_Role = role,
           grant_CreatedAt = env_now env, grant_UpdatedAt = env_now env\<rparr>"
    "Store_PutRepoGrant db g = Inr db'"
    using PutRepositoryGrant_Inr [OF assms(1)] assms(2) by blast
  have "grant_key g \<notin> repo_admins db"
    using delegate_target_Inr [OF assms(3) target_row(1) [OF assms(3) *(4)] *(5) assms(2)] *(6)
    by (simp add: grant_key_def)
  then show ?thesis
    using * repo_admin_actor [OF *(2) assms(2)] put_grant_frame [OF *(7)] ParseRepositoryRef_Name [OF *(1)]
    by simp
qed

definition example_put :: "(RepoGrant, auth_db) op" where
  "example_put = PutRepositoryGrant example_env example_auth_db
     (example_actor ''u2'' ''lead'' False [example_grant ''u2'' RepoRoleAdmin]) ''team/app'' ''dev'' RepoRoleWriter"

lemma example_put_runs:
  "PutRepositoryGrant example_env example_auth_db
     (example_actor ''u2'' ''lead'' False [example_grant ''u2'' RepoRoleAdmin]) ''team/app'' ''dev'' RepoRoleWriter
   = (Inr \<lparr>grant_UserID = ''u3'', grant_Repository = \<lparr>repo_Name = ''team/app''\<rparr>, grant_Role = RepoRoleWriter,
          grant_CreatedAt = 5, grant_UpdatedAt = 5\<rparr>, snd example_put)"
proof -
  have "fst example_put = Inr \<lparr>grant_UserID = ''u3'', grant_Repository = \<lparr>repo_Name = ''team/app''\<rparr>,
      grant_Role = RepoRoleWriter, grant_CreatedAt = 5, grant_UpdatedAt = 5\<rparr>" by code_simp
  then show ?thesis unfolding example_put_def by (metis prod.collapse)
qed

theorem delegate_put_bounds_witness:
  "grant_key \<lparr>grant_UserID = ''u3'', grant_Repository = \<lparr>repo_Name = ''team/app''\<rparr>, grant_Role = RepoRoleWriter,
          grant_CreatedAt = 5, grant_UpdatedAt = 5\<rparr> \<notin> repo_admins example_auth_db"
  using delegate_put_bounds [OF example_put_runs _ auth_good_D(1) [OF example_db_good]]
  by (simp add: example_actor_def)

lemma not_admin:
  "k \<notin> repo_admins db \<Longrightarrow> h \<in> set (db_grants db) \<Longrightarrow> grant_Role h = RepoRoleAdmin \<Longrightarrow> grant_key h \<noteq> k"
  by (auto simp: repo_admins_def)

lemma delete_grant_admins:
  assumes "Store_DeleteRepoGrant db i repo = Inr db'" "(TrimSpace i, repo_Name repo) \<notin> repo_admins db"
  shows "repo_admins db' = repo_admins db"
proof -
  from assms(1) have "db_grants db' = filter (\<lambda>g. \<not> (grant_UserID g = TrimSpace i
      \<and> repo_Name (grant_Repository g) = repo_Name repo)) (db_grants db)"
    by (auto simp: Store_DeleteRepoGrant_def go_flow Let_def)
  moreover have "\<not> (grant_UserID g = TrimSpace i \<and> repo_Name (grant_Repository g) = repo_Name repo)"
    if "g \<in> set (db_grants db)" "grant_Role g = RepoRoleAdmin" for g
    using not_admin [OF assms(2) that] by (auto simp: grant_key_def)
  ultimately have "{g \<in> set (db_grants db'). grant_Role g = RepoRoleAdmin}
      = {g \<in> set (db_grants db). grant_Role g = RepoRoleAdmin}" by auto
  then show ?thesis unfolding repo_admins_def by simp
qed

lemma put_grant_admins:
  assumes "Store_PutRepoGrant db g = Inr db'" "grant_key g \<notin> repo_admins db" "grant_Role g \<noteq> RepoRoleAdmin"
  shows "repo_admins db' = repo_admins db"
proof -
  have "h \<in> set (db_grants db') \<and> grant_Role h = RepoRoleAdmin \<longleftrightarrow>
      h \<in> set (db_grants db) \<and> grant_Role h = RepoRoleAdmin" for h
    using put_grant_frame(3,4) [OF assms(1), of h] assms(2,3)
      not_admin [OF assms(2), of h] by (cases "grant_key h = grant_key g") auto
  then show ?thesis unfolding repo_admins_def by simp
qed

lemma DeleteRepositoryGrant_cases:
  "snd (DeleteRepositoryGrant db actor r n) = db \<or>
   (\<exists>repo target. ParseRepositoryRef (TrimSpace r) = Inr repo
      \<and> Store_GetUserByUsername db (normalizeUsername n) = Inr target
      \<and> delegate_target_check db actor target repo = Inr ()
      \<and> Store_DeleteRepoGrant db (user_ID target) repo = Inr (snd (DeleteRepositoryGrant db actor r n)))"
  unfolding DeleteRepositoryGrant_def by (auto simp: attempt_def split: sum.split)

lemma PutRepositoryGrant_cases:
  "snd (PutRepositoryGrant env db actor r n role) = db \<or>
   (\<exists>g. PutRepositoryGrant env db actor r n role = (Inr g, snd (PutRepositoryGrant env db actor r n role)))"
  unfolding PutRepositoryGrant_def Let_def by (auto simp: attempt_def split: sum.split)

text \<open>
  C3: Repository administrators are the global admins' business alone: no operation by an actor who
  is no global admin adds or removes a repo-admin grant of anyone, on any repository.
\<close>

theorem delegates_keep_repo_admins:
  assumes "auth_step (Some actor) db db'" and "\<not> pr_IsAdmin actor" and "auth_inv db"
  shows "repo_admins db' = repo_admins db"
proof -
  have refuse: "\<exists>e. requireAdmin actor = Inl e" using assms(2) by (simp add: requireAdmin_def)
  have put: "repo_admins (snd (PutRepositoryGrant env db actor r n role)) = repo_admins db" for env r n role
  proof -
    have "repo_admins d = repo_admins db" if run: "PutRepositoryGrant env db actor r n role = (Inr g, d)" for g d
    proof -
      obtain repo target where *: "role \<noteq> RepoRoleAdmin" "Store_GetUserByUsername db (normalizeUsername n) = Inr target"
        "delegate_target_check db actor target repo = Inr ()" "Store_PutRepoGrant db g = Inr d"
        "g = \<lparr>grant_UserID = user_ID target, grant_Repository = repo, grant_Role = role,
           grant_CreatedAt = env_now env, grant_UpdatedAt = env_now env\<rparr>"
        using PutRepositoryGrant_Inr [OF run] assms(2) by blast
      then show ?thesis
        using delegate_target_Inr [OF assms(3) target_row(1) [OF assms(3) *(2)] *(3) assms(2)]
        by (intro put_grant_admins [OF *(4)]) (simp_all add: grant_key_def)
    qed
    then show ?thesis using PutRepositoryGrant_cases [of env db actor r n role] by metis
  qed
  have del: "repo_admins (snd (DeleteRepositoryGrant db actor r n)) = repo_admins db" for r n
    using DeleteRepositoryGrant_cases [of db actor r n] delete_grant_admins
      delegate_target_Inr [OF assms(3) target_row(1) [OF assms(3)] _ assms(2)] target_row(2) [OF assms(3)]
    by metis
  show ?thesis using assms(1)
    by (rule auth_step_by)
      (simp_all only: put del CreateUser_def UpdateUser_def SetUserEnabled_def
        ResetPassword_def DeleteUser_def CreateRobot_def DeleteRobot_def CreateAdminToken_def
        RevokeAdminToken_def RevokeAdminUserToken_def PutRepoGrant_def DeleteRepoGrant_def
        snd_attempt_refused [OF refuse])
qed

theorem delegates_keep_repo_admins_witness:
  "repo_admins (snd (DeleteRepositoryGrant example_auth_db
      (example_actor ''u2'' ''lead'' False [example_grant ''u2'' RepoRoleAdmin]) ''team/app'' ''dev''))
   = repo_admins example_auth_db"
  by (rule delegates_keep_repo_admins [OF step_DeleteRepositoryGrant _ auth_good_D(1) [OF example_db_good]])
    (simp add: example_actor_def)

end
