(* ===== verification/Auth_Tokens.thy ===== *)
theory Auth_Tokens
  imports Auth_Safety
begin

text \<open>
  Login and bearer tokens: what a login issues, what a bearer token is worth afterwards, and how
  deletion and revocation end it. The theorems are about \<open>LoginWithPassword\<close>,
  \<open>LoginWithPreissuedToken\<close> and \<open>VerifyAccessToken\<close> of \<open>internal/app/auth/service.go\<close>.
\<close>

section \<open>Hashes of secrets\<close>

lemma hex_no_space: "is_hex c \<Longrightarrow> \<not> space_edge c"
  by (auto simp: is_hex_def is_digit_def in_range_def space_edge_def go_spaces_def)

lemma hashSecret_trim [simp]: "TrimSpace (hashSecret s) = hashSecret s"
proof (rule TrimSpace_plain)
  have "list_all is_hex (hashSecret s)"
    using hex_decodable_encode by (simp add: hashSecret_def hex_decodable_def)
  then show "plain (hashSecret s)" using hex_no_space by (auto simp: plain_def list_all_iff)
qed

section \<open>What a login issues\<close>

lemma getActiveUser_Inr:
  assumes "getActiveUserByUsername db n = Inr user"
  shows "user \<in> set (db_users db)" "user_Enabled user" "User_Validate user = Inr ()"
  using assms Store_GetUserByUsername_Inr [of db "normalizeUsername n" user]
  by (auto simp: getActiveUserByUsername_def split: sum.splits if_splits)

definition access_token :: "auth_env \<Rightarrow> User \<Rightarrow> Scope list \<Rightarrow> Token" where
  "access_token env user granted =
     \<lparr>tok_ID = env_token_uuid env, tok_UserID = user_ID user, tok_Kind = TokenKindAccess, tok_Name = [],
      tok_Scope = NormalizeScopes granted, tok_Accessor = shortAccessor env ''atk'',
      tok_SecretHash = hashSecret (randomSecret env), tok_ExpiresAt = env_now env + AccessTokenTTL,
      tok_CreatedAt = env_now env, tok_RevokedAt = None\<rparr>"

lemma issueAccessToken_Inr:
  assumes "issueAccessToken env db user scopes = (Inr r, db')"
  shows "\<exists>granted. grantedScopes db user scopes = Inr granted
    \<and> Store_CreateToken db (access_token env user granted) = Inr db'
    \<and> buildPrincipal db' user (access_token env user granted) = Inr (lr_Principal r)
    \<and> lr_BearerToken r = randomSecret env \<and> lr_ExpiresAt r = env_now env + AccessTokenTTL"
  using assms unfolding issueAccessToken_def Let_def access_token_def by (auto simp: go_flow)

lemma LoginWithPassword_Inr:
  assumes "LoginWithPassword env db n pw scopes = (Inr r, db')"
  shows "\<exists>user. getActiveUserByUsername db n = Inr user \<and> \<not> user_IsRobot user
    \<and> env_CompareHashAndPassword env (user_PasswordHash user) pw
    \<and> issueAccessToken env db user scopes = (Inr r, db')"
  using assms unfolding LoginWithPassword_def by (auto simp: go_flow)

lemma created_token:
  "Store_CreateToken db t = Inr db' \<Longrightarrow> db' = db\<lparr>db_tokens := db_tokens db @ [t]\<rparr>"
  by (auto simp: Store_CreateToken_def go_flow)

lemma buildPrincipal_Inr:
  "buildPrincipal db user t = Inr p \<Longrightarrow> pr_UserID p = user_ID user \<and> pr_Username p = user_Username user
     \<and> pr_IsAdmin p = user_IsAdmin user \<and> pr_IsReadOnly p = user_IsReadOnly user
     \<and> pr_ExpiresAt p = tok_ExpiresAt t \<and> Token_Scopes t = Inr (pr_Scopes p)
     \<and> pr_Grants p = (case Store_ListRepoGrants db (user_ID user) of Inl _ \<Rightarrow> [] | Inr gs \<Rightarrow> gs)"
  by (auto simp: buildPrincipal_def Let_def go_flow)

lemma user_grants:
  assumes "auth_inv db" "user \<in> set (db_users db)" "buildPrincipal db user t = Inr p"
  shows "set (pr_Grants p) = {g \<in> set (db_grants db). grant_UserID g = user_ID user}"
proof -
  have "TrimSpace (user_ID user) = user_ID user" using assms(1,2) by (simp add: auth_inv_def users_ok_def)
  from Store_ListRepoGrants_ok [OF assms(1) this]
  obtain gs where gs: "Store_ListRepoGrants db (user_ID user) = Inr gs"
      "set gs = {g \<in> set (db_grants db). grant_UserID g = user_ID user}" by blast
  then have "pr_Grants p = gs" using buildPrincipal_Inr [OF assms(3)] by simp
  then show ?thesis using gs(2) by simp
qed

section \<open>What a bearer token is worth\<close>

lemma masked_Inr: "(case r of Inl _ \<Rightarrow> Inl e | Inr p \<Rightarrow> Inr p) = Inr q \<longleftrightarrow> r = Inr q"
  by (cases r) auto

lemma VerifyAccessToken_Inr:
  assumes "VerifyAccessToken db now bearer = Inr p"
  shows "\<exists>t user. Store_GetTokenBySecretHash db TokenKindAccess (hashSecret bearer) = Inr t
    \<and> IsActive t now = Inr () \<and> Store_GetUserByID db (tok_UserID t) = Inr user \<and> user_Enabled user
    \<and> buildPrincipal db user t = Inr p"
  using assms unfolding VerifyAccessToken_def by (auto simp: go_flow masked_Inr split: sum.splits if_splits)

text \<open>
  C5: A bearer token is only worth what the database says now: when \<open>VerifyAccessToken\<close> accepts
  one, the token is stored under its hash, neither revoked nor expired, its user exists and is
  enabled, and the principal carries the user's present flags and present grants (the scopes
  alone come from the token).
\<close>

theorem verified_principal_is_current:
  assumes "VerifyAccessToken db now bearer = Inr p" and "auth_inv db"
  shows "\<exists>t \<in> set (db_tokens db). \<exists>user \<in> set (db_users db).
       tok_Kind t = TokenKindAccess \<and> tok_SecretHash t = hashSecret bearer
     \<and> tok_RevokedAt t = None \<and> now < tok_ExpiresAt t
     \<and> tok_UserID t = user_ID user \<and> user_Enabled user \<and> pr_UserID p = user_ID user
     \<and> pr_IsAdmin p = user_IsAdmin user \<and> pr_IsReadOnly p = user_IsReadOnly user
     \<and> set (pr_Grants p) = {g \<in> set (db_grants db). grant_UserID g = user_ID user}
     \<and> Token_Scopes t = Inr (pr_Scopes p)"
proof -
  obtain t user where *: "Store_GetTokenBySecretHash db TokenKindAccess (hashSecret bearer) = Inr t"
    "IsActive t now = Inr ()" "Store_GetUserByID db (tok_UserID t) = Inr user" "user_Enabled user"
    "buildPrincipal db user t = Inr p"
    using VerifyAccessToken_Inr [OF assms(1)] by blast
  have t: "t \<in> set (db_tokens db)" "tok_Kind t = TokenKindAccess" "tok_SecretHash t = hashSecret bearer"
    using Store_GetTokenBySecretHash_Inr [OF *(1)] by simp_all
  have u: "user \<in> set (db_users db)" "user_ID user = TrimSpace (tok_UserID t)"
    using Store_GetUserByID_Inr [OF *(3)] by simp_all
  have "TrimSpace (tok_UserID t) = tok_UserID t"
    using assms(2) t(1) by (auto simp: auth_inv_def tokens_ok_def users_ok_def)
  moreover have "tok_RevokedAt t = None" "now < tok_ExpiresAt t"
    using *(2) by (auto simp: IsActive_def IsRevoked_def IsExpired_def go_flow)
  ultimately show ?thesis
    using t u *(4) buildPrincipal_Inr [OF *(5)] user_grants [OF assms(2) u(1) *(5)]
    by (intro bexI [of _ t] bexI [of _ user] conjI) simp_all
qed

lemma login_verifies:
  assumes "LoginWithPassword env db n pw scopes = (Inr r, db')" and "auth_inv db"
    and "now < env_now env + AccessTokenTTL"
  shows "VerifyAccessToken db' now (lr_BearerToken r) = Inr (lr_Principal r)"
proof -
  obtain user where u: "getActiveUserByUsername db n = Inr user" "issueAccessToken env db user scopes = (Inr r, db')"
    using LoginWithPassword_Inr [OF assms(1)] by blast
  obtain granted where g: "Store_CreateToken db (access_token env user granted) = Inr db'"
    "buildPrincipal db' user (access_token env user granted) = Inr (lr_Principal r)"
    "lr_BearerToken r = randomSecret env"
    using issueAccessToken_Inr [OF u(2)] by blast
  let ?t = "access_token env user granted"
  have inv: "auth_inv db'" by (rule Store_CreateToken_inv [OF assms(2) g(1)])
  note db' = created_token [OF g(1)]
  have "Store_GetTokenBySecretHash db' TokenKindAccess (hashSecret (randomSecret env)) = Inr ?t"
    by (rule token_by_hash [OF inv]) (simp_all add: db' access_token_def)
  moreover have "IsActive ?t now = Inr ()"
    using assms(3) by (simp add: IsActive_def IsRevoked_def IsExpired_def access_token_def)
  moreover have "Store_GetUserByID db' (tok_UserID ?t) = Inr user"
  proof -
    have mem: "user \<in> set (db_users db')" using getActiveUser_Inr(1) [OF u(1)] by (simp add: db')
    then have "user_at db' (user_ID user) = Some user" "TrimSpace (user_ID user) = user_ID user"
      using inv user_at_iff [OF inv] by (auto simp: auth_inv_def users_ok_def)
    then show ?thesis by (simp add: pg.get [OF inv] access_token_def)
  qed
  ultimately show ?thesis
    using getActiveUser_Inr(2) [OF u(1)] g(2,3) by (simp add: VerifyAccessToken_def)
qed

text \<open>
  C6: Login and verification fit together: the bearer token of a successful password login verifies
  to exactly the principal the login returned, from the moment of issue until its fifteen
  minutes are over.
\<close>

theorem login_then_verify:
  assumes "LoginWithPassword env db n pw scopes = (Inr r, db')" and "auth_inv db"
    and "now < env_now env + AccessTokenTTL"
  shows "VerifyAccessToken db' now (lr_BearerToken r) = Inr (lr_Principal r)"
  using assms by (rule login_verifies)

lemma Token_Validate_scopes: "Token_Validate t = Inr u \<Longrightarrow> \<exists>ss. Token_Scopes t = Inr ss"
  by (auto simp: Token_Validate_def go_flow)

lemma issueAccessToken_Inl:
  assumes "issueAccessToken env db user scopes = (Inl e, db')"
  shows "db' = db"
proof -
  have "\<exists>p. buildPrincipal d user t = Inr p" if "Store_CreateToken db t = Inr d" for d t
    using that Token_Validate_scopes [of t]
    by (auto simp: Store_CreateToken_def buildPrincipal_def Let_def go_flow)
  then show ?thesis using assms unfolding issueAccessToken_def Let_def by (fastforce simp: go_flow)
qed


section \<open>The scopes of an issued token\<close>

lemma intersect_actions:
  assumes "a \<in> set (intersectRequestedActions admin ro gs q)"
  shows "a = ''pull'' \<and> AllowsPull q \<and> (admin \<or> ro
            \<or> (\<exists>g \<in> set gs. repo_Name (grant_Repository g) = repo_Name (scope_repository q) \<and> AllowsRead (grant_Role g)))
    \<or> a = ''push'' \<and> AllowsPush q \<and> (admin
            \<or> (\<exists>g \<in> set gs. repo_Name (grant_Repository g) = repo_Name (scope_repository q) \<and> AllowsWrite (grant_Role g)))
    \<or> a = ''delete'' \<and> AllowsDelete q \<and> (admin
            \<or> (\<exists>g \<in> set gs. repo_Name (grant_Repository g) = repo_Name (scope_repository q) \<and> AllowsWrite (grant_Role g)))"
  using assms
  by (auto simp: intersectRequestedActions_def Let_def split: if_splits option.splits dest!: find_Some_mem)

lemma intersect_read_only: "a \<in> set (intersectRequestedActions False True gs q) \<Longrightarrow> a = ''pull''"
  by (auto simp: intersectRequestedActions_def split: if_splits)

lemma intersect_lists:
  assumes "intersectRequestedActions admin ro gs q \<noteq> []"
  shows "intersectRequestedActions admin ro gs q \<in> set action_lists"
proof -
  define flags where "flags p w d = (if p then [''pull''] else []) @ (if w then [''push''] else [])
      @ (if d then [''delete''] else [])" for p w d
  have "\<forall>p \<in> {True, False}. \<forall>w \<in> {True, False}. \<forall>d \<in> {True, False}.
      (if p then [''pull''] else []) @ (if w then [''push''] else []) @ (if d then [''delete''] else []) = []
      \<or> (if p then [''pull''] else []) @ (if w then [''push''] else []) @ (if d then [''delete''] else [])
        \<in> set action_lists"
    by code_simp
  then have "flags p w d = [] \<or> flags p w d \<in> set action_lists" for p w d
    unfolding flags_def by blast
  moreover obtain p w d where "intersectRequestedActions admin ro gs q = flags p w d"
    unfolding intersectRequestedActions_def Let_def flags_def by (metis (no_types, lifting) case_prod_conv surj_pair)
  ultimately show ?thesis using assms by metis
qed

lemma granted_loop_mem:
  assumes "s \<in> set (granted_loop user gs req)"
  shows "(s \<in> set req \<and> IsRegixtryCatalog s) \<or>
    (\<exists>q \<in> set req. IsRepository q
       \<and> scope_Actions s = intersectRequestedActions (user_IsAdmin user) (user_IsReadOnly user) gs q
       \<and> scope_Actions s \<noteq> [] \<and> scope_Type s = ''repository'' \<and> scope_Name s = repo_Name (scope_repository q)
       \<and> scope_Canonical s = repository_canonical (scope_Name s) (scope_Actions s))"
  using assms
  by (induction user gs req rule: granted_loop.induct)
    (auto simp: Let_def repository_canonical_def split: if_splits)

lemma parsed_scope_repository:
  assumes "ParseScopes vs = Inr req" "q \<in> set req" "IsRepository q"
  shows "repo_Name (scope_repository q) = scope_Name q" "ParseRepositoryRef (scope_Name q) = Inr (scope_repository q)"
proof -
  obtain raw where raw: "ParseScope raw = Inr q"
    using assms(1,2) unfolding ParseScopes_def by (blast dest: check_all_set)
  show "repo_Name (scope_repository q) = scope_Name q"
    using ParseScope_well_scoped [OF raw] assms(3) by simp
  then show "ParseRepositoryRef (scope_Name q) = Inr (scope_repository q)"
    using ParseScope_well_scoped [OF raw] assms(3)
    by (auto simp: well_scoped_def scope_core_def IsRepository_def scopeTypeRepository_def ParseRepositoryRef_Inr)
qed

lemma catalog_not_repository: "IsRegixtryCatalog s \<Longrightarrow> \<not> IsRepository s"
  by (simp add: IsRegixtryCatalog_def IsRepository_def action_names)

lemma granted_well_scoped:
  assumes "ParseScopes vs = Inr req" "s \<in> set (granted_loop user gs req)"
  shows "well_scoped s"
  using granted_loop_mem [OF assms(2)]
proof (elim disjE bexE conjE)
  fix q
  assume q: "q \<in> set req" "IsRepository q" "scope_Type s = ''repository''"
    "scope_Actions s = intersectRequestedActions (user_IsAdmin user) (user_IsReadOnly user) gs q"
    "scope_Actions s \<noteq> []" "scope_Name s = repo_Name (scope_repository q)"
    "scope_Canonical s = repository_canonical (scope_Name s) (scope_Actions s)"
  have "scope_Actions s \<in> set action_lists" using intersect_lists q(4,5) by metis
  moreover have "ParseRepositoryRef (scope_Name s) = Inr (scope_repository q)"
    using parsed_scope_repository [OF assms(1) q(1,2)] q(6) by simp
  ultimately show ?thesis unfolding well_scoped_def scope_core_def using q(3,7) by blast
qed (use ParseScopes_well_scoped [OF assms(1)] in blast)

text \<open>The stored text of well-formed scopes reads back as scopes that say the same.\<close>

lemma distinct_canonical_map:
  "(\<And>s. s \<in> set ss \<Longrightarrow> scope_Canonical (f s) = scope_Canonical s) \<Longrightarrow>
     distinct_canonical seen (map f ss) = distinct_canonical seen ss"
  by (induction ss arbitrary: seen) auto

lemma Normalize_well_scoped:
  assumes "\<And>s. s \<in> set ss \<Longrightarrow> well_scoped s"
  shows "\<exists>ts. ParseScopes [NormalizeScopes ss] = Inr ts \<and> scope_core ` set ts = scope_core ` set ss"
proof -
  define fix_scope where "fix_scope s = projr (ParseScope (scope_Canonical s))" for s :: Scope
  have fixed: "ParseScope (scope_Canonical s) = Inr (fix_scope s) \<and> scope_core (fix_scope s) = scope_core s"
    if "s \<in> set ss" for s
    using well_scoped_reparse [OF assms(1) [OF that]] by (auto simp: fix_scope_def)
  have texts: "list_all (\<lambda>t. t \<noteq> [] \<and> plain t) (map scope_Canonical ss)"
    using well_scoped_text [OF assms(1)] by (auto simp: list_all_iff)
  have "check_all ParseScope (map scope_Canonical ss) = Inr (map fix_scope ss)"
    unfolding check_all_Inr list.rel_map using fixed by (auto intro: list.rel_refl_strong)
  then have parsed: "ParseScopes [Join '' '' (map scope_Canonical ss)] = Inr (map fix_scope ss)"
    using ParseScopes_texts [OF texts] by simp
  have "scope_Canonical (fix_scope s) = scope_Canonical s" if "s \<in> set ss" for s
    using fixed [OF that] by (simp add: scope_core_def)
  then have "NormalizeScopes (map fix_scope ss) = NormalizeScopes ss"
    by (simp add: NormalizeScopes_def distinct_canonical_map)
  then obtain ts where ts: "ParseScopes [NormalizeScopes ss] = Inr ts" "set ts = fix_scope ` set ss"
    using ParseScopes_Normalize [OF parsed] by auto
  have "scope_core ` set ts = scope_core ` set ss" unfolding ts(2) using fixed by (auto simp: image_iff)
  with ts(1) show ?thesis by blast
qed

lemma Token_Scopes_granted:
  assumes "tok_Scope t = NormalizeScopes ss" "\<And>s. s \<in> set ss \<Longrightarrow> well_scoped s"
  shows "\<exists>ts. Token_Scopes t = Inr ts \<and> scope_core ` set ts = scope_core ` set ss"
proof (cases "ss = []")
  case True
  then show ?thesis using assms(1) by (simp add: Token_Scopes_def NormalizeScopes_def)
next
  case False
  have texts: "list_all (\<lambda>t. t \<noteq> [] \<and> plain t) (sort (distinct_canonical [] ss))"
    using well_scoped_text [OF assms(2)] by (auto simp: list_all_iff distinct_canonical_set)
  then have trim: "TrimSpace (NormalizeScopes ss) = NormalizeScopes ss"
    by (simp add: NormalizeScopes_def TrimSpace_Join_plain)
  have "sort (distinct_canonical [] ss) \<noteq> []"
    using False well_scoped_text(1) [OF assms(2)] distinct_canonical_set(1) [of "[]" ss]
    by (cases ss) (auto simp: sort_eq_Nil)
  then have "NormalizeScopes ss \<noteq> []"
    using Join_edges [of "sort (distinct_canonical [] ss)" "'' ''"] texts False
    by (auto simp: NormalizeScopes_def list_all_iff)
  then have "Token_Scopes t = ParseScopes [NormalizeScopes ss]"
    using assms(1) trim by (simp add: Token_Scopes_def)
  then show ?thesis using Normalize_well_scoped [of ss] assms(2) by simp
qed

lemma scope_core_same:
  assumes "scope_core s = scope_core t"
  shows "scope_Type s = scope_Type t" "scope_Name s = scope_Name t" "scope_Actions s = scope_Actions t"
  using assms by (simp_all add: scope_core_def)

text \<open>The granted scopes of a login, read back from the token.\<close>

lemma login_scope_origin:
  assumes "auth_inv db" "ParseScopes vs = Inr requested"
    and login: "LoginWithPassword env db n pw requested = (Inr r, db')"
    and s: "s \<in> set (pr_Scopes (lr_Principal r))" "IsRepository s"
  shows "\<exists>gs q. q \<in> set requested \<and> IsRepository q \<and> scope_Name s = scope_Name q
     \<and> repo_Name (scope_repository q) = scope_Name q
     \<and> scope_Actions s = intersectRequestedActions (pr_IsAdmin (lr_Principal r)) (pr_IsReadOnly (lr_Principal r)) gs q
     \<and> set gs = set (pr_Grants (lr_Principal r))"
proof -
  obtain user where u: "getActiveUserByUsername db n = Inr user" "issueAccessToken env db user requested = (Inr r, db')"
    using LoginWithPassword_Inr [OF login] by blast
  obtain granted where g: "grantedScopes db user requested = Inr granted"
    "Store_CreateToken db (access_token env user granted) = Inr db'"
    "buildPrincipal db' user (access_token env user granted) = Inr (lr_Principal r)"
    using issueAccessToken_Inr [OF u(2)] by blast
  note bp = buildPrincipal_Inr [OF g(3)]
  have mem: "user \<in> set (db_users db)" by (rule getActiveUser_Inr(1) [OF u(1)])
  have id: "TrimSpace (user_ID user) = user_ID user" using assms(1) mem by (simp add: auth_inv_def users_ok_def)
  obtain gs where gs: "Store_ListRepoGrants db (user_ID user) = Inr gs"
    "set gs = {g \<in> set (db_grants db). grant_UserID g = user_ID user}"
    using Store_ListRepoGrants_ok [OF assms(1) id] by blast
  have granted: "granted = granted_loop user gs requested" using g(1) gs(1) by (auto simp: grantedScopes_def split: if_splits)
  then have "scope_core ` set (pr_Scopes (lr_Principal r)) = scope_core ` set granted"
    using Token_Scopes_granted [of "access_token env user granted" granted]
      granted_well_scoped [OF assms(2)] bp by (auto simp: access_token_def)
  then obtain s' where s': "s' \<in> set granted" "scope_core s = scope_core s'" using s(1) by blast
  note same = scope_core_same [OF s'(2)]
  have "\<not> IsRegixtryCatalog s'"
    using s(2) same catalog_not_repository by (auto simp: IsRepository_def)
  then obtain q where q: "q \<in> set requested" "IsRepository q" "scope_Name s' = repo_Name (scope_repository q)"
    "scope_Actions s' = intersectRequestedActions (user_IsAdmin user) (user_IsReadOnly user) gs q"
    using granted_loop_mem [of s' user gs requested] s'(1) granted by blast
  have "set gs = set (pr_Grants (lr_Principal r))"
    using user_grants [OF Store_CreateToken_inv [OF assms(1) g(2)] _ g(3)] mem created_token [OF g(2)] gs(2)
    by simp
  then show ?thesis
    using q same bp parsed_scope_repository(1) [OF assms(2) q(1,2)] by (intro exI [of _ gs] exI [of _ q]) simp
qed

text \<open>
  C8: A token never carries more than its holder may use: every repository scope of the principal a
  password login returns was requested, and each action in it is one the principal really has
  (pull as read access, push as write access, delete as delete access) on that repository.
\<close>

theorem issued_scopes_usable:
  assumes "auth_inv db" and "ParseScopes vs = Inr requested"
    and "LoginWithPassword env db n pw requested = (Inr r, db')"
    and "s \<in> set (pr_Scopes (lr_Principal r))" and "IsRepository s"
  shows "(\<exists>q \<in> set requested. IsRepository q \<and> scope_Name q = scope_Name s
            \<and> set (scope_Actions s) \<subseteq> set (scope_Actions q))
    \<and> (AllowsPull s \<longrightarrow> HasReadAccess (lr_Principal r) (scope_Name s))
    \<and> (AllowsPush s \<longrightarrow> HasWriteAccess (lr_Principal r) (scope_Name s))
    \<and> (AllowsDelete s \<longrightarrow> HasDeleteAccess (lr_Principal r) (scope_Name s))"
proof -
  let ?p = "lr_Principal r"
  obtain gs q where q: "q \<in> set requested" "IsRepository q" "scope_Name s = scope_Name q"
    "repo_Name (scope_repository q) = scope_Name q"
    "scope_Actions s = intersectRequestedActions (pr_IsAdmin ?p) (pr_IsReadOnly ?p) gs q"
    "set gs = set (pr_Grants ?p)"
    using login_scope_origin [OF assms] by blast
  note acts = intersect_actions [of _ "pr_IsAdmin ?p" "pr_IsReadOnly ?p" gs q, folded q(5)]
  have scope: "allows s \<Longrightarrow> scopeAllowsRepository ?p (scope_Name s) allows" for allows
    using assms(4,5) by (auto simp: scope_allows_iff)
  have "set (scope_Actions s) \<subseteq> set (scope_Actions q)"
    using acts by (fastforce simp: has_action_iff action_names)
  moreover have "AllowsPull s \<Longrightarrow> hasGrantedRepositoryAccess ?p (scope_Name s) AllowsRead"
    using acts [of "''pull''"] q(3,4,6) by (auto simp: has_action_iff granted_iff action_names)
  moreover have "AllowsPush s \<Longrightarrow> hasGrantedRepositoryAccess ?p (scope_Name s) AllowsWrite"
    using acts [of "''push''"] q(3,4,6) by (auto simp: has_action_iff granted_iff action_names)
  moreover have "AllowsDelete s \<Longrightarrow> hasGrantedRepositoryAccess ?p (scope_Name s) AllowsWrite"
    using acts [of "''delete''"] q(3,4,6) by (auto simp: has_action_iff granted_iff action_names)
  ultimately show ?thesis using q(1-3) scope by (auto simp: access_defs)
qed


section \<open>A login that must succeed\<close>

lemma hashSecret_not_Nil: "hashSecret s \<noteq> []"
proof -
  have "length (hashSecret s) = 64" by (simp add: hashSecret_def hex_encode_length)
  then show ?thesis by auto
qed

text \<open>The draws of one login: the ids are new and not blank, the clock is past the zero time.\<close>

definition fresh_draws :: "auth_env \<Rightarrow> auth_db \<Rightarrow> bool" where
  "fresh_draws env db \<longleftrightarrow> TrimSpace (env_token_uuid env) \<noteq> [] \<and> TrimSpace (shortAccessor env ''atk'') \<noteq> []
     \<and> env_now env > 0
     \<and> (\<forall>t \<in> set (db_tokens db). tok_ID t \<noteq> env_token_uuid env \<and> tok_Accessor t \<noteq> shortAccessor env ''atk''
          \<and> tok_SecretHash t \<noteq> hashSecret (randomSecret env))"

lemma access_token_valid:
  assumes "fresh_draws env db" "TrimSpace (user_ID user) \<noteq> []" "\<And>s. s \<in> set granted \<Longrightarrow> well_scoped s"
  shows "Token_Validate (access_token env user granted) = Inr ()"
proof -
  obtain ts where "Token_Scopes (access_token env user granted) = Inr ts"
    using Token_Scopes_granted [of "access_token env user granted" granted] assms(3)
    by (auto simp: access_token_def)
  moreover have "AccessTokenTTL > 0" by (simp add: AccessTokenTTL_def)
  ultimately show ?thesis using assms(1,2) hashSecret_not_Nil
    by (simp add: Token_Validate_def access_token_def fresh_draws_def IsZero_def)
qed

lemma LoginWithPassword_succeeds:
  assumes "auth_inv db" and "Store_GetUserByUsername db (normalizeUsername n) = Inr user"
    and "user_Enabled user" and "\<not> user_IsRobot user"
    and "env_CompareHashAndPassword env (user_PasswordHash user) pw"
    and "ParseScopes vs = Inr requested" and "fresh_draws env db"
  shows "\<exists>r db'. LoginWithPassword env db n pw requested = (Inr r, db')
    \<and> lr_BearerToken r = randomSecret env \<and> pr_UserID (lr_Principal r) = user_ID user
    \<and> pr_IsReadOnly (lr_Principal r) = user_IsReadOnly user \<and> pr_IsAdmin (lr_Principal r) = user_IsAdmin user"
proof -
  note row = target_row [OF assms(1,2)]
  obtain gs where gs: "Store_ListRepoGrants db (user_ID user) = Inr gs"
    using Store_ListRepoGrants_ok [OF assms(1) row(2)] by blast
  then obtain granted where granted: "grantedScopes db user requested = Inr granted"
      "\<And>s. s \<in> set granted \<Longrightarrow> well_scoped s"
    using granted_well_scoped [OF assms(6)] by (cases "requested = []") (auto simp: grantedScopes_def)
  let ?t = "access_token env user granted"
  have "User_Validate user = Inr ()" using Store_GetUserByUsername_Inr [OF assms(2)] by simp
  then have valid: "Token_Validate ?t = Inr ()"
    by (intro access_token_valid [OF assms(7) _ granted(2)]) (auto simp: User_Validate_def go_flow Let_def)
  have "\<exists>u \<in> set (db_users db). user_ID u = user_ID user" using row(1) by blast
  then obtain db' where db': "Store_CreateToken db ?t = Inr db'"
    using valid assms(7) by (auto simp: Store_CreateToken_def access_token_def fresh_draws_def)
  obtain p where p: "buildPrincipal db' user ?t = Inr p"
    using Token_Validate_scopes [OF valid] by (auto simp: buildPrincipal_def)
  have "getActiveUserByUsername db n = Inr user"
    using assms(2,3) by (simp add: getActiveUserByUsername_def)
  then show ?thesis
    using assms(4,5) granted(1) db' p buildPrincipal_Inr [OF p]
    unfolding LoginWithPassword_def issueAccessToken_def Let_def access_token_def by simp
qed

text \<open>
  C7: A login with the right password succeeds: for an enabled human user found under the
  normalised name, with scopes that parse and fresh draws, \<open>LoginWithPassword\<close> issues a token;
  no state of the grants, tokens or other users can make it fail.
\<close>

theorem login_succeeds:
  assumes "auth_inv db" and "Store_GetUserByUsername db (normalizeUsername n) = Inr user"
    and "user_Enabled user" and "\<not> user_IsRobot user"
    and "env_CompareHashAndPassword env (user_PasswordHash user) pw"
    and "ParseScopes vs = Inr requested" and "fresh_draws env db"
  shows "\<exists>r db'. LoginWithPassword env db n pw requested = (Inr r, db')
    \<and> lr_BearerToken r = randomSecret env \<and> pr_UserID (lr_Principal r) = user_ID user"
  using LoginWithPassword_succeeds [OF assms] by blast

section \<open>The end of a user and of a credential\<close>

lemma DeleteUser_Inr:
  assumes "DeleteUser db actor i = (Inr (), db')"
  shows "pr_IsAdmin actor" "Store_DeleteUser db i = Inr db'"
  using assms unfolding DeleteUser_def by (auto simp: go_flow requireAdmin_def)

text \<open>
  C11: Deleting a user is complete: afterwards no grant and no token of the user is left, every
  other user, grant and token is untouched, and no bearer token verifies to the user any more.
\<close>

theorem delete_user_complete:
  assumes "DeleteUser db actor i = (Inr (), db')" and "auth_inv db"
  shows "(\<forall>g \<in> set (db_grants db'). grant_UserID g \<noteq> TrimSpace i)
    \<and> (\<forall>t \<in> set (db_tokens db'). tok_UserID t \<noteq> TrimSpace i)
    \<and> user_at db' = (user_at db)(TrimSpace i := None)
    \<and> (\<forall>g. grant_UserID g \<noteq> TrimSpace i \<longrightarrow> (g \<in> set (db_grants db') \<longleftrightarrow> g \<in> set (db_grants db)))
    \<and> (\<forall>t. tok_UserID t \<noteq> TrimSpace i \<longrightarrow> (t \<in> set (db_tokens db') \<longleftrightarrow> t \<in> set (db_tokens db)))
    \<and> (\<forall>now bearer p. VerifyAccessToken db' now bearer = Inr p \<longrightarrow> pr_UserID p \<noteq> TrimSpace i)"
proof -
  note del = DeleteUser_Inr(2) [OF assms(1)]
  have tables: "db_grants db' = filter (\<lambda>g. grant_UserID g \<noteq> TrimSpace i) (db_grants db)"
    "db_tokens db' = filter (\<lambda>t. tok_UserID t \<noteq> TrimSpace i) (db_tokens db)"
    "db_users db' = filter (\<lambda>u. user_ID u \<noteq> TrimSpace i) (db_users db)"
    using del by (auto simp: Store_DeleteUser_def go_flow Let_def)
  have "pr_UserID p \<noteq> TrimSpace i" if ver: "VerifyAccessToken db' now bearer = Inr p" for now bearer p
  proof -
    obtain t user where v: "Store_GetUserByID db' (tok_UserID t) = Inr user" "buildPrincipal db' user t = Inr p"
      using VerifyAccessToken_Inr [OF ver] by blast
    then have "pr_UserID p = user_ID user" "user \<in> set (db_users db')"
      using buildPrincipal_Inr [OF v(2)] Store_GetUserByID_Inr [OF v(1)] by simp_all
    then show ?thesis using tables(3) by auto
  qed
  then show ?thesis using user_at_delete [OF del] by (simp add: tables)
qed

lemma RevokeAdminUserToken_Inr:
  assumes "RevokeAdminUserToken env db actor i a = (Inr (), db')"
  shows "\<exists>t. t \<in> set (db_tokens db) \<and> tok_Accessor t = TrimSpace a
    \<and> Store_RevokeTokenByAccessor db (tok_Accessor t) (env_now env) = Inr db'"
  using assms unfolding RevokeAdminUserToken_def by (auto simp: go_flow dest: Store_GetTokenByAccessor_Inr)

text \<open>
  C12: Revoking a credential ends it: after \<open>RevokeAdminUserToken\<close> succeeds, a login with the secret
  of that credential fails for every user name, at every time, and issues nothing.
\<close>

theorem revoked_credential_refused:
  assumes "RevokeAdminUserToken env db actor i a = (Inr (), db')" and "auth_inv db"
    and "t \<in> set (db_tokens db)" and "tok_Accessor t = TrimSpace a" and "tok_SecretHash t = hashSecret secret"
  shows "\<exists>e. LoginWithPreissuedToken env2 now db' n secret scopes = (Inl e, db')"
proof -
  obtain t0 where t0: "t0 \<in> set (db_tokens db)" "tok_Accessor t0 = TrimSpace a"
    "Store_RevokeTokenByAccessor db (tok_Accessor t0) (env_now env) = Inr db'"
    using RevokeAdminUserToken_Inr [OF assms(1)] by blast
  let ?f = "\<lambda>t. if tok_Accessor t = TrimSpace a \<and> tok_RevokedAt t = None
      then t\<lparr>tok_RevokedAt := Some (env_now env)\<rparr> else t"
  have toks: "db_tokens db' = map ?f (db_tokens db)"
    using t0 by (auto simp: Store_RevokeTokenByAccessor_def go_flow Let_def)
  have revoked: "IsRevoked (?f t)" using assms(4) by (auto simp: IsRevoked_def)
  have inv: "auth_inv db'" by (rule Store_RevokeTokenByAccessor_inv [OF assms(2) t0(3)])
  define t' where "t' = ?f t"
  have mem: "t' \<in> set (db_tokens db')" unfolding toks set_map t'_def using assms(3) by (rule imageI)
  have hash: "tok_SecretHash t' = hashSecret secret" using assms(5) by (simp add: t'_def)
  have inj: "inj_on tok_SecretHash (set (db_tokens db'))"
    using inv by (simp add: auth_inv_def tokens_ok_def distinct_map)
  have same: "s = t'" if "s \<in> set (db_tokens db')" "tok_SecretHash s = hashSecret secret" for s
    using that hash mem by (intro inj_onD [OF inj]) simp_all
  show ?thesis
  proof (cases "getActiveUserByUsername db' n")
    case (Inr user)
    note active = Inr
    show ?thesis
    proof (cases "Store_GetTokenBySecretHash db' TokenKindAdminCredential (hashSecret secret)")
      case (Inl err)
      then show ?thesis using active unfolding LoginWithPreissuedToken_def
        by (cases "auth_IsCode err auth_ErrorCodeNotFound") simp_all
    next
      case (Inr s)
      then have "IsRevoked s" using same [of s] Store_GetTokenBySecretHash_Inr [OF Inr] revoked by (simp add: t'_def)
      then have "IsActive s now = Inl (NewRevokedTokenError (tok_Accessor s))" by (simp add: IsActive_def)
      then show ?thesis using active Inr unfolding LoginWithPreissuedToken_def
        by (cases "tok_UserID s = user_ID user") simp_all
    qed
  qed (simp add: LoginWithPreissuedToken_def)
qed

section \<open>Robots\<close>

lemma upsert_grant_present:
  "\<exists>h \<in> set (upsert_grant_row gs g). grant_key h = grant_key g \<and> grant_Role h = grant_Role g"
proof (cases "\<exists>row \<in> set gs. same_grant_key row g")
  case True
  then obtain row where row: "row \<in> set gs" "same_grant_key row g" by blast
  let ?row = "row\<lparr>grant_Role := grant_Role g, grant_UpdatedAt := grant_UpdatedAt g\<rparr>"
  have "?row \<in> set (upsert_grant_row gs g)" using row by (auto simp: upsert_grant_row_def)
  moreover have "grant_key ?row = grant_key g" using row(2) by (simp add: same_grant_key_iff grant_key_def)
  ultimately show ?thesis by (intro bexI [of _ ?row]) simp_all
next
  case False
  then have "g \<in> set (upsert_grant_row gs g)" by (simp add: upsert_grant_row_def)
  then show ?thesis by blast
qed

definition robot_user :: "auth_env \<Rightarrow> CreateRobotInput \<Rightarrow> User" where
  "robot_user env input = \<lparr>user_ID = env_user_uuid env, user_Username = normalizeUsername (cri_Name input),
     user_PasswordHash = RobotPasswordHash, user_IsAdmin = False, user_IsReadOnly = False,
     user_IsRobot = True, user_Enabled = True, user_CreatedAt = env_now env, user_UpdatedAt = env_now env\<rparr>"

definition robot_grant :: "auth_env \<Rightarrow> CreateRobotInput \<Rightarrow> RepositoryRef \<Rightarrow> RepoGrant" where
  "robot_grant env input repo = \<lparr>grant_UserID = env_user_uuid env, grant_Repository = repo,
     grant_Role = cri_Role input, grant_CreatedAt = env_now env, grant_UpdatedAt = env_now env\<rparr>"

definition robot_token_input :: "auth_env \<Rightarrow> CreateRobotInput \<Rightarrow> CreateAdminTokenInput" where
  "robot_token_input env input = \<lparr>cati_UserID = env_user_uuid env, cati_Name = TrimSpace (cri_Name input),
     cati_TTL = cri_TTL input\<rparr>"

text \<open>The part of \<open>CreateRobot\<close> before the token, which does not look at the lifetime.\<close>

definition robot_stored :: "auth_env \<Rightarrow> auth_db \<Rightarrow> Principal \<Rightarrow> CreateRobotInput \<Rightarrow> auth_db \<Rightarrow> bool" where
  "robot_stored env db actor input db2 \<longleftrightarrow>
     requireAdmin actor = Inr () \<and> normalizeUsername (cri_Name input) \<noteq> []
     \<and> (\<exists>err. Store_GetUserByUsername db (normalizeUsername (cri_Name input)) = Inl err
            \<and> auth_IsCode err auth_ErrorCodeNotFound)
     \<and> RepoRole_Validate (cri_Role input) = Inr ()
     \<and> (\<exists>repo db1. ParseRepositoryRef (TrimSpace (cri_Repository input)) = Inr repo
            \<and> Store_UpsertUser db (robot_user env input) = Inr db1
            \<and> Store_PutRepoGrant db1 (robot_grant env input repo) = Inr db2)"

lemma attempt_call_Inr:
  "(case c of (r, d) \<Rightarrow> attempt r d (k d)) = (Inr y, s) \<longleftrightarrow> (\<exists>x d. c = (Inr x, d) \<and> k d x = (Inr y, s))"
  by (cases c) (auto simp: attempt_Inr)

lemma CreateRobot_Inr:
  assumes "CreateRobot env env2 db actor input = (Inr created, db3)"
  shows "\<exists>db2 c. robot_stored env db actor input db2
    \<and> CreateAdminToken env2 db2 actor (robot_token_input env input) = (Inr c, db3)"
  using assms unfolding CreateRobot_def Let_def robot_stored_def robot_user_def robot_grant_def robot_token_input_def
  by (auto simp: go_flow attempt_call_Inr split: sum.splits)

lemma CreateRobot_after_store:
  assumes "robot_stored env db actor input db2"
    and "CreateAdminToken env2 db2 actor (robot_token_input env input) = (Inl e, db3)"
  shows "CreateRobot env env2 db actor input = (Inl e, db3)"
  using assms unfolding CreateRobot_def Let_def robot_stored_def robot_user_def robot_grant_def robot_token_input_def
  by auto

lemma CreateAdminToken_long:
  assumes "CreateAdminToken env db actor inp = (Inr c, db')" "ttl > DefaultAdminTokenTTL"
  shows "CreateAdminToken env db actor (inp\<lparr>cati_TTL := ttl\<rparr>) =
    (Inl (auth_NewValidationError ''admin token ttl must be 30 days or shorter''), db)"
proof -
  have "ttl > 0" using assms(2) by (simp add: DefaultAdminTokenTTL_def)
  then show ?thesis using assms unfolding CreateAdminToken_def Let_def by (auto simp: go_flow)
qed

text \<open>
  C13: Creating a robot is not atomic: take a request that would succeed, and ask for a lifetime above
  thirty days instead. The operation reports the validation error of the token, but only after
  the robot and its grant have been stored, so both are there although the caller is told that
  the creation failed.
\<close>

theorem create_robot_leaves_robot_behind:
  assumes "CreateRobot env env2 db actor input = (Inr created, db3)"
    and "ttl > DefaultAdminTokenTTL"
  shows "\<exists>db2. CreateRobot env env2 db actor (input\<lparr>cri_TTL := ttl\<rparr>) =
       (Inl (auth_NewValidationError ''admin token ttl must be 30 days or shorter''), db2)
     \<and> (\<exists>u. user_at db2 (env_user_uuid env) = Some u \<and> user_IsRobot u \<and> user_Enabled u)
     \<and> (\<exists>g \<in> set (db_grants db2). grant_UserID g = env_user_uuid env \<and> grant_Role g = cri_Role input)"
proof -
  obtain db2 c where s: "robot_stored env db actor input db2"
    and t: "CreateAdminToken env2 db2 actor (robot_token_input env input) = (Inr c, db3)"
    using CreateRobot_Inr [OF assms(1)] by blast
  have "robot_stored env db actor (input\<lparr>cri_TTL := ttl\<rparr>) db2"
    using s by (simp add: robot_stored_def robot_user_def robot_grant_def)
  moreover have "CreateAdminToken env2 db2 actor (robot_token_input env (input\<lparr>cri_TTL := ttl\<rparr>)) =
      (Inl (auth_NewValidationError ''admin token ttl must be 30 days or shorter''), db2)"
    using CreateAdminToken_long [OF t assms(2)] by (simp add: robot_token_input_def)
  ultimately have run: "CreateRobot env env2 db actor (input\<lparr>cri_TTL := ttl\<rparr>) =
      (Inl (auth_NewValidationError ''admin token ttl must be 30 days or shorter''), db2)"
    by (rule CreateRobot_after_store)
  obtain repo db1 where up: "Store_UpsertUser db (robot_user env input) = Inr db1"
    and put: "Store_PutRepoGrant db1 (robot_grant env input repo) = Inr db2"
    using s by (auto simp: robot_stored_def)
  have "user_at db2 = user_at db1" using put_grant_frame(1) [OF put] by (simp add: user_at_def fun_eq_iff)
  then have "\<exists>u. user_at db2 (env_user_uuid env) = Some u \<and> user_IsRobot u \<and> user_Enabled u"
    using user_at_upsert [OF up]
    by (auto simp: robot_user_def stored_user_def user_row_update_def normal_user_def split: option.splits)
  moreover have "\<exists>g \<in> set (db_grants db2). grant_UserID g = env_user_uuid env \<and> grant_Role g = cri_Role input"
    using put upsert_grant_present [of "db_grants db1" "robot_grant env input repo"]
    by (auto simp: Store_PutRepoGrant_def go_flow robot_grant_def grant_key_def)
  ultimately show ?thesis using run by blast
qed

section \<open>The theorems at work\<close>

text \<open>
  A database with a writer, a read-only user and a stored credential. The hashes of the secrets
  stay symbolic: nothing depends on their value.
\<close>

definition example_login_db :: auth_db where
  "example_login_db = example_auth_db
     \<lparr>db_users := [example_user ''u1'' ''root'' True,
        (example_user ''u2'' ''dev'' False)\<lparr>user_PasswordHash := ''h:correct horse''\<rparr>,
        (example_user ''u3'' ''audit'' False)\<lparr>user_PasswordHash := ''h:correct horse'', user_IsReadOnly := True\<rparr>],
      db_grants := [example_grant ''u2'' RepoRoleWriter, example_grant ''u3'' RepoRoleWriter]\<rparr>"

definition example_requested :: "Scope list" where
  "example_requested = [\<lparr>scope_Type = ''repository'', scope_Name = ''team/app'',
     scope_Actions = [''pull'', ''push'', ''delete''], scope_Canonical = ''repository:team/app:pull,push,delete'',
     scope_repository = \<lparr>repo_Name = ''team/app''\<rparr>\<rparr>]"

lemma example_login_inv: "auth_inv example_login_db"
  by code_simp

lemma example_requested_parses: "ParseScopes [''repository:team/app:delete,push,pull''] = Inr example_requested"
  by code_simp

definition example_login :: "string \<Rightarrow> (LoginResult, auth_db) op" where
  "example_login n = LoginWithPassword example_env example_login_db n ''correct horse'' example_requested"

definition example_result :: "string \<Rightarrow> LoginResult" where
  "example_result n = projr (fst (example_login n))"

theorem login_succeeds_witness:
  "\<exists>r db'. LoginWithPassword example_env example_login_db '' DEV '' ''correct horse'' example_requested = (Inr r, db')
    \<and> lr_BearerToken r = randomSecret example_env
    \<and> pr_UserID (lr_Principal r) = user_ID ((example_user ''u2'' ''dev'' False)\<lparr>user_PasswordHash := ''h:correct horse''\<rparr>)"
proof (rule login_succeeds [OF example_login_inv _ _ _ _ example_requested_parses])
  show "Store_GetUserByUsername example_login_db (normalizeUsername '' DEV '') =
      Inr ((example_user ''u2'' ''dev'' False)\<lparr>user_PasswordHash := ''h:correct horse''\<rparr>)" by code_simp
  show "fresh_draws example_env example_login_db" by code_simp
qed (simp_all add: example_user_def example_env_def)

lemma example_login_runs:
  assumes "Store_GetUserByUsername example_login_db (normalizeUsername n) = Inr user"
    and "user_Enabled user" "\<not> user_IsRobot user" "user_PasswordHash user = ''h:correct horse''"
  shows "LoginWithPassword example_env example_login_db n ''correct horse'' example_requested
      = (Inr (example_result n), snd (example_login n))"
    and "pr_IsReadOnly (lr_Principal (example_result n)) = user_IsReadOnly user"
    and "pr_IsAdmin (lr_Principal (example_result n)) = user_IsAdmin user"
proof -
  have "env_CompareHashAndPassword example_env (user_PasswordHash user) ''correct horse''"
    using assms(4) by (simp add: example_env_def)
  moreover have "fresh_draws example_env example_login_db" by code_simp
  ultimately obtain r db' where r: "example_login n = (Inr r, db')"
      "pr_IsReadOnly (lr_Principal r) = user_IsReadOnly user" "pr_IsAdmin (lr_Principal r) = user_IsAdmin user"
    using LoginWithPassword_succeeds [OF example_login_inv assms(1-3) _ example_requested_parses]
    unfolding example_login_def by blast
  then have "example_result n = r" by (simp add: example_result_def)
  then show "LoginWithPassword example_env example_login_db n ''correct horse'' example_requested
      = (Inr (example_result n), snd (example_login n))"
    "pr_IsReadOnly (lr_Principal (example_result n)) = user_IsReadOnly user"
    "pr_IsAdmin (lr_Principal (example_result n)) = user_IsAdmin user"
    using r unfolding example_login_def by simp_all
qed

lemma example_dev:
  "Store_GetUserByUsername example_login_db (normalizeUsername ''dev'') =
     Inr ((example_user ''u2'' ''dev'' False)\<lparr>user_PasswordHash := ''h:correct horse''\<rparr>)"
  by code_simp

lemma example_audit:
  "Store_GetUserByUsername example_login_db (normalizeUsername ''audit'') =
     Inr ((example_user ''u3'' ''audit'' False)\<lparr>user_PasswordHash := ''h:correct horse'', user_IsReadOnly := True\<rparr>)"
  by code_simp

lemma example_dev_login:
  "LoginWithPassword example_env example_login_db ''dev'' ''correct horse'' example_requested
      = (Inr (example_result ''dev''), snd (example_login ''dev''))"
  by (rule example_login_runs(1) [OF example_dev]) (simp_all add: example_user_def)

lemma example_audit_login:
  "LoginWithPassword example_env example_login_db ''audit'' ''correct horse'' example_requested
      = (Inr (example_result ''audit''), snd (example_login ''audit''))"
  "pr_IsReadOnly (lr_Principal (example_result ''audit''))" "\<not> pr_IsAdmin (lr_Principal (example_result ''audit''))"
  using example_login_runs [OF example_audit] by (simp_all add: example_user_def)

theorem login_then_verify_witness:
  "VerifyAccessToken (snd (example_login ''dev'')) 7 (lr_BearerToken (example_result ''dev''))
     = Inr (lr_Principal (example_result ''dev''))"
  by (rule login_then_verify [OF example_dev_login example_login_inv])
    (simp add: example_env_def AccessTokenTTL_def)



text \<open>The developer's token carries the requested scope in full, the auditor's only the pull.\<close>

lemma example_dev_scopes:
  "\<exists>s \<in> set (pr_Scopes (lr_Principal (example_result ''dev''))). IsRepository s \<and> scope_Name s = ''team/app''"
proof -
  obtain user where u: "getActiveUserByUsername example_login_db ''dev'' = Inr user"
    "issueAccessToken example_env example_login_db user example_requested
      = (Inr (example_result ''dev''), snd (example_login ''dev''))"
    using LoginWithPassword_Inr [OF example_dev_login] by blast
  obtain granted where g: "grantedScopes example_login_db user example_requested = Inr granted"
    "buildPrincipal (snd (example_login ''dev'')) user (access_token example_env user granted)
       = Inr (lr_Principal (example_result ''dev''))"
    using issueAccessToken_Inr [OF u(2)] by blast
  have "getActiveUserByUsername example_login_db ''dev'' =
      Inr ((example_user ''u2'' ''dev'' False)\<lparr>user_PasswordHash := ''h:correct horse''\<rparr>)" by code_simp
  then have user: "user = (example_user ''u2'' ''dev'' False)\<lparr>user_PasswordHash := ''h:correct horse''\<rparr>" using u(1) by simp
  have "grantedScopes example_login_db ((example_user ''u2'' ''dev'' False)\<lparr>user_PasswordHash := ''h:correct horse''\<rparr>)
      example_requested = Inr [(hd example_requested)\<lparr>scope_repository := \<lparr>repo_Name = []\<rparr>\<rparr>]" by code_simp
  then have granted: "granted = [(hd example_requested)\<lparr>scope_repository := \<lparr>repo_Name = []\<rparr>\<rparr>]" using g(1) user by simp
  have "well_scoped s" if "s \<in> set granted" for s
    using that granted ParseScopes_well_scoped(1) [OF example_requested_parses, of "hd example_requested"]
    by (auto simp: well_scoped_def scope_core_def example_requested_def)
  then have "scope_core ` set (pr_Scopes (lr_Principal (example_result ''dev''))) = scope_core ` set granted"
    using Token_Scopes_granted [of "access_token example_env user granted" granted] buildPrincipal_Inr [OF g(2)]
    by (auto simp: access_token_def)
  then have "scope_core (hd granted) \<in> scope_core ` set (pr_Scopes (lr_Principal (example_result ''dev'')))"
    using granted by simp
  then obtain s where "s \<in> set (pr_Scopes (lr_Principal (example_result ''dev'')))" "scope_core s = scope_core (hd granted)"
    by force
  then show ?thesis using granted
    by (intro bexI [of _ s]) (simp_all add: scope_core_def example_requested_def IsRepository_def scopeTypeRepository_def)
qed

theorem issued_scopes_usable_witness:
  "\<exists>s. IsRepository s \<and> scope_Name s = ''team/app''
    \<and> (AllowsPush s \<longrightarrow> HasWriteAccess (lr_Principal (example_result ''dev'')) ''team/app'')"
proof -
  obtain s where s: "s \<in> set (pr_Scopes (lr_Principal (example_result ''dev'')))" "IsRepository s" "scope_Name s = ''team/app''"
    using example_dev_scopes by blast
  show ?thesis
    using issued_scopes_usable [OF example_login_inv example_requested_parses example_dev_login s(1,2)] s(2,3)
    by (intro exI [of _ s]) simp
qed

theorem verified_principal_is_current_witness:
  "\<exists>t \<in> set (db_tokens (snd (example_login ''dev''))). tok_RevokedAt t = None \<and> 7 < tok_ExpiresAt t"
proof -
  have "VerifyAccessToken (snd (example_login ''dev'')) 7 (lr_BearerToken (example_result ''dev''))
      = Inr (lr_Principal (example_result ''dev''))"
    by (rule login_verifies [OF example_dev_login example_login_inv])
      (simp add: example_env_def AccessTokenTTL_def)
  moreover have "auth_inv (snd (example_login ''dev''))"
  proof -
    obtain user granted where "Store_CreateToken example_login_db (access_token example_env user granted)
        = Inr (snd (example_login ''dev''))"
      using LoginWithPassword_Inr [OF example_dev_login] issueAccessToken_Inr by blast
    then show ?thesis by (rule Store_CreateToken_inv [OF example_login_inv])
  qed
  ultimately show ?thesis by (blast dest: verified_principal_is_current)
qed

lemma TrimSpace_u3: "TrimSpace ''u3'' = ''u3''"
  by code_simp

theorem delete_user_complete_witness:
  "user_at (snd (DeleteUser example_auth_db (example_actor ''u1'' ''root'' True []) ''u3'')) = (user_at example_auth_db)(''u3'' := None)
   \<and> (\<nexists>now bearer p. VerifyAccessToken (snd (DeleteUser example_auth_db (example_actor ''u1'' ''root'' True []) ''u3'')) now bearer
          = Inr p \<and> pr_UserID p = ''u3'')"
proof -
  have "fst (DeleteUser example_auth_db (example_actor ''u1'' ''root'' True []) ''u3'') = Inr ()" by code_simp
  then have "DeleteUser example_auth_db (example_actor ''u1'' ''root'' True []) ''u3'' =
      (Inr (), snd (DeleteUser example_auth_db (example_actor ''u1'' ''root'' True []) ''u3''))" by (metis prod.collapse)
  from delete_user_complete [OF this auth_good_D(1) [OF example_db_good]]
  show ?thesis by (simp add: TrimSpace_u3)
qed

text \<open>A stored credential of the repository administrator, its hash symbolic.\<close>

definition example_credential :: "string \<Rightarrow> Token" where
  "example_credential h = \<lparr>tok_ID = ''t1'', tok_UserID = ''u2'', tok_Kind = TokenKindAdminCredential,
     tok_Name = ''ci'', tok_Scope = [], tok_Accessor = ''act_1'', tok_SecretHash = h,
     tok_ExpiresAt = 100, tok_CreatedAt = 1, tok_RevokedAt = None\<rparr>"

definition example_credential_db :: auth_db where
  "example_credential_db = example_auth_db\<lparr>db_tokens := [example_credential (hashSecret ''s3cret'')]\<rparr>"

lemma example_trims:
  "TrimSpace ''t1'' = ''t1''" "TrimSpace ''u2'' = ''u2''" "TrimSpace ''act_1'' = ''act_1''"
  "TrimSpace ''act_a9'' = ''act_a9''" "TrimSpace ''t9'' = ''t9''" "TrimSpace ''u9'' = ''u9''"
  by code_simp+

lemma example_credential_valid:
  "TrimSpace h \<noteq> [] \<Longrightarrow> Token_Validate (example_credential h) = Inr ()"
  by (simp add: Token_Validate_def example_credential_def example_trims IsZero_def Token_Scopes_def)

lemma example_credential_inv: "auth_inv example_credential_db"
proof -
  have "auth_inv example_auth_db" by (rule auth_good_D(1) [OF example_db_good])
  then show ?thesis using example_credential_valid [of "hashSecret ''s3cret''"] hashSecret_not_Nil
    by (simp add: auth_inv_def tokens_ok_def example_credential_db_def)
      (simp add: example_credential_def example_auth_db_def example_user_def)
qed

lemma example_credential_revoked:
  "\<exists>db'. RevokeAdminUserToken example_env example_credential_db (example_actor ''u1'' ''root'' True []) ''u2'' ''act_1''
     = (Inr (), db')"
proof -
  have "Store_GetUserByID example_auth_db ''u2'' = Inr (example_user ''u2'' ''lead'' False)" by code_simp
  then have user: "Store_GetUserByID example_credential_db ''u2'' = Inr (example_user ''u2'' ''lead'' False)"
    by (simp add: Store_GetUserByID_def example_credential_db_def)
  have token: "Store_GetTokenByAccessor example_credential_db TokenKindAdminCredential ''act_1''
      = Inr (example_credential (hashSecret ''s3cret''))"
    using example_credential_valid [of "hashSecret ''s3cret''"] hashSecret_not_Nil
    by (simp add: Store_GetTokenByAccessor_def example_credential_db_def example_trims scanToken_def scanTokenRow_def)
      (simp add: example_credential_def)
  show ?thesis
    using user token
    by (simp add: RevokeAdminUserToken_def requireAdmin_def Store_RevokeTokenByAccessor_def
        example_actor_def example_credential_def example_credential_db_def example_user_def example_trims)
qed

theorem revoked_credential_refused_witness:
  "\<exists>db'. RevokeAdminUserToken example_env example_credential_db (example_actor ''u1'' ''root'' True []) ''u2'' ''act_1''
       = (Inr (), db')
     \<and> (\<exists>e. LoginWithPreissuedToken example_env 9 db' ''lead'' ''s3cret'' [] = (Inl e, db'))"
proof -
  obtain db' where run: "RevokeAdminUserToken example_env example_credential_db
      (example_actor ''u1'' ''root'' True []) ''u2'' ''act_1'' = (Inr (), db')"
    using example_credential_revoked by blast
  have "\<exists>e. LoginWithPreissuedToken example_env 9 db' ''lead'' ''s3cret'' [] = (Inl e, db')"
    by (rule revoked_credential_refused [OF run example_credential_inv,
          where t = "example_credential (hashSecret ''s3cret'')"])
      (simp_all add: example_credential_db_def example_credential_def example_trims)
  with run show ?thesis by blast
qed

definition example_robot :: CreateRobotInput where
  "example_robot = \<lparr>cri_Name = ''ci-bot'', cri_Repository = ''team/app'', cri_Role = RepoRoleWriter, cri_TTL = 0\<rparr>"

lemma example_robot_created:
  "\<exists>created db3. CreateRobot example_env example_env example_auth_db (example_actor ''u1'' ''root'' True [])
      example_robot = (Inr created, db3)"
proof -
  let ?db1 = "example_auth_db\<lparr>db_users := db_users example_auth_db @ [robot_user example_env example_robot]\<rparr>"
  let ?g = "robot_grant example_env example_robot \<lparr>repo_Name = ''team/app''\<rparr>"
  let ?db2 = "?db1\<lparr>db_grants := db_grants example_auth_db @ [?g]\<rparr>"
  have checks: "requireAdmin (example_actor ''u1'' ''root'' True []) = Inr ()"
    "normalizeUsername (cri_Name example_robot) \<noteq> []"
    "Store_GetUserByUsername example_auth_db (normalizeUsername (cri_Name example_robot))
        = Inl (auth_NewNotFoundError ''user'' [])"
    "ParseRepositoryRef (TrimSpace (cri_Repository example_robot)) = Inr \<lparr>repo_Name = ''team/app''\<rparr>"
    "RepoRole_Validate (cri_Role example_robot) = Inr ()"
    "map_sum (\<lambda>e. e) db_users (Store_UpsertUser example_auth_db (robot_user example_env example_robot)) = Inr (db_users ?db1)"
    "map_sum (\<lambda>e. e) db_grants (Store_PutRepoGrant ?db1 ?g) = Inr (db_grants ?db2)"
    by code_simp+
  have up: "Store_UpsertUser example_auth_db (robot_user example_env example_robot) = Inr ?db1"
    using checks(6) by (auto simp: Store_UpsertUser_def Let_def check_def guard_def split: sum.splits if_splits)
  have put: "Store_PutRepoGrant ?db1 ?g = Inr ?db2"
    using checks(7) by (auto simp: Store_PutRepoGrant_def check_def guard_def split: sum.splits if_splits)
  have "Store_GetUserByID ?db2 ''u9'' = Inr (robot_user example_env example_robot)" by code_simp
  then have user: "Store_GetUserByID ?db2 (env_user_uuid example_env) = Inr (robot_user example_env example_robot)"
    by (simp add: example_env_def)
  have acc: "shortAccessor example_env ''act'' = ''act_a9''" by code_simp
  have "\<exists>c db3. CreateAdminToken example_env ?db2 (example_actor ''u1'' ''root'' True [])
      (robot_token_input example_env example_robot) = (Inr c, db3)"
    using user checks(1) hashSecret_not_Nil acc
    by (simp add: CreateAdminToken_def Let_def robot_token_input_def Store_CreateToken_def Token_Validate_def
        example_trims IsZero_def Token_Scopes_def example_robot_def robot_user_def example_env_def
        example_auth_db_def DefaultAdminTokenTTL_def)
  then show ?thesis
    using checks(1-5) up put
    by (auto simp: CreateRobot_def Let_def robot_user_def robot_grant_def robot_token_input_def auth_NewNotFoundError_def)
qed

theorem create_robot_leaves_robot_behind_witness:
  "\<exists>db2. CreateRobot example_env example_env example_auth_db (example_actor ''u1'' ''root'' True [])
       (example_robot\<lparr>cri_TTL := 31 * 24 * hour\<rparr>) =
       (Inl (auth_NewValidationError ''admin token ttl must be 30 days or shorter''), db2)
     \<and> (\<exists>u. user_at db2 (env_user_uuid example_env) = Some u \<and> user_IsRobot u \<and> user_Enabled u)
     \<and> (\<exists>g \<in> set (db_grants db2). grant_UserID g = env_user_uuid example_env \<and> grant_Role g = cri_Role example_robot)"
proof -
  obtain created db3 where run: "CreateRobot example_env example_env example_auth_db
      (example_actor ''u1'' ''root'' True []) example_robot = (Inr created, db3)"
    using example_robot_created by blast
  show ?thesis by (rule create_robot_leaves_robot_behind [OF run]) (simp add: DefaultAdminTokenTTL_def)
qed

end
