(* ===== verification/Blob_Store.thy ===== *)
theory Blob_Store
  imports Reg_Domain
begin

text \<open>
  The blob store on the file system, \<open>internal/infra/storage/fsblob/store.go\<close>.

  The file system is the set of files below an absolute root directory: a path is the list of its
  components, a file has its content and modification time. Directories exist as far as files
  need them. An upload's \<open>state.json\<close> is kept as the value it encodes. Paths are built by
  \<open>filepath.Join\<close>, which cleans them: an upload id with \<open>..\<close> in it does leave the directory,
  so that no operation here is given such an id is a property of the caller.
  Failures of the operating system itself (permissions, full disk) are not modelled; a reader that
  fails while an upload is written is.

  The invariant \<open>blob_inv\<close> is content addressing: the file stored for a digest has that digest.
  The locale \<open>blob_store\<close> is the contract the registry service and the garbage collector rely
  on, stated on the map from digests to blobs; \<open>fsblob\<close> is its interpretation on the operations.
\<close>

section \<open>Files\<close>

type_synonym path = "string list"

record file_info =
  file_content :: string
  file_ModTime :: time

record blob_fs =
  fs_root :: path
  fs_files :: "(path \<times> file_info) list"
  fs_states :: "(path \<times> UploadState) list"

text \<open>A reader: the bytes it yields and the error it ends with, if any.\<close>

record reader =
  rd_bytes :: string
  rd_error :: "go_error option"

record BlobFileInfo =
  bf_Digest :: Digest
  bf_Size :: int
  bf_ModTime :: time

definition path_step :: "path \<Rightarrow> string \<Rightarrow> path" where
  "path_step p c = (if c = [] \<or> c = ''.'' then p else if c = ''..'' then butlast p else p @ [c])"

definition path_join :: "path \<Rightarrow> string list \<Rightarrow> path" where
  "path_join p elems = foldl path_step p (concat (map (Split (CHR ''/'')) elems))"

definition lookup :: "('k \<times> 'v) list \<Rightarrow> 'k \<Rightarrow> 'v option" where
  "lookup xs k = map_of xs k"

definition put :: "('k \<times> 'v) list \<Rightarrow> 'k \<Rightarrow> 'v \<Rightarrow> ('k \<times> 'v) list" where
  "put xs k v = (k, v) # filter (\<lambda>e. fst e \<noteq> k) xs"

definition remove_where :: "('k \<Rightarrow> bool) \<Rightarrow> ('k \<times> 'v) list \<Rightarrow> ('k \<times> 'v) list" where
  "remove_where P xs = filter (\<lambda>e. \<not> P (fst e)) xs"

definition under :: "path \<Rightarrow> path \<Rightarrow> bool" where
  "under dir p \<longleftrightarrow> take (length dir) p = dir"

definition RemoveAll :: "blob_fs \<Rightarrow> path \<Rightarrow> blob_fs" where
  "RemoveAll fs dir = fs\<lparr>fs_files := remove_where (under dir) (fs_files fs),
     fs_states := remove_where (under dir) (fs_states fs)\<rparr>"

section \<open>Paths of the store\<close>

definition blobsRoot :: "blob_fs \<Rightarrow> path" where
  "blobsRoot fs = path_join (fs_root fs) [''blobs'']"

definition uploadsRoot :: "blob_fs \<Rightarrow> path" where
  "uploadsRoot fs = path_join (fs_root fs) [''uploads'']"

definition uploadDir :: "blob_fs \<Rightarrow> string \<Rightarrow> path" where
  "uploadDir fs uploadID = path_join (uploadsRoot fs) [uploadID]"

definition uploadFile :: "blob_fs \<Rightarrow> string \<Rightarrow> path" where
  "uploadFile fs uploadID = path_join (uploadDir fs uploadID) [''data'']"

definition uploadStateFile :: "blob_fs \<Rightarrow> string \<Rightarrow> path" where
  "uploadStateFile fs uploadID = path_join (uploadDir fs uploadID) [''state.json'']"

definition blobPath :: "blob_fs \<Rightarrow> Digest \<Rightarrow> path" where
  "blobPath fs digest = path_join (blobsRoot fs) [Digest_Algorithm digest, Digest_Encoded digest]"

text \<open>The text of a path, as \<open>UploadState.Location\<close> holds it.\<close>

definition path_text :: "path \<Rightarrow> string" where
  "path_text p = ''/'' @ Join ''/'' p"

section \<open>Operations\<close>

text \<open>\<open>newUploadID\<close>: sixteen random bytes in hexadecimal.\<close>

definition newUploadID :: "string \<Rightarrow> string" where
  "newUploadID random = hex_encode (take 16 random)"

definition writeUploadState :: "blob_fs \<Rightarrow> UploadState \<Rightarrow> blob_fs" where
  "writeUploadState fs state =
     fs\<lparr>fs_states := put (fs_states fs) (uploadStateFile fs (up_ID state)) state\<rparr>"

definition readUploadState :: "blob_fs \<Rightarrow> string \<Rightarrow> UploadState result" where
  "readUploadState fs uploadID =
     (case lookup (fs_states fs) (uploadStateFile fs uploadID) of
        None \<Rightarrow> Inl (NewNotFoundError ''upload'' uploadID)
      | Some state \<Rightarrow> Inr state)"

definition Blob_BeginUpload ::
  "blob_fs \<Rightarrow> string \<Rightarrow> time \<Rightarrow> RepositoryRef \<Rightarrow> (UploadState, blob_fs) op" where
  "Blob_BeginUpload fs random now repository =
     attempt (RepositoryRef_Validate repository) fs (\<lambda>_.
     let uploadID = newUploadID random;
         filePath = path_join (uploadDir fs uploadID) [''data''] in
     attempt (guard (lookup (fs_files fs) filePath \<noteq> None) (OtherError ''file exists'')) fs (\<lambda>_.
     let fs1 = fs\<lparr>fs_files := put (fs_files fs) filePath \<lparr>file_content = [], file_ModTime = now\<rparr>\<rparr>;
         state = \<lparr>up_ID = uploadID, up_Repository = repository, up_Status = UploadStatusActive,
           up_Size = 0, up_StartedAt = now, up_UpdatedAt = now, up_Location = path_text filePath\<rparr>
     in (Inr state, writeUploadState fs1 state)))"

definition Blob_GetUpload :: "blob_fs \<Rightarrow> string \<Rightarrow> UploadState result" where
  "Blob_GetUpload fs uploadID =
     check (readUploadState fs uploadID) (\<lambda>state.
     case lookup (fs_files fs) (uploadFile fs uploadID) of
       None \<Rightarrow> Inl (NewNotFoundError ''upload'' uploadID)
     | Some info \<Rightarrow> Inr (state\<lparr>up_Size := int (length (file_content info)),
          up_UpdatedAt := file_ModTime info, up_Location := path_text (uploadFile fs uploadID)\<rparr>))"

definition Blob_PutUploadChunk ::
  "blob_fs \<Rightarrow> time \<Rightarrow> string \<Rightarrow> reader \<Rightarrow> (UploadState, blob_fs) op" where
  "Blob_PutUploadChunk fs now uploadID content =
     (case lookup (fs_files fs) (uploadFile fs uploadID) of
        None \<Rightarrow> (Inl (NewNotFoundError ''upload'' uploadID), fs)
      | Some info \<Rightarrow>
          let fs1 = fs\<lparr>fs_files := put (fs_files fs) (uploadFile fs uploadID)
                \<lparr>file_content = file_content info @ rd_bytes content, file_ModTime = now\<rparr>\<rparr> in
          (case rd_error content of
             Some err \<Rightarrow> (Inl err, fs1)
           | None \<Rightarrow> attempt (Blob_GetUpload fs1 uploadID) fs1 (\<lambda>state.
               (Inr state, writeUploadState fs1 state))))"

definition Blob_CommitUpload :: "blob_fs \<Rightarrow> string \<Rightarrow> Digest \<Rightarrow> (Descriptor, blob_fs) op" where
  "Blob_CommitUpload fs uploadID expected =
     attempt (Digest_Validate expected) fs (\<lambda>_.
     let uploadPath = uploadFile fs uploadID in
     case lookup (fs_files fs) uploadPath of
       None \<Rightarrow> (Inl (NewNotFoundError ''upload'' uploadID), fs)
     | Some info \<Rightarrow>
         (case DigestFromReader (file_content info) of (actual, sz) \<Rightarrow>
            attempt (guard (actual \<noteq> expected) (NewDigestMismatchError expected actual)) fs (\<lambda>_.
            let finalPath = blobPath fs actual;
                fs1 = fs\<lparr>fs_files := put (remove_where (\<lambda>p. p = uploadPath) (fs_files fs)) finalPath info\<rparr>
            in (Inr \<lparr>desc_MediaType = [], desc_Digest = actual, desc_Size = sz\<rparr>,
                RemoveAll fs1 (uploadDir fs1 uploadID)))))"

definition Blob_CancelUpload :: "blob_fs \<Rightarrow> string \<Rightarrow> blob_fs" where
  "Blob_CancelUpload fs uploadID = RemoveAll fs (uploadDir fs uploadID)"

definition Blob_BlobExists :: "blob_fs \<Rightarrow> Digest \<Rightarrow> bool result" where
  "Blob_BlobExists fs digest =
     check (Digest_Validate digest) (\<lambda>_. Inr (lookup (fs_files fs) (blobPath fs digest) \<noteq> None))"

definition Blob_OpenBlob :: "blob_fs \<Rightarrow> Digest \<Rightarrow> (string \<times> Descriptor) result" where
  "Blob_OpenBlob fs digest =
     check (Digest_Validate digest) (\<lambda>_.
     case lookup (fs_files fs) (blobPath fs digest) of
       None \<Rightarrow> Inl (NewNotFoundError ''blob'' digest)
     | Some info \<Rightarrow> Inr (file_content info, \<lparr>desc_MediaType = [], desc_Digest = digest,
          desc_Size = int (length (file_content info))\<rparr>))"

text \<open>
  \<open>ListBlobs\<close>: the files exactly two levels below \<open>blobs\<close> whose two names form a digest, in
  the order of the directory listings.
\<close>

definition blob_entry :: "blob_fs \<Rightarrow> path \<times> file_info \<Rightarrow> BlobFileInfo list" where
  "blob_entry fs e =
     (case drop (length (blobsRoot fs)) (fst e) of
        [algorithm, name] \<Rightarrow>
          (case ParseDigest (algorithm @ '':'' @ name) of
             Inl _ \<Rightarrow> []
           | Inr digest \<Rightarrow> [\<lparr>bf_Digest = digest, bf_Size = int (length (file_content (snd e))),
               bf_ModTime = file_ModTime (snd e)\<rparr>])
      | _ \<Rightarrow> [])"

definition Blob_ListBlobs :: "blob_fs \<Rightarrow> BlobFileInfo list" where
  "Blob_ListBlobs fs = concat (map (blob_entry fs)
     (sort_key fst (filter (\<lambda>e. under (blobsRoot fs) (fst e)) (fs_files fs))))"

definition Blob_DeleteBlob :: "blob_fs \<Rightarrow> Digest \<Rightarrow> (bool, blob_fs) op" where
  "Blob_DeleteBlob fs digest =
     attempt (Digest_Validate digest) fs (\<lambda>_.
     if lookup (fs_files fs) (blobPath fs digest) = None then (Inr False, fs)
     else (Inr True, fs\<lparr>fs_files := remove_where (\<lambda>p. p = blobPath fs digest) (fs_files fs)\<rparr>))"

text \<open>\<open>New\<close>: the two directories, empty.\<close>

definition Blob_New :: "path \<Rightarrow> blob_fs" where
  "Blob_New root = \<lparr>fs_root = root, fs_files = [], fs_states = []\<rparr>"

section \<open>Facts about paths\<close>

definition plain_component :: "string \<Rightarrow> bool" where
  "plain_component c \<longleftrightarrow> c \<noteq> [] \<and> c \<noteq> ''.'' \<and> c \<noteq> ''..'' \<and> CHR ''/'' \<notin> set c"

lemma path_join_plain: "list_all plain_component cs \<Longrightarrow> path_join p cs = p @ cs"
  by (induction cs arbitrary: p)
    (auto simp: path_join_def path_step_def plain_component_def Split_no_sep)

lemma is_hex_not_path: "is_hex c \<Longrightarrow> c \<noteq> CHR ''/'' \<and> c \<noteq> CHR ''.''"
  by (auto simp: is_hex_def is_digit_def in_range_def)

lemma hex_plain_component: "h \<noteq> [] \<Longrightarrow> list_all is_hex h \<Longrightarrow> plain_component h"
  by (cases h) (auto simp: plain_component_def list_all_iff dest: is_hex_not_path)

lemma plain_names: "plain_component ''blobs''" "plain_component ''uploads''" "plain_component ''data''"
  "plain_component ''state.json''" "plain_component ''sha256''"
  by code_simp+

lemma blobsRoot_eq: "blobsRoot fs = fs_root fs @ [''blobs'']"
  by (simp add: blobsRoot_def path_join_plain plain_names)

lemma uploadsRoot_eq: "uploadsRoot fs = fs_root fs @ [''uploads'']"
  by (simp add: uploadsRoot_def path_join_plain plain_names)

text \<open>The ids \<open>newUploadID\<close> makes, and the digests that validate, name files of their own directory.\<close>

definition upload_id :: "string \<Rightarrow> bool" where
  "upload_id i \<longleftrightarrow> i \<noteq> [] \<and> list_all is_hex i"

lemma newUploadID_ok: "random \<noteq> [] \<Longrightarrow> upload_id (newUploadID random)"
proof -
  assume "random \<noteq> []"
  then have "length (hex_encode (take 16 random)) > 0" by (simp add: hex_encode_length)
  then show ?thesis using hex_decodable_encode [of "take 16 random"]
    by (auto simp: upload_id_def newUploadID_def hex_decodable_def)
qed

lemma upload_paths:
  assumes "upload_id i"
  shows "uploadDir fs i = fs_root fs @ [''uploads'', i]"
    and "uploadFile fs i = fs_root fs @ [''uploads'', i, ''data'']"
    and "uploadStateFile fs i = fs_root fs @ [''uploads'', i, ''state.json'']"
  using assms hex_plain_component [of i]
  by (simp_all add: upload_id_def uploadDir_def uploadFile_def uploadStateFile_def uploadsRoot_eq
      path_join_plain plain_names)

lemma blobPath_eq:
  assumes "ParseDigest d = Inr d"
  shows "blobPath fs d = fs_root fs @ [''blobs'', ''sha256'', Digest_Encoded d]"
proof -
  have "plain_component (Digest_Encoded d)"
    using valid_digest_parts(2,3) [OF assms] by (intro hex_plain_component) auto
  then show ?thesis
    by (simp add: blobPath_def blobsRoot_eq path_join_plain plain_names valid_digest_parts(1) [OF assms])
qed

lemma blobPath_inj:
  assumes "ParseDigest d = Inr d" "ParseDigest e = Inr e" "blobPath fs d = blobPath fs e"
  shows "d = e"
proof -
  have "Digest_Encoded d = Digest_Encoded e" using assms by (simp add: blobPath_eq)
  then show ?thesis using valid_digest_parts(4) [OF assms(1)] valid_digest_parts(4) [OF assms(2)] by metis
qed

section \<open>Facts about association lists\<close>

lemma map_of_filter_key: "map_of (filter (\<lambda>e. P (fst e)) xs) k = (if P k then map_of xs k else None)"
  by (induction xs) auto

lemma lookup_put: "lookup (put xs k v) j = (if j = k then Some v else lookup xs j)"
  by (simp add: lookup_def put_def map_of_filter_key [where P = "\<lambda>e. e \<noteq> k"])

lemma lookup_remove_where: "lookup (remove_where P xs) j = (if P j then None else lookup xs j)"
  using map_of_filter_key [of "\<lambda>k. \<not> P k" xs j] by (simp add: lookup_def remove_where_def)

section \<open>The map from digests to blobs\<close>

definition blob_at :: "blob_fs \<Rightarrow> Digest \<Rightarrow> file_info option" where
  "blob_at fs d = (if ParseDigest d = Inr d then lookup (fs_files fs) (blobPath fs d) else None)"

text \<open>The invariant: files are kept once, and the content of a blob has the digest it is stored under.\<close>

definition blob_inv :: "blob_fs \<Rightarrow> bool" where
  "blob_inv fs \<longleftrightarrow> distinct (map fst (fs_files fs))
     \<and> (\<forall>e \<in> set (fs_files fs). under (blobsRoot fs) (fst e) \<longrightarrow>
          (\<forall>b \<in> set (blob_entry fs e). DigestFromBytes (file_content (snd e)) = bf_Digest b))"

lemma blob_inv_New: "blob_inv (Blob_New root)"
  by (simp add: blob_inv_def Blob_New_def)

lemma blobs_not_uploads:
  assumes "ParseDigest d = Inr d" "upload_id i"
  shows "\<not> under (uploadDir fs i) (blobPath fs d)" "blobPath fs d \<noteq> uploadFile fs i"
  by (simp_all add: blobPath_eq [OF assms(1)] upload_paths [OF assms(2)] under_def)

lemma blob_entry_blobPath:
  assumes "ParseDigest d = Inr d"
  shows "blob_entry fs (blobPath fs d, info) =
    [\<lparr>bf_Digest = d, bf_Size = int (length (file_content info)), bf_ModTime = file_ModTime info\<rparr>]"
proof -
  have "ParseDigest (''sha256'' @ '':'' @ Digest_Encoded d) = Inr d"
    using assms valid_digest_parts(4) [OF assms] by simp
  then show ?thesis by (simp add: blob_entry_def blobPath_eq [OF assms] blobsRoot_eq)
qed

lemma blob_entry_mem:
  assumes "b \<in> set (blob_entry fs e)" "under (blobsRoot fs) (fst e)"
  shows "ParseDigest (bf_Digest b) = Inr (bf_Digest b)" "fst e = blobPath fs (bf_Digest b)"
    "bf_Size b = int (length (file_content (snd e)))" "bf_ModTime b = file_ModTime (snd e)"
proof -
  from assms(1) obtain a n where an: "drop (length (blobsRoot fs)) (fst e) = [a, n]"
    and dg: "ParseDigest (a @ '':'' @ n) = Inr (bf_Digest b)"
    and rest: "bf_Size b = int (length (file_content (snd e)))" "bf_ModTime b = file_ModTime (snd e)"
    by (auto simp: blob_entry_def split: list.split_asm sum.split_asm) metis
  have d: "bf_Digest b = a @ '':'' @ n" using dg by (rule ParseDigest_same)
  then show v: "ParseDigest (bf_Digest b) = Inr (bf_Digest b)" using dg by simp
  obtain h where h: "a @ '':'' @ n = ''sha256:'' @ h" "length h = 64" "list_all is_hex h"
    using dg by (auto simp: ParseDigest_Inr)
  then have "CHR '':'' \<notin> set h" by (auto simp: list_all_iff is_hex_def is_digit_def in_range_def)
  have cut: "Cut (CHR '':'') (a @ '':'' @ n) = (''sha256'', h, True)"
    unfolding h(1) using Cut_append [of "CHR '':''" "''sha256''" h] by simp
  have "a = ''sha256'' \<and> n = h"
  proof (cases "CHR '':'' \<in> set a")
    case False
    then show ?thesis using cut Cut_append [of "CHR '':''" a n] by simp
  next
    case True
    have "count_list (a @ '':'' @ n) (CHR '':'') = 1"
      unfolding h(1) using \<open>CHR '':'' \<notin> set h\<close> by simp
    moreover have "count_list a (CHR '':'') > 0" using True by (simp add: count_list_0_iff flip: neq0_conv)
    ultimately show ?thesis by simp
  qed
  moreover have "fst e = blobsRoot fs @ [a, n]"
    using an assms(2) unfolding under_def by (metis append_take_drop_id)
  moreover have "Digest_Encoded (bf_Digest b) = h" using cut d by (simp add: Digest_Encoded_def)
  ultimately show "fst e = blobPath fs (bf_Digest b)" by (simp add: blobPath_eq [OF v] blobsRoot_eq)
  show "bf_Size b = int (length (file_content (snd e)))" "bf_ModTime b = file_ModTime (snd e)" by (rule rest)+
qed

lemma under_blobPath: "ParseDigest d = Inr d \<Longrightarrow> under (blobsRoot fs) (blobPath fs d)"
  by (simp add: under_def blobPath_eq blobsRoot_eq)

lemma lookup_mem: "lookup xs k = Some v \<Longrightarrow> (k, v) \<in> set xs"
  by (simp add: lookup_def map_of_SomeD)

lemma lookup_iff: "distinct (map fst xs) \<Longrightarrow> lookup xs k = Some v \<longleftrightarrow> (k, v) \<in> set xs"
  by (simp add: lookup_def map_of_eq_Some_iff)

text \<open>The invariant in terms of the map.\<close>

lemma blob_inv_iff:
  "blob_inv fs \<longleftrightarrow> distinct (map fst (fs_files fs))
     \<and> (\<forall>d info. blob_at fs d = Some info \<longrightarrow> DigestFromBytes (file_content info) = d)"
proof -
  have "(\<forall>e \<in> set (fs_files fs). under (blobsRoot fs) (fst e) \<longrightarrow>
          (\<forall>b \<in> set (blob_entry fs e). DigestFromBytes (file_content (snd e)) = bf_Digest b))
      \<longleftrightarrow> (\<forall>d info. blob_at fs d = Some info \<longrightarrow> DigestFromBytes (file_content info) = d)"
    if dist: "distinct (map fst (fs_files fs))"
  proof
    assume *: "\<forall>e \<in> set (fs_files fs). under (blobsRoot fs) (fst e) \<longrightarrow>
          (\<forall>b \<in> set (blob_entry fs e). DigestFromBytes (file_content (snd e)) = bf_Digest b)"
    show "\<forall>d info. blob_at fs d = Some info \<longrightarrow> DigestFromBytes (file_content info) = d"
    proof (intro allI impI)
      fix d info
      assume "blob_at fs d = Some info"
      then have d: "ParseDigest d = Inr d" and mem: "(blobPath fs d, info) \<in> set (fs_files fs)"
        by (auto simp: blob_at_def dest: lookup_mem split: if_splits)
      then show "DigestFromBytes (file_content info) = d"
        using * [rule_format, OF mem] under_blobPath [OF d] blob_entry_blobPath [OF d] by simp
    qed
  next
    assume *: "\<forall>d info. blob_at fs d = Some info \<longrightarrow> DigestFromBytes (file_content info) = d"
    show "\<forall>e \<in> set (fs_files fs). under (blobsRoot fs) (fst e) \<longrightarrow>
          (\<forall>b \<in> set (blob_entry fs e). DigestFromBytes (file_content (snd e)) = bf_Digest b)"
    proof (intro ballI impI)
      fix e b
      assume e: "e \<in> set (fs_files fs)" "under (blobsRoot fs) (fst e)" "b \<in> set (blob_entry fs e)"
      note m = blob_entry_mem [OF e(3,2)]
      have "(blobPath fs (bf_Digest b), snd e) \<in> set (fs_files fs)" using e(1) m(2) by (metis prod.collapse)
      then have "blob_at fs (bf_Digest b) = Some (snd e)"
        using lookup_iff [OF dist] m(1) by (simp add: blob_at_def)
      then show "DigestFromBytes (file_content (snd e)) = bf_Digest b" using * by blast
    qed
  qed
  then show ?thesis unfolding blob_inv_def by blast
qed

section \<open>The operations on the map of blobs\<close>

lemma root_kept [simp]:
  "blobPath (fs\<lparr>fs_files := f\<rparr>) d = blobPath fs d" "blobPath (fs\<lparr>fs_states := g\<rparr>) d = blobPath fs d"
  "uploadDir (fs\<lparr>fs_files := f\<rparr>) i = uploadDir fs i" "uploadFile (fs\<lparr>fs_files := f\<rparr>) i = uploadFile fs i"
  "uploadStateFile (fs\<lparr>fs_files := f\<rparr>) i = uploadStateFile fs i"
  "uploadDir (fs\<lparr>fs_states := g\<rparr>) i = uploadDir fs i" "uploadFile (fs\<lparr>fs_states := g\<rparr>) i = uploadFile fs i"
  "uploadStateFile (fs\<lparr>fs_states := g\<rparr>) i = uploadStateFile fs i"
  by (simp_all add: blobPath_def blobsRoot_def uploadDir_def uploadsRoot_def uploadFile_def uploadStateFile_def)

lemma distinct_put: "distinct (map fst xs) \<Longrightarrow> distinct (map fst (put xs k v))"
  by (auto simp: put_def distinct_map_filter)

lemma distinct_remove_where: "distinct (map fst xs) \<Longrightarrow> distinct (map fst (remove_where P xs))"
  by (simp add: remove_where_def distinct_map_filter)

text \<open>A change of files none of which is a blob leaves the blobs alone.\<close>

lemma blob_at_states [simp]: "blob_at (fs\<lparr>fs_states := g\<rparr>) = blob_at fs"
  by (simp add: blob_at_def fun_eq_iff)

lemma blob_at_put_upload: "upload_id i \<Longrightarrow> blob_at (fs\<lparr>fs_files := put (fs_files fs) (uploadFile fs i) info\<rparr>) = blob_at fs"
  using blobs_not_uploads(2) by (auto simp: blob_at_def fun_eq_iff lookup_put)

lemma blob_at_RemoveAll: "upload_id i \<Longrightarrow> blob_at (RemoveAll fs (uploadDir fs i)) = blob_at fs"
  using blobs_not_uploads(1) by (auto simp: blob_at_def fun_eq_iff RemoveAll_def lookup_remove_where)

lemma blob_inv_same:
  assumes "blob_inv fs" "distinct (map fst (fs_files fs'))" "blob_at fs' = blob_at fs"
  shows "blob_inv fs'"
  using assms by (simp add: blob_inv_iff)

lemma commit_Inr:
  assumes "Blob_CommitUpload fs i d = (Inr desc, fs')"
  shows "\<exists>info. lookup (fs_files fs) (uploadFile fs i) = Some info \<and> DigestFromBytes (file_content info) = d
    \<and> desc = \<lparr>desc_MediaType = [], desc_Digest = d, desc_Size = int (length (file_content info))\<rparr>
    \<and> fs' = RemoveAll (fs\<lparr>fs_files := put (remove_where (\<lambda>p. p = uploadFile fs i) (fs_files fs)) (blobPath fs d) info\<rparr>)
        (uploadDir fs i)"
  using assms unfolding Blob_CommitUpload_def Let_def
  by (auto simp: go_flow split: option.splits)

lemma commit_Inl: "Blob_CommitUpload fs i d = (Inl e, fs') \<Longrightarrow> fs' = fs"
  unfolding Blob_CommitUpload_def Let_def by (auto simp: go_flow split: option.splits)

lemma commit_blobs:
  assumes "upload_id i" "Blob_CommitUpload fs i d = (Inr desc, fs')"
    and "lookup (fs_files fs) (uploadFile fs i) = Some info"
  shows "blob_at fs' = (blob_at fs)(d \<mapsto> info)"
proof -
  have d: "DigestFromBytes (file_content info) = d"
    and fs': "fs' = RemoveAll (fs\<lparr>fs_files := put (remove_where (\<lambda>p. p = uploadFile fs i) (fs_files fs)) (blobPath fs d) info\<rparr>)
        (uploadDir fs i)"
    using commit_Inr [OF assms(2)] assms(3) by auto
  have valid: "ParseDigest d = Inr d" using d DigestFromBytes_valid [of "file_content info"] by simp
  let ?fs = "fs\<lparr>fs_files := put (remove_where (\<lambda>p. p = uploadFile fs i) (fs_files fs)) (blobPath fs d) info\<rparr>"
  have "blob_at fs' = blob_at ?fs" using blob_at_RemoveAll [OF assms(1), of ?fs] by (simp add: fs')
  moreover have "blob_at ?fs e = ((blob_at fs)(d \<mapsto> info)) e" for e
    using blobPath_inj [OF _ valid, of e] blobs_not_uploads(2) [OF _ assms(1), of e] valid
    by (auto simp: blob_at_def lookup_put lookup_remove_where)
  ultimately show ?thesis by auto
qed

lemma blob_commit_inv:
  assumes "upload_id i" "blob_inv fs" "Blob_CommitUpload fs i d = (r, fs')"
  shows "blob_inv fs'"
proof (cases r)
  case (Inr desc)
  obtain info where info: "lookup (fs_files fs) (uploadFile fs i) = Some info" "DigestFromBytes (file_content info) = d"
    "fs' = RemoveAll (fs\<lparr>fs_files := put (remove_where (\<lambda>p. p = uploadFile fs i) (fs_files fs)) (blobPath fs d) info\<rparr>)
        (uploadDir fs i)"
    using commit_Inr assms(3) Inr by blast
  have "distinct (map fst (fs_files fs'))"
    using assms(2) by (simp add: info(3) RemoveAll_def blob_inv_def distinct_put distinct_remove_where)
  then show ?thesis
    using assms(2) commit_blobs [OF assms(1) assms(3) [unfolded Inr] info(1)] info(2) by (simp add: blob_inv_iff)
qed (use commit_Inl assms in blast)

lemma delete_blobs:
  assumes "Blob_DeleteBlob fs d = (Inr b, fs')"
  shows "ParseDigest d = Inr d" "b = (blob_at fs d \<noteq> None)" "blob_at fs' = (blob_at fs)(d := None)"
proof -
  show d: "ParseDigest d = Inr d"
    using assms unfolding Blob_DeleteBlob_def by (auto simp: go_flow Digest_Validate_Inr)
  show "b = (blob_at fs d \<noteq> None)"
    using assms d unfolding Blob_DeleteBlob_def by (auto simp: go_flow blob_at_def split: if_splits)
  have "blob_at fs' e = ((blob_at fs)(d := None)) e" for e
    using assms d blobPath_inj [OF _ d, of e] unfolding Blob_DeleteBlob_def
    by (auto simp: go_flow blob_at_def lookup_remove_where split: if_splits)
  then show "blob_at fs' = (blob_at fs)(d := None)" by auto
qed

lemma blob_delete_inv: "blob_inv fs \<Longrightarrow> Blob_DeleteBlob fs d = (r, fs') \<Longrightarrow> blob_inv fs'"
proof (cases r)
  case (Inl e)
  assume "blob_inv fs" "Blob_DeleteBlob fs d = (r, fs')"
  with Inl show ?thesis unfolding Blob_DeleteBlob_def by (auto simp: go_flow split: if_splits)
next
  case (Inr b)
  assume *: "blob_inv fs" "Blob_DeleteBlob fs d = (r, fs')"
  have "distinct (map fst (fs_files fs'))"
    using * Inr unfolding Blob_DeleteBlob_def blob_inv_def
    by (auto simp: go_flow distinct_remove_where split: if_splits)
  with * Inr delete_blobs(3) show ?thesis by (auto simp: blob_inv_iff)
qed

lemma list_blobs:
  assumes "blob_inv fs"
  shows "b \<in> set (Blob_ListBlobs fs) \<longleftrightarrow> (\<exists>info. blob_at fs (bf_Digest b) = Some info
     \<and> bf_Size b = int (length (file_content info)) \<and> bf_ModTime b = file_ModTime info)"
proof
  assume "b \<in> set (Blob_ListBlobs fs)"
  then obtain e where e: "e \<in> set (fs_files fs)" "under (blobsRoot fs) (fst e)" "b \<in> set (blob_entry fs e)"
    by (auto simp: Blob_ListBlobs_def)
  note m = blob_entry_mem [OF e(3,2)]
  have dist: "distinct (map fst (fs_files fs))" using assms by (simp add: blob_inv_def)
  have "(blobPath fs (bf_Digest b), snd e) \<in> set (fs_files fs)" using e(1) m(2) by (metis prod.collapse)
  then have "blob_at fs (bf_Digest b) = Some (snd e)" using lookup_iff [OF dist] m(1) by (simp add: blob_at_def)
  then show "\<exists>info. blob_at fs (bf_Digest b) = Some info
     \<and> bf_Size b = int (length (file_content info)) \<and> bf_ModTime b = file_ModTime info" using m(3,4) by blast
next
  assume "\<exists>info. blob_at fs (bf_Digest b) = Some info
     \<and> bf_Size b = int (length (file_content info)) \<and> bf_ModTime b = file_ModTime info"
  then obtain info where i: "blob_at fs (bf_Digest b) = Some info"
    "bf_Size b = int (length (file_content info))" "bf_ModTime b = file_ModTime info" by blast
  then have d: "ParseDigest (bf_Digest b) = Inr (bf_Digest b)"
    and mem: "(blobPath fs (bf_Digest b), info) \<in> set (fs_files fs)"
    by (auto simp: blob_at_def dest: lookup_mem split: if_splits)
  have "b \<in> set (blob_entry fs (blobPath fs (bf_Digest b), info))"
    using i(2,3) by (simp add: blob_entry_blobPath [OF d])
  then show "b \<in> set (Blob_ListBlobs fs)" using mem under_blobPath [OF d] by (force simp: Blob_ListBlobs_def)
qed

section \<open>The contract of the blob store\<close>

locale blob_store =
  fixes inv :: "'fs \<Rightarrow> bool"
    and blobs :: "'fs \<Rightarrow> Digest \<Rightarrow> file_info option"
    and upload_ok :: "string \<Rightarrow> bool"
    and Exists :: "'fs \<Rightarrow> Digest \<Rightarrow> bool result"
    and Open :: "'fs \<Rightarrow> Digest \<Rightarrow> (string \<times> Descriptor) result"
    and Commit :: "'fs \<Rightarrow> string \<Rightarrow> Digest \<Rightarrow> (Descriptor, 'fs) op"
    and Delete :: "'fs \<Rightarrow> Digest \<Rightarrow> (bool, 'fs) op"
    and Listing :: "'fs \<Rightarrow> BlobFileInfo list"
  assumes content: "inv fs \<Longrightarrow> blobs fs d = Some info \<Longrightarrow> DigestFromBytes (file_content info) = d"
    and exists: "ParseDigest d = Inr d \<Longrightarrow> Exists fs d = Inr (blobs fs d \<noteq> None)"
    and open_blob: "ParseDigest d = Inr d \<Longrightarrow> Open fs d = (case blobs fs d of
          None \<Rightarrow> Inl (NewNotFoundError ''blob'' d)
        | Some info \<Rightarrow> Inr (file_content info, \<lparr>desc_MediaType = [], desc_Digest = d,
            desc_Size = int (length (file_content info))\<rparr>))"
    and commit: "upload_ok i \<Longrightarrow> Commit fs i d = (Inr desc, fs') \<Longrightarrow>
          \<exists>info. DigestFromBytes (file_content info) = d \<and> blobs fs' = (blobs fs)(d \<mapsto> info)
            \<and> desc = \<lparr>desc_MediaType = [], desc_Digest = d, desc_Size = int (length (file_content info))\<rparr>"
    and commit_fails: "Commit fs i d = (Inl e, fs') \<Longrightarrow> fs' = fs"
    and commit_keeps: "upload_ok i \<Longrightarrow> inv fs \<Longrightarrow> Commit fs i d = (r, fs') \<Longrightarrow> inv fs'"
    and delete: "Delete fs d = (Inr found, fs') \<Longrightarrow> found = (blobs fs d \<noteq> None) \<and> blobs fs' = (blobs fs)(d := None)"
    and delete_fails: "Delete fs d = (Inl e, fs') \<Longrightarrow> fs' = fs"
    and delete_keeps: "inv fs \<Longrightarrow> Delete fs d = (rb, fs') \<Longrightarrow> inv fs'"
    and listing: "inv fs \<Longrightarrow> b \<in> set (Listing fs) \<longleftrightarrow> (\<exists>info. blobs fs (bf_Digest b) = Some info
          \<and> bf_Size b = int (length (file_content info)) \<and> bf_ModTime b = file_ModTime info)"
begin

lemma stored_digest_valid: "inv fs \<Longrightarrow> blobs fs d = Some info \<Longrightarrow> ParseDigest d = Inr d"
  using content DigestFromBytes_valid by metis

text \<open>What is committed can be read back, and nothing that was readable is lost by a commit.\<close>

lemma commit_readable:
  assumes "upload_ok i" "Commit fs i d = (Inr desc, fs')"
  shows "\<exists>c. Open fs' d = Inr (c, desc) \<and> DigestFromBytes c = d"
proof -
  obtain info where i: "DigestFromBytes (file_content info) = d" "blobs fs' = (blobs fs)(d \<mapsto> info)"
    "desc = \<lparr>desc_MediaType = [], desc_Digest = d, desc_Size = int (length (file_content info))\<rparr>"
    using commit [OF assms] by blast
  have "ParseDigest d = Inr d" using i(1) DigestFromBytes_valid by metis
  then show ?thesis using i by (simp add: open_blob)
qed

lemma commit_loses_nothing:
  "upload_ok i \<Longrightarrow> Commit fs i d = (r, fs') \<Longrightarrow> blobs fs e \<noteq> None \<Longrightarrow> blobs fs' e \<noteq> None"
  using commit commit_fails by (cases r) (auto, (metis fun_upd_apply option.distinct(1))+)

lemma delete_others: "Delete fs d = (r, fs') \<Longrightarrow> e \<noteq> d \<Longrightarrow> blobs fs' e = blobs fs e"
  using delete [of fs d _ fs'] delete_fails [of fs d _ fs'] by (cases r) auto

text \<open>Two blobs of one digest have the same bytes unless SHA-256 collides.\<close>

lemma read_integrity:
  assumes "inv fs" "Open fs d = Inr (c, desc)" "ParseDigest d = Inr d"
  shows "DigestFromBytes c = d" "desc_Size desc = int (length c)"
  using assms content by (auto simp: open_blob split: option.splits)

end

interpretation fsblob: blob_store blob_inv blob_at upload_id Blob_BlobExists Blob_OpenBlob
  Blob_CommitUpload Blob_DeleteBlob Blob_ListBlobs
proof
  show "blob_inv fs \<Longrightarrow> blob_at fs d = Some info \<Longrightarrow> DigestFromBytes (file_content info) = d" for fs d info
    by (simp add: blob_inv_iff)
  show "ParseDigest d = Inr d \<Longrightarrow> Blob_BlobExists fs d = Inr (blob_at fs d \<noteq> None)" for fs d
    by (simp add: Blob_BlobExists_def blob_at_def Digest_Validate_def)
  show "ParseDigest d = Inr d \<Longrightarrow> Blob_OpenBlob fs d = (case blob_at fs d of
          None \<Rightarrow> Inl (NewNotFoundError ''blob'' d)
        | Some info \<Rightarrow> Inr (file_content info, \<lparr>desc_MediaType = [], desc_Digest = d,
            desc_Size = int (length (file_content info))\<rparr>))" for fs d
    by (simp add: Blob_OpenBlob_def blob_at_def Digest_Validate_def)
  show "upload_id i \<Longrightarrow> Blob_CommitUpload fs i d = (Inr desc, fs') \<Longrightarrow>
          \<exists>info. DigestFromBytes (file_content info) = d \<and> blob_at fs' = (blob_at fs)(d \<mapsto> info)
            \<and> desc = \<lparr>desc_MediaType = [], desc_Digest = d, desc_Size = int (length (file_content info))\<rparr>"
    for i fs d desc fs'
    using commit_Inr commit_blobs by blast
  show "Blob_DeleteBlob fs d = (Inl e, fs') \<Longrightarrow> fs' = fs" for fs d e fs'
    unfolding Blob_DeleteBlob_def by (auto simp: go_flow split: if_splits)
qed (rule commit_Inl blob_commit_inv blob_delete_inv list_blobs conjI delete_blobs; assumption?)+

section \<open>Uploads\<close>



text \<open>The content of an upload in progress.\<close>

definition upload_content :: "blob_fs \<Rightarrow> string \<Rightarrow> string option" where
  "upload_content fs i = map_option file_content (lookup (fs_files fs) (uploadFile fs i))"

text \<open>An upload that \<open>BeginUpload\<close> has started and nothing has ended yet.\<close>

definition upload_live :: "blob_fs \<Rightarrow> string \<Rightarrow> bool" where
  "upload_live fs i \<longleftrightarrow> upload_id i \<and> upload_content fs i \<noteq> None
     \<and> (\<exists>st. lookup (fs_states fs) (uploadStateFile fs i) = Some st \<and> up_ID st = i)"

lemma begin_live:
  assumes "Blob_BeginUpload fs rnd now repo = (Inr st, fs')" "rnd \<noteq> []"
  shows "upload_live fs' (up_ID st)" "upload_content fs' (up_ID st) = Some []" "blob_at fs' = blob_at fs"
proof -
  let ?i = "newUploadID rnd"
  have id: "upload_id ?i" by (rule newUploadID_ok [OF assms(2)])
  from assms(1) have st: "up_ID st = ?i"
    and fs': "fs' = writeUploadState (fs\<lparr>fs_files := put (fs_files fs) (uploadFile fs ?i)
        \<lparr>file_content = [], file_ModTime = now\<rparr>\<rparr>) st"
    unfolding Blob_BeginUpload_def Let_def by (auto simp: go_flow uploadFile_def)
  show "upload_content fs' (up_ID st) = Some []" "upload_live fs' (up_ID st)"
    by (simp_all add: upload_live_def upload_content_def fs' st writeUploadState_def lookup_put id)
  show "blob_at fs' = blob_at fs"
    using blob_at_put_upload [OF id] by (simp add: fs' writeUploadState_def)
qed

lemma put_chunk_live:
  assumes "upload_live fs i"
  shows "\<exists>st fs'. Blob_PutUploadChunk fs now i \<lparr>rd_bytes = c, rd_error = None\<rparr> = (Inr st, fs')
     \<and> upload_live fs' i \<and> upload_content fs' i = map_option (\<lambda>old. old @ c) (upload_content fs i)
     \<and> blob_at fs' = blob_at fs \<and> up_ID st = i"
proof -
  obtain info st where l: "upload_id i" "lookup (fs_files fs) (uploadFile fs i) = Some info"
    "lookup (fs_states fs) (uploadStateFile fs i) = Some st" "up_ID st = i"
    using assms by (auto simp: upload_live_def upload_content_def)
  then show ?thesis
    by (simp add: Blob_PutUploadChunk_def Let_def Blob_GetUpload_def readUploadState_def lookup_put
        upload_live_def upload_content_def writeUploadState_def blob_at_put_upload)
qed

text \<open>The chunks of an upload, one request after the other, each at its own time.\<close>

fun put_chunks :: "blob_fs \<Rightarrow> string \<Rightarrow> (time \<times> string) list \<Rightarrow> blob_fs" where
  "put_chunks fs i [] = fs"
| "put_chunks fs i ((now, c) # cs) =
     put_chunks (snd (Blob_PutUploadChunk fs now i \<lparr>rd_bytes = c, rd_error = None\<rparr>)) i cs"

lemma put_chunks_live:
  assumes "upload_live fs i" "upload_content fs i = Some old"
  shows "upload_live (put_chunks fs i cs) i
    \<and> upload_content (put_chunks fs i cs) i = Some (old @ concat (map snd cs)) \<and> blob_at (put_chunks fs i cs) = blob_at fs"
  using assms
proof (induction cs arbitrary: fs old)
  case (Cons tc cs)
  obtain now c where tc: "tc = (now, c)" by (cases tc)
  obtain st fs' where p: "Blob_PutUploadChunk fs now i \<lparr>rd_bytes = c, rd_error = None\<rparr> = (Inr st, fs')"
    "upload_live fs' i" "upload_content fs' i = Some (old @ c)" "blob_at fs' = blob_at fs"
    using put_chunk_live [OF Cons.prems(1)] Cons.prems(2) by fastforce
  show ?case using Cons.IH [OF p(2,3)] p(1,4) by (simp add: tc)
qed simp

lemma commit_live:
  assumes "upload_live fs i" "upload_content fs i = Some c"
  shows "\<exists>desc fs'. Blob_CommitUpload fs i (DigestFromBytes c) = (Inr desc, fs')
    \<and> desc = \<lparr>desc_MediaType = [], desc_Digest = DigestFromBytes c, desc_Size = int (length c)\<rparr>
    \<and> Blob_OpenBlob fs' (DigestFromBytes c) = Inr (c, desc)
    \<and> Blob_GetUpload fs' i = Inl (NewNotFoundError ''upload'' i)"
proof -
  obtain info where info: "lookup (fs_files fs) (uploadFile fs i) = Some info" "file_content info = c" and id: "upload_id i"
    using assms by (auto simp: upload_live_def upload_content_def)
  obtain desc fs' where run: "Blob_CommitUpload fs i (DigestFromBytes c) = (Inr desc, fs')"
    using info by (simp add: Blob_CommitUpload_def Let_def)
  have desc: "desc = \<lparr>desc_MediaType = [], desc_Digest = DigestFromBytes c, desc_Size = int (length c)\<rparr>"
    and fs': "fs' = RemoveAll (fs\<lparr>fs_files := put (remove_where (\<lambda>p. p = uploadFile fs i) (fs_files fs))
        (blobPath fs (DigestFromBytes c)) info\<rparr>) (uploadDir fs i)"
    using commit_Inr [OF run] info by auto
  have "blob_at fs' (DigestFromBytes c) = Some info"
    using commit_blobs [OF id run info(1)] by simp
  then have "Blob_OpenBlob fs' (DigestFromBytes c) = Inr (c, desc)"
    by (simp add: fsblob.open_blob desc info(2))
  moreover have "Blob_GetUpload fs' i = Inl (NewNotFoundError ''upload'' i)"
    using fs' id by (auto simp: Blob_GetUpload_def readUploadState_def RemoveAll_def lookup_remove_where
        upload_paths under_def)
  ultimately show ?thesis using run desc by blast
qed

text \<open>
  C18: An upload arrives whole: a blob started with \<open>BeginUpload\<close>, sent in any number of chunks and
  committed under the digest of their concatenation is stored, reads back byte for byte with the
  right size, and its upload is gone. No step of it touches another blob.
\<close>

theorem upload_roundtrip:
  assumes "Blob_BeginUpload fs rnd now repo = (Inr st, fs1)" and "rnd \<noteq> []"
    and "bytes = concat (map snd chunks)"
  shows "\<exists>desc fs2. Blob_CommitUpload (put_chunks fs1 (up_ID st) chunks) (up_ID st) (DigestFromBytes bytes) = (Inr desc, fs2)
     \<and> Blob_OpenBlob fs2 (DigestFromBytes bytes) = Inr (bytes, desc)
     \<and> desc_Size desc = int (length bytes)
     \<and> Blob_GetUpload fs2 (up_ID st) = Inl (NewNotFoundError ''upload'' (up_ID st))
     \<and> (\<forall>d. d \<noteq> DigestFromBytes bytes \<longrightarrow> blob_at fs2 d = blob_at fs d)"
proof -
  note b = begin_live [OF assms(1,2)]
  let ?fs = "put_chunks fs1 (up_ID st) chunks"
  have p: "upload_live ?fs (up_ID st)" "upload_content ?fs (up_ID st) = Some bytes" "blob_at ?fs = blob_at fs"
    using put_chunks_live [OF b(1,2), of chunks] b(3) assms(3) by simp_all
  obtain desc fs2 where c: "Blob_CommitUpload ?fs (up_ID st) (DigestFromBytes bytes) = (Inr desc, fs2)"
    "desc = \<lparr>desc_MediaType = [], desc_Digest = DigestFromBytes bytes, desc_Size = int (length bytes)\<rparr>"
    "Blob_OpenBlob fs2 (DigestFromBytes bytes) = Inr (bytes, desc)"
    "Blob_GetUpload fs2 (up_ID st) = Inl (NewNotFoundError ''upload'' (up_ID st))"
    using commit_live [OF p(1,2)] by blast
  have "upload_id (up_ID st)" using b(1) by (simp add: upload_live_def)
  then obtain info where "blob_at fs2 = (blob_at ?fs)(DigestFromBytes bytes \<mapsto> info)"
    using fsblob.commit [OF _ c(1)] by blast
  then have "\<forall>d. d \<noteq> DigestFromBytes bytes \<longrightarrow> blob_at fs2 d = blob_at fs d" using p(3) by simp
  with c show ?thesis by (intro exI [of _ desc] exI [of _ fs2]) simp
qed

text \<open>
  C19: A commit under the wrong digest is refused and changes nothing: the upload stays as it was and
  no blob appears, and the error says which digest the bytes really have.
\<close>

theorem commit_mismatch_refused:
  assumes "upload_content fs i = Some c" and "Digest_Validate d = Inr ()" and "DigestFromBytes c \<noteq> d"
  shows "Blob_CommitUpload fs i d = (Inl (NewDigestMismatchError d (DigestFromBytes c)), fs)"
  using assms by (auto simp: Blob_CommitUpload_def Let_def upload_content_def)

definition example_begin :: "(UploadState, blob_fs) op" where
  "example_begin = Blob_BeginUpload (Blob_New [''srv'']) ''0123456789abcdef'' 5 \<lparr>repo_Name = ''team/app''\<rparr>"

lemma example_begin_runs:
  "Blob_BeginUpload (Blob_New [''srv'']) ''0123456789abcdef'' 5 \<lparr>repo_Name = ''team/app''\<rparr>
     = (Inr (projr (fst example_begin)), snd example_begin)"
proof -
  have "\<not> isl (fst example_begin)" by code_simp
  then show ?thesis unfolding example_begin_def by (metis prod.collapse sum.collapse(2))
qed

theorem upload_roundtrip_witness:
  "\<exists>desc fs2. Blob_CommitUpload
        (put_chunks (snd example_begin) (up_ID (projr (fst example_begin))) [(6, ''hello ''), (7, ''world'')])
        (up_ID (projr (fst example_begin))) (DigestFromBytes ''hello world'') = (Inr desc, fs2)
     \<and> Blob_OpenBlob fs2 (DigestFromBytes ''hello world'') = Inr (''hello world'', desc)
     \<and> desc_Size desc = int (length ''hello world'')
     \<and> Blob_GetUpload fs2 (up_ID (projr (fst example_begin)))
         = Inl (NewNotFoundError ''upload'' (up_ID (projr (fst example_begin))))
     \<and> (\<forall>d. d \<noteq> DigestFromBytes ''hello world'' \<longrightarrow> blob_at fs2 d = blob_at (Blob_New [''srv'']) d)"
  by (rule upload_roundtrip [OF example_begin_runs]) simp_all

theorem commit_mismatch_refused_witness:
  "\<exists>d. Blob_CommitUpload (snd example_begin) (up_ID (projr (fst example_begin))) d =
     (Inl (NewDigestMismatchError d (DigestFromBytes [])), snd example_begin)"
proof -
  have content: "upload_content (snd example_begin) (up_ID (projr (fst example_begin))) = Some []" by code_simp
  let ?a = "''sha256:'' @ replicate 64 (CHR ''a'')" and ?b = "''sha256:'' @ replicate 64 (CHR ''b'')"
  have valid: "Digest_Validate ?a = Inr ()" "Digest_Validate ?b = Inr ()" by code_simp+
  have "?a \<noteq> ?b" by code_simp
  then obtain d where "Digest_Validate d = Inr ()" "DigestFromBytes [] \<noteq> d" using valid by metis
  then show ?thesis using commit_mismatch_refused [OF content] by blast
qed

end
