(* ===== verification/Metadata_Store.thy ===== *)
theory Metadata_Store
  imports Auth_Store
begin

text \<open>
  The metadata database, \<open>internal/infra/metadata/sqlite/store.go\<close>: repositories, manifests, tags,
  the blobs each manifest references, uploads and garbage-collection reports. Tables are lists of
  rows, statements are functions on them; the foreign keys with \<open>ON DELETE CASCADE\<close> of \<open>init\<close>
  are written out where a row is deleted. A transaction that fails leaves the tables alone, so a
  write is a function to \<^typ>\<open>'a result\<close>. Text columns compare byte by byte (SQLite's
  default collation), and time columns hold the text of \<open>formatTime\<close>, by which the database
  orders and compares them.

  \<open>meta_inv\<close> is the invariant: ids and keys are unique, and every manifest, tag and blob row
  belongs to a row that exists. The tables of scans, policies and settings are not modelled.
\<close>

section \<open>Rows\<close>

record repo_row =
  rr_id :: nat
  rr_tenant :: string
  rr_name :: string
  rr_created_at :: time

record manifest_row =
  mr_id :: nat
  mr_tenant :: string
  mr_repository_id :: nat
  mr_digest :: Digest
  mr_media_type :: string
  mr_size :: int
  mr_payload :: string
  mr_created_at :: time
  mr_pushed_by :: string
  mr_subject_digest :: string

record tag_row =
  tr_tenant :: string
  tr_repository_id :: nat
  tr_name :: string
  tr_manifest_id :: nat
  tr_created_at :: time
  tr_updated_at :: time

record blob_row =
  br_manifest_id :: nat
  br_digest :: Digest
  br_media_type :: string
  br_size :: int
  br_position :: nat

record upload_row =
  ur_tenant :: string
  ur_state :: UploadState

datatype GCReportStatus = GCReportStatusReported | GCReportStatusDeleted

record GCReportCandidate =
  gcc_Digest :: string
  gcc_Size :: int
  gcc_ModTime :: time
  gcc_Outcome :: string
  gcc_Error :: string

record GCReport =
  gcr_ID :: string
  gcr_Status :: GCReportStatus
  gcr_ComputedAt :: time
  gcr_ExpiresAt :: time
  gcr_GraceCutoff :: time
  gcr_CandidateCount :: int
  gcr_CandidateBytes :: int
  gcr_DurationMillis :: int
  gcr_RequestedBy :: string
  gcr_TriggeredInTenant :: string
  gcr_DeletedAt :: "time option"
  gcr_DeletedBy :: string
  gcr_DeletedCount :: int
  gcr_BytesReclaimed :: int
  gcr_Error :: string

record GCReportDetail =
  gcd_Report :: GCReport
  gcd_Candidates :: "GCReportCandidate list"

record GCCandidateOutcome =
  gco_Digest :: string
  gco_Outcome :: string
  gco_Error :: string

record GCDeleteOutcome =
  gdo_DeletedAt :: time
  gdo_DeletedBy :: string
  gdo_DeletedCount :: int
  gdo_BytesReclaimed :: int
  gdo_Error :: string
  gdo_Candidates :: "GCCandidateOutcome list"

record TagSummary =
  ts_Name :: string
  ts_CreatedAt :: time
  ts_PushedBy :: string

record RepositorySummary =
  rs_Name :: string
  rs_TagCount :: int
  rs_LastPushed :: time

record ReferrerRow =
  rf_Digest :: Digest
  rf_MediaType :: string
  rf_Size :: int
  rf_Payload :: string

record meta_db =
  md_repositories :: "repo_row list"
  md_manifests :: "manifest_row list"
  md_tags :: "tag_row list"
  md_blobs :: "blob_row list"
  md_uploads :: "upload_row list"
  md_reports :: "GCReportDetail list"
  md_backfills :: "string list"
  md_next_repository :: nat
  md_next_manifest :: nat

definition empty_meta_db :: meta_db where
  "empty_meta_db = \<lparr>md_repositories = [], md_manifests = [], md_tags = [], md_blobs = [],
     md_uploads = [], md_reports = [], md_backfills = [], md_next_repository = 1, md_next_manifest = 1\<rparr>"

section \<open>Uploads\<close>

definition Meta_SaveUpload :: "meta_db \<Rightarrow> string \<Rightarrow> UploadState \<Rightarrow> meta_db result" where
  "Meta_SaveUpload db tenant state =
     check (UploadState_Validate state) (\<lambda>_.
     Inr (db\<lparr>md_uploads :=
       (if \<exists>row \<in> set (md_uploads db). up_ID (ur_state row) = up_ID state
          then map (\<lambda>row. if up_ID (ur_state row) = up_ID state then row\<lparr>ur_state := state\<rparr> else row)
                 (md_uploads db)
        else md_uploads db @ [\<lparr>ur_tenant = tenant, ur_state = state\<rparr>])\<rparr>))"

definition upload_row_state :: "upload_row \<Rightarrow> UploadState result" where
  "upload_row_state row =
     check (ParseRepositoryRef (repo_Name (up_Repository (ur_state row)))) (\<lambda>repository.
     Inr ((ur_state row)\<lparr>up_Repository := repository\<rparr>))"

definition Meta_GetUpload :: "meta_db \<Rightarrow> string \<Rightarrow> string \<Rightarrow> UploadState result" where
  "Meta_GetUpload db tenant uploadID =
     (case find (\<lambda>row. ur_tenant row = tenant \<and> up_ID (ur_state row) = uploadID) (md_uploads db) of
        None \<Rightarrow> Inl (NewNotFoundError ''upload'' uploadID)
      | Some row \<Rightarrow> upload_row_state row)"

definition Meta_ListUploads :: "meta_db \<Rightarrow> string \<Rightarrow> RepositoryRef option \<Rightarrow> UploadState list result" where
  "Meta_ListUploads db tenant repository =
     check_all upload_row_state
       (sort_key (\<lambda>row. formatTime (up_StartedAt (ur_state row)))
          (filter (\<lambda>row. ur_tenant row = tenant
               \<and> (case repository of None \<Rightarrow> True
                  | Some r \<Rightarrow> repo_Name (up_Repository (ur_state row)) = repo_Name r)) (md_uploads db)))"

definition Meta_DeleteUpload :: "meta_db \<Rightarrow> string \<Rightarrow> string \<Rightarrow> meta_db result" where
  "Meta_DeleteUpload db tenant uploadID =
     (let hit = (\<lambda>row. ur_tenant row = tenant \<and> up_ID (ur_state row) = uploadID) in
      check (guard (\<not> (\<exists>row \<in> set (md_uploads db). hit row)) (NewNotFoundError ''upload'' uploadID)) (\<lambda>_.
      Inr (db\<lparr>md_uploads := filter (\<lambda>row. \<not> hit row) (md_uploads db)\<rparr>)))"

section \<open>Manifests and tags\<close>

definition repo_hit :: "string \<Rightarrow> RepositoryRef \<Rightarrow> repo_row \<Rightarrow> bool" where
  "repo_hit tenant repository row \<longleftrightarrow> rr_tenant row = tenant \<and> rr_name row = repo_Name repository"

definition repository_id :: "meta_db \<Rightarrow> string \<Rightarrow> RepositoryRef \<Rightarrow> nat option" where
  "repository_id db tenant repository =
     map_option rr_id (find (repo_hit tenant repository) (md_repositories db))"

definition ensureRepository :: "meta_db \<Rightarrow> time \<Rightarrow> string \<Rightarrow> RepositoryRef \<Rightarrow> nat \<times> meta_db" where
  "ensureRepository db now tenant repository =
     (case repository_id db tenant repository of
        Some i \<Rightarrow> (i, db)
      | None \<Rightarrow> (md_next_repository db,
          db\<lparr>md_repositories := md_repositories db @ [\<lparr>rr_id = md_next_repository db, rr_tenant = tenant,
               rr_name = repo_Name repository, rr_created_at = now\<rparr>],
             md_next_repository := md_next_repository db + 1\<rparr>))"

definition manifest_hit :: "string \<Rightarrow> nat \<Rightarrow> Digest \<Rightarrow> manifest_row \<Rightarrow> bool" where
  "manifest_hit tenant repositoryID digest row \<longleftrightarrow>
     mr_tenant row = tenant \<and> mr_repository_id row = repositoryID \<and> mr_digest row = digest"

text \<open>
  The upsert of the manifest row: an existing row keeps its id, \<open>created_at\<close> and \<open>pushed_by\<close>.
\<close>

definition upsert_manifest ::
  "meta_db \<Rightarrow> time \<Rightarrow> string \<Rightarrow> nat \<Rightarrow> Manifest \<Rightarrow> nat \<times> meta_db" where
  "upsert_manifest db now tenant repositoryID manifest =
     (let subjectDigest = (case man_Subject manifest of None \<Rightarrow> [] | Some s \<Rightarrow> desc_Digest s);
          hit = manifest_hit tenant repositoryID (man_Digest manifest) in
      case find hit (md_manifests db) of
        Some row \<Rightarrow> (mr_id row, db\<lparr>md_manifests := map (\<lambda>r. if hit r
             then r\<lparr>mr_media_type := man_MediaType manifest, mr_size := man_Size manifest,
                    mr_payload := man_Payload manifest, mr_subject_digest := subjectDigest\<rparr>
             else r) (md_manifests db)\<rparr>)
      | None \<Rightarrow> (md_next_manifest db,
          db\<lparr>md_manifests := md_manifests db @ [\<lparr>mr_id = md_next_manifest db, mr_tenant = tenant,
               mr_repository_id = repositoryID, mr_digest = man_Digest manifest,
               mr_media_type = man_MediaType manifest, mr_size = man_Size manifest,
               mr_payload = man_Payload manifest, mr_created_at = now,
               mr_pushed_by = man_PushedBy manifest, mr_subject_digest = subjectDigest\<rparr>],
             md_next_manifest := md_next_manifest db + 1\<rparr>))"

definition replace_blobs :: "meta_db \<Rightarrow> nat \<Rightarrow> Descriptor list \<Rightarrow> meta_db" where
  "replace_blobs db manifestID blobs =
     db\<lparr>md_blobs := filter (\<lambda>b. br_manifest_id b \<noteq> manifestID) (md_blobs db)
       @ map (\<lambda>(index, blob). \<lparr>br_manifest_id = manifestID, br_digest = desc_Digest blob,
           br_media_type = desc_MediaType blob, br_size = desc_Size blob, br_position = index\<rparr>)
           (enumerate 0 blobs)\<rparr>"

definition upsert_tag :: "meta_db \<Rightarrow> time \<Rightarrow> string \<Rightarrow> nat \<Rightarrow> string \<Rightarrow> nat \<Rightarrow> meta_db" where
  "upsert_tag db now tenant repositoryID tag manifestID =
     (let hit = (\<lambda>t. tr_tenant t = tenant \<and> tr_repository_id t = repositoryID \<and> tr_name t = tag) in
      db\<lparr>md_tags := (if \<exists>t \<in> set (md_tags db). hit t
          then map (\<lambda>t. if hit t then t\<lparr>tr_manifest_id := manifestID, tr_updated_at := now\<rparr> else t) (md_tags db)
          else md_tags db @ [\<lparr>tr_tenant = tenant, tr_repository_id = repositoryID, tr_name = tag,
             tr_manifest_id = manifestID, tr_created_at = now, tr_updated_at = now\<rparr>])\<rparr>)"

definition Meta_PublishManifest ::
  "meta_db \<Rightarrow> time \<Rightarrow> string \<Rightarrow> RepositoryRef \<Rightarrow> string \<Rightarrow> Manifest \<Rightarrow> Descriptor list \<Rightarrow> meta_db result" where
  "Meta_PublishManifest db now tenant repository tag manifest blobs =
     check (RepositoryRef_Validate repository) (\<lambda>_.
     check (Manifest_Validate manifest) (\<lambda>_.
     check (check_all Descriptor_Validate blobs) (\<lambda>_.
     case ensureRepository db now tenant repository of (repositoryID, db1) \<Rightarrow>
     case upsert_manifest db1 now tenant repositoryID manifest of (manifestID, db2) \<Rightarrow>
     let db3 = replace_blobs db2 manifestID blobs in
     Inr (if tag \<noteq> [] then upsert_tag db3 now tenant repositoryID tag manifestID else db3))))"

definition tag_target :: "meta_db \<Rightarrow> string \<Rightarrow> nat \<Rightarrow> string \<Rightarrow> nat option" where
  "tag_target db tenant repositoryID tag = map_option tr_manifest_id
     (find (\<lambda>t. tr_tenant t = tenant \<and> tr_repository_id t = repositoryID \<and> tr_name t = tag) (md_tags db))"

text \<open>The rows of \<open>manifest_blobs\<close> of a manifest, by position.\<close>

definition Meta_ListManifestBlobs ::
  "meta_db \<Rightarrow> string \<Rightarrow> RepositoryRef \<Rightarrow> Digest \<Rightarrow> Descriptor list result" where
  "Meta_ListManifestBlobs db tenant repository manifestDigest =
     check (RepositoryRef_Validate repository) (\<lambda>_.
     check (Digest_Validate manifestDigest) (\<lambda>_.
     let rows = (case repository_id db tenant repository of
          None \<Rightarrow> []
        | Some i \<Rightarrow> (case find (manifest_hit tenant i manifestDigest) (md_manifests db) of
              None \<Rightarrow> []
            | Some m \<Rightarrow> sort_key br_position (filter (\<lambda>b. br_manifest_id b = mr_id m) (md_blobs db))))
     in check_all (\<lambda>b. check (ParseDigest (br_digest b)) (\<lambda>d.
          Inr \<lparr>desc_MediaType = br_media_type b, desc_Digest = d, desc_Size = br_size b\<rparr>)) rows))"

definition find_manifest :: "meta_db \<Rightarrow> string \<Rightarrow> RepositoryRef \<Rightarrow> string \<Rightarrow> manifest_row option" where
  "find_manifest db tenant repository reference =
     (case repository_id db tenant repository of
        None \<Rightarrow> None
      | Some i \<Rightarrow>
          (case ParseDigest reference of
             Inr _ \<Rightarrow> find (manifest_hit tenant i reference) (md_manifests db)
           | Inl _ \<Rightarrow> (case tag_target db tenant i reference of
                None \<Rightarrow> None
              | Some m \<Rightarrow> find (\<lambda>row. mr_tenant row = tenant \<and> mr_repository_id row = i \<and> mr_id row = m)
                            (md_manifests db))))"

definition Meta_ResolveManifest :: "meta_db \<Rightarrow> string \<Rightarrow> RepositoryRef \<Rightarrow> string \<Rightarrow> Manifest result" where
  "Meta_ResolveManifest db tenant repository reference =
     check (RepositoryRef_Validate repository) (\<lambda>_.
     case find_manifest db tenant repository reference of
       None \<Rightarrow> Inl (NewNotFoundError ''manifest'' reference)
     | Some row \<Rightarrow>
         check (Meta_ListManifestBlobs db tenant repository (DigestFromBytes (mr_payload row))) (\<lambda>references.
         check (NewManifest (mr_media_type row) [] (mr_payload row) None references None []) (\<lambda>manifest.
         Inr (manifest\<lparr>man_PushedBy := mr_pushed_by row\<rparr>))))"

section \<open>Deletion\<close>

text \<open>\<^verbatim>\<open>DELETE FROM manifests\<close> with the cascade to \<open>tags\<close> and \<open>manifest_blobs\<close>.\<close>

definition delete_manifests :: "meta_db \<Rightarrow> (manifest_row \<Rightarrow> bool) \<Rightarrow> meta_db" where
  "delete_manifests db hit =
     (let gone = mr_id ` set (filter hit (md_manifests db)) in
      db\<lparr>md_manifests := filter (\<lambda>m. \<not> hit m) (md_manifests db),
         md_tags := filter (\<lambda>t. tr_manifest_id t \<notin> gone) (md_tags db),
         md_blobs := filter (\<lambda>b. br_manifest_id b \<notin> gone) (md_blobs db)\<rparr>)"

definition Meta_DeleteManifestByDigest ::
  "meta_db \<Rightarrow> string \<Rightarrow> RepositoryRef \<Rightarrow> Digest \<Rightarrow> (string list \<times> meta_db) result" where
  "Meta_DeleteManifestByDigest db tenant repository digest =
     check (RepositoryRef_Validate repository) (\<lambda>_.
     check (Digest_Validate digest) (\<lambda>_.
     case repository_id db tenant repository of
       None \<Rightarrow> Inl (NewNotFoundError ''manifest'' digest)
     | Some i \<Rightarrow>
         let hit = manifest_hit tenant i digest;
             gone = mr_id ` set (filter hit (md_manifests db));
             tagNames = sort (map tr_name (filter (\<lambda>t. tr_manifest_id t \<in> gone) (md_tags db))) in
         check (guard (gone = {}) (NewNotFoundError ''manifest'' digest)) (\<lambda>_.
         Inr (tagNames, delete_manifests db hit))))"

text \<open>
  \<^verbatim>\<open>DELETE FROM repositories\<close>: the cascade takes the manifests of the repository, their tags
  and blob rows, and the tags of the repository.
\<close>

definition Meta_DeleteRepository ::
  "meta_db \<Rightarrow> string \<Rightarrow> RepositoryRef \<Rightarrow> (string list \<times> int \<times> meta_db) result" where
  "Meta_DeleteRepository db tenant repository =
     check (RepositoryRef_Validate repository) (\<lambda>_.
     case repository_id db tenant repository of
       None \<Rightarrow> Inl (NewNotFoundError ''repository'' (repo_Name repository))
     | Some i \<Rightarrow>
         let tagNames = sort (map tr_name (filter (\<lambda>t. tr_tenant t = tenant \<and> tr_repository_id t = i) (md_tags db)));
             manifestCount = int (length (filter (\<lambda>m. mr_tenant m = tenant \<and> mr_repository_id m = i) (md_manifests db)));
             db1 = delete_manifests db (\<lambda>m. mr_repository_id m = i);
             db2 = db1\<lparr>md_tags := filter (\<lambda>t. tr_repository_id t \<noteq> i) (md_tags db1),
                       md_repositories := filter (\<lambda>r. rr_id r \<noteq> i) (md_repositories db1)\<rparr>
         in Inr (tagNames, manifestCount, db2))"

definition Meta_DeleteTag :: "meta_db \<Rightarrow> string \<Rightarrow> RepositoryRef \<Rightarrow> string \<Rightarrow> meta_db result" where
  "Meta_DeleteTag db tenant repository tag =
     check (RepositoryRef_Validate repository) (\<lambda>_.
     let hit = (\<lambda>t. tr_tenant t = tenant \<and> tr_name t = tag
                  \<and> Some (tr_repository_id t) = repository_id db tenant repository) in
     check (guard (\<not> (\<exists>t \<in> set (md_tags db). hit t)) (NewNotFoundError ''tag'' tag)) (\<lambda>_.
     Inr (db\<lparr>md_tags := filter (\<lambda>t. \<not> hit t) (md_tags db)\<rparr>)))"

section \<open>Listings\<close>

definition limited :: "int \<Rightarrow> 'a list \<Rightarrow> 'a list" where
  "limited limit xs = (if limit > 0 then take (nat limit) xs else xs)"

definition later_than :: "string \<Rightarrow> string \<Rightarrow> bool" where
  "later_than after name \<longleftrightarrow> after = [] \<or> after < name"

definition Meta_Catalog :: "meta_db \<Rightarrow> string \<Rightarrow> int \<Rightarrow> string \<Rightarrow> RepositoryRef list result" where
  "Meta_Catalog db tenant limit after =
     check_all ParseRepositoryRef
       (limited limit (sort (map rr_name
          (filter (\<lambda>r. rr_tenant r = tenant \<and> later_than after (rr_name r)) (md_repositories db)))))"

definition tags_of :: "meta_db \<Rightarrow> string \<Rightarrow> RepositoryRef \<Rightarrow> string \<Rightarrow> tag_row list" where
  "tags_of db tenant repository after =
     filter (\<lambda>t. tr_tenant t = tenant \<and> Some (tr_repository_id t) = repository_id db tenant repository
              \<and> later_than after (tr_name t)) (md_tags db)"

definition Meta_ListTags ::
  "meta_db \<Rightarrow> string \<Rightarrow> RepositoryRef \<Rightarrow> int \<Rightarrow> string \<Rightarrow> string list result" where
  "Meta_ListTags db tenant repository limit after =
     check (RepositoryRef_Validate repository) (\<lambda>_.
     Inr (limited limit (sort (map tr_name (tags_of db tenant repository after)))))"

definition Meta_ListReferrers ::
  "meta_db \<Rightarrow> string \<Rightarrow> RepositoryRef \<Rightarrow> Digest \<Rightarrow> ReferrerRow list result" where
  "Meta_ListReferrers db tenant repository subjectDigest =
     check (RepositoryRef_Validate repository) (\<lambda>_.
     check (Digest_Validate subjectDigest) (\<lambda>_.
     check_all (\<lambda>m. check (ParseDigest (mr_digest m)) (\<lambda>digest.
         Inr \<lparr>rf_Digest = digest, rf_MediaType = mr_media_type m, rf_Size = mr_size m, rf_Payload = mr_payload m\<rparr>))
       (sort_key mr_digest (filter (\<lambda>m. mr_tenant m = tenant
            \<and> Some (mr_repository_id m) = repository_id db tenant repository
            \<and> mr_subject_digest m = subjectDigest \<and> mr_subject_digest m \<noteq> []) (md_manifests db)))))"

definition Meta_ListTagsWithCreatedAt ::
  "meta_db \<Rightarrow> string \<Rightarrow> RepositoryRef \<Rightarrow> int \<Rightarrow> string \<Rightarrow> TagSummary list result" where
  "Meta_ListTagsWithCreatedAt db tenant repository limit after =
     check (RepositoryRef_Validate repository) (\<lambda>_.
     Inr (limited limit (sort_key ts_Name (concat (map (\<lambda>t.
         case find (\<lambda>m. mr_id m = tr_manifest_id t) (md_manifests db) of
           None \<Rightarrow> []
         | Some m \<Rightarrow> [\<lparr>ts_Name = tr_name t, ts_CreatedAt = mr_created_at m, ts_PushedBy = mr_pushed_by m\<rparr>])
       (tags_of db tenant repository after))))))"

text \<open>The aggregate: the greatest \<open>created_at\<close> of a repository, compared as text.\<close>

fun latest_text :: "time list \<Rightarrow> time option" where
  "latest_text [] = None"
| "latest_text (t # ts) = (case latest_text ts of None \<Rightarrow> Some t
     | Some u \<Rightarrow> if formatTime u < formatTime t then Some t else Some u)"

definition Meta_ListRepositoriesWithSummary ::
  "meta_db \<Rightarrow> string \<Rightarrow> int \<Rightarrow> string \<Rightarrow> RepositorySummary list" where
  "Meta_ListRepositoriesWithSummary db tenant limit after =
     limited limit (map (\<lambda>r.
         let ts = filter (\<lambda>t. tr_repository_id t = rr_id r \<and> tr_tenant t = rr_tenant r) (md_tags db);
             times = concat (map (\<lambda>t. map mr_created_at (filter (\<lambda>m. mr_id m = tr_manifest_id t) (md_manifests db))) ts)
         in \<lparr>rs_Name = rr_name r, rs_TagCount = int (length ts),
             rs_LastPushed = (case latest_text times of None \<Rightarrow> 0 | Some t \<Rightarrow> t)\<rparr>)
       (sort_key rr_name (filter (\<lambda>r. rr_tenant r = tenant \<and> later_than after (rr_name r)) (md_repositories db))))"

section \<open>Garbage collection\<close>

definition Meta_ListReferencedBlobDigests :: "meta_db \<Rightarrow> string list" where
  "Meta_ListReferencedBlobDigests db = remdups (map br_digest (md_blobs db))"

definition Meta_IsBlobDigestReferenced :: "meta_db \<Rightarrow> string \<Rightarrow> bool" where
  "Meta_IsBlobDigestReferenced db digest \<longleftrightarrow> (\<exists>b \<in> set (md_blobs db). br_digest b = digest)"

definition Meta_CreateGCReport ::
  "meta_db \<Rightarrow> GCReport \<Rightarrow> GCReportCandidate list \<Rightarrow> meta_db result" where
  "Meta_CreateGCReport db report candidates =
     check (guard (\<exists>d \<in> set (md_reports db). gcr_ID (gcd_Report d) = gcr_ID report)
              (unique_violation ''gc_reports.id'')) (\<lambda>_.
     Inr (db\<lparr>md_reports := md_reports db @ [\<lparr>gcd_Report = report, gcd_Candidates = candidates\<rparr>]\<rparr>))"

definition Meta_GetGCReport :: "meta_db \<Rightarrow> string \<Rightarrow> GCReportDetail result" where
  "Meta_GetGCReport db reportID =
     (case find (\<lambda>d. gcr_ID (gcd_Report d) = reportID) (md_reports db) of
        None \<Rightarrow> Inl (NewNotFoundError ''gc_report'' reportID)
      | Some d \<Rightarrow> Inr d)"

definition Meta_PruneExpiredGCReports :: "meta_db \<Rightarrow> time \<Rightarrow> int \<times> meta_db" where
  "Meta_PruneExpiredGCReports db now =
     (let hit = (\<lambda>d. gcr_Status (gcd_Report d) = GCReportStatusReported
                   \<and> formatTime (gcr_ExpiresAt (gcd_Report d)) \<le> formatTime now)
      in (int (length (filter hit (md_reports db))),
          db\<lparr>md_reports := filter (\<lambda>d. \<not> hit d) (md_reports db)\<rparr>))"

definition apply_outcome :: "GCCandidateOutcome list \<Rightarrow> GCReportCandidate \<Rightarrow> GCReportCandidate" where
  "apply_outcome outcomes c = fold (\<lambda>o' c. if gco_Digest o' = gcc_Digest c
       then c\<lparr>gcc_Outcome := gco_Outcome o', gcc_Error := gco_Error o'\<rparr> else c) outcomes c"

definition Meta_MarkGCReportDeleted :: "meta_db \<Rightarrow> string \<Rightarrow> GCDeleteOutcome \<Rightarrow> meta_db result" where
  "Meta_MarkGCReportDeleted db reportID outcome =
     (let hit = (\<lambda>d. gcr_ID (gcd_Report d) = reportID \<and> gcr_Status (gcd_Report d) = GCReportStatusReported) in
      check (guard (\<not> (\<exists>d \<in> set (md_reports db). hit d))
               (NewConflictError (''gc report '' @ Quote reportID @ '' is not in reported state''))) (\<lambda>_.
      Inr (db\<lparr>md_reports := map (\<lambda>d. if hit d
         then \<lparr>gcd_Report = (gcd_Report d)\<lparr>gcr_Status := GCReportStatusDeleted,
                 gcr_DeletedAt := Some (gdo_DeletedAt outcome), gcr_DeletedBy := gdo_DeletedBy outcome,
                 gcr_DeletedCount := gdo_DeletedCount outcome,
                 gcr_BytesReclaimed := gdo_BytesReclaimed outcome, gcr_Error := gdo_Error outcome\<rparr>,
               gcd_Candidates = map (apply_outcome (gdo_Candidates outcome)) (gcd_Candidates d)\<rparr>
         else d) (md_reports db)\<rparr>)))"

section \<open>The migration of \<open>subject_digest\<close>\<close>

definition subjectDigestBackfillMarker :: string where
  "subjectDigestBackfillMarker = ''manifests.subject_digest.v1''"

text \<open>
  \<open>probe\<close> is the JSON decoder's answer on a payload: the text at \<open>subject.digest\<close>, if the
  payload decodes and has a subject.
\<close>

definition backfillSubjectDigests :: "(string \<Rightarrow> string option) \<Rightarrow> meta_db \<Rightarrow> meta_db" where
  "backfillSubjectDigests probe db =
     (if subjectDigestBackfillMarker \<in> set (md_backfills db) then db
      else db\<lparr>md_manifests := map (\<lambda>m.
             if mr_subject_digest m = [] then
               (case probe (mr_payload m) of
                  None \<Rightarrow> m
                | Some t \<Rightarrow> (case ParseDigest t of Inl _ \<Rightarrow> m | Inr d \<Rightarrow> m\<lparr>mr_subject_digest := d\<rparr>))
             else m) (md_manifests db),
           md_backfills := md_backfills db @ [subjectDigestBackfillMarker]\<rparr>)"

end
