(* ===== verification/Metadata_View.thy ===== *)
theory Metadata_View
  imports Metadata_Store
begin

text \<open>
  What the metadata database promises. \<open>meta_inv\<close> is the invariant of its tables: keys are unique
  and every manifest, tag and blob row belongs to a row that exists, in the same tenant and
  repository. \<open>view\<close> abstracts the tables to a \<open>catalog\<close>: the repositories, the manifests by
  tenant, repository and digest, and the tags with the digest each points to; ids, positions and
  cascades are gone. Every operation on manifests and tags refines an operation on catalogs; the
  locale \<open>catalog_store\<close> states the contract and derives what the registry relies on, and the
  SQLite store is its interpretation.
\<close>

section \<open>The invariant\<close>

definition repo_key :: "repo_row \<Rightarrow> string \<times> string" where
  "repo_key r = (rr_tenant r, rr_name r)"

definition manifest_key :: "manifest_row \<Rightarrow> string \<times> nat \<times> Digest" where
  "manifest_key m = (mr_tenant m, mr_repository_id m, mr_digest m)"

definition tag_key :: "tag_row \<Rightarrow> string \<times> nat \<times> string" where
  "tag_key t = (tr_tenant t, tr_repository_id t, tr_name t)"

definition blob_key :: "blob_row \<Rightarrow> nat \<times> nat" where
  "blob_key b = (br_manifest_id b, br_position b)"

definition row_descriptor :: "blob_row \<Rightarrow> Descriptor" where
  "row_descriptor b = \<lparr>desc_MediaType = br_media_type b, desc_Digest = br_digest b, desc_Size = br_size b\<rparr>"

definition manifest_row_ok :: "manifest_row \<Rightarrow> bool" where
  "manifest_row_ok m \<longleftrightarrow> mr_digest m = DigestFromBytes (mr_payload m) \<and> mr_media_type m \<noteq> []
     \<and> mr_size m = int (length (mr_payload m))"

definition in_repository :: "meta_db \<Rightarrow> manifest_row \<Rightarrow> bool" where
  "in_repository db m \<longleftrightarrow> (\<exists>r \<in> set (md_repositories db). rr_id r = mr_repository_id m \<and> rr_tenant r = mr_tenant m)"

definition tag_of :: "tag_row \<Rightarrow> manifest_row \<Rightarrow> bool" where
  "tag_of t m \<longleftrightarrow> mr_id m = tr_manifest_id t \<and> mr_tenant m = tr_tenant t \<and> mr_repository_id m = tr_repository_id t"

definition repos_ok :: "meta_db \<Rightarrow> bool" where
  "repos_ok db \<longleftrightarrow> distinct (map rr_id (md_repositories db)) \<and> distinct (map repo_key (md_repositories db))
     \<and> (\<forall>r \<in> set (md_repositories db). rr_id r < md_next_repository db)"

definition manifests_ok :: "meta_db \<Rightarrow> bool" where
  "manifests_ok db \<longleftrightarrow> distinct (map mr_id (md_manifests db)) \<and> distinct (map manifest_key (md_manifests db))
     \<and> (\<forall>m \<in> set (md_manifests db). mr_id m < md_next_manifest db \<and> manifest_row_ok m \<and> in_repository db m)"

definition tags_ok :: "meta_db \<Rightarrow> bool" where
  "tags_ok db \<longleftrightarrow> distinct (map tag_key (md_tags db))
     \<and> (\<forall>t \<in> set (md_tags db). \<exists>m \<in> set (md_manifests db). tag_of t m)"

definition blobs_ok :: "meta_db \<Rightarrow> bool" where
  "blobs_ok db \<longleftrightarrow> distinct (map blob_key (md_blobs db))
     \<and> (\<forall>b \<in> set (md_blobs db). br_manifest_id b \<in> mr_id ` set (md_manifests db)
           \<and> Descriptor_Validate (row_descriptor b) = Inr ())"

definition uploads_ok :: "meta_db \<Rightarrow> bool" where
  "uploads_ok db \<longleftrightarrow> distinct (map (\<lambda>u. up_ID (ur_state u)) (md_uploads db))
     \<and> (\<forall>u \<in> set (md_uploads db). UploadState_Validate (ur_state u) = Inr ())"

definition reports_ok :: "meta_db \<Rightarrow> bool" where
  "reports_ok db \<longleftrightarrow> distinct (map (\<lambda>d. gcr_ID (gcd_Report d)) (md_reports db))"

definition meta_inv :: "meta_db \<Rightarrow> bool" where
  "meta_inv db \<longleftrightarrow> repos_ok db \<and> manifests_ok db \<and> tags_ok db \<and> blobs_ok db \<and> uploads_ok db \<and> reports_ok db"

lemmas inv_parts = repos_ok_def manifests_ok_def tags_ok_def blobs_ok_def in_repository_def

lemma empty_meta_inv: "meta_inv empty_meta_db"
  by (simp add: meta_inv_def inv_parts uploads_ok_def reports_ok_def empty_meta_db_def)

section \<open>The abstract catalog\<close>

record stored_manifest =
  sm_media_type :: string
  sm_payload :: string
  sm_pushed_by :: string
  sm_subject :: string
  sm_blobs :: "Descriptor list"

record catalog =
  cat_repositories :: "(string \<times> string) set"
  cat_manifests :: "string \<times> string \<times> Digest \<rightharpoonup> stored_manifest"
  cat_tags :: "string \<times> string \<times> string \<rightharpoonup> Digest"

definition spec_publish ::
  "catalog \<Rightarrow> string \<Rightarrow> string \<Rightarrow> string \<Rightarrow> Manifest \<Rightarrow> Descriptor list \<Rightarrow> catalog" where
  "spec_publish c t n tag m blobs = c\<lparr>
     cat_repositories := insert (t, n) (cat_repositories c),
     cat_manifests := (cat_manifests c)((t, n, man_Digest m) \<mapsto>
       \<lparr>sm_media_type = man_MediaType m, sm_payload = man_Payload m,
        sm_pushed_by = (case cat_manifests c (t, n, man_Digest m) of None \<Rightarrow> man_PushedBy m | Some s \<Rightarrow> sm_pushed_by s),
        sm_subject = (case man_Subject m of None \<Rightarrow> [] | Some s \<Rightarrow> desc_Digest s), sm_blobs = blobs\<rparr>),
     cat_tags := (if tag = [] then cat_tags c else (cat_tags c)((t, n, tag) \<mapsto> man_Digest m))\<rparr>"

definition spec_resolve :: "catalog \<Rightarrow> string \<Rightarrow> string \<Rightarrow> string \<Rightarrow> stored_manifest option" where
  "spec_resolve c t n reference =
     (case ParseDigest reference of
        Inr d \<Rightarrow> cat_manifests c (t, n, d)
      | Inl _ \<Rightarrow> (case cat_tags c (t, n, reference) of None \<Rightarrow> None | Some d \<Rightarrow> cat_manifests c (t, n, d)))"

definition spec_delete_manifest :: "catalog \<Rightarrow> string \<Rightarrow> string \<Rightarrow> Digest \<Rightarrow> catalog" where
  "spec_delete_manifest c t n d = c\<lparr>
     cat_manifests := (cat_manifests c)((t, n, d) := None),
     cat_tags := (\<lambda>(t', n', g). if t' = t \<and> n' = n \<and> cat_tags c (t, n, g) = Some d then None else cat_tags c (t', n', g))\<rparr>"

definition spec_delete_repository :: "catalog \<Rightarrow> string \<Rightarrow> string \<Rightarrow> catalog" where
  "spec_delete_repository c t n = c\<lparr>
     cat_repositories := cat_repositories c - {(t, n)},
     cat_manifests := (\<lambda>(t', n', d). if t' = t \<and> n' = n then None else cat_manifests c (t', n', d)),
     cat_tags := (\<lambda>(t', n', g). if t' = t \<and> n' = n then None else cat_tags c (t', n', g))\<rparr>"

definition spec_delete_tag :: "catalog \<Rightarrow> string \<Rightarrow> string \<Rightarrow> string \<Rightarrow> catalog" where
  "spec_delete_tag c t n g = c\<lparr>cat_tags := (cat_tags c)((t, n, g) := None)\<rparr>"

text \<open>The manifest the registry hands out for a stored one.\<close>

definition manifest_of :: "stored_manifest \<Rightarrow> Manifest" where
  "manifest_of s = \<lparr>man_MediaType = sm_media_type s, man_Digest = DigestFromBytes (sm_payload s),
     man_Size = int (length (sm_payload s)), man_Payload = sm_payload s, man_Subject = None,
     man_Config = None, man_Layers = sm_blobs s, man_Annotations = [], man_ArtifactType = [],
     man_PushedBy = sm_pushed_by s\<rparr>"

section \<open>The abstraction\<close>

definition blobs_of :: "meta_db \<Rightarrow> nat \<Rightarrow> Descriptor list" where
  "blobs_of db i = map row_descriptor (sort_key br_position (filter (\<lambda>b. br_manifest_id b = i) (md_blobs db)))"

definition stored :: "meta_db \<Rightarrow> manifest_row \<Rightarrow> stored_manifest" where
  "stored db m = \<lparr>sm_media_type = mr_media_type m, sm_payload = mr_payload m, sm_pushed_by = mr_pushed_by m,
     sm_subject = mr_subject_digest m, sm_blobs = blobs_of db (mr_id m)\<rparr>"

definition manifest_at :: "meta_db \<Rightarrow> string \<Rightarrow> string \<Rightarrow> Digest \<Rightarrow> manifest_row option" where
  "manifest_at db t n d = (case repository_id db t \<lparr>repo_Name = n\<rparr> of None \<Rightarrow> None
     | Some i \<Rightarrow> find (manifest_hit t i d) (md_manifests db))"

definition tagged :: "meta_db \<Rightarrow> string \<Rightarrow> string \<Rightarrow> string \<Rightarrow> manifest_row option" where
  "tagged db t n g = (case repository_id db t \<lparr>repo_Name = n\<rparr> of None \<Rightarrow> None
     | Some i \<Rightarrow> (case tag_target db t i g of None \<Rightarrow> None
        | Some j \<Rightarrow> find (\<lambda>row. mr_tenant row = t \<and> mr_repository_id row = i \<and> mr_id row = j) (md_manifests db)))"

definition view :: "meta_db \<Rightarrow> catalog" where
  "view db = \<lparr>cat_repositories = repo_key ` set (md_repositories db),
     cat_manifests = (\<lambda>(t, n, d). map_option (stored db) (manifest_at db t n d)),
     cat_tags = (\<lambda>(t, n, g). map_option mr_digest (tagged db t n g))\<rparr>"

text \<open>Under the invariant, the look-ups are relations on the rows.\<close>

definition repo_is :: "meta_db \<Rightarrow> string \<Rightarrow> string \<Rightarrow> nat \<Rightarrow> bool" where
  "repo_is db t n i \<longleftrightarrow> (\<exists>r \<in> set (md_repositories db). repo_key r = (t, n) \<and> rr_id r = i)"

lemma find_Some_unique_iff:
  assumes "\<And>x y. x \<in> set xs \<Longrightarrow> y \<in> set xs \<Longrightarrow> P x \<Longrightarrow> P y \<Longrightarrow> x = y"
  shows "find P xs = Some x \<longleftrightarrow> x \<in> set xs \<and> P x"
proof
  assume "x \<in> set xs \<and> P x"
  then obtain y where "find P xs = Some y" by (metis find_None_iff option.exhaust)
  with \<open>x \<in> set xs \<and> P x\<close> show "find P xs = Some x" using assms find_Some_mem by metis
qed (rule find_Some_mem)

lemma repository_id_iff:
  assumes "repos_ok db"
  shows "repository_id db t r = Some i \<longleftrightarrow> repo_is db t (repo_Name r) i"
proof -
  have "find (repo_hit t r) (md_repositories db) = Some x \<longleftrightarrow>
      x \<in> set (md_repositories db) \<and> repo_hit t r x" for x
    by (rule find_Some_unique_iff)
      (use assms in \<open>auto simp: repos_ok_def repo_hit_def repo_key_def distinct_map inj_on_def\<close>)
  then show ?thesis by (auto simp: repository_id_def repo_is_def repo_hit_def repo_key_def)
qed

lemma repo_is_unique:
  assumes "repos_ok db" and "repo_is db t n i" and "repo_is db t' n' i'"
  shows "i = i' \<longleftrightarrow> t = t' \<and> n = n'"
proof -
  obtain r r' where r: "r \<in> set (md_repositories db)" "repo_key r = (t, n)" "rr_id r = i"
    "r' \<in> set (md_repositories db)" "repo_key r' = (t', n')" "rr_id r' = i'"
    using assms(2,3) by (auto simp: repo_is_def)
  have "rr_id r = rr_id r' \<longleftrightarrow> r = r'" "repo_key r = repo_key r' \<longleftrightarrow> r = r'"
    using assms(1) r(1,4) by (auto simp: repos_ok_def distinct_map inj_on_def)
  with r show ?thesis by auto
qed

lemma manifest_at_iff:
  assumes "repos_ok db" and "manifests_ok db"
  shows "manifest_at db t n d = Some m \<longleftrightarrow>
     m \<in> set (md_manifests db) \<and> mr_tenant m = t \<and> mr_digest m = d \<and> repo_is db t n (mr_repository_id m)"
proof -
  have row: "find (manifest_hit t i d) (md_manifests db) = Some m \<longleftrightarrow>
      m \<in> set (md_manifests db) \<and> manifest_hit t i d m" for i
    by (rule find_Some_unique_iff)
      (use assms(2) in \<open>auto simp: manifests_ok_def manifest_hit_def manifest_key_def distinct_map inj_on_def\<close>)
  have repo: "repository_id db t \<lparr>repo_Name = n\<rparr> = Some i \<longleftrightarrow> repo_is db t n i" for i
    using repository_id_iff [OF assms(1)] by simp
  have "manifest_at db t n d = Some m \<longleftrightarrow> (\<exists>i. repository_id db t \<lparr>repo_Name = n\<rparr> = Some i
      \<and> find (manifest_hit t i d) (md_manifests db) = Some m)"
    by (auto simp: manifest_at_def split: option.splits)
  then show ?thesis unfolding row repo by (auto simp: manifest_hit_def)
qed

lemma tag_target_iff:
  assumes "tags_ok db"
  shows "tag_target db t i g = Some j \<longleftrightarrow>
     (\<exists>tg \<in> set (md_tags db). tag_key tg = (t, i, g) \<and> tr_manifest_id tg = j)"
proof -
  have "find (\<lambda>x. tr_tenant x = t \<and> tr_repository_id x = i \<and> tr_name x = g) (md_tags db) = Some tg \<longleftrightarrow>
      tg \<in> set (md_tags db) \<and> tr_tenant tg = t \<and> tr_repository_id tg = i \<and> tr_name tg = g" for tg
    by (rule find_Some_unique_iff)
      (use assms in \<open>auto simp: tags_ok_def tag_key_def distinct_map inj_on_def\<close>)
  then show ?thesis by (auto simp: tag_target_def tag_key_def)
qed

lemma manifest_by_id:
  assumes "manifests_ok db" and "m \<in> set (md_manifests db)" and "m' \<in> set (md_manifests db)" and "mr_id m = mr_id m'"
  shows "m = m'"
  using assms by (auto simp: manifests_ok_def distinct_map inj_on_def)

lemma tagged_iff:
  assumes "repos_ok db" and "manifests_ok db" and "tags_ok db"
  shows "tagged db t n g = Some m \<longleftrightarrow> m \<in> set (md_manifests db) \<and> mr_tenant m = t
     \<and> repo_is db t n (mr_repository_id m) \<and> (\<exists>tg \<in> set (md_tags db). tr_name tg = g \<and> tag_of tg m)"
proof -
  have row: "find (\<lambda>row. mr_tenant row = t \<and> mr_repository_id row = i \<and> mr_id row = j) (md_manifests db) = Some m \<longleftrightarrow>
      m \<in> set (md_manifests db) \<and> mr_tenant m = t \<and> mr_repository_id m = i \<and> mr_id m = j" for i j
    by (rule find_Some_unique_iff) (use manifest_by_id [OF assms(2)] in auto)
  have repo: "repository_id db t \<lparr>repo_Name = n\<rparr> = Some i \<longleftrightarrow> repo_is db t n i" for i
    using repository_id_iff [OF assms(1)] by simp
  have "tagged db t n g = Some m \<longleftrightarrow> (\<exists>i j. repository_id db t \<lparr>repo_Name = n\<rparr> = Some i
      \<and> tag_target db t i g = Some j
      \<and> find (\<lambda>row. mr_tenant row = t \<and> mr_repository_id row = i \<and> mr_id row = j) (md_manifests db) = Some m)"
    by (auto simp: tagged_def split: option.splits)
  then show ?thesis unfolding row repo tag_target_iff [OF assms(3)]
    by (auto simp: tag_key_def tag_of_def)
qed

lemmas view_rows = manifest_at_iff tagged_iff

text \<open>Two look-ups are equal when they have the same results.\<close>

lemma option_ext: "(\<And>x. a = Some x \<longleftrightarrow> b = Some x) \<Longrightarrow> a = b"
  by (cases a; cases b) auto

section \<open>Publication\<close>

text \<open>The view depends on the tables only through the rows and the ids of repositories.\<close>

lemma view_eqI:
  assumes "meta_inv db" and "meta_inv db'"
    and "md_manifests db' = md_manifests db" and "md_tags db' = md_tags db" and "md_blobs db' = md_blobs db"
    and "\<And>m t n. m \<in> set (md_manifests db) \<Longrightarrow> repo_is db' t n (mr_repository_id m) = repo_is db t n (mr_repository_id m)"
  shows "cat_manifests (view db') = cat_manifests (view db)" and "cat_tags (view db') = cat_tags (view db)"
proof -
  have ok: "repos_ok db" "manifests_ok db" "tags_ok db" "repos_ok db'" "manifests_ok db'" "tags_ok db'"
    using assms(1,2) by (simp_all add: meta_inv_def)
  have "stored db' = stored db" using assms(5) by (simp add: stored_def blobs_of_def fun_eq_iff)
  moreover have "manifest_at db' t n d = manifest_at db t n d" for t n d
    by (rule option_ext) (use assms(3,6) ok in \<open>auto simp: view_rows\<close>)
  ultimately show "cat_manifests (view db') = cat_manifests (view db)" by (simp add: view_def)
  have "tagged db' t n g = tagged db t n g" for t n g
    by (rule option_ext) (use assms(3,4,6) ok in \<open>auto simp: view_rows\<close>)
  then show "cat_tags (view db') = cat_tags (view db)" by (simp add: view_def)
qed

lemma ensureRepository_cases:
  assumes "meta_inv db" and "ensureRepository db now t r = (i, db1)"
  obtains "db1 = db" "repo_is db t (repo_Name r) i"
  | row where "\<forall>j. \<not> repo_is db t (repo_Name r) j" "i = md_next_repository db" "repo_key row = (t, repo_Name r)"
      "rr_id row = i" "db1 = db\<lparr>md_repositories := md_repositories db @ [row], md_next_repository := i + 1\<rparr>"
proof (cases "repository_id db t r")
  case None
  have no: "\<forall>j. \<not> repo_is db t (repo_Name r) j"
    using repository_id_iff [of db t r] assms(1) None by (simp add: meta_inv_def)
  let ?row = "\<lparr>rr_id = md_next_repository db, rr_tenant = t, rr_name = repo_Name r, rr_created_at = now\<rparr>"
  have "i = md_next_repository db"
    and "db1 = db\<lparr>md_repositories := md_repositories db @ [?row], md_next_repository := i + 1\<rparr>"
    using assms(2) None by (auto simp: ensureRepository_def)
  moreover have "repo_key ?row = (t, repo_Name r)" "rr_id ?row = md_next_repository db" by (simp_all add: repo_key_def)
  ultimately show thesis using that(2) [of ?row] no by simp
next
  case (Some j)
  have "repo_is db t (repo_Name r) j" using repository_id_iff [of db t r j] assms(1) Some by (simp add: meta_inv_def)
  with that(1) Some assms(2) show thesis by (simp add: ensureRepository_def)
qed

lemma add_repository:
  assumes "meta_inv db" and no: "\<forall>j. \<not> repo_is db t n j" and row: "repo_key row = (t, n)" "rr_id row = md_next_repository db"
    and db1: "db1 = db\<lparr>md_repositories := md_repositories db @ [row], md_next_repository := md_next_repository db + 1\<rparr>"
  shows "meta_inv db1" and "repo_is db1 t' n' j \<longleftrightarrow> repo_is db t' n' j \<or> (t', n', j) = (t, n, md_next_repository db)"
proof -
  have less: "rr_id r < md_next_repository db" if "r \<in> set (md_repositories db)" for r
    using assms(1) that by (auto simp: meta_inv_def repos_ok_def)
  have new: "repo_key r \<noteq> (t, n)" if "r \<in> set (md_repositories db)" for r using no that by (auto simp: repo_is_def)
  have "rr_id row \<notin> rr_id ` set (md_repositories db)" using less row(2) by fastforce
  moreover have "repo_key row \<notin> repo_key ` set (md_repositories db)" using new row(1) by fastforce
  ultimately have "repos_ok db1"
    using assms(1) less row(2) by (auto simp: meta_inv_def repos_ok_def db1 less_Suc_eq)
  then show "meta_inv db1"
    using assms(1) by (auto simp: meta_inv_def inv_parts uploads_ok_def reports_ok_def db1)
  show "repo_is db1 t' n' j \<longleftrightarrow> repo_is db t' n' j \<or> (t', n', j) = (t, n, md_next_repository db)"
    using row by (auto simp: repo_is_def db1)
qed

lemma ensureRepository_facts:
  assumes "meta_inv db" and "ensureRepository db now t r = (i, db1)"
  shows "meta_inv db1" and "repo_is db1 t (repo_Name r) i"
    and "cat_repositories (view db1) = insert (t, repo_Name r) (cat_repositories (view db))"
    and "cat_manifests (view db1) = cat_manifests (view db)" and "cat_tags (view db1) = cat_tags (view db)"
proof (induction rule: ensureRepository_cases [OF assms, case_names old new])
  case old
  { case 1 show ?case using old assms(1) by simp }
  { case 2 show ?case using old assms(1) by simp }
  { case 3 show ?case using old by (force simp: view_def repo_is_def) }
  { case 4 show ?case using old assms(1) by simp }
  { case 5 show ?case using old assms(1) by simp }
next
  case (new row)
  note add = add_repository [OF assms(1) new(1) new(3) _ new(5) [unfolded new(2)]]
  have row: "rr_id row = md_next_repository db" using new(2,4) by simp
  have less: "mr_repository_id m < md_next_repository db" if "m \<in> set (md_manifests db)" for m
  proof -
    from assms(1) that obtain r where "r \<in> set (md_repositories db)" "rr_id r = mr_repository_id m"
      by (auto simp: meta_inv_def manifests_ok_def in_repository_def)
    with assms(1) show ?thesis by (auto simp: meta_inv_def repos_ok_def)
  qed
  have frame: "md_manifests db1 = md_manifests db" "md_tags db1 = md_tags db" "md_blobs db1 = md_blobs db"
    using new(5) by simp_all
  note same = view_eqI [OF assms(1) add(1) [OF row] frame]
  { case 1 show ?case by (rule add(1) [OF row]) }
  { case 2 show ?case using add(2) [OF row] new(2) by simp }
  { case 3 show ?case using new(3,5) by (simp add: view_def) }
  { case 4 show ?case by (rule same(1)) (use add(2) [OF row] less in force) }
  { case 5 show ?case by (rule same(2)) (use add(2) [OF row] less in force) }
qed

definition published :: "Manifest \<Rightarrow> string \<Rightarrow> manifest_row \<Rightarrow> bool" where
  "published man pushed m \<longleftrightarrow> mr_media_type m = man_MediaType man \<and> mr_payload m = man_Payload man
     \<and> mr_size m = man_Size man \<and> mr_digest m = man_Digest man \<and> mr_pushed_by m = pushed
     \<and> mr_subject_digest m = (case man_Subject man of None \<Rightarrow> [] | Some s \<Rightarrow> desc_Digest s)"

lemma hit_unique:
  assumes "manifests_ok db" and "m \<in> set (md_manifests db)" "manifest_hit t i d m"
    and "m' \<in> set (md_manifests db)" "manifest_hit t i d m'"
  shows "m = m'"
  using assms by (auto simp: manifests_ok_def manifest_hit_def manifest_key_def distinct_map inj_on_def)

lemma Manifest_Validate_facts:
  assumes "Manifest_Validate man = Inr u"
  shows "man_MediaType man \<noteq> []" "man_Digest man = DigestFromBytes (man_Payload man)"
    "man_Size man = int (length (man_Payload man))"
  using assms by (auto simp: Manifest_Validate_def go_flow)

text \<open>
  The upsert, seen on the rows: \<open>m\<close> takes the place of the row with its key, if there was one,
  and keeps its id.
\<close>

definition row_upsert :: "meta_db \<Rightarrow> string \<Rightarrow> nat \<Rightarrow> manifest_row \<Rightarrow> meta_db \<Rightarrow> bool" where
  "row_upsert db t i m db2 \<longleftrightarrow> mr_tenant m = t \<and> mr_repository_id m = i
     \<and> set (md_manifests db2) = insert m {x \<in> set (md_manifests db). mr_id x \<noteq> mr_id m}
     \<and> (\<forall>x \<in> set (md_manifests db). mr_id x = mr_id m \<longleftrightarrow> manifest_hit t i (mr_digest m) x)
     \<and> distinct (map mr_id (md_manifests db2)) \<and> mr_id m < md_next_manifest db2
     \<and> md_next_manifest db \<le> md_next_manifest db2
     \<and> db2 = db\<lparr>md_manifests := md_manifests db2, md_next_manifest := md_next_manifest db2\<rparr>"

lemma upsert_manifest_rows:
  assumes "manifests_ok db" and "upsert_manifest db now t i man = (j, db2)"
  obtains m where "mr_id m = j" "row_upsert db t i m db2"
    "published man (case find (manifest_hit t i (man_Digest man)) (md_manifests db) of
        None \<Rightarrow> man_PushedBy man | Some row \<Rightarrow> mr_pushed_by row) m"
proof (cases "find (manifest_hit t i (man_Digest man)) (md_manifests db)")
  case None
  have no: "\<forall>x \<in> set (md_manifests db). \<not> manifest_hit t i (man_Digest man) x" using None by (simp add: find_None_iff)
  have less: "\<forall>x \<in> set (md_manifests db). mr_id x < md_next_manifest db" using assms(1) by (auto simp: manifests_ok_def)
  let ?m = "\<lparr>mr_id = md_next_manifest db, mr_tenant = t, mr_repository_id = i, mr_digest = man_Digest man,
      mr_media_type = man_MediaType man, mr_size = man_Size man, mr_payload = man_Payload man, mr_created_at = now,
      mr_pushed_by = man_PushedBy man, mr_subject_digest = (case man_Subject man of None \<Rightarrow> [] | Some s \<Rightarrow> desc_Digest s)\<rparr>"
  have j: "j = md_next_manifest db"
    and db2: "db2 = db\<lparr>md_manifests := md_manifests db @ [?m], md_next_manifest := md_next_manifest db + 1\<rparr>"
    using assms(2) None by (auto simp: upsert_manifest_def)
  have "distinct (map mr_id (md_manifests db2))" using assms(1) less by (auto simp: db2 manifests_ok_def)
  then have "row_upsert db t i ?m db2" using less no by (auto simp: row_upsert_def db2)
  then show thesis by (rule that [rotated]) (use j None in \<open>simp_all add: published_def\<close>)
next
  case (Some row)
  have row: "row \<in> set (md_manifests db)" "manifest_hit t i (man_Digest man) row" using find_Some_mem [OF Some] by auto
  let ?hit = "manifest_hit t i (man_Digest man)"
  let ?u = "\<lambda>r :: manifest_row. r\<lparr>mr_media_type := man_MediaType man, mr_size := man_Size man, mr_payload := man_Payload man,
      mr_subject_digest := (case man_Subject man of None \<Rightarrow> [] | Some s \<Rightarrow> desc_Digest s)\<rparr>"
  let ?f = "\<lambda>r. if ?hit r then ?u r else r"
  have j: "j = mr_id row" and db2: "db2 = db\<lparr>md_manifests := map ?f (md_manifests db)\<rparr>"
    using assms(2) Some by (auto simp: upsert_manifest_def Let_def)
  have only: "?hit x \<longleftrightarrow> x = row" "mr_id x = mr_id row \<longleftrightarrow> x = row" if "x \<in> set (md_manifests db)" for x
    using hit_unique [OF assms(1) that _ row] manifest_by_id [OF assms(1) that row(1)] row(2) by auto
  have keys: "mr_tenant row = t" "mr_repository_id row = i" "mr_digest row = man_Digest man"
    using row(2) by (simp_all add: manifest_hit_def)
  have "set (md_manifests db2) = insert (?u row) {x \<in> set (md_manifests db). mr_id x \<noteq> mr_id row}"
    using only row by (auto simp: db2 image_iff)
  moreover have "map mr_id (md_manifests db2) = map mr_id (md_manifests db)" by (simp add: db2)
  then have "distinct (map mr_id (md_manifests db2))" using assms(1) by (simp add: manifests_ok_def)
  moreover have "mr_id row < md_next_manifest db" using assms(1) row(1) by (simp add: manifests_ok_def)
  moreover have "db2 = db\<lparr>md_manifests := md_manifests db2, md_next_manifest := md_next_manifest db2\<rparr>"
    "md_next_manifest db2 = md_next_manifest db" by (simp_all add: db2)
  ultimately have "row_upsert db t i (?u row) db2"
    unfolding row_upsert_def using only keys by simp
  then show thesis by (rule that [rotated]) (use j Some keys in \<open>simp_all add: published_def\<close>)
qed

lemma row_upsert_frame:
  assumes "row_upsert db t i m db2"
  shows "md_repositories db2 = md_repositories db" "md_tags db2 = md_tags db" "md_blobs db2 = md_blobs db"
    "md_uploads db2 = md_uploads db" "md_reports db2 = md_reports db" "md_next_repository db2 = md_next_repository db"
    "repo_is db2 = repo_is db"
proof -
  have "db2 = db\<lparr>md_manifests := md_manifests db2, md_next_manifest := md_next_manifest db2\<rparr>"
    using assms by (simp add: row_upsert_def)
  then show "md_repositories db2 = md_repositories db" "md_tags db2 = md_tags db" "md_blobs db2 = md_blobs db"
    "md_uploads db2 = md_uploads db" "md_reports db2 = md_reports db" "md_next_repository db2 = md_next_repository db"
    by (metis (no_types) meta_db.select_convs meta_db.surjective meta_db.update_convs)+
  then show "repo_is db2 = repo_is db" by (simp add: repo_is_def fun_eq_iff)
qed

lemma row_upsert_inv:
  assumes "meta_inv db" and "row_upsert db t i m db2" and "repo_is db t n i" and "manifest_row_ok m"
  shows "meta_inv db2"
proof -
  note frame = row_upsert_frame [OF assms(2)]
  have M: "set (md_manifests db2) = insert m {x \<in> set (md_manifests db). mr_id x \<noteq> mr_id m}"
    and hits: "\<forall>x \<in> set (md_manifests db). mr_id x = mr_id m \<longleftrightarrow> manifest_key x = manifest_key m"
    and ids: "distinct (map mr_id (md_manifests db2))" "mr_id m < md_next_manifest db2" "md_next_manifest db \<le> md_next_manifest db2"
    and key: "mr_tenant m = t" "mr_repository_id m = i"
    using assms(2) by (auto simp: row_upsert_def manifest_hit_def manifest_key_def)
  have ok: "manifests_ok db" "tags_ok db" "blobs_ok db" using assms(1) by (simp_all add: meta_inv_def)
  have "inj_on manifest_key (set (md_manifests db2))"
    using ok(1) hits unfolding M manifests_ok_def distinct_map by (auto simp: inj_on_def)
  moreover have "in_repository db2 m" using assms(3) key
    by (auto simp: in_repository_def frame repo_is_def repo_key_def)
  moreover have "\<forall>x \<in> set (md_manifests db). mr_id x < md_next_manifest db2 \<and> manifest_row_ok x \<and> in_repository db2 x"
    using ok(1) ids(3) by (auto simp: manifests_ok_def in_repository_def frame)
  ultimately have "manifests_ok db2" using ids assms(4) M by (auto simp: manifests_ok_def distinct_map)
  moreover have "tags_ok db2"
  proof -
    have "\<exists>x \<in> set (md_manifests db2). tag_of tg x" if tg: "tg \<in> set (md_tags db)" for tg
    proof -
      obtain x where x: "x \<in> set (md_manifests db)" "tag_of tg x" using ok(2) tg by (auto simp: tags_ok_def)
      show ?thesis
      proof (cases "mr_id x = mr_id m")
        case True
        then have "tag_of tg m" using x hits by (auto simp: tag_of_def manifest_key_def)
        then show ?thesis using M by auto
      qed (use x M in auto)
    qed
    then show ?thesis using ok(2) by (auto simp: tags_ok_def frame)
  qed
  moreover have "mr_id ` set (md_manifests db) \<subseteq> mr_id ` set (md_manifests db2)" unfolding M by auto
  then have "blobs_ok db2" using ok(3) by (auto simp: blobs_ok_def frame)
  ultimately show ?thesis
    using assms(1) by (simp add: meta_inv_def repos_ok_def uploads_ok_def reports_ok_def frame)
qed

lemma row_upsert_at:
  assumes "meta_inv db" and "meta_inv db2" and "row_upsert db t i m db2" and "repo_is db t n i"
  shows "manifest_at db2 t' n' d' = (if (t', n', d') = (t, n, mr_digest m) then Some m else manifest_at db t' n' d')"
proof -
  have ok: "repos_ok db" "manifests_ok db" "repos_ok db2" "manifests_ok db2" using assms(1,2) by (simp_all add: meta_inv_def)
  have M: "set (md_manifests db2) = insert m {x \<in> set (md_manifests db). mr_id x \<noteq> mr_id m}"
    and hits: "\<forall>x \<in> set (md_manifests db). mr_id x = mr_id m \<longleftrightarrow> manifest_hit t i (mr_digest m) x"
    and key: "mr_tenant m = t" "mr_repository_id m = i"
    using assms(3) by (simp_all add: row_upsert_def)
  note repo = row_upsert_frame(7) [OF assms(3)]
  have here: "manifest_at db2 t n (mr_digest m) = Some m"
    using M key assms(4) by (simp add: manifest_at_iff [OF ok(3,4)] repo)
  have "manifest_at db2 t' n' d' = manifest_at db t' n' d'" if other: "(t', n', d') \<noteq> (t, n, mr_digest m)"
  proof (rule option_ext)
    fix x
    have "x \<noteq> m \<and> mr_id x \<noteq> mr_id m" if "mr_tenant x = t'" "mr_digest x = d'" "repo_is db t' n' (mr_repository_id x)"
      "x = m \<or> x \<in> set (md_manifests db)"
      using that other key hits repo_is_unique [OF ok(1) assms(4), of t' n' "mr_repository_id x"]
      by (auto simp: manifest_hit_def)
    then show "manifest_at db2 t' n' d' = Some x \<longleftrightarrow> manifest_at db t' n' d' = Some x"
      unfolding manifest_at_iff [OF ok(1,2)] manifest_at_iff [OF ok(3,4)] repo M by auto
  qed
  with here show ?thesis by auto
qed

lemma row_upsert_tags:
  assumes "meta_inv db" and "meta_inv db2" and "row_upsert db t i m db2"
  shows "cat_tags (view db2) = cat_tags (view db)"
proof -
  have ok: "repos_ok db" "manifests_ok db" "tags_ok db" "repos_ok db2" "manifests_ok db2" "tags_ok db2"
    using assms(1,2) by (simp_all add: meta_inv_def)
  have M: "set (md_manifests db2) = insert m {x \<in> set (md_manifests db). mr_id x \<noteq> mr_id m}"
    and hits: "\<forall>x \<in> set (md_manifests db). mr_id x = mr_id m \<longleftrightarrow> manifest_hit t i (mr_digest m) x"
    and key: "mr_tenant m = t" "mr_repository_id m = i"
    using assms(3) by (simp_all add: row_upsert_def)
  note frame = row_upsert_frame [OF assms(3)]
  have new: "\<exists>y. tagged db2 t' n' g = Some y \<and> mr_digest y = mr_digest x" if "tagged db t' n' g = Some x" for t' n' g x
  proof (cases "mr_id x = mr_id m")
    case True
    then show ?thesis using that M hits key
      by (intro exI [of _ m]) (auto simp: tagged_iff ok frame manifest_hit_def tag_of_def)
  next
    case False
    then show ?thesis using that M by (intro exI [of _ x]) (auto simp: tagged_iff ok frame)
  qed
  have old: "tagged db t' n' g \<noteq> None" if hit: "tagged db2 t' n' g = Some x" for t' n' g x
  proof -
    obtain tg where tg: "tg \<in> set (md_tags db)" "tr_name tg = g" "tag_of tg x"
      and x: "mr_tenant x = t'" "repo_is db t' n' (mr_repository_id x)"
      using hit by (auto simp: tagged_iff ok frame)
    obtain y where y: "y \<in> set (md_manifests db)" "tag_of tg y" using ok(3) tg(1) by (auto simp: tags_ok_def)
    then have "tagged db t' n' g = Some y" using tg x by (auto simp: tagged_iff ok tag_of_def)
    then show ?thesis by simp
  qed
  have "map_option mr_digest (tagged db2 t' n' g) = map_option mr_digest (tagged db t' n' g)" for t' n' g
    using new [of t' n' g] old [of t' n' g] by (cases "tagged db t' n' g"; cases "tagged db2 t' n' g") auto
  then show ?thesis by (simp add: view_def)
qed

text \<open>The blob rows of a manifest are replaced as a whole.\<close>

lemma Descriptor_eta:
  "\<lparr>desc_MediaType = desc_MediaType d, desc_Digest = desc_Digest d, desc_Size = desc_Size d\<rparr> = (d :: Descriptor)"
  by simp

lemma replace_blobs_of:
  "blobs_of (replace_blobs db j blobs) k = (if k = j then blobs else blobs_of db k)"
proof (cases "k = j")
  case True
  let ?row = "\<lambda>(index, blob). \<lparr>br_manifest_id = j, br_digest = desc_Digest blob,
      br_media_type = desc_MediaType blob, br_size = desc_Size blob, br_position = index\<rparr>"
  let ?rows = "map ?row (enumerate 0 blobs)"
  have mine: "filter (\<lambda>b. br_manifest_id b = j) (md_blobs (replace_blobs db j blobs)) = ?rows"
    by (auto simp: replace_blobs_def filter_empty_conv filter_id_conv split_def)
  have pos: "map br_position ?rows = [0..<length blobs]" by (simp add: split_def o_def map_fst_enumerate)
  have "sort_key br_position ?rows = ?rows" by (rule sort_key_id_if_sorted) (simp only: pos sorted_upt)
  moreover have "map row_descriptor ?rows = blobs"
    by (rule nth_equalityI) (simp_all add: nth_enumerate_eq row_descriptor_def split_def)
  ultimately show ?thesis using True mine by (simp add: blobs_of_def)
next
  case False
  then have "filter (\<lambda>b. br_manifest_id b \<noteq> j \<and> br_manifest_id b = k) (md_blobs db) =
      filter (\<lambda>b. br_manifest_id b = k) (md_blobs db)" by (intro filter_cong) auto
  then have "filter (\<lambda>b. br_manifest_id b = k) (md_blobs (replace_blobs db j blobs)) =
      filter (\<lambda>b. br_manifest_id b = k) (md_blobs db)"
    using False by (simp add: replace_blobs_def filter_map o_def split_def)
  then show ?thesis using False by (simp add: blobs_of_def)
qed

lemma replace_blobs_frame [simp]:
  "md_manifests (replace_blobs db j blobs) = md_manifests db" "md_tags (replace_blobs db j blobs) = md_tags db"
  "md_repositories (replace_blobs db j blobs) = md_repositories db"
  "md_uploads (replace_blobs db j blobs) = md_uploads db" "md_reports (replace_blobs db j blobs) = md_reports db"
  "md_next_repository (replace_blobs db j blobs) = md_next_repository db"
  "md_next_manifest (replace_blobs db j blobs) = md_next_manifest db"
  by (simp_all add: replace_blobs_def)

lemma replace_blobs_at [simp]:
  "repo_is (replace_blobs db j blobs) = repo_is db"
  "manifest_at (replace_blobs db j blobs) = manifest_at db" "tagged (replace_blobs db j blobs) = tagged db"
proof -
  have same: "repository_id (replace_blobs db j blobs) = repository_id db" "tag_target (replace_blobs db j blobs) = tag_target db"
    by (simp_all add: repository_id_def tag_target_def fun_eq_iff)
  show "manifest_at (replace_blobs db j blobs) = manifest_at db"
    by (intro ext) (unfold manifest_at_def same replace_blobs_frame, rule refl)
  show "tagged (replace_blobs db j blobs) = tagged db"
    by (intro ext) (unfold tagged_def same replace_blobs_frame, rule refl)
qed (simp add: repo_is_def fun_eq_iff)

lemma replace_blobs_inv:
  assumes "meta_inv db" and "j \<in> mr_id ` set (md_manifests db)" and "\<forall>b \<in> set blobs. Descriptor_Validate b = Inr ()"
  shows "meta_inv (replace_blobs db j blobs)"
proof -
  define old where "old = filter (\<lambda>b. br_manifest_id b \<noteq> j) (md_blobs db)"
  define rows where "rows = map (\<lambda>(index, blob). \<lparr>br_manifest_id = j, br_digest = desc_Digest blob,
      br_media_type = desc_MediaType blob, br_size = desc_Size blob, br_position = index\<rparr>) (enumerate 0 blobs)"
  have all: "md_blobs (replace_blobs db j blobs) = old @ rows" by (simp add: replace_blobs_def old_def rows_def)
  have "map blob_key rows = map (Pair j) [0..<length blobs]"
    by (rule nth_equalityI) (simp_all add: rows_def nth_enumerate_eq blob_key_def split_def)
  then have "distinct (map blob_key rows)" by (simp add: distinct_map inj_on_def)
  moreover have "distinct (map blob_key old)"
    using assms(1) by (auto simp: old_def meta_inv_def blobs_ok_def distinct_map inj_on_def)
  moreover have "br_manifest_id b = j \<and> Descriptor_Validate (row_descriptor b) = Inr ()" if "b \<in> set rows" for b
    using that assms(3) by (auto simp: rows_def row_descriptor_def in_set_enumerate_eq Descriptor_eta)
  note r = this
  have o: "br_manifest_id b \<noteq> j \<and> br_manifest_id b \<in> mr_id ` set (md_manifests db)
      \<and> Descriptor_Validate (row_descriptor b) = Inr ()" if "b \<in> set old" for b
    using assms(1) that by (simp add: old_def meta_inv_def blobs_ok_def)
  have "blob_key ` set old \<inter> blob_key ` set rows = {}" using r o by (auto simp: blob_key_def)
  ultimately have "distinct (map blob_key (old @ rows))" by simp
  then have "blobs_ok (replace_blobs db j blobs)"
    unfolding blobs_ok_def all using r o assms(2) by auto
  then show ?thesis
    using assms(1) by (simp add: meta_inv_def repos_ok_def manifests_ok_def tags_ok_def uploads_ok_def
      reports_ok_def in_repository_def)
qed

text \<open>A tag row is written for an existing manifest of the repository.\<close>

lemma upsert_tag_rows:
  assumes "tags_ok db"
  shows "\<exists>tg. tag_key tg = (t, i, g) \<and> tr_manifest_id tg = j
     \<and> set (md_tags (upsert_tag db now t i g j)) = insert tg {x \<in> set (md_tags db). tag_key x \<noteq> (t, i, g)}"
    and "distinct (map tag_key (md_tags (upsert_tag db now t i g j)))"
proof -
  let ?hit = "\<lambda>x. tr_tenant x = t \<and> tr_repository_id x = i \<and> tr_name x = g"
  let ?new = "\<lparr>tr_tenant = t, tr_repository_id = i, tr_name = g, tr_manifest_id = j, tr_created_at = now, tr_updated_at = now\<rparr>"
  let ?u = "\<lambda>x. x\<lparr>tr_manifest_id := j, tr_updated_at := now\<rparr>"
  have hit: "?hit x \<longleftrightarrow> tag_key x = (t, i, g)" for x by (auto simp: tag_key_def)
  have "(\<exists>tg. tag_key tg = (t, i, g) \<and> tr_manifest_id tg = j
      \<and> set (md_tags (upsert_tag db now t i g j)) = insert tg {x \<in> set (md_tags db). tag_key x \<noteq> (t, i, g)})
      \<and> distinct (map tag_key (md_tags (upsert_tag db now t i g j)))"
  proof (cases "\<exists>x \<in> set (md_tags db). ?hit x")
    case True
    then obtain x where x: "x \<in> set (md_tags db)" "tag_key x = (t, i, g)" unfolding hit by blast
    have only: "tag_key y = (t, i, g) \<longleftrightarrow> y = x" if "y \<in> set (md_tags db)" for y
      using assms x that by (auto simp: tags_ok_def distinct_map inj_on_def)
    have rows: "md_tags (upsert_tag db now t i g j) = map (\<lambda>y. if ?hit y then ?u y else y) (md_tags db)"
      using True by (simp add: upsert_tag_def)
    have keys: "map tag_key (md_tags (upsert_tag db now t i g j)) = map tag_key (md_tags db)"
      by (simp add: rows tag_key_def)
    have "set (md_tags (upsert_tag db now t i g j)) = insert (?u x) {y \<in> set (md_tags db). tag_key y \<noteq> (t, i, g)}"
      unfolding rows hit using only x by (auto simp: image_iff)
    moreover have "tag_key (?u x) = (t, i, g)" using x(2) by (simp add: tag_key_def)
    moreover have "tr_manifest_id (?u x) = j" by simp
    ultimately show ?thesis using assms unfolding keys tags_ok_def by blast
  next
    case False
    then have rows: "md_tags (upsert_tag db now t i g j) = md_tags db @ [?new]" by (simp add: upsert_tag_def)
    have new: "tag_key ?new = (t, i, g)" "tr_manifest_id ?new = j" by (simp_all add: tag_key_def)
    have no: "\<forall>x \<in> set (md_tags db). tag_key x \<noteq> (t, i, g)" using False unfolding hit by blast
    then have "tag_key ?new \<notin> tag_key ` set (md_tags db)" unfolding new by auto
    then have "distinct (map tag_key (md_tags db @ [?new]))" using assms by (simp add: tags_ok_def)
    moreover have "set (md_tags db @ [?new]) = insert ?new {x \<in> set (md_tags db). tag_key x \<noteq> (t, i, g)}" using no by auto
    ultimately show ?thesis unfolding rows using new by blast
  qed
  then show "\<exists>tg. tag_key tg = (t, i, g) \<and> tr_manifest_id tg = j
     \<and> set (md_tags (upsert_tag db now t i g j)) = insert tg {x \<in> set (md_tags db). tag_key x \<noteq> (t, i, g)}"
    "distinct (map tag_key (md_tags (upsert_tag db now t i g j)))" by blast+
qed

lemma upsert_tag_frame:
  "md_manifests (upsert_tag db now t i g j) = md_manifests db" "md_blobs (upsert_tag db now t i g j) = md_blobs db"
  "md_repositories (upsert_tag db now t i g j) = md_repositories db"
  "md_uploads (upsert_tag db now t i g j) = md_uploads db" "md_reports (upsert_tag db now t i g j) = md_reports db"
  "md_next_repository (upsert_tag db now t i g j) = md_next_repository db"
  "md_next_manifest (upsert_tag db now t i g j) = md_next_manifest db"
  "repo_is (upsert_tag db now t i g j) = repo_is db"
  by (simp_all add: upsert_tag_def repo_is_def fun_eq_iff)

lemma upsert_tag_facts:
  assumes "meta_inv db" and "repo_is db t n i" and m: "m \<in> set (md_manifests db)" "mr_tenant m = t" "mr_repository_id m = i"
    and db'_def: "db' = upsert_tag db now t i g (mr_id m)"
  shows "meta_inv db'" and "cat_manifests (view db') = cat_manifests (view db)"
    and "cat_tags (view db') = (cat_tags (view db))((t, n, g) \<mapsto> mr_digest m)"
proof -
  have ok: "repos_ok db" "manifests_ok db" "tags_ok db" using assms(1) by (simp_all add: meta_inv_def)
  note frame = upsert_tag_frame [of db now t i g "mr_id m", folded db'_def]
  obtain tg where tg: "tag_key tg = (t, i, g)" "tr_manifest_id tg = mr_id m"
    and T: "set (md_tags db') = insert tg {x \<in> set (md_tags db). tag_key x \<noteq> (t, i, g)}"
    using upsert_tag_rows(1) [OF ok(3)] unfolding db'_def by blast
  have mine: "tag_of tg x \<longleftrightarrow> x = m" if "x \<in> set (md_manifests db)" for x
    using manifest_by_id [OF ok(2) that m(1)] tg m by (auto simp: tag_of_def tag_key_def)
  have "tags_ok db'" using upsert_tag_rows(2) [OF ok(3)] ok(3) mine m(1)
    unfolding tags_ok_def T frame by (auto simp: db'_def)
  then show inv: "meta_inv db'"
    using assms(1) by (simp add: meta_inv_def repos_ok_def manifests_ok_def blobs_ok_def uploads_ok_def
        reports_ok_def in_repository_def frame)
  then have ok': "repos_ok db'" "manifests_ok db'" "tags_ok db'" by (simp_all add: meta_inv_def)
  have at: "manifest_at db' t' n' d = manifest_at db t' n' d" for t' n' d
    by (rule option_ext) (simp add: manifest_at_iff ok ok' frame)
  have "stored db' = stored db" by (simp add: stored_def blobs_of_def frame fun_eq_iff)
  with at show "cat_manifests (view db') = cat_manifests (view db)" by (simp add: view_def)
  have this_tag: "tagged db' t n g = Some m"
    unfolding tagged_iff [OF ok'] frame T using m assms(2) mine tg(1) by (auto simp: tag_key_def)
  have other: "tagged db' t' n' g' = tagged db t' n' g'" if "(t', n', g') \<noteq> (t, n, g)" for t' n' g'
  proof (rule option_ext)
    fix x
    have "(y = tg \<or> y \<in> set (md_tags db) \<and> tag_key y \<noteq> (t, i, g)) \<longleftrightarrow> y \<in> set (md_tags db)"
      if "x \<in> set (md_manifests db)" "mr_tenant x = t'" "repo_is db t' n' (mr_repository_id x)" "tr_name y = g'" "tag_of y x" for y
      using that \<open>(t', n', g') \<noteq> (t, n, g)\<close> tg repo_is_unique [OF ok(1) assms(2), of t' n' "mr_repository_id x"]
      by (auto simp: tag_of_def tag_key_def)
    then show "tagged db' t' n' g' = Some x \<longleftrightarrow> tagged db t' n' g' = Some x"
      unfolding tagged_iff [OF ok] tagged_iff [OF ok'] frame T by blast
  qed
  show "cat_tags (view db') = (cat_tags (view db))((t, n, g) \<mapsto> mr_digest m)"
    using this_tag other by (auto simp: view_def fun_eq_iff)
qed

lemma blobs_of_cong: "md_blobs db' = md_blobs db \<Longrightarrow> blobs_of db' = blobs_of db"
  by (simp add: blobs_of_def fun_eq_iff)

lemma publish_view:
  assumes "meta_inv db1" and "meta_inv db2" and m: "row_upsert db1 t i m db2" and "repo_is db1 t n i"
    and pub: "published man (case manifest_at db1 t n (man_Digest man) of None \<Rightarrow> man_PushedBy man | Some row \<Rightarrow> mr_pushed_by row) m"
  shows "cat_manifests (view (replace_blobs db2 (mr_id m) blobs)) =
      cat_manifests (spec_publish (view db1) t n [] man blobs)" (is "?new = ?spec")
proof (rule ext, clarify)
  fix t' n' d'
  let ?db3 = "replace_blobs db2 (mr_id m) blobs"
  have d: "mr_digest m = man_Digest man" using pub by (simp add: published_def)
  have ok: "repos_ok db1" "manifests_ok db1" "repos_ok db2" "manifests_ok db2" using assms(1,2) by (simp_all add: meta_inv_def)
  note frame = row_upsert_frame [OF m]
  have key: "m \<in> set (md_manifests db2)" "mr_tenant m = t" "mr_repository_id m = i" using m by (simp_all add: row_upsert_def)
  note at = row_upsert_at [OF assms(1,2) m assms(4), unfolded d]
  show "?new (t', n', d') = ?spec (t', n', d')"
  proof (cases "(t', n', d') = (t, n, man_Digest man)")
    case True
    have "stored ?db3 m = \<lparr>sm_media_type = man_MediaType man, sm_payload = man_Payload man,
        sm_pushed_by = (case manifest_at db1 t n (man_Digest man) of None \<Rightarrow> man_PushedBy man | Some row \<Rightarrow> mr_pushed_by row),
        sm_subject = (case man_Subject man of None \<Rightarrow> [] | Some s \<Rightarrow> desc_Digest s), sm_blobs = blobs\<rparr>"
      using pub by (simp add: stored_def published_def replace_blobs_of)
    then show ?thesis using True at
      by (cases "manifest_at db1 t n (man_Digest man)") (simp_all add: view_def spec_publish_def stored_def)
  next
    case False
    have "stored ?db3 x = stored db1 x" if x: "manifest_at db1 t' n' d' = Some x" for x
    proof -
      have "manifest_at db2 t' n' d' = Some x" using at False x by auto
      then have "x \<in> set (md_manifests db2)" "mr_tenant x = t'" "mr_digest x = d'" "repo_is db1 t' n' (mr_repository_id x)"
        by (simp_all add: manifest_at_iff ok frame)
      then have "x \<noteq> m" using False key d repo_is_unique [OF ok(1) assms(4)] by auto
      then have "mr_id x \<noteq> mr_id m" using manifest_by_id [OF ok(4)] key(1) \<open>x \<in> set (md_manifests db2)\<close> by blast
      then show ?thesis by (simp add: stored_def replace_blobs_of blobs_of_cong [OF frame(3)])
    qed
    then show ?thesis using False at
      by (cases "manifest_at db1 t' n' d'") (auto simp: view_def spec_publish_def)
  qed
qed

text \<open>The three writes before the tag: repository, manifest row, blob rows.\<close>

lemma publish_rows:
  assumes "meta_inv db" and "Meta_PublishManifest db now t r tag man blobs = Inr db'"
  obtains db3 i m where "meta_inv db3" "repo_is db3 t (repo_Name r) i"
    "m \<in> set (md_manifests db3)" "mr_tenant m = t" "mr_repository_id m = i" "mr_digest m = man_Digest man"
    "view db3 = spec_publish (view db) t (repo_Name r) [] man blobs"
    "db' = (if tag \<noteq> [] then upsert_tag db3 now t i tag (mr_id m) else db3)"
proof -
  let ?n = "repo_Name r" and ?d = "man_Digest man"
  obtain i db1 j db2 where run: "ensureRepository db now t r = (i, db1)" "upsert_manifest db1 now t i man = (j, db2)"
    by fastforce
  have valid: "Manifest_Validate man = Inr ()" "\<forall>b \<in> set blobs. Descriptor_Validate b = Inr ()"
    and db': "db' = (if tag \<noteq> [] then upsert_tag (replace_blobs db2 j blobs) now t i tag j else replace_blobs db2 j blobs)"
    using assms(2) run by (auto simp: Meta_PublishManifest_def go_flow Let_def dest!: check_all_Inr_unit)
  note repo = ensureRepository_facts [OF assms(1) run(1)]
  have ok1: "repos_ok db1" "manifests_ok db1" using repo(1) by (simp_all add: meta_inv_def)
  have old: "manifest_at db1 t ?n ?d = find (manifest_hit t i ?d) (md_manifests db1)"
    using repository_id_iff [OF ok1(1), of t "\<lparr>repo_Name = ?n\<rparr>" i] repo(2) by (simp add: manifest_at_def)
  obtain m where m: "mr_id m = j" "row_upsert db1 t i m db2"
    "published man (case manifest_at db1 t ?n ?d of None \<Rightarrow> man_PushedBy man | Some row \<Rightarrow> mr_pushed_by row) m"
    using upsert_manifest_rows [OF ok1(2) run(2)] unfolding old by metis
  have row: "m \<in> set (md_manifests db2)" "mr_tenant m = t" "mr_repository_id m = i" "mr_digest m = ?d"
    using m(2,3) by (auto simp: row_upsert_def published_def)
  have "manifest_row_ok m"
    using m(3) Manifest_Validate_facts [OF valid(1)] by (simp add: manifest_row_ok_def published_def)
  then have inv2: "meta_inv db2" by (rule row_upsert_inv [OF repo(1) m(2) repo(2)])
  define db3 where "db3 = replace_blobs db2 j blobs"
  have inv3: "meta_inv db3" unfolding db3_def using inv2 row(1) m(1) valid(2) by (intro replace_blobs_inv) auto
  have "cat_manifests (view db3) = cat_manifests (spec_publish (view db1) t ?n [] man blobs)"
    unfolding db3_def m(1) [symmetric] by (rule publish_view [OF repo(1) inv2 m(2) repo(2) m(3)])
  then have "cat_manifests (view db3) = cat_manifests (spec_publish (view db) t ?n [] man blobs)"
    using repo(4) by (simp add: spec_publish_def)
  moreover have "cat_tags (view db3) = cat_tags (view db2)" by (simp add: view_def db3_def)
  then have "cat_tags (view db3) = cat_tags (view db)" using row_upsert_tags [OF repo(1) inv2 m(2)] repo(5) by simp
  moreover have "cat_repositories (view db3) = cat_repositories (view db1)"
    using row_upsert_frame(1) [OF m(2)] by (simp add: view_def db3_def)
  ultimately have "view db3 = spec_publish (view db) t ?n [] man blobs"
    using repo(3) by (intro catalog.equality) (simp_all add: spec_publish_def)
  then show thesis
    using that [OF inv3 _ _ row(2,3,4)] row(1) repo(2) m(1) db' row_upsert_frame(7) [OF m(2)] by (simp add: db3_def)
qed

end
