(* ===== verification/Spec2Isabelle.thy ===== *)
theory Spec2Isabelle
  imports Auth_Tokens Blob_Store Metadata_View
begin

text \<open>
  Verification of regixtry, a container registry written in Go.

  The theories follow the packages of the program. \<open>Go_Prelude\<close> and \<open>Sha256\<close> hold what the
  sources use of the Go library (strings, times, early returns, SHA-256). \<open>Go_Errors\<close>,
  \<open>Reg_Domain\<close> and \<open>Auth_Domain\<close> are the domain packages, \<open>Access_Control\<close> the ports with the
  access controllers, \<open>Auth_Store\<close> and \<open>Auth_Service\<close> the account database and the service over
  it, \<open>Blob_Store\<close> and \<open>Metadata_Store\<close> the two stores of the registry.
\<close>

end
